(* ===== verification/Prelude.thy ===== *)
theory Prelude
  imports Main "HOL-Library.Code_Target_Nat" "HOL-Library.AList" "HOL-Library.Word" "HOL-Library.Sublist"
begin

text \<open>
  Generic vocabulary of the development: Go's maps, 64-bit integers, time stamps, buffered
  channels, and the two contracts that several components of the gateway share (a Go map, and a
  machine whose operations keep an invariant).  Nothing in this theory is about one component.

  A Go map is an association list: \<open>m[k]\<close> is \<^const>\<open>map_of\<close>, the assignment is
  \<^const>\<open>AList.update\<close>, \<open>delete\<close> is \<^const>\<open>AList.delete\<close> and \<open>len\<close> is the
  length.  The order of the list stands for Go's unspecified iteration order; a fact proved for
  every list therefore holds for every iteration order.
\<close>

named_theorems gomap \<open>laws of Go maps\<close>
named_theorems wrap \<open>laws of wrap-around arithmetic\<close>

type_synonym u64 = "64 word"
type_synonym ('k, 'v) gomap = "('k \<times> 'v) list"

subsection \<open>Go maps\<close>

abbreviation gm_get :: "('k, 'v) gomap \<Rightarrow> 'k \<Rightarrow> 'v option" where
  "gm_get m k \<equiv> map_of m k"

abbreviation gm_put :: "'k \<Rightarrow> 'v \<Rightarrow> ('k, 'v) gomap \<Rightarrow> ('k, 'v) gomap" where
  "gm_put \<equiv> AList.update"

abbreviation gm_del :: "'k \<Rightarrow> ('k, 'v) gomap \<Rightarrow> ('k, 'v) gomap" where
  "gm_del \<equiv> AList.delete"

abbreviation gm_wf :: "('k, 'v) gomap \<Rightarrow> bool" where
  "gm_wf m \<equiv> distinct (map fst m)"

definition gm_filter_map :: "('v \<Rightarrow> 'v option) \<Rightarrow> ('k, 'v) gomap \<Rightarrow> ('k, 'v) gomap" where
  "gm_filter_map f m = List.map_filter (\<lambda>(k, v). map_option (Pair k) (f v)) m"

lemma gm_filter_map_simps [simp]:
  "gm_filter_map f [] = []"
  "gm_filter_map f ((k, v) # m) =
     (case f v of None \<Rightarrow> gm_filter_map f m | Some w \<Rightarrow> (k, w) # gm_filter_map f m)"
  by (simp_all add: gm_filter_map_def List.map_filter_simps split: option.splits)

lemma gm_get_put [gomap, simp]: "gm_get (gm_put k v m) k' = (if k' = k then Some v else gm_get m k')"
  by (simp add: update_conv')

lemma gm_get_del [gomap, simp]: "gm_get (gm_del k m) k' = (if k' = k then None else gm_get m k')"
  by (simp add: delete_conv')

lemma gm_wf_put [gomap, intro, simp]: "gm_wf m \<Longrightarrow> gm_wf (gm_put k v m)"
  by (rule distinct_update)

lemma gm_wf_del [gomap, intro, simp]: "gm_wf m \<Longrightarrow> gm_wf (gm_del k m)"
  by (rule distinct_delete)

lemma length_gm_put [gomap]:
  "length (gm_put k v m) = (if gm_get m k = None then Suc (length m) else length m)"
  by (induction m) auto

lemma length_gm_put_le: "length (gm_put k v m) \<le> Suc (length m)"
  by (simp add: length_gm_put)

lemma length_gm_put_ge: "length m \<le> length (gm_put k v m)"
  by (simp add: length_gm_put)

lemma gm_del_absent [gomap]: "gm_get m k = None \<Longrightarrow> gm_del k m = m"
  by (induction m) (auto split: if_splits)

lemma length_gm_del [gomap]:
  "gm_wf m \<Longrightarrow> length (gm_del k m) = (if gm_get m k = None then length m else length m - 1)"
proof (induction m)
  case (Cons a m)
  obtain k' v' where a: "a = (k', v')" by (cases a)
  show ?case
  proof (cases "k' = k")
    case True
    with Cons.prems a have "gm_get m k = None" by (auto simp: map_of_eq_None_iff)
    then have "gm_del k m = m" by (rule gm_del_absent)
    with True a show ?thesis by simp
  next
    case False
    have "gm_get m k \<noteq> None \<Longrightarrow> m \<noteq> []" by auto
    with False a Cons show ?thesis by (cases m) auto
  qed
qed simp

lemma length_gm_del_le [gomap]: "length (gm_del k m) \<le> length m"
  by (rule length_delete_le)

lemma length_gm_filter_map_le [gomap]: "length (gm_filter_map f m) \<le> length m"
  by (induction m) (auto split: option.splits)

lemma gm_set_filter_map:
  "(k, w) \<in> set (gm_filter_map f m) \<Longrightarrow> \<exists>v. (k, v) \<in> set m \<and> f v = Some w"
  by (induction m) (auto split: option.splits; blast)+

lemma dom_gm_filter_map: "set (map fst (gm_filter_map f m)) \<subseteq> set (map fst m)"
  by (auto dest!: gm_set_filter_map simp: image_iff) (metis fst_conv)

lemma gm_wf_filter_map [gomap, intro, simp]: "gm_wf m \<Longrightarrow> gm_wf (gm_filter_map f m)"
proof (induction m)
  case (Cons a m)
  have "k \<notin> set (map fst (gm_filter_map f m))" if "k \<notin> set (map fst m)" for k
    using that dom_gm_filter_map [of f m] by blast
  with Cons show ?case by (cases a) (simp split: option.splits)
qed simp

lemma gm_get_filter_map [gomap]:
  "gm_wf m \<Longrightarrow> gm_get (gm_filter_map f m) k = Option.bind (gm_get m k) f"
proof (induction m)
  case (Cons a m)
  obtain k' v' where a: "a = (k', v')" by (cases a)
  have "k' \<notin> fst ` set m" using Cons.prems a by simp
  then have "gm_get m k' = None" by (simp add: map_of_eq_None_iff)
  with Cons a show ?case by (auto split: option.splits)
qed simp

lemma gm_set_put: "(k', w) \<in> set (gm_put k v m) \<Longrightarrow> (k' = k \<and> w = v) \<or> (k', w) \<in> set m"
  by (induction m) (auto split: if_splits)

lemma gm_set_del: "(k', w) \<in> set (gm_del k m) \<Longrightarrow> (k', w) \<in> set m \<and> k' \<noteq> k"
  by (induction m) (auto split: if_splits)

lemma gm_get_in_set: "gm_get m k = Some v \<Longrightarrow> (k, v) \<in> set m"
  by (rule map_of_SomeD)

text \<open>A predicate over all entries of a map, kept by every map operation.\<close>

definition gm_all :: "('k \<Rightarrow> 'v \<Rightarrow> bool) \<Rightarrow> ('k, 'v) gomap \<Rightarrow> bool" where
  "gm_all P m \<longleftrightarrow> list_all (\<lambda>(k, v). P k v) m"

lemma gm_all_Nil [simp]: "gm_all P []"
  by (simp add: gm_all_def)

lemma gm_allD: "gm_all P m \<Longrightarrow> gm_get m k = Some v \<Longrightarrow> P k v"
  by (auto simp: gm_all_def list_all_iff dest: gm_get_in_set)

lemma gm_all_put [gomap, intro]: "gm_all P m \<Longrightarrow> P k v \<Longrightarrow> gm_all P (gm_put k v m)"
  by (auto simp: gm_all_def list_all_iff dest!: gm_set_put)

lemma gm_all_del [gomap, intro, simp]: "gm_all P m \<Longrightarrow> gm_all P (gm_del k m)"
  by (auto simp: gm_all_def list_all_iff dest!: gm_set_del)

lemma gm_all_filter_map [gomap, intro]:
  "gm_all P m \<Longrightarrow> (\<And>k v w. P k v \<Longrightarrow> f v = Some w \<Longrightarrow> P k w) \<Longrightarrow> gm_all P (gm_filter_map f m)"
  by (fastforce simp: gm_all_def list_all_iff dest!: gm_set_filter_map)

lemma gm_all_mono: "gm_all P m \<Longrightarrow> (\<And>k v. P k v \<Longrightarrow> Q k v) \<Longrightarrow> gm_all Q m"
  by (auto simp: gm_all_def list_all_iff)

text \<open>The number of entries that satisfy a predicate, for the capacity counters.\<close>

definition gm_count :: "('v \<Rightarrow> bool) \<Rightarrow> ('k, 'v) gomap \<Rightarrow> nat" where
  "gm_count P m = length (filter (\<lambda>(k, v). P v) m)"

lemma gm_count_simps [simp]:
  "gm_count P [] = 0"
  "gm_count P ((k, v) # m) = (if P v then 1 else 0) + gm_count P m"
  by (simp_all add: gm_count_def)

lemma gm_count_put_le: "gm_count P (gm_put k v m) \<le> Suc (gm_count P m)"
  by (induction m) auto

lemma gm_count_put_same:
  "gm_get m k = Some v \<Longrightarrow> (P w \<Longrightarrow> P v) \<Longrightarrow> gm_count P (gm_put k w m) \<le> gm_count P m"
  by (induction m) (auto split: if_splits)

lemma gm_count_filter_map_le:
  "(\<And>v w. f v = Some w \<Longrightarrow> P w \<Longrightarrow> P v) \<Longrightarrow> gm_count P (gm_filter_map f m) \<le> gm_count P m"
  by (induction m) (fastforce split: option.splits)+

subsection \<open>Integers of fixed width\<close>

text \<open>Go's \<open>int64\<close>: two's complement wrap-around into \<open>[-2^63, 2^63)\<close>.\<close>

definition i64 :: "int \<Rightarrow> int" where
  "i64 x = (x + 2 ^ 63) mod 2 ^ 64 - 2 ^ 63"

lemma i64_id [wrap]: "- (2 ^ 63) \<le> x \<Longrightarrow> x < 2 ^ 63 \<Longrightarrow> i64 x = x"
  by (simp add: i64_def mod_pos_pos_trivial)

lemma i64_add [wrap]: "i64 (i64 a + b) = i64 (a + b)"
proof -
  have "(i64 a + b + 2 ^ 63) mod 2 ^ 64 = ((a + 2 ^ 63) mod 2 ^ 64 + b) mod 2 ^ 64"
    by (simp add: i64_def algebra_simps)
  also have "\<dots> = (a + 2 ^ 63 + b) mod 2 ^ 64" by (rule mod_add_left_eq)
  finally show ?thesis by (simp add: i64_def algebra_simps)
qed

lemma i64_sub [wrap]: "i64 (i64 a - b) = i64 (a - b)"
  using i64_add [of a "- b"] by simp

lemma i64_range: "- (2 ^ 63) \<le> i64 x" "i64 x < 2 ^ 63"
  using pos_mod_bound [of "2 ^ 64" "x + 2 ^ 63"] pos_mod_sign [of "2 ^ 64" "x + 2 ^ 63"]
  by (simp_all add: i64_def)

text \<open>Counters of type \<open>uint64\<close> do not wrap before the last value.\<close>

lemma u64_Suc: "(n :: u64) \<noteq> - 1 \<Longrightarrow> unat (n + 1) = Suc (unat n)"
  by (metis add.commute add.right_neutral add_eq_0_iff unatSuc)

lemma u64_less_Suc [simp]: "(n :: u64) \<noteq> - 1 \<Longrightarrow> n < n + 1"
  by (simp add: word_less_nat_alt u64_Suc)

lemma u64_le_Suc: "(n :: u64) \<noteq> - 1 \<Longrightarrow> m \<le> n \<Longrightarrow> m < n + 1"
  by (simp add: word_less_nat_alt word_le_nat_alt u64_Suc)

lemma u64_pred_less: "(0 :: u64) < n \<Longrightarrow> m \<le> n - 1 \<longleftrightarrow> m < n"
proof -
  assume "0 < n"
  then have "n \<noteq> 0" "0 < unat n" by (auto simp: word_less_nat_alt unat_gt_0)
  then show ?thesis
    by (simp add: word_less_nat_alt word_le_nat_alt unat_minus_one) linarith
qed

subsection \<open>Time\<close>

text \<open>
  A Go time stamp is its number of nanoseconds since the Unix epoch, a duration its number of
  nanoseconds.  \<open>UnixMilli\<close> rounds down, and \<open>Sub\<close> saturates at the range of an
  \<open>int64\<close>.
\<close>

type_synonym gtime = int
type_synonym duration = int

definition unix_milli :: "gtime \<Rightarrow> int" where
  "unix_milli t = t div 1000000"

definition from_milli :: "int \<Rightarrow> gtime" where
  "from_milli ms = ms * 1000000"

definition time_sub :: "gtime \<Rightarrow> gtime \<Rightarrow> duration" where
  "time_sub a b = max (- (2 ^ 63)) (min (2 ^ 63 - 1) (a - b))"

lemma unix_milli_from_milli [simp]: "unix_milli (from_milli ms) = ms"
  by (simp add: unix_milli_def from_milli_def)

lemma from_milli_unix_milli_le: "from_milli (unix_milli t) \<le> t"
  using div_mod_decomp_int [of t 1000000] pos_mod_sign [of 1000000 t]
  by (simp add: from_milli_def unix_milli_def)

lemma unix_milli_mono: "s \<le> t \<Longrightarrow> unix_milli s \<le> unix_milli t"
  by (simp add: unix_milli_def zdiv_mono1)

lemma unix_milli_less: "ms < unix_milli t \<Longrightarrow> from_milli ms < t"
  using from_milli_unix_milli_le [of t] by (simp add: from_milli_def)

subsection \<open>Two shared contracts\<close>

text \<open>
  The contract of a Go map, as the stores of the gateway use it: what a lookup gives after an
  assignment and after a delete, and how the length moves.
\<close>

locale go_map =
  fixes get :: "'m \<Rightarrow> 'k \<Rightarrow> 'v option"
    and put :: "'k \<Rightarrow> 'v \<Rightarrow> 'm \<Rightarrow> 'm"
    and del :: "'k \<Rightarrow> 'm \<Rightarrow> 'm"
    and len :: "'m \<Rightarrow> nat"
    and wf :: "'m \<Rightarrow> bool"
  assumes get_put: "get (put k v m) k' = (if k' = k then Some v else get m k')"
    and get_del: "get (del k m) k' = (if k' = k then None else get m k')"
    and len_put: "len (put k v m) = (if get m k = None then Suc (len m) else len m)"
    and len_del: "wf m \<Longrightarrow> len (del k m) = (if get m k = None then len m else len m - 1)"
    and wf_put: "wf m \<Longrightarrow> wf (put k v m)"
    and wf_del: "wf m \<Longrightarrow> wf (del k m)"
begin

text \<open>An insertion guarded by a capacity test keeps the capacity.\<close>

lemma capped_insert:
  assumes "len m < cap"
  shows "len (put k v m) \<le> cap"
  using assms by (simp add: len_put)

text \<open>Overwriting an entry never grows the map, and removing one frees a place.\<close>

lemma overwrite_len: "get m k \<noteq> None \<Longrightarrow> len (put k v m) = len m"
  by (simp add: len_put)

lemma remove_len:
  assumes "wf m" "get m k \<noteq> None" "len m > 0"
  shows "len (del k m) < len m"
  using assms by (simp add: len_del)

lemma put_other: "k' \<noteq> k \<Longrightarrow> get (put k v m) k' = get m k'"
  by (simp add: get_put)

lemma del_other: "k' \<noteq> k \<Longrightarrow> get (del k m) k' = get m k'"
  by (simp add: get_del)

end

interpretation gm: go_map map_of AList.update AList.delete length "\<lambda>m. distinct (map fst m)"
  by unfold_locales (simp_all add: gomap)

text \<open>
  A machine whose operations each keep an invariant: every state reached by a list of operations
  satisfies it.  Each stateful component interprets this locale.
\<close>

locale invariant_machine =
  fixes step :: "'s \<Rightarrow> 'op \<Rightarrow> 's"
    and inv :: "'s \<Rightarrow> bool"
  assumes inv_step: "inv s \<Longrightarrow> inv (step s op)"
begin

lemma inv_run: "inv s \<Longrightarrow> inv (foldl step s ops)"
  by (induction ops arbitrary: s) (auto intro: inv_step)

end

end
