(* ===== verification/Domain_Types.thy ===== *)
theory Domain_Types
  imports Prelude
begin

text \<open>
  The shared vocabulary of \<open>gateway/internal/domain\<close>: the error value every component
  returns, the enumerations, and the event and display values that the stores buffer and the
  handlers serve.  A Go string enumeration is a datatype of its declared constants; the empty
  string, where the code tests for it, is a constructor of its own.
\<close>

subsection \<open>Errors (domain/errors.go)\<close>

datatype gateway_error_reason =
    ReasonNone
  | ReasonInvalidRequest | ReasonUnauthenticated | ReasonInvalidLocator
  | ReasonWorkspaceMismatch | ReasonMutuallyExclusiveCursors | ReasonInvalidCursor
  | ReasonResponseTypeMismatch | ReasonPendingResponseFingerprintMismatch
  | ReasonPendingRequestAlreadyResolved | ReasonPendingUnavailableAfterRestart
  | ReasonInvalidEnum | ReasonRequestTooLarge | ReasonUnknownSessionGroup | ReasonUnknownTask
  | ReasonUnknownPendingRequest | ReasonUnknownThreadBinding | ReasonUnknownChat
  | ReasonThreadBindingExpired | ReasonAmbiguousLocator | ReasonAlreadyRunning
  | ReasonIdempotencyFingerprintMismatch | ReasonIdempotencyScopeMismatch
  | ReasonIdempotencyResultUnavailable | ReasonIdempotencyUnavailableAfterRestart
  | ReasonReplayUnavailable | ReasonReplayOutOfRange | ReasonHistoryUnavailable
  | ReasonChatStateUnavailable | ReasonCodexHomeMismatch | ReasonAuthRefreshUnavailable
  | ReasonAppServerSchemaUnverified | ReasonUnsafeRuntimePolicy | ReasonUnsafeListenConfig
  | ReasonStartInterruptedBeforeTurn | ReasonCallerCanceled | ReasonCallerDeadlineExceeded
  | ReasonResourceExhausted | ReasonDispatcherUnavailable | ReasonAppServerExited
  | ReasonAppServerRestartBackoff | ReasonChatRuntimeDisabled | ReasonChatRuntimeNotImplemented
  | ReasonInternalGatewayError

datatype gateway_error_code =
    CodeInvalidArgument | CodeNotFound | CodePermissionDenied | CodeFailedPrecondition
  | CodeAborted | CodeCanceled | CodeDeadlineExceeded | CodeResourceExhausted | CodeOutOfRange
  | CodeUnavailable | CodeUnknown | CodeInternal

record gateway_error_details =
  ed_reason :: gateway_error_reason
  ed_display_message :: string
  ed_task_id :: string
  ed_session_group_id :: string
  ed_client_message_id :: string
  ed_client_response_id :: string
  ed_pending_request_id :: string
  ed_thread_id :: string
  ed_retryable :: bool

record gateway_error =
  ge_code :: gateway_error_code
  ge_details :: gateway_error_details

text \<open>Go's zero value of the details, which the constructors of the code fill in.\<close>

definition no_details :: gateway_error_details where
  "no_details = \<lparr>ed_reason = ReasonNone, ed_display_message = [], ed_task_id = [],
     ed_session_group_id = [], ed_client_message_id = [], ed_client_response_id = [],
     ed_pending_request_id = [], ed_thread_id = [], ed_retryable = False\<rparr>"

type_synonym 'a result = "gateway_error + 'a"

definition err_reason :: "gateway_error \<Rightarrow> gateway_error_reason" where
  "err_reason e = ed_reason (ge_details e)"

subsection \<open>Enumerations (domain/enums.go)\<close>

datatype task_state =
    TaskStateStarting | TaskStateRunning | TaskStateWaitingForPendingRequest
  | TaskStateInterrupting | TaskStateCompleted | TaskStateFailed | TaskStateInterrupted

datatype task_lifecycle_event_type =
    LifecycleTaskStarted | LifecycleThreadStarted | LifecycleTurnStarted | LifecycleStateChanged

datatype pending_type =
    PendingTypeCommandApproval | PendingTypeFileChangeApproval | PendingTypePermissionsApproval
  | PendingTypeMcpElicitation | PendingTypeToolUserInput

datatype pending_resolution =
    PendingResolutionAccepted | PendingResolutionDeclined | PendingResolutionCancelled
  | PendingResolutionGranted | PendingResolutionDenied | PendingResolutionAnswered
  | PendingResolutionExpired | PendingResolutionCleared | PendingResolutionFailed

datatype terminal_state = TerminalStateCompleted | TerminalStateFailed | TerminalStateInterrupted

datatype approval_wire_decision =
    WireDecisionAccept | WireDecisionAcceptForSession | WireDecisionDecline | WireDecisionCancel

datatype permission_scope = PermissionScopeTurn | PermissionScopeSession

datatype elicitation_mode = ElicitationModeForm | ElicitationModeURL

datatype mcp_elicitation_action =
    McpElicitationActionAccept | McpElicitationActionDecline | McpElicitationActionCancel

datatype chat_turn_lifecycle =
    TurnInProgress | TurnCompleted | TurnInterrupted | TurnFailed | TurnUnknown | TurnUnavailable

datatype tool_state = ToolStateStarted | ToolStateRunning | ToolStateCompleted | ToolStateFailed

datatype context_block_kind = ContextBlockKindApplication | ContextBlockKindUntrusted
  | ContextBlockKindOther string   \<comment> \<open>any other string\<close>

record context_block =
  cb_kind :: context_block_kind
  cb_source_label :: string
  cb_source_uri :: string
  cb_mime_type :: string
  cb_content :: string

subsection \<open>What a pending request shows (domain/events.go)\<close>

record permission_atom =
  pa_permission_id :: string
  pa_kind :: string
  pa_display_label :: string
  pa_scope_label :: string
  pa_grantable :: bool
  pa_ungrantable_reason :: string

record tool_user_input_question =
  tq_id :: string
  tq_header :: string
  tq_question :: string
  tq_is_other :: bool
  tq_is_secret :: bool
  tq_options :: "string list"

record approval_decision_option =
  ao_decision_id :: string
  ao_wire_decision :: "approval_wire_decision option"   \<comment> \<open>None: the empty string\<close>
  ao_display_label :: string
  ao_summary :: string
  ao_selectable :: bool
  ao_unsupported_reason :: string

record additional_filesystem_entry =
  af_entry_id :: string
  af_access :: string
  af_path_label :: string
  af_approvable :: bool
  af_unapprovable_reason :: string

record network_policy_amendment_summary =
  np_host_label :: string
  np_action :: string
  np_approvable :: bool

record approval_security_metadata =
  as_has_privilege_expansion :: bool
  as_network_context :: "(string \<times> string) option"   \<comment> \<open>HostLabel, Protocol\<close>
  as_additional_network :: "bool option"             \<comment> \<open>Enabled\<close>
  as_additional_filesystem_entries :: "additional_filesystem_entry list"
  as_exec_policy_amendment_summary :: "(string \<times> bool) option"  \<comment> \<open>CommandDisplay, Truncated\<close>
  as_network_policy_amendment_summaries :: "network_policy_amendment_summary list"
  as_blocking_reason :: string

record file_grant_root_display =
  gr_present :: bool
  gr_root_label :: string
  gr_under_configured_cwd :: bool
  gr_approvable :: bool
  gr_unapprovable_reason :: string

record command_approval_display =
  cd_command_display :: string
  cd_workspace_label :: string
  cd_reason :: string
  cd_approval_security :: "approval_security_metadata option"
  cd_decision_options :: "approval_decision_option list"

record file_change_approval_display =
  fd_file_label :: string
  fd_change_kind :: string
  fd_diff_summary :: string
  fd_diff_unified :: string
  fd_diff_unavailable :: bool
  fd_grant_root :: "file_grant_root_display option"
  fd_decision_options :: "approval_decision_option list"

record permissions_approval_display =
  pd_requested_permissions :: "permission_atom list"
  pd_recommended_scope :: permission_scope
  pd_reason :: string

record mcp_elicitation_display =
  md_mode :: elicitation_mode
  md_message :: string
  md_form_schema_json :: string
  md_url :: string
  md_submit_label :: string

datatype pending_request_display =
    CommandApproval command_approval_display
  | FileChangeApproval file_change_approval_display
  | PermissionsApproval permissions_approval_display
  | McpElicitation mcp_elicitation_display
  | ToolUserInput "tool_user_input_question list"

record chat_pending_request =
  cp_pending_request_id :: string
  cp_chat_id :: string
  cp_run_id :: string
  cp_pending_type :: pending_type
  cp_created_at :: int
  cp_item_id :: string
  cp_display :: pending_request_display

record pending_request =
  pr_pending_request_id :: string
  pr_task_id :: string
  pr_pending_type :: pending_type
  pr_created_at :: int
  pr_thread_id :: string
  pr_turn_id :: string
  pr_item_id :: string
  pr_display :: pending_request_display

subsection \<open>Events (domain/events.go)\<close>

record assistant_delta_event =
  ad_text_delta :: string
  ad_truncated :: bool

record assistant_message_completed_event =
  am_message :: string
  am_truncated :: bool

record command_started_event =
  cs_item_id :: string
  cs_command_display :: string
  cs_workspace_label :: string

record command_output_delta_event =
  co_item_id :: string
  co_delta :: string        \<comment> \<open>the only \<open>Stream\<close> value is \<open>combined\<close>\<close>
  co_truncated :: bool

record gateway_warning_event =
  gw_code :: string
  gw_message :: string
  gw_request_type :: string
  gw_auto_resolution :: string
  gw_limit_reason :: string

record chat_pending_resolved =
  cr_pending_request_id :: string
  cr_pending_type :: pending_type
  cr_resolution :: pending_resolution
  cr_display_message :: string

record chat_terminal =
  ct_state :: chat_turn_lifecycle
  ct_reason :: gateway_error_reason
  ct_display_message :: string

record task_lifecycle_event =
  tl_lifecycle_event :: task_lifecycle_event_type
  tl_state :: task_state
  tl_reason_code :: string
  tl_display_message :: string

record tool_progress_event =
  tp_item_id :: string
  tp_tool_name :: string
  tp_state :: tool_state
  tp_summary :: string

record file_diff_updated_event =
  fu_item_id :: string
  fu_file_label :: string
  fu_change_kind :: string
  fu_diff_summary :: string
  fu_diff_unified :: string
  fu_truncated :: bool

record task_terminal_event =
  tt_terminal_state :: terminal_state
  tt_result_summary :: string
  tt_error_message :: string

text \<open>
  The interface \<open>TaskEventPayload\<close> with its implementations; the two pending events carry the
  fields that differ from a chat's.
\<close>

datatype task_event_payload =
    TaskLifecycle task_lifecycle_event
  | AssistantDelta assistant_delta_event
  | AssistantMessageCompleted assistant_message_completed_event
  | PlanUpdated string "(string \<times> string) list"    \<comment> \<open>Explanation, Steps (Step, Status)\<close>
  | ToolProgress tool_progress_event
  | CommandStarted command_started_event
  | CommandOutputDelta command_output_delta_event
  | FileDiffUpdated file_diff_updated_event
  | TurnDiffUpdated string string bool            \<comment> \<open>DiffSummary, DiffUnified, Truncated\<close>
  | PendingRequestCreated string pending_type pending_request_display
  | PendingRequestResolved string pending_type pending_resolution string
  | TaskTerminal task_terminal_event
  | GatewayWarning gateway_warning_event

record task_event =
  te_event_id :: u64
  te_task_id :: string
  te_session_group_id :: string
  te_workspace_id :: string
  te_thread_id :: string
  te_turn_id :: string
  te_created_at :: int
  te_payload :: task_event_payload

subsection \<open>Limits (domain/limits.go)\<close>

definition max_public_id_bytes :: nat where
  "max_public_id_bytes = 128"

end
