(* ===== verification/Chat_State.thy ===== *)
theory Chat_State
  imports Domain_Types
begin

text \<open>
  The data of the chat state store (\<open>gateway/internal/chatstate/types.go\<close> and the helpers at
  the end of \<open>store.go\<close>): scopes, run, event, pending and idempotency records, the store
  itself, its limits, map keys, validation and error values.  The operations are in
  \<open>Chat_Store\<close>.
\<close>

subsection \<open>Scopes and records (types.go)\<close>

record limits =
  lim_replay_max_events :: int
  lim_replay_max_bytes :: int
  lim_replay_ttl :: duration
  lim_pending_ttl :: duration
  lim_diagnostics_cap :: int
  lim_active_runs_cap :: int
  lim_pending_cap :: int
  lim_idempotency_cap :: int
  lim_subscriber_queue :: int

record scope =
  sc_session_group_id :: string
  sc_workspace_id :: string
  sc_chat_id :: string

record run_scope =
  rs_scope :: scope
  rs_run_id :: string

datatype run_state =
    RunStateStarting | RunStateRunning | RunStatePending | RunStateInterrupting
  | RunStateCompleted | RunStateFailed | RunStateInterrupted

record run_record =
  rr_scope :: scope
  rr_run_id :: string
  rr_state :: run_state
  rr_idempotency_key :: string
  rr_started_at :: int
  rr_updated_at :: int

text \<open>The part an \<open>EventInput\<close> and an \<open>EventRecord\<close> share.\<close>

record event_body =
  eb_kind :: string
  eb_state :: string
  eb_reason :: gateway_error_reason
  eb_assistant_delta :: "assistant_delta_event option"
  eb_assistant_message_completed :: "assistant_message_completed_event option"
  eb_pending_created :: "chat_pending_request option"
  eb_pending_resolved :: "chat_pending_resolved option"
  eb_terminal :: "chat_terminal option"
  eb_command_started :: "command_started_event option"
  eb_command_output_delta :: "command_output_delta_event option"
  eb_gateway_warning :: "gateway_warning_event option"

record event_input =
  ei_run_scope :: run_scope
  ei_body :: event_body
  ei_size_bytes :: int

record event_record =
  ev_event_id :: u64
  ev_epoch :: string
  ev_run_scope :: run_scope
  ev_body :: event_body
  ev_created_at :: int
  ev_size_bytes :: int

record cursor =
  cu_epoch :: string
  cu_run_scope :: run_scope   \<comment> \<open>SessionGroupID, WorkspaceID, ChatID and RunID\<close>
  cu_after_event_id :: u64

record replay_result =
  rp_events :: "event_record list"
  rp_oldest :: u64
  rp_newest :: u64
  rp_from_start_available :: bool
  rp_start_evicted_before :: u64

datatype replay_failure_kind =
  ReplayUnavailableAfterRestart | ReplayCursorEvicted | ReplayOutOfRange

record replay_error =
  re_kind :: replay_failure_kind
  re_cursor :: cursor
  re_message :: string

datatype pending_status =
  PendingStatusActive | PendingStatusClaimed | PendingStatusResolved | PendingStatusExpired

record pending_input =
  pi_run_scope :: run_scope
  pi_pending_request_id :: string
  pi_ttl :: duration
  pi_reason :: gateway_error_reason

record pending_record =
  pn_run_scope :: run_scope
  pn_pending_request_id :: string
  pn_status :: pending_status
  pn_reason :: gateway_error_reason
  pn_created_at :: int
  pn_expires_at :: int
  pn_resolved_at :: int

record idempotency_scope =
  is_operation :: string
  is_session_group_id :: string
  is_workspace_id :: string
  is_chat_id :: string
  is_pending_request_id :: string
  is_client_message_id :: string
  is_key :: string

datatype idempotency_state = IdemInFlight | IdemSucceeded | IdemFailed

record idempotency_result_ref =
  ir_chat_id :: string
  ir_run_id :: string
  ir_status :: string
  ir_last_event_id :: u64
  ir_event_cursor :: string

record idempotency_entry =
  ie_scope :: idempotency_scope
  ie_state :: idempotency_state
  ie_result :: idempotency_result_ref
  ie_created_at :: int
  ie_updated_at :: int

record diagnostic_record =
  dg_created_at :: int
  dg_session_group_id :: string
  dg_workspace_id :: string
  dg_chat_id :: string
  dg_run_id :: string
  dg_request_id :: string
  dg_state :: string
  dg_reason :: gateway_error_reason

subsection \<open>The store\<close>

record replay_buffer =
  rb_events :: "event_record list"
  rb_bytes :: int
  rb_start_evicted_before :: u64

text \<open>
  A buffered Go channel of events: what is queued, the capacity, and whether it is closed.  The
  store names a channel by the subscriber id it was made for.
\<close>

record chan =
  ch_queue :: "event_record list"
  ch_capacity :: int
  ch_closed :: bool

record store =
  st_epoch :: string
  st_limits :: limits
  st_next_event_id :: u64
  st_next_subscriber_id :: u64
  st_active_runs :: "(string, run_record) gomap"
  st_reservations :: "(string, scope) gomap"
  st_replay :: "(string, replay_buffer) gomap"
  st_subscribers :: "(string, u64 list) gomap"
  st_pending :: "(string, pending_record) gomap"
  st_idempotency :: "(string, idempotency_entry) gomap"
  st_diagnostics :: "diagnostic_record list"
  st_channels :: "(u64, chan) gomap"   \<comment> \<open>the channels the store has made, open or closed\<close>

definition default_limits :: limits where
  "default_limits = \<lparr>lim_replay_max_events = 2000, lim_replay_max_bytes = 8 * 1048576,
     lim_replay_ttl = 30 * 60 * 10 ^ 9, lim_pending_ttl = 30 * 60 * 10 ^ 9,
     lim_diagnostics_cap = 256, lim_active_runs_cap = 1000, lim_pending_cap = 1000,
     lim_idempotency_cap = 1000, lim_subscriber_queue = 256\<rparr>"

definition or_default :: "int \<Rightarrow> int \<Rightarrow> int" where
  "or_default d x = (if x \<le> 0 then d else x)"

definition normalize_limits :: "limits \<Rightarrow> limits" where
  "normalize_limits l = \<lparr>
     lim_replay_max_events = or_default (lim_replay_max_events default_limits) (lim_replay_max_events l),
     lim_replay_max_bytes = or_default (lim_replay_max_bytes default_limits) (lim_replay_max_bytes l),
     lim_replay_ttl = or_default (lim_replay_ttl default_limits) (lim_replay_ttl l),
     lim_pending_ttl = or_default (lim_pending_ttl default_limits) (lim_pending_ttl l),
     lim_diagnostics_cap = or_default (lim_diagnostics_cap default_limits) (lim_diagnostics_cap l),
     lim_active_runs_cap = or_default (lim_active_runs_cap default_limits) (lim_active_runs_cap l),
     lim_pending_cap = or_default (lim_pending_cap default_limits) (lim_pending_cap l),
     lim_idempotency_cap = or_default (lim_idempotency_cap default_limits) (lim_idempotency_cap l),
     lim_subscriber_queue = or_default (lim_subscriber_queue default_limits) (lim_subscriber_queue l)\<rparr>"

definition limits_ok :: "limits \<Rightarrow> bool" where
  "limits_ok l \<longleftrightarrow> 0 < lim_replay_max_events l \<and> 0 < lim_replay_max_bytes l \<and>
     0 < lim_replay_ttl l \<and> 0 < lim_pending_ttl l \<and> 0 < lim_diagnostics_cap l \<and>
     0 < lim_active_runs_cap l \<and> 0 < lim_pending_cap l \<and> 0 < lim_idempotency_cap l \<and>
     0 < lim_subscriber_queue l"

lemma normalize_limits_ok: "limits_ok (normalize_limits l)"
  by (simp add: limits_ok_def normalize_limits_def or_default_def default_limits_def)

text \<open>\<open>NewStore\<close>; an empty epoch option is replaced by one made from the clock (the caller's
  \<open>clock_epoch\<close> stands for the formatted nanoseconds).\<close>

definition new_store :: "string \<Rightarrow> string \<Rightarrow> limits \<Rightarrow> store" where
  "new_store epoch clock_epoch l = \<lparr>
     st_epoch = (if epoch = [] then clock_epoch else epoch),
     st_limits = normalize_limits l, st_next_event_id = 0, st_next_subscriber_id = 0,
     st_active_runs = [], st_reservations = [], st_replay = [], st_subscribers = [],
     st_pending = [], st_idempotency = [], st_diagnostics = [], st_channels = []\<rparr>"

subsection \<open>Map keys\<close>

text \<open>Keys are the parts joined by a NUL byte.\<close>

abbreviation NUL :: char where
  "NUL \<equiv> CHR 0x00"

definition active_run_key :: "scope \<Rightarrow> string" where
  "active_run_key s = sc_session_group_id s @ NUL # sc_workspace_id s @ NUL # sc_chat_id s"

definition replay_key :: "run_scope \<Rightarrow> string" where
  "replay_key s = active_run_key (rs_scope s) @ NUL # rs_run_id s"

definition idempotency_key :: "idempotency_scope \<Rightarrow> string" where
  "idempotency_key s = is_session_group_id s @ NUL # is_workspace_id s @ NUL # is_chat_id s @ NUL # is_key s"

definition active_run_reservation_key :: "idempotency_scope \<Rightarrow> string" where
  "active_run_reservation_key s = is_operation s @ NUL # is_session_group_id s @ NUL #
     is_workspace_id s @ NUL # is_chat_id s @ NUL # is_pending_request_id s @ NUL #
     is_client_message_id s @ NUL # is_key s"

definition pending_key :: "run_scope \<Rightarrow> string \<Rightarrow> string" where
  "pending_key s pid = replay_key s @ NUL # pid"

definition safe_label :: "string \<Rightarrow> string" where
  "safe_label v = (if length v \<le> max_public_id_bytes then v else take max_public_id_bytes v)"

definition is_terminal_run_state :: "run_state \<Rightarrow> bool" where
  "is_terminal_run_state s \<longleftrightarrow> s \<in> {RunStateCompleted, RunStateFailed, RunStateInterrupted}"

subsection \<open>Error values\<close>

definition chat_error :: "gateway_error_code \<Rightarrow> gateway_error_reason \<Rightarrow> string \<Rightarrow> scope \<Rightarrow> string \<Rightarrow> bool \<Rightarrow> gateway_error" where
  "chat_error c r msg s pid retry = \<lparr>ge_code = c, ge_details = no_details\<lparr>
     ed_reason := r, ed_display_message := msg, ed_session_group_id := sc_session_group_id s,
     ed_thread_id := sc_chat_id s, ed_pending_request_id := pid, ed_retryable := retry\<rparr>\<rparr>"

definition invalid_request :: "string \<Rightarrow> scope \<Rightarrow> gateway_error" where
  "invalid_request msg s = chat_error CodeInvalidArgument ReasonInvalidRequest msg s [] False"

definition resource_exhausted :: "string \<Rightarrow> scope \<Rightarrow> gateway_error" where
  "resource_exhausted msg s = chat_error CodeResourceExhausted ReasonResourceExhausted msg s [] False"

definition already_running :: "run_scope \<Rightarrow> gateway_error" where
  "already_running s = chat_error CodeFailedPrecondition ReasonAlreadyRunning
     ''chat already has active run'' (rs_scope s) [] False"

definition unknown_active_run :: "run_scope \<Rightarrow> gateway_error" where
  "unknown_active_run s = chat_error CodeFailedPrecondition ReasonInvalidRequest
     ''active run correlation is unavailable'' (rs_scope s) [] True"

definition pending_unavailable :: "run_scope \<Rightarrow> string \<Rightarrow> gateway_error" where
  "pending_unavailable s pid = chat_error CodeUnavailable ReasonPendingUnavailableAfterRestart
     ''pending correlation is unavailable in this gateway process'' (rs_scope s) pid True"

definition pending_already_resolved :: "run_scope \<Rightarrow> string \<Rightarrow> gateway_error" where
  "pending_already_resolved s pid = chat_error CodeFailedPrecondition ReasonPendingRequestAlreadyResolved
     ''pending request is not active'' (rs_scope s) pid False"

definition idem_scope :: "idempotency_scope \<Rightarrow> scope" where
  "idem_scope s = \<lparr>sc_session_group_id = is_session_group_id s,
     sc_workspace_id = is_workspace_id s, sc_chat_id = is_chat_id s\<rparr>"

definition idempotency_scope_mismatch :: "idempotency_scope \<Rightarrow> gateway_error" where
  "idempotency_scope_mismatch s = chat_error CodeAborted ReasonIdempotencyScopeMismatch
     ''idempotency key was reused with a different safe scope'' (idem_scope s) [] False"

definition idempotency_unavailable :: "idempotency_scope \<Rightarrow> gateway_error" where
  "idempotency_unavailable s = chat_error CodeUnavailable ReasonIdempotencyUnavailableAfterRestart
     ''idempotency record is unavailable in this gateway process'' (idem_scope s) [] True"

definition replay_unavailable_after_restart :: "cursor \<Rightarrow> replay_error" where
  "replay_unavailable_after_restart c = \<lparr>re_kind = ReplayUnavailableAfterRestart, re_cursor = c,
     re_message = ''replay is unavailable in this gateway process''\<rparr>"

definition replay_cursor_evicted :: "cursor \<Rightarrow> replay_error" where
  "replay_cursor_evicted c = \<lparr>re_kind = ReplayCursorEvicted, re_cursor = c,
     re_message = ''the requested chat event cursor is no longer buffered''\<rparr>"

definition replay_out_of_range :: "cursor \<Rightarrow> replay_error" where
  "replay_out_of_range c = \<lparr>re_kind = ReplayOutOfRange, re_cursor = c,
     re_message = ''the requested chat event cursor is outside the buffered range''\<rparr>"

subsection \<open>Validation\<close>

definition validate_run_scope :: "run_scope \<Rightarrow> gateway_error option" where
  "validate_run_scope s =
     (if sc_session_group_id (rs_scope s) = [] \<or> sc_workspace_id (rs_scope s) = [] \<or>
         sc_chat_id (rs_scope s) = [] \<or> rs_run_id s = []
      then Some (invalid_request ''session group, workspace, chat, and run ids are required'' (rs_scope s))
      else None)"

definition validate_idempotency_scope :: "idempotency_scope \<Rightarrow> gateway_error option" where
  "validate_idempotency_scope s =
     (if is_operation s = [] \<or> is_session_group_id s = [] \<or> is_workspace_id s = [] \<or> is_key s = []
      then Some (invalid_request ''operation, session group, workspace, and idempotency key are required'' (idem_scope s))
      else None)"

subsection \<open>Keys are injective on identifiers without NUL bytes\<close>

definition nul_free :: "string \<Rightarrow> bool" where
  "nul_free s \<longleftrightarrow> NUL \<notin> set s"

definition nul_free_scope :: "scope \<Rightarrow> bool" where
  "nul_free_scope s \<longleftrightarrow> nul_free (sc_session_group_id s) \<and> nul_free (sc_workspace_id s) \<and> nul_free (sc_chat_id s)"

lemma nul_split: "nul_free a \<Longrightarrow> nul_free b \<Longrightarrow> a @ NUL # x = b @ NUL # y \<longleftrightarrow> a = b \<and> x = y"
  by (induction a arbitrary: b) (case_tac b; auto simp: nul_free_def)+

lemma active_run_key_inj:
  assumes "nul_free_scope s" "nul_free_scope t" "active_run_key s = active_run_key t"
  shows "s = t"
  using assms by (cases s; cases t) (auto simp: active_run_key_def nul_free_scope_def nul_split)

lemma replay_key_inj:
  assumes "nul_free_scope (rs_scope s)" "nul_free_scope (rs_scope t)" "replay_key s = replay_key t"
  shows "s = t"
proof -
  obtain a b c r where s: "s = \<lparr>rs_scope = \<lparr>sc_session_group_id = a, sc_workspace_id = b, sc_chat_id = c\<rparr>, rs_run_id = r\<rparr>"
    by (metis run_scope.cases scope.cases)
  obtain a' b' c' r' where t: "t = \<lparr>rs_scope = \<lparr>sc_session_group_id = a', sc_workspace_id = b', sc_chat_id = c'\<rparr>, rs_run_id = r'\<rparr>"
    by (metis run_scope.cases scope.cases)
  show ?thesis using assms
    by (auto simp: s t replay_key_def active_run_key_def nul_free_scope_def nul_split)
qed

end
