(* ===== verification/Chat_Store.thy ===== *)
theory Chat_Store
  imports Chat_State
begin

text \<open>
  The operations of the chat state store (\<open>gateway/internal/chatstate/store.go\<close>).  Each runs
  under the store's mutex, so it is one atomic function on the store that returns its result and
  the new store; an error returned after a cleanup keeps the cleanup.  Each call of the injected
  clock \<open>s.now()\<close> is an argument of its own (\<open>t1\<close>, \<open>t2\<close>, ...), in the order of the calls.
\<close>

subsection \<open>Cleanup and capacity\<close>

definition pending_live :: "pending_record \<Rightarrow> bool" where
  "pending_live r \<longleftrightarrow> pn_status r = PendingStatusActive \<or> pn_status r = PendingStatusClaimed"

definition cleanup_pending_record :: "gtime \<Rightarrow> duration \<Rightarrow> pending_record \<Rightarrow> pending_record option" where
  "cleanup_pending_record now ttl r =
     (let r' = (if pending_live r \<and> unix_milli now > pn_expires_at r
                then r\<lparr>pn_status := PendingStatusExpired\<rparr> else r);
          retain_until = (if pn_resolved_at r' > 0 then from_milli (pn_resolved_at r') + ttl
                          else from_milli (pn_expires_at r'))
      in if \<not> pending_live r' \<and> now > retain_until then None else Some r')"

definition cleanup_idempotency_entry :: "gtime \<Rightarrow> duration \<Rightarrow> idempotency_entry \<Rightarrow> idempotency_entry option" where
  "cleanup_idempotency_entry now ttl e =
     (if ie_state e \<noteq> IdemInFlight \<and> now > from_milli (ie_updated_at e) + ttl then None else Some e)"

definition cleanup :: "gtime \<Rightarrow> store \<Rightarrow> store" where
  "cleanup now s = s\<lparr>
     st_pending := gm_filter_map (cleanup_pending_record now (lim_pending_ttl (st_limits s))) (st_pending s),
     st_idempotency := gm_filter_map (cleanup_idempotency_entry now (lim_replay_ttl (st_limits s))) (st_idempotency s)\<rparr>"

definition active_pending_count :: "store \<Rightarrow> int" where
  "active_pending_count s = int (gm_count pending_live (st_pending s))"

definition active_run_capacity_used :: "store \<Rightarrow> int" where
  "active_run_capacity_used s = int (length (st_active_runs s) + length (st_reservations s))"

definition has_active_run :: "store \<Rightarrow> string \<Rightarrow> bool" where
  "has_active_run s key = (case gm_get (st_active_runs s) key of
     None \<Rightarrow> False | Some r \<Rightarrow> \<not> is_terminal_run_state (rr_state r))"

text \<open>The run record a scope names: present, and with the scope's run id.\<close>

definition run_of :: "store \<Rightarrow> run_scope \<Rightarrow> run_record option" where
  "run_of s scope = (case gm_get (st_active_runs s) (active_run_key (rs_scope scope)) of
     None \<Rightarrow> None | Some r \<Rightarrow> if rr_run_id r \<noteq> rs_run_id scope then None else Some r)"

subsection \<open>Runs\<close>

definition new_run :: "gtime \<Rightarrow> run_scope \<Rightarrow> string \<Rightarrow> run_record" where
  "new_run t scope ikey = \<lparr>rr_scope = rs_scope scope, rr_run_id = rs_run_id scope,
     rr_state = RunStateStarting, rr_idempotency_key = ikey,
     rr_started_at = unix_milli t, rr_updated_at = unix_milli t\<rparr>"

definition put_run :: "string \<Rightarrow> run_record \<Rightarrow> store \<Rightarrow> store" where
  "put_run key r s = s\<lparr>st_active_runs := gm_put key r (st_active_runs s)\<rparr>"

definition start_run :: "gtime \<Rightarrow> gtime \<Rightarrow> run_scope \<Rightarrow> string \<Rightarrow> store \<Rightarrow> run_record result \<times> store" where
  "start_run t1 t2 scope ikey s =
     (case validate_run_scope scope of Some e \<Rightarrow> (Inl e, s) | None \<Rightarrow>
      let s = cleanup t1 s; key = active_run_key (rs_scope scope) in
      if has_active_run s key then (Inl (already_running scope), s)
      else if active_run_capacity_used s \<ge> lim_active_runs_cap (st_limits s)
      then (Inl (resource_exhausted ''active run capacity exceeded'' (rs_scope scope)), s)
      else let r = new_run t2 scope ikey in (Inr r, put_run key r s))"

definition reserve_active_run_capacity :: "gtime \<Rightarrow> idempotency_scope \<Rightarrow> store \<Rightarrow> unit result \<times> store" where
  "reserve_active_run_capacity t1 scope s =
     (case validate_idempotency_scope scope of Some e \<Rightarrow> (Inl e, s) | None \<Rightarrow>
      let s = cleanup t1 s; key = active_run_reservation_key scope in
      if gm_get (st_reservations s) key \<noteq> None then (Inr (), s)
      else if active_run_capacity_used s \<ge> lim_active_runs_cap (st_limits s)
      then (Inl (resource_exhausted ''active run capacity exceeded'' (idem_scope scope)), s)
      else (Inr (), s\<lparr>st_reservations := gm_put key (idem_scope scope) (st_reservations s)\<rparr>))"

definition release_active_run_capacity :: "idempotency_scope \<Rightarrow> store \<Rightarrow> unit result \<times> store" where
  "release_active_run_capacity scope s =
     (case validate_idempotency_scope scope of Some e \<Rightarrow> (Inl e, s) | None \<Rightarrow>
      (Inr (), s\<lparr>st_reservations := gm_del (active_run_reservation_key scope) (st_reservations s)\<rparr>))"

definition start_run_with_reservation ::
  "gtime \<Rightarrow> gtime \<Rightarrow> idempotency_scope \<Rightarrow> run_scope \<Rightarrow> string \<Rightarrow> store \<Rightarrow> run_record result \<times> store" where
  "start_run_with_reservation t1 t2 reservation scope ikey s =
     (case validate_idempotency_scope reservation of Some e \<Rightarrow> (Inl e, s) | None \<Rightarrow>
      case validate_run_scope scope of Some e \<Rightarrow> (Inl e, s) | None \<Rightarrow>
      let s = cleanup t1 s; rkey = active_run_reservation_key reservation in
      if gm_get (st_reservations s) rkey = None
      then (Inl (invalid_request ''active run capacity reservation is required'' (rs_scope scope)), s)
      else let key = active_run_key (rs_scope scope) in
      if has_active_run s key then (Inl (already_running scope), s)
      else let r = new_run t2 scope ikey in
        (Inr r, (put_run key r s)\<lparr>st_reservations := gm_del rkey (st_reservations s)\<rparr>))"

definition update_run_state :: "gtime \<Rightarrow> run_scope \<Rightarrow> run_state \<Rightarrow> store \<Rightarrow> run_record result \<times> store" where
  "update_run_state t scope state s =
     (case validate_run_scope scope of Some e \<Rightarrow> (Inl e, s) | None \<Rightarrow>
      case run_of s scope of None \<Rightarrow> (Inl (unknown_active_run scope), s) | Some r \<Rightarrow>
      let r' = r\<lparr>rr_state := state, rr_updated_at := unix_milli t\<rparr> in
      (Inr r', put_run (active_run_key (rs_scope scope)) r' s))"

definition restore_run_state_after_pending :: "gtime \<Rightarrow> run_scope \<Rightarrow> store \<Rightarrow> run_record result \<times> store" where
  "restore_run_state_after_pending t scope s =
     (case validate_run_scope scope of Some e \<Rightarrow> (Inl e, s) | None \<Rightarrow>
      case run_of s scope of None \<Rightarrow> (Inl (unknown_active_run scope), s) | Some r \<Rightarrow>
      let r' = (if rr_state r \<noteq> RunStateInterrupting
                then r\<lparr>rr_state := RunStateRunning, rr_updated_at := unix_milli t\<rparr> else r) in
      (Inr r', put_run (active_run_key (rs_scope scope)) r' s))"

definition bind_run_id :: "gtime \<Rightarrow> run_scope \<Rightarrow> string \<Rightarrow> store \<Rightarrow> run_record result \<times> store" where
  "bind_run_id t scope run_id s =
     (case validate_run_scope scope of Some e \<Rightarrow> (Inl e, s) | None \<Rightarrow>
      if run_id = [] then (Inl (invalid_request ''run id is required'' (rs_scope scope)), s) else
      case run_of s scope of None \<Rightarrow> (Inl (unknown_active_run scope), s) | Some r \<Rightarrow>
      let r' = r\<lparr>rr_run_id := run_id, rr_updated_at := unix_milli t\<rparr> in
      (Inr r', put_run (active_run_key (rs_scope scope)) r' s))"

subsection \<open>Subscribers\<close>

definition subscribers_of :: "store \<Rightarrow> string \<Rightarrow> u64 list" where
  "subscribers_of s key = (case gm_get (st_subscribers s) key of None \<Rightarrow> [] | Some ids \<Rightarrow> ids)"

definition chan_new :: "int \<Rightarrow> chan" where
  "chan_new n = \<lparr>ch_queue = [], ch_capacity = n, ch_closed = False\<rparr>"

text \<open>A non-blocking send succeeds when the buffer has room.\<close>

definition chan_has_room :: "chan \<Rightarrow> bool" where
  "chan_has_room c \<longleftrightarrow> int (length (ch_queue c)) < ch_capacity c"

definition chan_room :: "(u64, chan) gomap \<Rightarrow> u64 \<Rightarrow> bool" where
  "chan_room m sid = (case gm_get m sid of None \<Rightarrow> False | Some c \<Rightarrow> chan_has_room c)"

definition chan_send :: "event_record \<Rightarrow> u64 \<Rightarrow> (u64, chan) gomap \<Rightarrow> (u64, chan) gomap" where
  "chan_send e sid m = (case gm_get m sid of None \<Rightarrow> m | Some c \<Rightarrow>
     if chan_has_room c then gm_put sid (c\<lparr>ch_queue := ch_queue c @ [e]\<rparr>) m
     else gm_put sid (c\<lparr>ch_closed := True\<rparr>) m)"

definition chan_close :: "u64 \<Rightarrow> (u64, chan) gomap \<Rightarrow> (u64, chan) gomap" where
  "chan_close sid m = (case gm_get m sid of None \<Rightarrow> m | Some c \<Rightarrow> gm_put sid (c\<lparr>ch_closed := True\<rparr>) m)"

definition set_subscribers :: "string \<Rightarrow> u64 list \<Rightarrow> store \<Rightarrow> store" where
  "set_subscribers key ids s =
     s\<lparr>st_subscribers := (if ids = [] then gm_del key (st_subscribers s) else gm_put key ids (st_subscribers s))\<rparr>"

text \<open>\<open>publishEventLocked\<close>: every subscriber with room gets the event, the others are closed and
  dropped.\<close>

definition publish_event :: "string \<Rightarrow> event_record \<Rightarrow> store \<Rightarrow> store" where
  "publish_event key e s =
     (let ids = subscribers_of s key in
      (set_subscribers key (filter (chan_room (st_channels s)) ids) s)
        \<lparr>st_channels := fold (chan_send e) ids (st_channels s)\<rparr>)"

definition close_subscribers :: "string \<Rightarrow> store \<Rightarrow> store" where
  "close_subscribers key s = s\<lparr>
     st_channels := fold chan_close (subscribers_of s key) (st_channels s),
     st_subscribers := gm_del key (st_subscribers s)\<rparr>"

definition subscribe :: "run_scope \<Rightarrow> store \<Rightarrow> u64 option result \<times> store" where
  "subscribe scope s =
     (case validate_run_scope scope of Some e \<Rightarrow> (Inl e, s) | None \<Rightarrow>
      let sid = st_next_subscriber_id s + 1; s = s\<lparr>st_next_subscriber_id := sid\<rparr>;
          key = replay_key scope in
      case run_of s scope of
        None \<Rightarrow> (Inr None, s)
      | Some r \<Rightarrow>
          if is_terminal_run_state (rr_state r) then (Inr None, s)
          else let queue = (if lim_subscriber_queue (st_limits s) \<le> 0
                            then lim_subscriber_queue default_limits
                            else lim_subscriber_queue (st_limits s)) in
            (Inr (Some sid), s\<lparr>
               st_subscribers := gm_put key (List.insert sid (subscribers_of s key)) (st_subscribers s),
               st_channels := gm_put sid (chan_new queue) (st_channels s)\<rparr>))"

text \<open>The closure \<open>Subscribe\<close> returns, for the subscriber \<open>sid\<close> of the run key.\<close>

definition unsubscribe :: "string \<Rightarrow> u64 \<Rightarrow> store \<Rightarrow> store" where
  "unsubscribe key sid s =
     (case gm_get (st_subscribers s) key of None \<Rightarrow> s | Some ids \<Rightarrow>
      if sid \<in> set ids
      then (set_subscribers key (remove1 sid ids) s)\<lparr>st_channels := chan_close sid (st_channels s)\<rparr>
      else set_subscribers key ids s)"

text \<open>A receive by the reader that holds the channel: the oldest queued event, if any.\<close>

definition chan_receive :: "u64 \<Rightarrow> store \<Rightarrow> event_record option \<times> store" where
  "chan_receive sid s = (case gm_get (st_channels s) sid of None \<Rightarrow> (None, s) | Some c \<Rightarrow>
     (case ch_queue c of [] \<Rightarrow> (None, s) | e # es \<Rightarrow>
       (Some e, s\<lparr>st_channels := gm_put sid (c\<lparr>ch_queue := es\<rparr>) (st_channels s)\<rparr>)))"

definition complete_run :: "gtime \<Rightarrow> run_scope \<Rightarrow> run_state \<Rightarrow> store \<Rightarrow> run_record result \<times> store" where
  "complete_run t scope state s =
     (if \<not> is_terminal_run_state state
      then (Inl (invalid_request ''run completion requires a terminal state'' (rs_scope scope)), s) else
      case validate_run_scope scope of Some e \<Rightarrow> (Inl e, s) | None \<Rightarrow>
      case run_of s scope of None \<Rightarrow> (Inl (unknown_active_run scope), s) | Some r \<Rightarrow>
      (Inr (r\<lparr>rr_state := state, rr_updated_at := unix_milli t\<rparr>),
       close_subscribers (replay_key scope)
         (s\<lparr>st_active_runs := gm_del (active_run_key (rs_scope scope)) (st_active_runs s)\<rparr>)))"

definition active_run :: "scope \<Rightarrow> store \<Rightarrow> run_record option" where
  "active_run scope s = (case gm_get (st_active_runs s) (active_run_key scope) of
     None \<Rightarrow> None | Some r \<Rightarrow> if is_terminal_run_state (rr_state r) then None else Some r)"

subsection \<open>Events and replay\<close>

definition replay_evicts :: "gtime \<Rightarrow> limits \<Rightarrow> event_record list \<Rightarrow> int \<Rightarrow> event_record \<Rightarrow> bool" where
  "replay_evicts now l es bytes oldest \<longleftrightarrow>
     int (length es) > lim_replay_max_events l \<or> bytes > lim_replay_max_bytes l \<or>
     time_sub now (from_milli (ev_created_at oldest)) > lim_replay_ttl l"

text \<open>The loop of \<open>enforceReplayLimitsLocked\<close>, over the buffer's three fields.\<close>

fun enforce_loop :: "gtime \<Rightarrow> limits \<Rightarrow> event_record list \<Rightarrow> int \<Rightarrow> u64 \<Rightarrow> replay_buffer" where
  "enforce_loop now l [] bytes evicted =
     \<lparr>rb_events = [], rb_bytes = bytes, rb_start_evicted_before = evicted\<rparr>"
| "enforce_loop now l (e # es) bytes evicted =
     (if replay_evicts now l (e # es) bytes e
      then enforce_loop now l es (i64 (bytes - ev_size_bytes e)) (ev_event_id e + 1)
      else \<lparr>rb_events = e # es, rb_bytes = bytes, rb_start_evicted_before = evicted\<rparr>)"

definition enforce_replay_limits :: "gtime \<Rightarrow> limits \<Rightarrow> replay_buffer \<Rightarrow> replay_buffer" where
  "enforce_replay_limits now l b = enforce_loop now l (rb_events b) (rb_bytes b) (rb_start_evicted_before b)"

definition empty_buffer :: replay_buffer where
  "empty_buffer = \<lparr>rb_events = [], rb_bytes = 0, rb_start_evicted_before = 0\<rparr>"

definition buffer_of :: "store \<Rightarrow> string \<Rightarrow> replay_buffer" where
  "buffer_of s key = (case gm_get (st_replay s) key of None \<Rightarrow> empty_buffer | Some b \<Rightarrow> b)"

definition buffer_add :: "event_record \<Rightarrow> replay_buffer \<Rightarrow> replay_buffer" where
  "buffer_add e b = b\<lparr>rb_events := rb_events b @ [e], rb_bytes := i64 (rb_bytes b + ev_size_bytes e)\<rparr>"

definition safe_body :: "event_body \<Rightarrow> event_body" where
  "safe_body b = b\<lparr>eb_kind := safe_label (eb_kind b), eb_state := safe_label (eb_state b)\<rparr>"

definition new_event :: "gtime \<Rightarrow> event_input \<Rightarrow> store \<Rightarrow> event_record" where
  "new_event t input s = \<lparr>ev_event_id = st_next_event_id s + 1, ev_epoch = st_epoch s,
     ev_run_scope = ei_run_scope input, ev_body = safe_body (ei_body input),
     ev_created_at = unix_milli t, ev_size_bytes = ei_size_bytes input\<rparr>"

definition append_event :: "gtime \<Rightarrow> gtime \<Rightarrow> gtime \<Rightarrow> event_input \<Rightarrow> store \<Rightarrow> event_record result \<times> store" where
  "append_event t1 t2 t3 input s =
     (case validate_run_scope (ei_run_scope input) of Some e \<Rightarrow> (Inl e, s) | None \<Rightarrow>
      if ei_size_bytes input < 0
      then (Inl (invalid_request ''event size must not be negative'' (rs_scope (ei_run_scope input))), s) else
      let s = cleanup t1 s; e = new_event t2 input s; key = replay_key (ei_run_scope input);
          b = enforce_replay_limits t3 (st_limits s) (buffer_add e (buffer_of s key)) in
      (Inr e, publish_event key e
         (s\<lparr>st_next_event_id := ev_event_id e, st_replay := gm_put key b (st_replay s)\<rparr>)))"

definition events_after :: "u64 \<Rightarrow> event_record list \<Rightarrow> event_record list" where
  "events_after n es = filter (\<lambda>e. ev_event_id e > n) es"

definition replay_view :: "replay_buffer \<Rightarrow> replay_result" where
  "replay_view b = \<lparr>rp_events = [], rp_oldest = ev_event_id (hd (rb_events b)),
     rp_newest = ev_event_id (last (rb_events b)),
     rp_from_start_available = (rb_start_evicted_before b = 0),
     rp_start_evicted_before = rb_start_evicted_before b\<rparr>"

definition read_buffer :: "cursor \<Rightarrow> replay_buffer \<Rightarrow> replay_error + replay_result" where
  "read_buffer c b =
     (let r = replay_view b; after = cu_after_event_id c in
      if after < rp_oldest r - 1 \<and> \<not> (after = 0 \<and> \<not> rp_from_start_available r)
      then Inl (replay_cursor_evicted c)
      else if after > rp_newest r then Inl (replay_out_of_range c)
      else Inr (r\<lparr>rp_events := events_after after (rb_events b)\<rparr>))"

definition replay :: "gtime \<Rightarrow> gtime \<Rightarrow> cursor \<Rightarrow> store \<Rightarrow> (replay_error + replay_result) \<times> store" where
  "replay t1 t2 c s =
     (let s = cleanup t1 s in
      if cu_epoch c \<noteq> st_epoch s then (Inl (replay_unavailable_after_restart c), s) else
      let key = replay_key (cu_run_scope c) in
      case gm_get (st_replay s) key of None \<Rightarrow> (Inl (replay_unavailable_after_restart c), s) | Some b0 \<Rightarrow>
      if rb_events b0 = [] then (Inl (replay_unavailable_after_restart c), s) else
      let b = enforce_replay_limits t2 (st_limits s) b0 in
      if rb_events b = []
      then (Inl (replay_unavailable_after_restart c), s\<lparr>st_replay := gm_del key (st_replay s)\<rparr>)
      else (read_buffer c b, s\<lparr>st_replay := gm_put key b (st_replay s)\<rparr>))"

subsection \<open>Pending requests\<close>

definition new_pending :: "gtime \<Rightarrow> limits \<Rightarrow> pending_input \<Rightarrow> pending_record" where
  "new_pending t l input =
     (let ttl = (if pi_ttl input \<le> 0 then lim_pending_ttl l else pi_ttl input) in
      \<lparr>pn_run_scope = pi_run_scope input, pn_pending_request_id = pi_pending_request_id input,
       pn_status = PendingStatusActive, pn_reason = pi_reason input,
       pn_created_at = unix_milli t, pn_expires_at = unix_milli (t + ttl), pn_resolved_at = 0\<rparr>)"

definition put_pending :: "pending_record \<Rightarrow> store \<Rightarrow> store" where
  "put_pending r s = s\<lparr>st_pending := gm_put (pending_key (pn_run_scope r) (pn_pending_request_id r)) r (st_pending s)\<rparr>"

definition register_pending :: "gtime \<Rightarrow> gtime \<Rightarrow> pending_input \<Rightarrow> store \<Rightarrow> pending_record result \<times> store" where
  "register_pending t1 t2 input s =
     (case validate_run_scope (pi_run_scope input) of Some e \<Rightarrow> (Inl e, s) | None \<Rightarrow>
      if pi_pending_request_id input = []
      then (Inl (invalid_request ''pending request id is required'' (rs_scope (pi_run_scope input))), s) else
      let s = cleanup t1 s in
      if active_pending_count s \<ge> lim_pending_cap (st_limits s)
      then (Inl (resource_exhausted ''pending capacity exceeded'' (rs_scope (pi_run_scope input))), s)
      else let r = new_pending t2 (st_limits s) input in (Inr r, put_pending r s))"

text \<open>\<open>RegisterPendingForActiveRun\<close>: \<open>None\<close> when the run does not take pending requests (the
  Go result's \<open>false\<close> with no error).\<close>

definition register_pending_for_active_run ::
  "gtime \<Rightarrow> gtime \<Rightarrow> pending_input \<Rightarrow> store \<Rightarrow> (pending_record \<times> run_record) option result \<times> store" where
  "register_pending_for_active_run t1 t2 input s =
     (case validate_run_scope (pi_run_scope input) of Some e \<Rightarrow> (Inl e, s) | None \<Rightarrow>
      if pi_pending_request_id input = []
      then (Inl (invalid_request ''pending request id is required'' (rs_scope (pi_run_scope input))), s) else
      let s = cleanup t1 s in
      case run_of s (pi_run_scope input) of None \<Rightarrow> (Inr None, s) | Some active \<Rightarrow>
      if rr_state active = RunStateInterrupting \<or> is_terminal_run_state (rr_state active) then (Inr None, s) else
      if active_pending_count s \<ge> lim_pending_cap (st_limits s)
      then (Inl (resource_exhausted ''pending capacity exceeded'' (rs_scope (pi_run_scope input))), s)
      else let r = new_pending t2 (st_limits s) input;
               a = active\<lparr>rr_state := RunStatePending, rr_updated_at := unix_milli t2\<rparr> in
        (Inr (Some (r, a)),
         put_run (active_run_key (rs_scope (pi_run_scope input))) a (put_pending r s)))"

text \<open>The record that a resolving operation looks up.\<close>

definition pending_of :: "store \<Rightarrow> run_scope \<Rightarrow> string \<Rightarrow> pending_record option" where
  "pending_of s scope pid = gm_get (st_pending s) (pending_key scope pid)"

definition set_pending :: "run_scope \<Rightarrow> string \<Rightarrow> pending_record \<Rightarrow> store \<Rightarrow> store" where
  "set_pending scope pid r s = s\<lparr>st_pending := gm_put (pending_key scope pid) r (st_pending s)\<rparr>"

text \<open>The claim and the resolution also hand back the record on an error; here the error alone is
  the result and the record is in the store.\<close>

definition claim_pending_resolution :: "gtime \<Rightarrow> gtime \<Rightarrow> run_scope \<Rightarrow> string \<Rightarrow> store \<Rightarrow> pending_record result \<times> store" where
  "claim_pending_resolution t1 t2 scope pid s =
     (case validate_run_scope scope of Some e \<Rightarrow> (Inl e, s) | None \<Rightarrow>
      let s = cleanup t1 s in
      case pending_of s scope pid of None \<Rightarrow> (Inl (pending_unavailable scope pid), s) | Some r \<Rightarrow>
      if unix_milli t2 > pn_expires_at r
      then (Inl (pending_unavailable scope pid), set_pending scope pid (r\<lparr>pn_status := PendingStatusExpired\<rparr>) s)
      else if pn_status r \<noteq> PendingStatusActive then (Inl (pending_already_resolved scope pid), s)
      else let r' = r\<lparr>pn_status := PendingStatusClaimed\<rparr> in (Inr r', set_pending scope pid r' s))"

definition release_pending_resolution_claim :: "gtime \<Rightarrow> gtime \<Rightarrow> run_scope \<Rightarrow> string \<Rightarrow> store \<Rightarrow> unit result \<times> store" where
  "release_pending_resolution_claim t1 t2 scope pid s =
     (case validate_run_scope scope of Some e \<Rightarrow> (Inl e, s) | None \<Rightarrow>
      let s = cleanup t1 s in
      case pending_of s scope pid of None \<Rightarrow> (Inl (pending_unavailable scope pid), s) | Some r \<Rightarrow>
      if pn_status r \<noteq> PendingStatusClaimed then (Inl (pending_already_resolved scope pid), s)
      else if unix_milli t2 > pn_expires_at r
      then (Inl (pending_unavailable scope pid), set_pending scope pid (r\<lparr>pn_status := PendingStatusExpired\<rparr>) s)
      else (Inr (), set_pending scope pid (r\<lparr>pn_status := PendingStatusActive\<rparr>) s))"

definition pending_lookup :: "gtime \<Rightarrow> run_scope \<Rightarrow> string \<Rightarrow> store \<Rightarrow> pending_record option \<times> store" where
  "pending_lookup t1 scope pid s =
     (case validate_run_scope scope of Some e \<Rightarrow> (None, s) | None \<Rightarrow>
      let s = cleanup t1 s in
      case pending_of s scope pid of None \<Rightarrow> (None, s) | Some r \<Rightarrow>
      if \<not> pending_live r then (None, s) else (Some r, s))"

definition resolve_pending :: "gtime \<Rightarrow> gtime \<Rightarrow> run_scope \<Rightarrow> string \<Rightarrow> store \<Rightarrow> pending_record result \<times> store" where
  "resolve_pending t1 t2 scope pid s =
     (case validate_run_scope scope of Some e \<Rightarrow> (Inl e, s) | None \<Rightarrow>
      let s = cleanup t1 s in
      case pending_of s scope pid of None \<Rightarrow> (Inl (pending_unavailable scope pid), s) | Some r \<Rightarrow>
      if unix_milli t2 > pn_expires_at r
      then (Inl (pending_unavailable scope pid), set_pending scope pid (r\<lparr>pn_status := PendingStatusExpired\<rparr>) s)
      else if \<not> pending_live r then (Inl (pending_already_resolved scope pid), s)
      else let r' = r\<lparr>pn_status := PendingStatusResolved, pn_resolved_at := unix_milli t2\<rparr> in
        (Inr r', set_pending scope pid r' s))"

subsection \<open>Idempotency\<close>

definition no_result :: idempotency_result_ref where
  "no_result = \<lparr>ir_chat_id = [], ir_run_id = [], ir_status = [], ir_last_event_id = 0, ir_event_cursor = []\<rparr>"

text \<open>The flag of the result is \<open>true\<close> when the entry existed.\<close>

definition reserve_idempotency :: "gtime \<Rightarrow> gtime \<Rightarrow> idempotency_scope \<Rightarrow> store \<Rightarrow> (idempotency_entry \<times> bool) result \<times> store" where
  "reserve_idempotency t1 t2 scope s =
     (case validate_idempotency_scope scope of Some e \<Rightarrow> (Inl e, s) | None \<Rightarrow>
      let s = cleanup t1 s; key = idempotency_key scope in
      case gm_get (st_idempotency s) key of
        Some e \<Rightarrow> if ie_scope e \<noteq> scope then (Inl (idempotency_scope_mismatch scope), s) else (Inr (e, True), s)
      | None \<Rightarrow>
          if int (length (st_idempotency s)) \<ge> lim_idempotency_cap (st_limits s)
          then (Inl (resource_exhausted ''idempotency capacity exceeded'' (idem_scope scope)), s)
          else let e = \<lparr>ie_scope = scope, ie_state = IdemInFlight, ie_result = no_result,
                        ie_created_at = unix_milli t2, ie_updated_at = unix_milli t2\<rparr> in
            (Inr (e, False), s\<lparr>st_idempotency := gm_put key e (st_idempotency s)\<rparr>))"

definition complete_idempotency ::
  "gtime \<Rightarrow> gtime \<Rightarrow> idempotency_scope \<Rightarrow> idempotency_result_ref \<Rightarrow> store \<Rightarrow> idempotency_entry result \<times> store" where
  "complete_idempotency t1 t2 scope result s =
     (case validate_idempotency_scope scope of Some e \<Rightarrow> (Inl e, s) | None \<Rightarrow>
      let s = cleanup t1 s; key = idempotency_key scope in
      case gm_get (st_idempotency s) key of None \<Rightarrow> (Inl (idempotency_unavailable scope), s) | Some e \<Rightarrow>
      if ie_scope e \<noteq> scope then (Inl (idempotency_unavailable scope), s)
      else let e' = e\<lparr>ie_state := IdemSucceeded, ie_result := result, ie_updated_at := unix_milli t2\<rparr> in
        (Inr e', s\<lparr>st_idempotency := gm_put key e' (st_idempotency s)\<rparr>))"

definition release_idempotency :: "gtime \<Rightarrow> idempotency_scope \<Rightarrow> store \<Rightarrow> unit result \<times> store" where
  "release_idempotency t1 scope s =
     (case validate_idempotency_scope scope of Some e \<Rightarrow> (Inl e, s) | None \<Rightarrow>
      let s = cleanup t1 s; key = idempotency_key scope in
      case gm_get (st_idempotency s) key of None \<Rightarrow> (Inl (idempotency_unavailable scope), s) | Some e \<Rightarrow>
      if ie_scope e \<noteq> scope then (Inl (idempotency_unavailable scope), s)
      else if ie_state e \<noteq> IdemInFlight then (Inl (idempotency_unavailable scope), s)
      else (Inr (), s\<lparr>st_idempotency := gm_del key (st_idempotency s)\<rparr>))"

definition idempotency_lookup :: "idempotency_scope \<Rightarrow> store \<Rightarrow> idempotency_entry option" where
  "idempotency_lookup scope s = (case gm_get (st_idempotency s) (idempotency_key scope) of
     None \<Rightarrow> None | Some e \<Rightarrow> if ie_scope e \<noteq> scope then None else Some e)"

subsection \<open>Diagnostics\<close>

definition safe_diagnostic :: "gtime \<Rightarrow> diagnostic_record \<Rightarrow> diagnostic_record" where
  "safe_diagnostic t d = d\<lparr>
     dg_created_at := (if dg_created_at d = 0 then unix_milli t else dg_created_at d),
     dg_session_group_id := safe_label (dg_session_group_id d),
     dg_workspace_id := safe_label (dg_workspace_id d),
     dg_chat_id := safe_label (dg_chat_id d), dg_run_id := safe_label (dg_run_id d),
     dg_request_id := safe_label (dg_request_id d), dg_state := safe_label (dg_state d)\<rparr>"

text \<open>\<open>copy(d, d[1:])\<close> and an assignment to the last place is the tail with the record at its end
  (the capacity is positive, so the slice is not empty there).\<close>

definition record_diagnostic :: "gtime \<Rightarrow> diagnostic_record \<Rightarrow> store \<Rightarrow> store" where
  "record_diagnostic t d s =
     (let r = safe_diagnostic t d; ds = st_diagnostics s in
      if int (length ds) \<ge> lim_diagnostics_cap (st_limits s)
      then s\<lparr>st_diagnostics := tl ds @ [r]\<rparr>
      else s\<lparr>st_diagnostics := ds @ [r]\<rparr>)"

end
