(* ===== verification/Chat_Invariants.thy ===== *)
theory Chat_Invariants
  imports Chat_Store
begin

text \<open>
  The chat state store as a machine: its operations as a datatype, the guarded effects each of them
  is made of, and the invariants every reachable store satisfies: maps with one entry per key,
  capacities, entries under their own keys, and replay buffers within their limits.
\<close>

subsection \<open>The operations\<close>

datatype chat_op =
    OpStartRun gtime gtime run_scope string
  | OpReserveCapacity gtime idempotency_scope
  | OpReleaseCapacity idempotency_scope
  | OpStartRunReserved gtime gtime idempotency_scope run_scope string
  | OpUpdateRunState gtime run_scope run_state
  | OpRestoreRunState gtime run_scope
  | OpBindRunId gtime run_scope string
  | OpCompleteRun gtime run_scope run_state
  | OpAppend gtime gtime gtime event_input
  | OpSubscribe run_scope
  | OpUnsubscribe string u64
  | OpReceive u64
  | OpReplay gtime gtime cursor
  | OpRegisterPending gtime gtime pending_input
  | OpRegisterPendingActive gtime gtime pending_input
  | OpClaimPending gtime gtime run_scope string
  | OpReleaseClaim gtime gtime run_scope string
  | OpPending gtime run_scope string
  | OpResolvePending gtime gtime run_scope string
  | OpReserveIdempotency gtime gtime idempotency_scope
  | OpCompleteIdempotency gtime gtime idempotency_scope idempotency_result_ref
  | OpReleaseIdempotency gtime idempotency_scope
  | OpRecordDiagnostic gtime diagnostic_record

fun chat_step :: "store \<Rightarrow> chat_op \<Rightarrow> store" where
  "chat_step s (OpStartRun t1 t2 sc k) = snd (start_run t1 t2 sc k s)"
| "chat_step s (OpReserveCapacity t1 sc) = snd (reserve_active_run_capacity t1 sc s)"
| "chat_step s (OpReleaseCapacity sc) = snd (release_active_run_capacity sc s)"
| "chat_step s (OpStartRunReserved t1 t2 r sc k) = snd (start_run_with_reservation t1 t2 r sc k s)"
| "chat_step s (OpUpdateRunState t sc st) = snd (update_run_state t sc st s)"
| "chat_step s (OpRestoreRunState t sc) = snd (restore_run_state_after_pending t sc s)"
| "chat_step s (OpBindRunId t sc r) = snd (bind_run_id t sc r s)"
| "chat_step s (OpCompleteRun t sc st) = snd (complete_run t sc st s)"
| "chat_step s (OpAppend t1 t2 t3 i) = snd (append_event t1 t2 t3 i s)"
| "chat_step s (OpSubscribe sc) = snd (subscribe sc s)"
| "chat_step s (OpUnsubscribe k i) = unsubscribe k i s"
| "chat_step s (OpReceive i) = snd (chan_receive i s)"
| "chat_step s (OpReplay t1 t2 c) = snd (replay t1 t2 c s)"
| "chat_step s (OpRegisterPending t1 t2 i) = snd (register_pending t1 t2 i s)"
| "chat_step s (OpRegisterPendingActive t1 t2 i) = snd (register_pending_for_active_run t1 t2 i s)"
| "chat_step s (OpClaimPending t1 t2 sc p) = snd (claim_pending_resolution t1 t2 sc p s)"
| "chat_step s (OpReleaseClaim t1 t2 sc p) = snd (release_pending_resolution_claim t1 t2 sc p s)"
| "chat_step s (OpPending t1 sc p) = snd (pending_lookup t1 sc p s)"
| "chat_step s (OpResolvePending t1 t2 sc p) = snd (resolve_pending t1 t2 sc p s)"
| "chat_step s (OpReserveIdempotency t1 t2 sc) = snd (reserve_idempotency t1 t2 sc s)"
| "chat_step s (OpCompleteIdempotency t1 t2 sc r) = snd (complete_idempotency t1 t2 sc r s)"
| "chat_step s (OpReleaseIdempotency t1 sc) = snd (release_idempotency t1 sc s)"
| "chat_step s (OpRecordDiagnostic t d) = record_diagnostic t d s"


lemma cleanup_simps [simp]:
  "st_epoch (cleanup t s) = st_epoch s" "st_limits (cleanup t s) = st_limits s"
  "st_next_event_id (cleanup t s) = st_next_event_id s"
  "st_next_subscriber_id (cleanup t s) = st_next_subscriber_id s"
  "st_active_runs (cleanup t s) = st_active_runs s" "st_reservations (cleanup t s) = st_reservations s"
  "st_replay (cleanup t s) = st_replay s" "st_subscribers (cleanup t s) = st_subscribers s"
  "st_diagnostics (cleanup t s) = st_diagnostics s" "st_channels (cleanup t s) = st_channels s"
  by (simp_all add: cleanup_def)

lemmas chat_helper_defs = Let_def put_run_def put_pending_def set_pending_def set_subscribers_def
  publish_event_def close_subscribers_def

subsection \<open>The effects an operation can have\<close>

text \<open>
  Every operation is a sequence of the following effects, each with the guard under which the code
  performs it.  The invariants are proved once for the effects.
\<close>

inductive chat_eff :: "store \<Rightarrow> store \<Rightarrow> bool" where
  eff_cleanup: "chat_eff s (cleanup t s)"
| eff_start: "\<lbrakk>validate_run_scope sc = None; \<not> has_active_run s (active_run_key (rs_scope sc));
     active_run_capacity_used s < lim_active_runs_cap (st_limits s)\<rbrakk> \<Longrightarrow>
     chat_eff s (put_run (active_run_key (rs_scope sc)) (new_run t sc k) s)"
| eff_reserve: "\<lbrakk>gm_get (st_reservations s) key = None;
     active_run_capacity_used s < lim_active_runs_cap (st_limits s)\<rbrakk> \<Longrightarrow>
     chat_eff s (s\<lparr>st_reservations := gm_put key x (st_reservations s)\<rparr>)"
| eff_release: "chat_eff s (s\<lparr>st_reservations := gm_del key (st_reservations s)\<rparr>)"
| eff_start_reserved: "\<lbrakk>validate_run_scope sc = None; gm_get (st_reservations s) rk \<noteq> None;
     \<not> has_active_run s (active_run_key (rs_scope sc))\<rbrakk> \<Longrightarrow>
     chat_eff s ((put_run (active_run_key (rs_scope sc)) (new_run t sc k) s)
       \<lparr>st_reservations := gm_del rk (st_reservations s)\<rparr>)"
| eff_set_run: "\<lbrakk>run_of s sc = Some r; rr_scope r' = rr_scope r\<rbrakk> \<Longrightarrow>
     chat_eff s (put_run (active_run_key (rs_scope sc)) r' s)"
| eff_complete: "run_of s sc = Some r \<Longrightarrow> chat_eff s (close_subscribers (replay_key sc)
     (s\<lparr>st_active_runs := gm_del (active_run_key (rs_scope sc)) (st_active_runs s)\<rparr>))"
| eff_append: "\<lbrakk>validate_run_scope (ei_run_scope i) = None; 0 \<le> ei_size_bytes i\<rbrakk> \<Longrightarrow>
     chat_eff s (publish_event (replay_key (ei_run_scope i)) (new_event t2 i s)
       (s\<lparr>st_next_event_id := st_next_event_id s + 1,
          st_replay := gm_put (replay_key (ei_run_scope i))
            (enforce_replay_limits t3 (st_limits s)
               (buffer_add (new_event t2 i s) (buffer_of s (replay_key (ei_run_scope i)))))
            (st_replay s)\<rparr>))"
| eff_sub_id: "chat_eff s (s\<lparr>st_next_subscriber_id := st_next_subscriber_id s + 1\<rparr>)"
| eff_subscribe: "\<lbrakk>run_of s sc = Some r; 0 < q\<rbrakk> \<Longrightarrow>
     chat_eff s (s\<lparr>st_next_subscriber_id := st_next_subscriber_id s + 1,
       st_subscribers := gm_put (replay_key sc)
         (List.insert (st_next_subscriber_id s + 1) (subscribers_of s (replay_key sc))) (st_subscribers s),
       st_channels := gm_put (st_next_subscriber_id s + 1) (chan_new q) (st_channels s)\<rparr>)"
| eff_unsubscribe: "chat_eff s (unsubscribe key i s)"
| eff_receive: "chat_eff s (snd (chan_receive i s))"
| eff_enforce: "\<lbrakk>gm_get (st_replay s) key = Some b0; b = enforce_replay_limits t (st_limits s) b0\<rbrakk> \<Longrightarrow>
     chat_eff s (s\<lparr>st_replay := (if rb_events b = [] then gm_del key (st_replay s)
                                else gm_put key b (st_replay s))\<rparr>)"
| eff_add_pending: "\<lbrakk>validate_run_scope (pi_run_scope i) = None; pi_pending_request_id i \<noteq> [];
     active_pending_count s < lim_pending_cap (st_limits s)\<rbrakk> \<Longrightarrow>
     chat_eff s (put_pending (new_pending t (st_limits s) i) s)"
| eff_set_pending: "\<lbrakk>pending_of s sc pid = Some r; pn_run_scope r' = pn_run_scope r;
     pn_pending_request_id r' = pn_pending_request_id r; pending_live r' \<Longrightarrow> pending_live r\<rbrakk> \<Longrightarrow>
     chat_eff s (set_pending sc pid r' s)"
| eff_add_idem: "\<lbrakk>gm_get (st_idempotency s) (idempotency_key sc) = None;
     int (length (st_idempotency s)) < lim_idempotency_cap (st_limits s); ie_scope e = sc\<rbrakk> \<Longrightarrow>
     chat_eff s (s\<lparr>st_idempotency := gm_put (idempotency_key sc) e (st_idempotency s)\<rparr>)"
| eff_set_idem: "\<lbrakk>gm_get (st_idempotency s) (idempotency_key sc) = Some e0; ie_scope e = sc\<rbrakk> \<Longrightarrow>
     chat_eff s (s\<lparr>st_idempotency := gm_put (idempotency_key sc) e (st_idempotency s)\<rparr>)"
| eff_del_idem: "chat_eff s (s\<lparr>st_idempotency := gm_del key (st_idempotency s)\<rparr>)"
| eff_diagnostic: "chat_eff s (record_diagnostic t d s)"

abbreviation chat_effs :: "store \<Rightarrow> store \<Rightarrow> bool" where
  "chat_effs \<equiv> chat_eff\<^sup>*\<^sup>*"

lemma eff1: "chat_eff s t \<Longrightarrow> chat_effs s t"
  by (rule r_into_rtranclp)

lemma eff_after_cleanup: "chat_eff (cleanup t s) u \<Longrightarrow> chat_effs s u"
  by (meson eff_cleanup eff1 rtranclp.rtrancl_into_rtrancl)

lemma eff_cleanup_only: "chat_effs s (cleanup t s)"
  by (rule eff1 [OF eff_cleanup])

lemma effs_start_run: "chat_effs s (snd (start_run t1 t2 sc k s))"
  by (auto simp: start_run_def Let_def eff_cleanup_only split: option.splits
      intro!: eff_after_cleanup [OF eff_start])

lemma effs_reserve: "chat_effs s (snd (reserve_active_run_capacity t1 sc s))"
  by (auto simp: reserve_active_run_capacity_def Let_def eff_cleanup_only split: option.splits
      simp del: cleanup_simps intro!: eff_after_cleanup [OF eff_reserve])

lemma effs_release: "chat_effs s (snd (release_active_run_capacity sc s))"
  by (auto simp: release_active_run_capacity_def split: option.splits intro!: eff1 eff_release)

lemma effs_start_reserved: "chat_effs s (snd (start_run_with_reservation t1 t2 r sc k s))"
  by (auto simp: start_run_with_reservation_def Let_def eff_cleanup_only split: option.splits
      simp del: cleanup_simps intro!: eff_after_cleanup [OF eff_start_reserved])

lemma effs_update_run: "chat_effs s (snd (update_run_state t sc st s))"
  by (auto simp: update_run_state_def Let_def split: option.splits intro!: eff1 eff_set_run)

lemma effs_restore_run: "chat_effs s (snd (restore_run_state_after_pending t sc s))"
  by (auto simp: restore_run_state_after_pending_def Let_def split: option.splits intro!: eff1 eff_set_run)

lemma effs_bind_run: "chat_effs s (snd (bind_run_id t sc r s))"
  by (auto simp: bind_run_id_def Let_def split: option.splits intro!: eff1 eff_set_run)

lemma effs_complete: "chat_effs s (snd (complete_run t sc st s))"
  by (auto simp: complete_run_def split: option.splits intro!: eff1 eff_complete)

lemma effs_append: "chat_effs s (snd (append_event t1 t2 t3 i s))"
proof -
  have "ev_event_id (new_event t2 i s') = st_next_event_id s' + 1" for s'
    by (simp add: new_event_def)
  then show ?thesis
    by (auto simp: append_event_def Let_def split: option.splits simp del: cleanup_simps
        intro!: eff_after_cleanup [OF eff_append])
qed

lemma effs_subscribe: "limits_ok (st_limits s) \<Longrightarrow> chat_effs s (snd (subscribe sc s))"
proof -
  have eq: "run_of (s\<lparr>st_next_subscriber_id := x\<rparr>) sc = run_of s sc"
    "subscribers_of (s\<lparr>st_next_subscriber_id := x\<rparr>) k = subscribers_of s k" for x k
    by (simp_all add: run_of_def subscribers_of_def)
  assume "limits_ok (st_limits s)"
  then show ?thesis
    by (auto simp: subscribe_def Let_def limits_ok_def eq eff1 eff_sub_id split: option.splits
        intro!: eff1 eff_subscribe)
qed

lemma effs_replay: "chat_effs s (snd (replay t1 t2 c s))"
proof -
  let ?k = "replay_key (cu_run_scope c)"
  have "chat_effs s ((cleanup t1 s)\<lparr>st_replay := (if rb_events b = [] then gm_del ?k (st_replay s)
      else gm_put ?k b (st_replay s))\<rparr>)"
    if "gm_get (st_replay s) ?k = Some b0" "b = enforce_replay_limits t2 (st_limits s) b0" for b b0
    using eff_after_cleanup [OF eff_enforce [of "cleanup t1 s" ?k b0 b t2]] that by (simp split: if_splits)
  from this [OF _ refl] show ?thesis
    by (auto simp: replay_def Let_def eff_cleanup_only split: option.splits)
qed

lemma effs_register: "chat_effs s (snd (register_pending t1 t2 i s))"
  by (auto simp: register_pending_def Let_def eff_cleanup_only split: option.splits
      simp del: cleanup_simps intro!: eff_after_cleanup [OF eff_add_pending])

lemma effs_register_active: "chat_effs s (snd (register_pending_for_active_run t1 t2 i s))"
proof -
  have two: "chat_effs s (put_run (active_run_key (rs_scope (pi_run_scope i)))
      (a\<lparr>rr_state := RunStatePending, rr_updated_at := u\<rparr>) (put_pending p s'))"
    if "chat_effs s s'" "chat_eff s' (put_pending p s')" "run_of s' (pi_run_scope i) = Some a" for s' p a u
  proof -
    have "run_of (put_pending p s') (pi_run_scope i) = Some a"
      using that(3) by (simp add: run_of_def put_pending_def)
    then have "chat_eff (put_pending p s') (put_run (active_run_key (rs_scope (pi_run_scope i)))
      (a\<lparr>rr_state := RunStatePending, rr_updated_at := u\<rparr>) (put_pending p s'))"
      by (rule eff_set_run) simp
    with that(1,2) show ?thesis by (meson rtranclp.rtrancl_into_rtrancl)
  qed
  show ?thesis
    by (auto simp: register_pending_for_active_run_def Let_def eff_cleanup_only split: option.splits
        simp del: cleanup_simps intro!: two [OF eff_cleanup_only] eff_add_pending)
qed

lemma effs_claim: "chat_effs s (snd (claim_pending_resolution t1 t2 sc p s))"
  by (auto simp: claim_pending_resolution_def Let_def eff_cleanup_only split: option.splits
      intro!: eff_after_cleanup [OF eff_set_pending] simp: pending_live_def)

lemma effs_release_claim: "chat_effs s (snd (release_pending_resolution_claim t1 t2 sc p s))"
  by (auto simp: release_pending_resolution_claim_def Let_def eff_cleanup_only split: option.splits
      intro!: eff_after_cleanup [OF eff_set_pending] simp: pending_live_def)

lemma effs_pending: "chat_effs s (snd (pending_lookup t1 sc p s))"
  by (auto simp: pending_lookup_def Let_def eff_cleanup_only split: option.splits)

lemma effs_resolve: "chat_effs s (snd (resolve_pending t1 t2 sc p s))"
  by (auto simp: resolve_pending_def Let_def eff_cleanup_only split: option.splits
      intro!: eff_after_cleanup [OF eff_set_pending] simp: pending_live_def)

lemma effs_reserve_idem: "chat_effs s (snd (reserve_idempotency t1 t2 sc s))"
  by (auto simp: reserve_idempotency_def Let_def eff_cleanup_only split: option.splits
      simp del: cleanup_simps intro!: eff_after_cleanup [OF eff_add_idem])

lemma effs_complete_idem: "chat_effs s (snd (complete_idempotency t1 t2 sc r s))"
  by (auto simp: complete_idempotency_def Let_def eff_cleanup_only split: option.splits
      simp del: cleanup_simps intro!: eff_after_cleanup [OF eff_set_idem])

lemma effs_release_idem: "chat_effs s (snd (release_idempotency t1 sc s))"
  by (auto simp: release_idempotency_def Let_def eff_cleanup_only split: option.splits
      simp del: cleanup_simps intro!: eff_after_cleanup [OF eff_del_idem])

lemmas chat_effs_intros = effs_start_run effs_reserve effs_release effs_start_reserved effs_update_run
  effs_restore_run effs_bind_run effs_complete effs_append effs_subscribe effs_replay effs_register
  effs_register_active effs_claim effs_release_claim effs_pending effs_resolve effs_reserve_idem
  effs_complete_idem effs_release_idem

lemma chat_step_effs: "limits_ok (st_limits s) \<Longrightarrow> chat_effs s (chat_step s op)"
  by (cases op) (simp_all add: chat_effs_intros eff1 eff_unsubscribe eff_receive eff_diagnostic)


subsection \<open>Well-formed maps\<close>

definition maps_ok :: "store \<Rightarrow> bool" where
  "maps_ok s \<longleftrightarrow> gm_wf (st_active_runs s) \<and> gm_wf (st_reservations s) \<and> gm_wf (st_replay s) \<and>
     gm_wf (st_subscribers s) \<and> gm_wf (st_pending s) \<and> gm_wf (st_idempotency s) \<and> gm_wf (st_channels s)"

lemma gm_wf_fold: "(\<And>x m. gm_wf m \<Longrightarrow> gm_wf (f x m)) \<Longrightarrow> gm_wf m \<Longrightarrow> gm_wf (fold f xs m)"
  by (induction xs arbitrary: m) auto

lemma gm_wf_chan_send [simp]: "gm_wf m \<Longrightarrow> gm_wf (chan_send e i m)"
  by (simp add: chan_send_def split: option.splits)

lemma gm_wf_chan_close [simp]: "gm_wf m \<Longrightarrow> gm_wf (chan_close i m)"
  by (simp add: chan_close_def split: option.splits)

lemma maps_ok_eff: "chat_eff s t \<Longrightarrow> maps_ok s \<Longrightarrow> maps_ok t"
  by (induction rule: chat_eff.induct)
    (auto simp: maps_ok_def cleanup_def chat_helper_defs unsubscribe_def chan_receive_def
       record_diagnostic_def intro!: gm_wf_fold split: option.splits list.splits)

subsection \<open>Capacities\<close>

definition caps_ok :: "store \<Rightarrow> bool" where
  "caps_ok s \<longleftrightarrow> active_run_capacity_used s \<le> lim_active_runs_cap (st_limits s) \<and>
     active_pending_count s \<le> lim_pending_cap (st_limits s) \<and>
     int (length (st_idempotency s)) \<le> lim_idempotency_cap (st_limits s) \<and>
     int (length (st_diagnostics s)) \<le> lim_diagnostics_cap (st_limits s)"

lemma cleanup_record_live: "cleanup_pending_record now ttl r = Some r' \<Longrightarrow> pending_live r' \<Longrightarrow> pending_live r"
  by (auto simp: cleanup_pending_record_def pending_live_def Let_def split: if_splits)

lemma cleanup_counts:
  "active_pending_count (cleanup t s) \<le> active_pending_count s"
  "length (st_idempotency (cleanup t s)) \<le> length (st_idempotency s)"
proof -
  have "gm_count pending_live (gm_filter_map (cleanup_pending_record t ttl) m) \<le> gm_count pending_live m" for ttl m
    by (rule gm_count_filter_map_le) (rule cleanup_record_live)
  then show "active_pending_count (cleanup t s) \<le> active_pending_count s"
    by (simp add: active_pending_count_def cleanup_def)
  show "length (st_idempotency (cleanup t s)) \<le> length (st_idempotency s)"
    by (simp add: cleanup_def length_gm_filter_map_le)
qed

definition core_ok :: "store \<Rightarrow> bool" where
  "core_ok s \<longleftrightarrow> limits_ok (st_limits s) \<and> maps_ok s \<and> caps_ok s"

lemma used_put: "length (gm_put k v (m :: ('k, 'v) gomap)) + n \<le> Suc (length m + n)"
  using length_gm_put_le [of k v m] by simp

lemma caps_ok_eff: "chat_eff s t \<Longrightarrow> core_ok s \<Longrightarrow> caps_ok t"
proof (induction rule: chat_eff.induct)
  case (eff_cleanup s t)
  then show ?case using cleanup_counts [of t s]
    by (simp add: core_ok_def caps_ok_def active_run_capacity_used_def)
next
  case (eff_start_reserved sc s rk t k)
  have "length (gm_del rk (st_reservations s)) < length (st_reservations s)"
    using eff_start_reserved by (intro gm.remove_len) (auto simp: core_ok_def maps_ok_def)
  then show ?case using eff_start_reserved length_gm_put_le [of "active_run_key (rs_scope sc)" "new_run t sc k" "st_active_runs s"]
    by (simp add: core_ok_def caps_ok_def put_run_def active_run_capacity_used_def active_pending_count_def)
next
  case (eff_set_run s sc r r')
  then have "gm_get (st_active_runs s) (active_run_key (rs_scope sc)) \<noteq> None"
    by (auto simp: run_of_def split: option.splits)
  from gm.overwrite_len [OF this] eff_set_run show ?case
    by (simp add: core_ok_def caps_ok_def put_run_def active_run_capacity_used_def active_pending_count_def)
next
  case (eff_set_pending s sc pid r r')
  from gm_count_put_same [of "st_pending s" "pending_key sc pid" r pending_live r'] eff_set_pending
  show ?case by (simp add: core_ok_def caps_ok_def set_pending_def pending_of_def
      active_run_capacity_used_def active_pending_count_def)
next
  case (eff_set_idem s sc e0 e)
  then show ?case
    by (simp add: core_ok_def caps_ok_def length_gm_put active_run_capacity_used_def active_pending_count_def)
next
  case (eff_complete s sc r)
  then show ?case using length_gm_del_le [of "active_run_key (rs_scope sc)" "st_active_runs s"]
    by (simp add: core_ok_def caps_ok_def close_subscribers_def active_run_capacity_used_def active_pending_count_def)
next
  case (eff_release s key)
  then show ?case using length_gm_del_le [of key "st_reservations s"]
    by (simp add: core_ok_def caps_ok_def active_run_capacity_used_def active_pending_count_def)
next
  case (eff_del_idem s key)
  then show ?case using length_gm_del_le [of key "st_idempotency s"]
    by (simp add: core_ok_def caps_ok_def active_run_capacity_used_def active_pending_count_def)
next
  case (eff_start sc s t k)
  then show ?case using length_gm_put_le [of "active_run_key (rs_scope sc)" "new_run t sc k" "st_active_runs s"]
    by (simp add: core_ok_def caps_ok_def put_run_def active_run_capacity_used_def active_pending_count_def)
next
  case (eff_reserve s key x)
  then show ?case using length_gm_put_le [of key x "st_reservations s"]
    by (simp add: core_ok_def caps_ok_def active_run_capacity_used_def active_pending_count_def)
next
  case (eff_add_idem s sc e)
  then show ?case using length_gm_put_le [of "idempotency_key sc" e "st_idempotency s"]
    by (simp add: core_ok_def caps_ok_def active_run_capacity_used_def active_pending_count_def)
next
  case (eff_add_pending i s t)
  then show ?case
    using gm_count_put_le [of pending_live "pending_key (pi_run_scope i) (pi_pending_request_id i)"
        "new_pending t (st_limits s) i" "st_pending s"]
    by (simp add: core_ok_def caps_ok_def put_pending_def new_pending_def Let_def
        active_run_capacity_used_def active_pending_count_def)
next
  case (eff_diagnostic s t d)
  then show ?case
    by (cases "st_diagnostics s") (auto simp: core_ok_def caps_ok_def record_diagnostic_def Let_def limits_ok_def
        active_run_capacity_used_def active_pending_count_def)
qed (auto simp: core_ok_def caps_ok_def active_run_capacity_used_def active_pending_count_def
      chat_helper_defs unsubscribe_def chan_receive_def split: option.splits list.splits)

lemma limits_eff [simp]: "chat_eff s t \<Longrightarrow> st_limits t = st_limits s \<and> st_epoch t = st_epoch s"
  by (induction rule: chat_eff.induct)
    (auto simp: cleanup_def chat_helper_defs unsubscribe_def chan_receive_def
       record_diagnostic_def split: option.splits list.splits)

lemma core_ok_eff: "chat_eff s t \<Longrightarrow> core_ok s \<Longrightarrow> core_ok t"
  using caps_ok_eff maps_ok_eff limits_eff by (simp add: core_ok_def)

lemma effs_inv:
  assumes "chat_effs s t" "P s" "\<And>s t. chat_eff s t \<Longrightarrow> P s \<Longrightarrow> P t"
  shows "P t"
  using assms(1,2) by (induction rule: rtranclp.induct) (auto intro: assms(3))

interpretation core: invariant_machine chat_step core_ok
  by unfold_locales (metis chat_step_effs core_ok_def core_ok_eff effs_inv)


subsection \<open>Entries sit under their own keys\<close>

definition buffer_keyed :: "string \<Rightarrow> string \<Rightarrow> replay_buffer \<Rightarrow> bool" where
  "buffer_keyed epoch k b \<longleftrightarrow>
     (\<forall>e\<in>set (rb_events b). replay_key (ev_run_scope e) = k \<and> ev_epoch e = epoch \<and> 0 \<le> ev_size_bytes e)"

definition keys_ok :: "store \<Rightarrow> bool" where
  "keys_ok s \<longleftrightarrow> gm_all (\<lambda>k r. k = active_run_key (rr_scope r)) (st_active_runs s) \<and>
     gm_all (\<lambda>k r. k = pending_key (pn_run_scope r) (pn_pending_request_id r)) (st_pending s) \<and>
     gm_all (\<lambda>k e. k = idempotency_key (ie_scope e)) (st_idempotency s) \<and>
     gm_all (buffer_keyed (st_epoch s)) (st_replay s)"

lemma enforce_loop_suffix: "\<exists>n. rb_events (enforce_loop now l es bytes ev) = drop n es"
proof (induction es arbitrary: bytes ev)
  case (Cons e es)
  show ?case
  proof (cases "replay_evicts now l (e # es) bytes e")
    case True
    obtain n where "rb_events (enforce_loop now l es (i64 (bytes - ev_size_bytes e)) (ev_event_id e + 1)) = drop n es"
      using Cons.IH by blast
    with True show ?thesis by (intro exI [of _ "Suc n"]) simp
  next
    case False
    then show ?thesis by (intro exI [of _ 0]) simp
  qed
qed simp

lemma enforce_suffix: "\<exists>n. rb_events (enforce_replay_limits now l b) = drop n (rb_events b)"
  by (simp add: enforce_replay_limits_def enforce_loop_suffix)

lemma set_enforce: "set (rb_events (enforce_replay_limits now l b)) \<subseteq> set (rb_events b)"
  using enforce_suffix [of now l b] by (auto dest: in_set_dropD)

lemma buffer_keyed_enforce: "buffer_keyed ep k b \<Longrightarrow> buffer_keyed ep k (enforce_replay_limits now l b)"
  using set_enforce [of now l b] by (auto simp: buffer_keyed_def)

lemma buffer_keyed_of: "gm_all (buffer_keyed ep) (st_replay s) \<Longrightarrow> buffer_keyed ep k (buffer_of s k)"
  by (auto simp: buffer_of_def empty_buffer_def buffer_keyed_def dest: gm_allD split: option.splits)

lemma cleanup_pending_same:
  "cleanup_pending_record t ttl r = Some r' \<Longrightarrow> pn_run_scope r' = pn_run_scope r \<and>
     pn_pending_request_id r' = pn_pending_request_id r"
  by (auto simp: cleanup_pending_record_def Let_def split: if_splits)

lemma keys_ok_eff: "chat_eff s t \<Longrightarrow> keys_ok s \<Longrightarrow> keys_ok t"
proof (induction rule: chat_eff.induct)
  case (eff_cleanup s t)
  then show ?case
    by (auto simp: keys_ok_def cleanup_def cleanup_idempotency_entry_def split: if_splits
        intro!: gm_all_filter_map dest: cleanup_pending_same)
next
  case (eff_append i s t2 t3)
  let ?e = "new_event t2 i s" and ?k = "replay_key (ei_run_scope i)"
  from eff_append have "buffer_keyed (st_epoch s) ?k (buffer_add ?e (buffer_of s ?k))"
    using buffer_keyed_of [of "st_epoch s" s ?k]
    by (auto simp: keys_ok_def buffer_keyed_def buffer_add_def new_event_def)
  with eff_append show ?case
    by (auto simp: keys_ok_def publish_event_def Let_def set_subscribers_def intro!: gm_all_put buffer_keyed_enforce)
next
  case (eff_set_run s sc r r')
  then show ?case
    by (auto simp: keys_ok_def put_run_def run_of_def split: option.splits if_splits intro!: gm_all_put dest: gm_allD)
next
  case (eff_set_pending s sc pid r r')
  then show ?case
    by (auto simp: keys_ok_def set_pending_def pending_of_def intro!: gm_all_put dest: gm_allD)
next
  case (eff_enforce s key b0 b t)
  then show ?case
    by (auto simp: keys_ok_def intro!: gm_all_put buffer_keyed_enforce dest: gm_allD)
next
  case (eff_unsubscribe s k i)
  then show ?case
    by (auto simp: keys_ok_def unsubscribe_def set_subscribers_def split: option.splits)
next
  case (eff_receive s i)
  then show ?case
    by (auto simp: keys_ok_def chan_receive_def split: option.splits list.splits)
next
  case (eff_diagnostic s t d)
  then show ?case by (auto simp: keys_ok_def record_diagnostic_def Let_def)
qed (auto simp: keys_ok_def put_run_def put_pending_def new_run_def new_pending_def Let_def
      close_subscribers_def intro!: gm_all_put)

subsection \<open>Replay buffers stay within their limits\<close>

definition buffer_ok :: "limits \<Rightarrow> replay_buffer \<Rightarrow> bool" where
  "buffer_ok l b \<longleftrightarrow> rb_bytes b = i64 (sum_list (map ev_size_bytes (rb_events b))) \<and>
     int (length (rb_events b)) \<le> lim_replay_max_events l \<and>
     (rb_events b \<noteq> [] \<longrightarrow> rb_bytes b \<le> lim_replay_max_bytes l)"

lemma enforce_loop_ok:
  assumes "bytes = i64 (sum_list (map ev_size_bytes es))" "0 < lim_replay_max_events l"
  shows "buffer_ok l (enforce_loop now l es bytes ev)"
  using assms
proof (induction es arbitrary: bytes ev)
  case Nil
  then show ?case by (simp add: buffer_ok_def)
next
  case (Cons e es)
  have "i64 (bytes - ev_size_bytes e) = i64 (sum_list (map ev_size_bytes es))"
    using Cons.prems by (simp add: i64_sub)
  then have "buffer_ok l (enforce_loop now l es (i64 (bytes - ev_size_bytes e)) (ev_event_id e + 1))"
    using Cons.IH Cons.prems(2) by blast
  with Cons.prems show ?case
    by (cases "replay_evicts now l (e # es) bytes e") (auto simp: buffer_ok_def replay_evicts_def)
qed

definition buffers_ok :: "store \<Rightarrow> bool" where
  "buffers_ok s \<longleftrightarrow> limits_ok (st_limits s) \<and> gm_all (\<lambda>k. buffer_ok (st_limits s)) (st_replay s)"

lemma buffer_ok_enforce:
  "limits_ok l \<Longrightarrow> rb_bytes b = i64 (sum_list (map ev_size_bytes (rb_events b))) \<Longrightarrow>
    buffer_ok l (enforce_replay_limits now l b)"
  by (simp add: enforce_replay_limits_def enforce_loop_ok limits_ok_def)

lemma buffer_of_bytes: "gm_all (\<lambda>k. buffer_ok l) (st_replay s) \<Longrightarrow>
    rb_bytes (buffer_of s k) = i64 (sum_list (map ev_size_bytes (rb_events (buffer_of s k))))"
  by (auto simp: buffer_of_def buffer_ok_def empty_buffer_def i64_def dest: gm_allD split: option.splits)

lemma buffers_ok_eff: "chat_eff s t \<Longrightarrow> buffers_ok s \<Longrightarrow> buffers_ok t"
proof (induction rule: chat_eff.induct)
  case (eff_append i s t2 t3)
  let ?e = "new_event t2 i s" and ?b = "buffer_of s (replay_key (ei_run_scope i))"
  have "rb_bytes (buffer_add ?e ?b) = i64 (sum_list (map ev_size_bytes (rb_events (buffer_add ?e ?b))))"
    using buffer_of_bytes [of "st_limits s" s] eff_append by (simp add: buffers_ok_def buffer_add_def i64_add)
  with eff_append show ?case
    by (auto simp: buffers_ok_def publish_event_def Let_def set_subscribers_def
        intro!: gm_all_put buffer_ok_enforce)
next
  case (eff_enforce s key b0 b t)
  then show ?case
    by (auto simp: buffers_ok_def buffer_ok_def intro!: gm_all_put buffer_ok_enforce dest: gm_allD)
qed (auto simp: buffers_ok_def cleanup_def chat_helper_defs unsubscribe_def chan_receive_def
       record_diagnostic_def split: option.splits list.splits)

end
