(* ===== verification/Event_Log.thy ===== *)
theory Event_Log
  imports Prelude
begin

text \<open>
  The contract of a numbered event log that a client reads with a cursor: events carry increasing
  ids, the oldest events may have been evicted from the buffer, and a read returns the events after
  the cursor.  The chat state store and the task registry both promise it; what a client relies on
  (a cursor that is not older than the buffer misses nothing, and paging neither repeats nor skips)
  is proved here once.
\<close>

definition ids_increase :: "('e \<Rightarrow> u64) \<Rightarrow> 'e list \<Rightarrow> bool" where
  "ids_increase eid es \<longleftrightarrow> sorted_wrt (\<lambda>a b. eid a < eid b) es"

lemma ids_increase_drop: "ids_increase eid es \<Longrightarrow> ids_increase eid (drop n es)"
  by (simp add: ids_increase_def sorted_wrt_drop)

lemma ids_increase_filter: "ids_increase eid es \<Longrightarrow> ids_increase eid (filter P es)"
  by (simp add: ids_increase_def sorted_wrt_filter)

text \<open>Consecutive ids that do not wrap increase.\<close>

lemma consecutive_ids_increase:
  assumes "\<And>i. i < length h \<Longrightarrow> eid (h ! i) = of_nat (Suc i)" "length h < 2 ^ 64"
  shows "ids_increase eid h"
  unfolding ids_increase_def sorted_wrt_iff_nth_less
proof (intro allI impI)
  fix i j assume ij: "i < j" "j < length h"
  have "unat (of_nat (Suc k) :: u64) = Suc k" if "k < length h" for k
    using that assms(2) by (subst unat_of_nat) (simp add: take_bit_nat_eq_self_iff)
  with ij assms(1) show "eid (h ! i) < eid (h ! j)"
    by (simp add: word_less_nat_alt)
qed

lemma consecutive_id_pos:
  assumes "i < length h" "eid (h ! i) = of_nat (Suc i)" "length h < 2 ^ 64"
  shows "0 < (eid (h ! i) :: u64)"
proof -
  have "unat (of_nat (Suc i) :: u64) = Suc i"
    using assms(1,3) by (subst unat_of_nat) (simp add: take_bit_nat_eq_self_iff)
  with assms(2) show ?thesis by (simp add: word_less_nat_alt)
qed

locale event_log =
  fixes eid :: "'e \<Rightarrow> u64"
    and after :: "u64 \<Rightarrow> 'e list \<Rightarrow> 'e list"
  assumes after_filter: "after c es = filter (\<lambda>e. c < eid e) es"
begin

lemma after_append: "after c (xs @ ys) = after c xs @ after c ys"
  by (simp add: after_filter)

lemma after_none: "(\<And>e. e \<in> set es \<Longrightarrow> eid e \<le> c) \<Longrightarrow> after c es = []"
  by (simp add: after_filter filter_empty_conv leD)

lemma after_all: "(\<And>e. e \<in> set es \<Longrightarrow> c < eid e) \<Longrightarrow> after c es = es"
  by (simp add: after_filter)

text \<open>A cursor at or after the event before the oldest buffered one misses nothing.\<close>

lemma buffer_complete:
  assumes inc: "ids_increase eid h" and buf: "buf = drop n h" "buf \<noteq> []"
    and pos: "0 < eid (hd buf)" and c: "\<not> c < eid (hd buf) - 1"
  shows "after c buf = after c h"
proof -
  have lt: "eid e < eid (hd buf)" if "e \<in> set (take n h)" for e
  proof -
    have "sorted_wrt (\<lambda>a b. eid a < eid b) (take n h @ buf)"
      using inc buf(1) by (simp add: ids_increase_def)
    then show ?thesis using that buf(2) by (auto simp: sorted_wrt_append)
  qed
  have "eid e \<le> c" if "e \<in> set (take n h)" for e
  proof -
    have "eid e \<le> eid (hd buf) - 1" using lt [OF that] u64_pred_less [OF pos] by blast
    also have "\<dots> \<le> c" using c by simp
    finally show ?thesis .
  qed
  then have "after c (take n h) = []" by (rule after_none)
  then show ?thesis using after_append [of c "take n h" "drop n h"] buf(1) by simp
qed

text \<open>Paging: reading on from the last event of a page continues exactly where the page stopped.\<close>

lemma paging:
  assumes inc: "ids_increase eid h" and page: "after c h = xs @ ys" "xs \<noteq> []"
  shows "after (eid (last xs)) h = ys"
proof -
  have s: "sorted_wrt (\<lambda>a b. eid a < eid b) (xs @ ys)"
    using inc page(1) by (metis after_filter ids_increase_def sorted_wrt_filter)
  have xs: "eid e \<le> eid (last xs)" if "e \<in> set xs" for e
    using s that page(2) by (cases xs rule: rev_cases) (auto simp: sorted_wrt_append)
  have ys: "eid (last xs) < eid e" if "e \<in> set ys" for e
    using s that page(2) by (auto simp: sorted_wrt_append)
  have "last xs \<in> set (after c h)" using page by simp
  then have last: "c < eid (last xs)" by (simp add: after_filter)
  have "after (eid (last xs)) h = after (eid (last xs)) (after c h)"
    using last by (auto simp: after_filter intro!: filter_cong)
  also have "\<dots> = after (eid (last xs)) xs @ after (eid (last xs)) ys"
    by (simp add: page(1) after_append)
  also have "\<dots> = ys"
    using after_none [of xs] after_all [of ys] xs ys by simp
  finally show ?thesis .
qed

end

end
