(* ===== verification/Chat_Delivery.thy ===== *)
theory Chat_Delivery
  imports Chat_Invariants Event_Log
begin

text \<open>
  Event delivery: the history of the appended events is a ghost of a run of the store, the replay
  buffer of a chat run is a suffix of its part of the history, and a cursor read is complete.  A
  live subscriber receives every event of its run in order until it is dropped.
\<close>

subsection \<open>The history of appended events\<close>

fun appended_by :: "store \<Rightarrow> chat_op \<Rightarrow> event_record list" where
  "appended_by s (OpAppend t1 t2 t3 i) =
     (case fst (append_event t1 t2 t3 i s) of Inl _ \<Rightarrow> [] | Inr e \<Rightarrow> [e])"
| "appended_by s _ = []"

fun history :: "store \<Rightarrow> chat_op list \<Rightarrow> event_record list" where
  "history s [] = []"
| "history s (op # ops) = appended_by s op @ history (chat_step s op) ops"

abbreviation chat_run :: "store \<Rightarrow> chat_op list \<Rightarrow> store" where
  "chat_run \<equiv> foldl chat_step"

definition run_events :: "string \<Rightarrow> event_record list \<Rightarrow> event_record list" where
  "run_events k h = filter (\<lambda>e. replay_key (ev_run_scope e) = k) h"

definition log_ok :: "event_record list \<Rightarrow> store \<Rightarrow> bool" where
  "log_ok h s \<longleftrightarrow> st_next_event_id s = of_nat (length h) \<and>
     (\<forall>i<length h. ev_event_id (h ! i) = of_nat (Suc i)) \<and>
     (\<forall>k. \<exists>n. rb_events (buffer_of s k) = drop n (run_events k h))"

lemma frame_replay:
  "st_replay (snd (start_run t1 t2 sc ik s)) = st_replay s \<and> st_next_event_id (snd (start_run t1 t2 sc ik s)) = st_next_event_id s"
  "st_replay (snd (reserve_active_run_capacity t1 is s)) = st_replay s \<and> st_next_event_id (snd (reserve_active_run_capacity t1 is s)) = st_next_event_id s"
  "st_replay (snd (release_active_run_capacity is s)) = st_replay s \<and> st_next_event_id (snd (release_active_run_capacity is s)) = st_next_event_id s"
  by (simp_all add: start_run_def reserve_active_run_capacity_def release_active_run_capacity_def
      put_run_def Let_def split: option.splits)

lemma frame_replay2:
  "st_replay (snd (start_run_with_reservation t1 t2 is sc ik s)) = st_replay s \<and> st_next_event_id (snd (start_run_with_reservation t1 t2 is sc ik s)) = st_next_event_id s"
  "st_replay (snd (update_run_state t1 sc rst s)) = st_replay s \<and> st_next_event_id (snd (update_run_state t1 sc rst s)) = st_next_event_id s"
  "st_replay (snd (restore_run_state_after_pending t1 sc s)) = st_replay s \<and> st_next_event_id (snd (restore_run_state_after_pending t1 sc s)) = st_next_event_id s"
  "st_replay (snd (bind_run_id t1 sc r s)) = st_replay s \<and> st_next_event_id (snd (bind_run_id t1 sc r s)) = st_next_event_id s"
  "st_replay (snd (complete_run t1 sc rst s)) = st_replay s \<and> st_next_event_id (snd (complete_run t1 sc rst s)) = st_next_event_id s"
  by (simp_all add: start_run_with_reservation_def update_run_state_def restore_run_state_after_pending_def
      bind_run_id_def complete_run_def put_run_def close_subscribers_def Let_def split: option.splits)

lemma frame_replay3:
  "st_replay (snd (subscribe sc s)) = st_replay s \<and> st_next_event_id (snd (subscribe sc s)) = st_next_event_id s"
  "st_replay (unsubscribe k i s) = st_replay s \<and> st_next_event_id (unsubscribe k i s) = st_next_event_id s"
  "st_replay (snd (chan_receive i s)) = st_replay s \<and> st_next_event_id (snd (chan_receive i s)) = st_next_event_id s"
  "st_replay (record_diagnostic t1 d s) = st_replay s \<and> st_next_event_id (record_diagnostic t1 d s) = st_next_event_id s"
  by (simp_all add: subscribe_def unsubscribe_def chan_receive_def record_diagnostic_def
      set_subscribers_def Let_def split: option.splits list.splits)

lemma frame_replay4:
  "st_replay (snd (register_pending t1 t2 pin s)) = st_replay s \<and> st_next_event_id (snd (register_pending t1 t2 pin s)) = st_next_event_id s"
  "st_replay (snd (register_pending_for_active_run t1 t2 pin s)) = st_replay s \<and> st_next_event_id (snd (register_pending_for_active_run t1 t2 pin s)) = st_next_event_id s"
  "st_replay (snd (claim_pending_resolution t1 t2 sc p s)) = st_replay s \<and> st_next_event_id (snd (claim_pending_resolution t1 t2 sc p s)) = st_next_event_id s"
  "st_replay (snd (release_pending_resolution_claim t1 t2 sc p s)) = st_replay s \<and> st_next_event_id (snd (release_pending_resolution_claim t1 t2 sc p s)) = st_next_event_id s"
  by (simp_all add: register_pending_def register_pending_for_active_run_def claim_pending_resolution_def
      release_pending_resolution_claim_def put_run_def put_pending_def set_pending_def Let_def split: option.splits)

lemma frame_replay5:
  "st_replay (snd (pending_lookup t1 sc p s)) = st_replay s \<and> st_next_event_id (snd (pending_lookup t1 sc p s)) = st_next_event_id s"
  "st_replay (snd (resolve_pending t1 t2 sc p s)) = st_replay s \<and> st_next_event_id (snd (resolve_pending t1 t2 sc p s)) = st_next_event_id s"
  "st_replay (snd (reserve_idempotency t1 t2 is s)) = st_replay s \<and> st_next_event_id (snd (reserve_idempotency t1 t2 is s)) = st_next_event_id s"
  "st_replay (snd (complete_idempotency t1 t2 is res s)) = st_replay s \<and> st_next_event_id (snd (complete_idempotency t1 t2 is res s)) = st_next_event_id s"
  "st_replay (snd (release_idempotency t1 is s)) = st_replay s \<and> st_next_event_id (snd (release_idempotency t1 is s)) = st_next_event_id s"
  by (simp_all add: pending_lookup_def resolve_pending_def reserve_idempotency_def complete_idempotency_def
      release_idempotency_def set_pending_def Let_def split: option.splits)

lemmas frame_replays = frame_replay frame_replay2 frame_replay3 frame_replay4 frame_replay5

lemma log_ok_frame:
  assumes "log_ok h s" "st_replay t = st_replay s" "st_next_event_id t = st_next_event_id s"
  shows "log_ok h t"
  using assms by (simp add: log_ok_def buffer_of_def)

lemma log_ok_enforce:
  assumes "log_ok h s" "gm_get (st_replay s) key = Some b0"
    "t = s\<lparr>st_replay := (if rb_events (enforce_replay_limits u l b0) = [] then gm_del key (st_replay s)
           else gm_put key (enforce_replay_limits u l b0) (st_replay s))\<rparr>"
  shows "log_ok h t"
proof -
  have "\<exists>n. rb_events (buffer_of t k) = drop n (run_events k h)" for k
  proof (cases "k = key")
    case False
    with assms show ?thesis by (auto simp: log_ok_def buffer_of_def)
  next
    case True
    obtain n m where "rb_events b0 = drop n (run_events key h)"
      "rb_events (enforce_replay_limits u l b0) = drop m (rb_events b0)"
      using assms(1,2) enforce_suffix [of u l b0] unfolding log_ok_def buffer_of_def by (metis option.simps(5))
    then have *: "rb_events (enforce_replay_limits u l b0) = drop (m + n) (run_events key h)" by simp
    show ?thesis
    proof (cases "rb_events (enforce_replay_limits u l b0) = []")
      case True
      with \<open>k = key\<close> assms(3) have "rb_events (buffer_of t k) = drop (length (run_events k h)) (run_events k h)"
        by (simp add: buffer_of_def empty_buffer_def)
      then show ?thesis by blast
    next
      case False
      with \<open>k = key\<close> assms(3) * have "rb_events (buffer_of t k) = drop (m + n) (run_events k h)"
        by (simp add: buffer_of_def)
      then show ?thesis by blast
    qed
  qed
  with assms show ?thesis by (simp add: log_ok_def)
qed

lemma publish_frame [simp]:
  "st_replay (publish_event k e s) = st_replay s" "st_next_event_id (publish_event k e s) = st_next_event_id s"
  by (simp_all add: publish_event_def set_subscribers_def Let_def)

lemma append_ok:
  assumes "fst (append_event t1 t2 t3 i s) = Inr e"
  shows "e = new_event t2 i (cleanup t1 s)"
    and "snd (append_event t1 t2 t3 i s) = publish_event (replay_key (ei_run_scope i)) e
      ((cleanup t1 s)\<lparr>st_next_event_id := st_next_event_id s + 1,
        st_replay := gm_put (replay_key (ei_run_scope i))
          (enforce_replay_limits t3 (st_limits s) (buffer_add e (buffer_of s (replay_key (ei_run_scope i)))))
          (st_replay s)\<rparr>)"
proof -
  have b: "buffer_of (cleanup t1 s) k = buffer_of s k" for k by (simp add: buffer_of_def)
  show "e = new_event t2 i (cleanup t1 s)"
    using assms by (auto simp: append_event_def Let_def split: option.splits if_splits)
  then show "snd (append_event t1 t2 t3 i s) = publish_event (replay_key (ei_run_scope i)) e
      ((cleanup t1 s)\<lparr>st_next_event_id := st_next_event_id s + 1,
        st_replay := gm_put (replay_key (ei_run_scope i))
          (enforce_replay_limits t3 (st_limits s) (buffer_add e (buffer_of s (replay_key (ei_run_scope i)))))
          (st_replay s)\<rparr>)"
    using assms by (auto simp: append_event_def Let_def b new_event_def split: option.splits if_splits)
qed

lemma append_err: "fst (append_event t1 t2 t3 i s) = Inl er \<Longrightarrow> snd (append_event t1 t2 t3 i s) = s"
  by (auto simp: append_event_def Let_def split: option.splits if_splits)

lemma log_ok_append:
  assumes "log_ok h s" "fst (append_event t1 t2 t3 i s) = Inr e"
  shows "log_ok (h @ [e]) (snd (append_event t1 t2 t3 i s))"
proof -
  let ?k = "replay_key (ei_run_scope i)" and ?t = "snd (append_event t1 t2 t3 i s)"
  have e: "ev_event_id e = st_next_event_id s + 1" "ev_run_scope e = ei_run_scope i"
    using append_ok(1) [OF assms(2)] by (simp_all add: new_event_def)
  have "\<exists>n. rb_events (buffer_of ?t k) = drop n (run_events k (h @ [e]))" for k
  proof (cases "k = ?k")
    case False
    with assms(1) append_ok(2) [OF assms(2)] e show ?thesis
      by (auto simp: log_ok_def buffer_of_def run_events_def)
  next
    case True
    obtain n where n: "rb_events (buffer_of s ?k) = drop n (run_events ?k h)"
      using assms(1) by (auto simp: log_ok_def)
    let ?b = "buffer_add e (buffer_of s ?k)"
    have "drop n xs = drop (min n (length xs)) xs" for xs :: "event_record list"
      by (simp add: min_def)
    then have "rb_events ?b = drop (min n (length (run_events ?k h))) (run_events ?k (h @ [e]))"
      using n e by (simp add: buffer_add_def run_events_def)
    with enforce_suffix [of t3 "st_limits s" ?b] show ?thesis
      using append_ok(2) [OF assms(2)] True by (auto simp: buffer_of_def)
  qed
  then show ?thesis using assms(1) append_ok(2) [OF assms(2)] e
    by (auto simp: log_ok_def nth_append less_Suc_eq add.commute)
qed

lemma log_ok_step:
  assumes "log_ok h s"
  shows "log_ok (h @ appended_by s op) (chat_step s op)"
proof (cases op)
  case (OpAppend t1 t2 t3 i)
  show ?thesis
  proof (cases "fst (append_event t1 t2 t3 i s)")
    case (Inl er)
    with OpAppend assms show ?thesis by (simp add: append_err)
  next
    case (Inr e)
    with OpAppend log_ok_append [OF assms Inr] show ?thesis by simp
  qed
next
  case (OpReplay t1 t2 c)
  let ?k = "replay_key (cu_run_scope c)"
  have cl: "log_ok h (cleanup t1 s)" by (rule log_ok_frame [OF assms]) simp_all
  show ?thesis
  proof (cases "gm_get (st_replay s) ?k")
    case None
    with OpReplay cl show ?thesis by (simp add: replay_def Let_def)
  next
    case (Some b0)
    from OpReplay log_ok_enforce [OF cl, of ?k b0 _ t2 "st_limits s"] Some cl show ?thesis
      by (auto simp: replay_def Let_def split: if_splits)
  qed
qed (auto intro!: log_ok_frame [OF assms] simp: frame_replays)

lemma log_ok_run: "log_ok h s \<Longrightarrow> log_ok (h @ history s ops) (chat_run s ops)"
proof (induction ops arbitrary: h s)
  case (Cons op ops)
  from Cons.IH [OF log_ok_step [OF Cons.prems, of op]] show ?case by simp
qed simp

lemma log_ok_new: "log_ok [] (new_store e c l)"
  by (simp add: log_ok_def new_store_def buffer_of_def empty_buffer_def run_events_def)

subsection \<open>Live delivery\<close>

text \<open>The events a reader takes from channel \<open>i\<close> during a run.\<close>

fun received_by :: "u64 \<Rightarrow> store \<Rightarrow> chat_op \<Rightarrow> event_record list" where
  "received_by i s (OpReceive j) =
     (if j = i then (case fst (chan_receive i s) of None \<Rightarrow> [] | Some e \<Rightarrow> [e]) else [])"
| "received_by i s _ = []"

fun received :: "u64 \<Rightarrow> store \<Rightarrow> chat_op list \<Rightarrow> event_record list" where
  "received i s [] = []"
| "received i s (op # ops) = received_by i s op @ received i (chat_step s op) ops"

definition chan_queue :: "u64 \<Rightarrow> store \<Rightarrow> event_record list" where
  "chan_queue i s = (case gm_get (st_channels s) i of None \<Rightarrow> [] | Some c \<Rightarrow> ch_queue c)"

text \<open>
  The delivery invariant of subscriber \<open>i\<close> of the run under key \<open>k\<close>: \<open>got\<close> is what its reader
  has taken, \<open>due\<close> the events appended to the run since the subscription.  A subscriber that is
  still registered has everything due, taken or queued, and one that was dropped has a prefix.
  The other conjuncts (the id is no one else's and is not handed out again) make it inductive.
\<close>

definition delivery_ok :: "u64 \<Rightarrow> string \<Rightarrow> event_record list \<Rightarrow> event_record list \<Rightarrow> store \<Rightarrow> bool" where
  "delivery_ok i k got due s \<longleftrightarrow>
     prefix (got @ chan_queue i s) due \<and>
     (i \<in> set (subscribers_of s k) \<longrightarrow> got @ chan_queue i s = due) \<and>
     gm_get (st_channels s) i \<noteq> None \<and>
     (\<forall>k'. k' \<noteq> k \<longrightarrow> i \<notin> set (subscribers_of s k')) \<and>
     distinct (subscribers_of s k) \<and> i \<le> st_next_subscriber_id s"

lemma chan_send_get:
  "gm_get (chan_send e j m) i = (if i \<noteq> j then gm_get m i else
     (case gm_get m i of None \<Rightarrow> None | Some c \<Rightarrow>
        Some (if chan_has_room c then c\<lparr>ch_queue := ch_queue c @ [e]\<rparr> else c\<lparr>ch_closed := True\<rparr>)))"
  by (auto simp: chan_send_def split: option.splits)

lemma chan_send_get_other [simp]: "i \<noteq> j \<Longrightarrow> gm_get (chan_send e j m) i = gm_get m i"
  by (simp add: chan_send_get)

lemma fold_send_other: "i \<notin> set ids \<Longrightarrow> gm_get (fold (chan_send e) ids m) i = gm_get m i"
  by (induction ids arbitrary: m) auto

lemma fold_send_in:
  "distinct ids \<Longrightarrow> i \<in> set ids \<Longrightarrow> gm_get (fold (chan_send e) ids m) i = gm_get (chan_send e i m) i"
proof (induction ids arbitrary: m)
  case (Cons j ids)
  show ?case
  proof (cases "i = j")
    case True
    with Cons.prems show ?thesis by (simp add: fold_send_other)
  next
    case False
    with Cons have "gm_get (fold (chan_send e) ids (chan_send e j m)) i = gm_get (chan_send e i (chan_send e j m)) i"
      by simp
    with False show ?thesis by (simp add: chan_send_get)
  qed
qed simp

lemma chan_close_get:
  "gm_get (chan_close j m) i = (if i = j then map_option (\<lambda>c. c\<lparr>ch_closed := True\<rparr>) (gm_get m i) else gm_get m i)"
  by (auto simp: chan_close_def split: option.splits)

lemma fold_close_queue:
  "map_option ch_queue (gm_get (fold chan_close ids m) i) = map_option ch_queue (gm_get m i)"
  by (induction ids arbitrary: m) (auto simp: chan_close_get option.map_comp comp_def)

lemma queue_of_map:
  "map_option ch_queue (gm_get (st_channels t) i) = map_option ch_queue (gm_get (st_channels s) i) \<Longrightarrow>
     chan_queue i t = chan_queue i s \<and> (gm_get (st_channels t) i = None) = (gm_get (st_channels s) i = None)"
  by (cases "gm_get (st_channels t) i"; cases "gm_get (st_channels s) i") (auto simp: chan_queue_def)

lemma subscribers_set: "subscribers_of (set_subscribers k ids s) k' = (if k' = k then ids else subscribers_of s k')"
  by (auto simp: subscribers_of_def set_subscribers_def)

lemma subscribers_of_frame: "st_subscribers t = st_subscribers s \<Longrightarrow> subscribers_of t k = subscribers_of s k"
  by (simp add: subscribers_of_def)

text \<open>An operation that only removes subscribers and never touches a queue keeps the invariant.\<close>

lemma delivery_shrink:
  assumes "delivery_ok i k got due s"
    and "map_option ch_queue (gm_get (st_channels t) i) = map_option ch_queue (gm_get (st_channels s) i)"
    and "\<And>k'. set (subscribers_of t k') \<subseteq> set (subscribers_of s k')"
    and "distinct (subscribers_of t k)"
    and "st_next_subscriber_id t = st_next_subscriber_id s"
  shows "delivery_ok i k got due t"
proof -
  note q = queue_of_map [OF assms(2)]
  have "i \<notin> set (subscribers_of t k')" if "k' \<noteq> k" for k'
    using that assms(1,3) by (auto simp: delivery_ok_def)
  moreover have "i \<in> set (subscribers_of s k)" if "i \<in> set (subscribers_of t k)"
    using that assms(3) by blast
  ultimately show ?thesis using assms(1,4,5) q by (auto simp: delivery_ok_def)
qed

lemma delivery_frame:
  assumes "delivery_ok i k got due s" "st_channels t = st_channels s"
    "st_subscribers t = st_subscribers s" "st_next_subscriber_id t = st_next_subscriber_id s"
  shows "delivery_ok i k got due t"
  using assms by (simp add: delivery_ok_def chan_queue_def subscribers_of_def)

lemma delivery_unsubscribe:
  assumes "delivery_ok i k got due s"
  shows "delivery_ok i k got due (unsubscribe k' j s)"
proof (rule delivery_shrink [OF assms])
  show "map_option ch_queue (gm_get (st_channels (unsubscribe k' j s)) i) = map_option ch_queue (gm_get (st_channels s) i)"
    by (auto simp: unsubscribe_def chan_close_get set_subscribers_def option.map_comp comp_def split: option.splits)
  have "subscribers_of (unsubscribe k' j s) k'' = (if k'' = k' then remove1 j (subscribers_of s k') else subscribers_of s k'')"
    for k'' by (auto simp: unsubscribe_def subscribers_set subscribers_of_def [of s] remove1_idem
        subscribers_of_frame [of "_\<lparr>st_channels := _\<rparr>" "set_subscribers _ _ _"] split: option.splits)
  then show "set (subscribers_of (unsubscribe k' j s) k'') \<subseteq> set (subscribers_of s k'')"
    and "distinct (subscribers_of (unsubscribe k' j s) k)" for k''
    using assms by (auto simp: delivery_ok_def dest: set_remove1_subset [THEN subsetD])
  show "st_next_subscriber_id (unsubscribe k' j s) = st_next_subscriber_id s"
    by (simp add: unsubscribe_def set_subscribers_def split: option.splits)
qed

lemma delivery_close:
  assumes "delivery_ok i k got due s"
  shows "delivery_ok i k got due (close_subscribers k' s)"
  by (rule delivery_shrink [OF assms])
    (use assms in \<open>auto simp: close_subscribers_def fold_close_queue subscribers_of_def delivery_ok_def\<close>)

lemma delivery_receive:
  assumes "delivery_ok i k got due s"
  shows "delivery_ok i k (got @ received_by i s (OpReceive j)) due (snd (chan_receive j s))"
proof (cases "chan_queue j s")
  case Nil
  then have "chan_receive j s = (None, s)" by (auto simp: chan_receive_def chan_queue_def split: option.splits list.splits)
  with assms show ?thesis by auto
next
  case (Cons e es)
  then obtain c where c: "gm_get (st_channels s) j = Some c" "ch_queue c = e # es"
    by (auto simp: chan_queue_def split: option.splits)
  let ?s = "s\<lparr>st_channels := gm_put j (c\<lparr>ch_queue := es\<rparr>) (st_channels s)\<rparr>"
  have r: "chan_receive j s = (Some e, ?s)" by (simp add: chan_receive_def c)
  have subs: "subscribers_of (s\<lparr>st_channels := m\<rparr>) k' = subscribers_of s k'" for m k' by (simp add: subscribers_of_def)
  have other: "gm_get (st_channels ?s) i = gm_get (st_channels s) i" "chan_queue i ?s = chan_queue i s" if "j \<noteq> i"
    using that by (simp_all add: chan_queue_def)
  have same: "gm_get (st_channels ?s) i \<noteq> None" "chan_queue i s = e # chan_queue i ?s" if "j = i"
    using that c by (simp_all add: chan_queue_def)
  show ?thesis
  proof (cases "j = i")
    case True
    with assms show ?thesis unfolding r delivery_ok_def by (simp add: subs same [OF True] r [unfolded True])
  next
    case False
    with assms show ?thesis unfolding r delivery_ok_def by (simp add: subs other [OF False])
  qed
qed

lemma delivery_publish:
  assumes "delivery_ok i k got due s"
  shows "delivery_ok i k got (due @ (if k' = k then [e] else [])) (publish_event k' e s)"
proof -
  let ?t = "publish_event k' e s"
  have subs: "subscribers_of ?t k'' = (if k'' = k' then filter (chan_room (st_channels s)) (subscribers_of s k') else subscribers_of s k'')" for k''
    by (simp add: publish_event_def Let_def subscribers_of_frame [of "_\<lparr>st_channels := _\<rparr>" "set_subscribers _ _ _"] subscribers_set)
  have ch: "st_channels ?t = fold (chan_send e) (subscribers_of s k') (st_channels s)"
    and nx: "st_next_subscriber_id ?t = st_next_subscriber_id s"
    by (simp_all add: publish_event_def Let_def set_subscribers_def)
  show ?thesis
  proof (cases "k' = k \<and> i \<in> set (subscribers_of s k)")
    case False
    then have out: "i \<notin> set (subscribers_of s k')" using assms by (auto simp: delivery_ok_def)
    then have "gm_get (st_channels ?t) i = gm_get (st_channels s) i" by (simp add: ch fold_send_other)
    with assms False out show ?thesis
      by (auto simp: delivery_ok_def subs nx chan_queue_def)
  next
    case True
    with assms obtain c where c: "gm_get (st_channels s) i = Some c" and d: "distinct (subscribers_of s k')"
      by (auto simp: delivery_ok_def)
    have "gm_get (st_channels ?t) i = gm_get (chan_send e i (st_channels s)) i"
      unfolding ch using d True by (simp add: fold_send_in)
    then have g: "gm_get (st_channels ?t) i =
        Some (if chan_has_room c then c\<lparr>ch_queue := ch_queue c @ [e]\<rparr> else c\<lparr>ch_closed := True\<rparr>)"
      by (simp add: chan_send_get c)
    have "chan_room (st_channels s) i = chan_has_room c" by (simp add: chan_room_def c)
    moreover from True have kk: "k' = k" by simp
    ultimately show ?thesis using True assms c g [unfolded kk]
      by (auto simp: delivery_ok_def subs [unfolded kk] nx [unfolded kk] chan_queue_def kk)
  qed
qed


lemma delivery_subscribe:
  assumes "delivery_ok i k got due s" "st_next_subscriber_id s \<noteq> - 1"
  shows "delivery_ok i k got due (snd (subscribe sc s))"
proof -
  have less: "i \<noteq> st_next_subscriber_id s + 1" "i \<le> st_next_subscriber_id s + 1"
    using assms u64_le_Suc [of "st_next_subscriber_id s" i] by (auto simp: delivery_ok_def)
  have r: "run_of (s\<lparr>st_next_subscriber_id := x\<rparr>) sc = run_of s sc" for x by (simp add: run_of_def)
  let ?s = "s\<lparr>st_next_subscriber_id := st_next_subscriber_id s + 1\<rparr>"
  have bumped: "delivery_ok i k got due ?s"
    using assms(1) less(2) by (simp add: delivery_ok_def chan_queue_def subscribers_of_def)
  have "delivery_ok i k got due (?s\<lparr>st_subscribers := gm_put key (List.insert (st_next_subscriber_id s + 1) (subscribers_of ?s key)) (st_subscribers s),
      st_channels := gm_put (st_next_subscriber_id s + 1) c (st_channels s)\<rparr>)" (is "delivery_ok i k got due ?t") for key c
  proof -
    have "gm_get (st_channels ?t) i = gm_get (st_channels ?s) i" "chan_queue i ?t = chan_queue i ?s"
      using less(1) by (simp_all add: chan_queue_def)
    moreover have "subscribers_of ?t k' = (if k' = key then List.insert (st_next_subscriber_id s + 1) (subscribers_of ?s key)
        else subscribers_of ?s k')" for k' by (simp add: subscribers_of_def)
    ultimately show ?thesis using bumped less(1) by (cases "k = key") (simp_all add: delivery_ok_def)
  qed
  with assms(1) bumped show ?thesis by (simp add: subscribe_def Let_def r split: option.split)
qed

text \<open>The channel fields that the remaining operations leave alone.\<close>

abbreviation same_chans :: "store \<Rightarrow> store \<Rightarrow> bool" where
  "same_chans t s \<equiv> st_channels t = st_channels s \<and> st_subscribers t = st_subscribers s \<and>
     st_next_subscriber_id t = st_next_subscriber_id s"

lemma same_chans1:
  "same_chans (snd (start_run t1 t2 sc ik s)) s"
  "same_chans (snd (reserve_active_run_capacity t1 is s)) s"
  "same_chans (snd (release_active_run_capacity is s)) s"
  "same_chans (snd (start_run_with_reservation t1 t2 is sc ik s)) s"
  "same_chans (snd (update_run_state t1 sc rst s)) s"
  "same_chans (snd (restore_run_state_after_pending t1 sc s)) s"
  "same_chans (snd (bind_run_id t1 sc r s)) s"
  by (simp_all add: start_run_def reserve_active_run_capacity_def release_active_run_capacity_def
      start_run_with_reservation_def update_run_state_def restore_run_state_after_pending_def
      bind_run_id_def put_run_def Let_def split: option.splits)

lemma same_chans2:
  "same_chans (snd (replay t1 t2 c s)) s"
  "same_chans (snd (register_pending t1 t2 pin s)) s"
  "same_chans (snd (register_pending_for_active_run t1 t2 pin s)) s"
  "same_chans (snd (claim_pending_resolution t1 t2 sc p s)) s"
  "same_chans (snd (release_pending_resolution_claim t1 t2 sc p s)) s"
  "same_chans (snd (pending_lookup t1 sc p s)) s"
  by (simp_all add: replay_def register_pending_def register_pending_for_active_run_def
      claim_pending_resolution_def release_pending_resolution_claim_def pending_lookup_def
      put_run_def put_pending_def set_pending_def Let_def split: option.splits)

lemma same_chans3:
  "same_chans (snd (resolve_pending t1 t2 sc p s)) s"
  "same_chans (snd (reserve_idempotency t1 t2 is s)) s"
  "same_chans (snd (complete_idempotency t1 t2 is res s)) s"
  "same_chans (snd (release_idempotency t1 is s)) s"
  "same_chans (record_diagnostic t1 d s) s"
  by (simp_all add: resolve_pending_def reserve_idempotency_def complete_idempotency_def
      release_idempotency_def record_diagnostic_def set_pending_def Let_def split: option.splits)

lemmas same_chans_all = same_chans1 same_chans2 same_chans3

lemma delivery_complete:
  assumes "delivery_ok i k got due s"
  shows "delivery_ok i k got due (snd (complete_run t sc st s))"
proof -
  have "delivery_ok i k got due (s\<lparr>st_active_runs := x\<rparr>)" for x
    by (rule delivery_frame [OF assms]) simp_all
  then show ?thesis using assms
    by (auto simp: complete_run_def intro: delivery_close split: option.splits)
qed

lemma delivery_append:
  assumes "delivery_ok i k got due s"
  shows "delivery_ok i k got (due @ run_events k (appended_by s (OpAppend t1 t2 t3 inp)))
    (snd (append_event t1 t2 t3 inp s))"
proof (cases "fst (append_event t1 t2 t3 inp s)")
  case (Inl er)
  with assms show ?thesis by (simp add: append_err run_events_def)
next
  case (Inr e)
  let ?k = "replay_key (ei_run_scope inp)"
  have e: "ev_run_scope e = ei_run_scope inp" using append_ok(1) [OF Inr] by (simp add: new_event_def)
  have "delivery_ok i k got due ((cleanup t1 s)\<lparr>st_next_event_id := n, st_replay := m\<rparr>)" for n m
    by (rule delivery_frame [OF assms]) simp_all
  note pub = delivery_publish [OF this, of ?k e]
  have "run_events k (appended_by s (OpAppend t1 t2 t3 inp)) = (if ?k = k then [e] else [])"
    using Inr e by (simp add: run_events_def)
  with pub show ?thesis unfolding append_ok(2) [OF Inr] by (simp only:)
qed

lemma delivery_step:
  assumes "delivery_ok i k got due s" "st_next_subscriber_id s \<noteq> - 1"
  shows "delivery_ok i k (got @ received_by i s op) (due @ run_events k (appended_by s op)) (chat_step s op)"
proof (cases op)
  case (OpAppend t1 t2 t3 inp)
  with delivery_append [OF assms(1), of t1 t2 t3 inp] show ?thesis by simp
next
  case (OpReceive j)
  with delivery_receive [OF assms(1), of j] show ?thesis by (simp add: run_events_def)
next
  case (OpSubscribe sc)
  with delivery_subscribe [OF assms] show ?thesis by (simp add: run_events_def)
next
  case (OpUnsubscribe k' j)
  with delivery_unsubscribe [OF assms(1)] show ?thesis by (simp add: run_events_def)
next
  case (OpCompleteRun t sc st)
  with delivery_complete [OF assms(1)] show ?thesis by (simp add: run_events_def)
qed (auto intro!: delivery_frame [OF assms(1)] simp: same_chans_all run_events_def)

lemma next_subscriber_step:
  "unat (st_next_subscriber_id (chat_step s op)) \<le> Suc (unat (st_next_subscriber_id s))"
proof (cases op)
  case (OpSubscribe sc)
  have "unat (st_next_subscriber_id s + 1) \<le> Suc (unat (st_next_subscriber_id s))"
    by (simp add: unat_word_ariths(1))
  with OpSubscribe show ?thesis by (auto simp: subscribe_def Let_def split: option.splits)
qed (auto simp: same_chans_all append_event_def publish_event_def set_subscribers_def Let_def
      unsubscribe_def chan_receive_def complete_run_def close_subscribers_def
      split: option.splits list.splits)

lemma delivery_run:
  assumes "delivery_ok i k got due s" "unat (st_next_subscriber_id s) + length ops < 2 ^ 64"
  shows "delivery_ok i k (got @ received i s ops) (due @ run_events k (history s ops)) (chat_run s ops)"
  using assms
proof (induction ops arbitrary: got due s)
  case (Cons op ops)
  have "st_next_subscriber_id s \<noteq> - 1"
  proof
    assume "st_next_subscriber_id s = - 1"
    with Cons.prems(2) show False by (simp add: unsigned_minus_1_eq_mask mask_eq_exp_minus_1)
  qed
  from Cons.IH [OF delivery_step [OF Cons.prems(1) this, of op]]
  have "delivery_ok i k ((got @ received_by i s op) @ received i (chat_step s op) ops)
     ((due @ run_events k (appended_by s op)) @ run_events k (history (chat_step s op) ops))
     (chat_run (chat_step s op) ops)"
    using Cons.prems(2) next_subscriber_step [of s op] by simp
  then show ?case by (simp add: run_events_def)
qed (simp add: run_events_def)


text \<open>Registered subscriber ids were all handed out, and each is registered once.\<close>

definition subs_ok :: "store \<Rightarrow> bool" where
  "subs_ok s \<longleftrightarrow> (\<forall>k. distinct (subscribers_of s k) \<and>
     (\<forall>i\<in>set (subscribers_of s k). i \<le> st_next_subscriber_id s))"

lemma subs_ok_shrink:
  assumes "subs_ok s" "\<And>k. set (subscribers_of t k) \<subseteq> set (subscribers_of s k)"
    "\<And>k. distinct (subscribers_of t k)" "st_next_subscriber_id t = st_next_subscriber_id s"
  shows "subs_ok t"
  unfolding subs_ok_def
proof (intro allI conjI ballI)
  fix k i assume "i \<in> set (subscribers_of t k)"
  with assms(2) have "i \<in> set (subscribers_of s k)" by blast
  with assms(1,4) show "i \<le> st_next_subscriber_id t" by (simp add: subs_ok_def)
qed (rule assms(3))

lemma subscribers_publish:
  "subscribers_of (publish_event k' e s) k =
     (if k = k' then filter (chan_room (st_channels s)) (subscribers_of s k') else subscribers_of s k)"
  by (simp add: publish_event_def Let_def subscribers_set
      subscribers_of_frame [of "_\<lparr>st_channels := _\<rparr>" "set_subscribers _ _ _"])

lemma subscribers_unsubscribe:
  "subscribers_of (unsubscribe k' j s) k =
     (if k = k' then remove1 j (subscribers_of s k') else subscribers_of s k)"
  by (auto simp: unsubscribe_def subscribers_set subscribers_of_def [of s] remove1_idem
      subscribers_of_frame [of "_\<lparr>st_channels := _\<rparr>" "set_subscribers _ _ _"] split: option.splits)

lemma subscribers_close: "subscribers_of (close_subscribers k' s) k = (if k = k' then [] else subscribers_of s k)"
  by (simp add: close_subscribers_def subscribers_of_def)

lemma subs_ok_frame:
  "subs_ok s \<Longrightarrow> st_subscribers t = st_subscribers s \<Longrightarrow> st_next_subscriber_id t = st_next_subscriber_id s \<Longrightarrow> subs_ok t"
  by (simp add: subs_ok_def subscribers_of_def)

lemma subs_ok_publish: "subs_ok s \<Longrightarrow> subs_ok (publish_event k e s)"
  by (rule subs_ok_shrink [of s], assumption)
    (auto simp: subscribers_publish subs_ok_def split: if_splits,
     simp add: publish_event_def set_subscribers_def Let_def)

lemma subs_ok_append:
  assumes "subs_ok s"
  shows "subs_ok (snd (append_event t1 t2 t3 inp s))"
proof (cases "fst (append_event t1 t2 t3 inp s)")
  case (Inl er)
  with assms show ?thesis by (simp add: append_err)
next
  case (Inr e)
  have "subs_ok ((cleanup t1 s)\<lparr>st_next_event_id := n, st_replay := m\<rparr>)" (is "subs_ok (?u n m)") for n m
    by (rule subs_ok_frame [OF assms]) simp_all
  then have "subs_ok (publish_event k e (?u n m))" for k n m
    by (rule subs_ok_publish)
  then show ?thesis by (simp add: append_ok(2) [OF Inr])
qed

lemma subs_ok_complete:
  assumes "subs_ok s"
  shows "subs_ok (snd (complete_run t sc st s))"
proof -
  have u: "subs_ok (s\<lparr>st_active_runs := x\<rparr>)" for x
    by (rule subs_ok_frame [OF assms]) simp_all
  have "subs_ok (close_subscribers k (s\<lparr>st_active_runs := x\<rparr>))" for x k
    by (rule subs_ok_shrink [OF u [of x]])
      (use u [of x] in \<open>auto simp: subscribers_close subs_ok_def\<close>, simp add: close_subscribers_def)
  with assms show ?thesis by (auto simp: complete_run_def split: option.splits)
qed

lemma subs_ok_subscribe:
  assumes "subs_ok s" "st_next_subscriber_id s \<noteq> - 1"
  shows "subs_ok (snd (subscribe sc s))"
proof -
  have le: "i \<le> st_next_subscriber_id s + 1" if "i \<in> set (subscribers_of s k)" for i k
    using assms that u64_le_Suc [of "st_next_subscriber_id s" i] by (auto simp: subs_ok_def)
  have r: "run_of (s\<lparr>st_next_subscriber_id := x\<rparr>) sc = run_of s sc" for x by (simp add: run_of_def)
  have sub: "subscribers_of (s\<lparr>st_next_subscriber_id := x, st_subscribers := gm_put k' ids (st_subscribers s),
      st_channels := c\<rparr>) k = (if k = k' then ids else subscribers_of s k)" for x k' ids c k
    by (simp add: subscribers_of_def)
  have f: "subscribers_of (s\<lparr>st_next_subscriber_id := x\<rparr>) k = subscribers_of s k" for x k
    by (simp add: subscribers_of_def)
  show ?thesis using assms(1) le
    by (auto simp: subscribe_def Let_def r f sub subs_ok_def split: option.splits)
qed

lemma subs_ok_step:
  assumes "subs_ok s" "st_next_subscriber_id s \<noteq> - 1"
  shows "subs_ok (chat_step s op)"
proof (cases op)
  case (OpSubscribe sc)
  with assms show ?thesis by (simp add: subs_ok_subscribe)
next
  case (OpUnsubscribe k j)
  have "subs_ok (unsubscribe k j s)"
    by (rule subs_ok_shrink [OF assms(1)])
      (use assms(1) in \<open>auto simp: subscribers_unsubscribe subs_ok_def dest: set_remove1_subset [THEN subsetD]\<close>,
       simp add: unsubscribe_def set_subscribers_def split: option.splits)
  with OpUnsubscribe show ?thesis by simp
next
  case (OpReceive j)
  have "st_subscribers (snd (chan_receive j s)) = st_subscribers s \<and>
      st_next_subscriber_id (snd (chan_receive j s)) = st_next_subscriber_id s"
    by (simp add: chan_receive_def split: option.splits list.splits)
  with OpReceive show ?thesis by (auto intro: subs_ok_frame [OF assms(1)])
qed (auto simp: subs_ok_append subs_ok_complete assms same_chans_all intro!: subs_ok_frame [OF assms(1)])

lemma next_subscriber_run:
  "unat (st_next_subscriber_id (chat_run s ops)) \<le> unat (st_next_subscriber_id s) + length ops"
proof (induction ops arbitrary: s)
  case (Cons op ops)
  show ?case using Cons.IH [of "chat_step s op"] next_subscriber_step [of s op] by simp
qed simp

lemma u64_not_max: "unat (n :: u64) + 1 < 2 ^ 64 \<Longrightarrow> n \<noteq> - 1"
  by (auto simp: unsigned_minus_1_eq_mask mask_eq_exp_minus_1)

lemma subs_ok_run:
  assumes "subs_ok s" "unat (st_next_subscriber_id s) + length ops + 1 < 2 ^ 64"
  shows "subs_ok (chat_run s ops)"
  using assms
proof (induction ops arbitrary: s)
  case (Cons op ops)
  have "subs_ok (chat_step s op)"
    using Cons.prems by (intro subs_ok_step u64_not_max) simp_all
  then show ?case using Cons next_subscriber_step [of s op] by simp
qed simp

lemma subs_ok_new: "subs_ok (new_store e c l)"
  by (simp add: subs_ok_def subscribers_of_def new_store_def)

lemma subscribe_ok:
  assumes "subscribe sc s = (Inr (Some i), s1)"
  shows "i = st_next_subscriber_id s + 1" "st_next_subscriber_id s1 = i"
    "gm_get (st_channels s1) i \<noteq> None" "chan_queue i s1 = []"
    "subscribers_of s1 k = (if k = replay_key sc then List.insert i (subscribers_of s k) else subscribers_of s k)"
    "run_of s sc \<noteq> None" "st_replay s1 = st_replay s" "st_next_event_id s1 = st_next_event_id s"
proof -
  have r: "run_of (s\<lparr>st_next_subscriber_id := x\<rparr>) sc = run_of s sc"
    "subscribers_of (s\<lparr>st_next_subscriber_id := x\<rparr>) k = subscribers_of s k" for x k
    by (simp_all add: run_of_def subscribers_of_def)
  obtain q where e: "i = st_next_subscriber_id s + 1" "run_of s sc \<noteq> None"
    "s1 = s\<lparr>st_next_subscriber_id := st_next_subscriber_id s + 1,
       st_subscribers := gm_put (replay_key sc)
         (List.insert (st_next_subscriber_id s + 1) (subscribers_of s (replay_key sc))) (st_subscribers s),
       st_channels := gm_put (st_next_subscriber_id s + 1) (chan_new q) (st_channels s)\<rparr>"
    using assms by (auto simp: subscribe_def Let_def r split: option.splits if_splits)
  show "i = st_next_subscriber_id s + 1" "st_next_subscriber_id s1 = i"
    "gm_get (st_channels s1) i \<noteq> None" "chan_queue i s1 = []"
    "subscribers_of s1 k = (if k = replay_key sc then List.insert i (subscribers_of s k) else subscribers_of s k)"
    "run_of s sc \<noteq> None" "st_replay s1 = st_replay s" "st_next_event_id s1 = st_next_event_id s"
    using e by (simp_all add: chan_queue_def chan_new_def subscribers_of_def)
qed

lemma subscribe_delivery:
  assumes "subs_ok s" "st_next_subscriber_id s \<noteq> - 1" "subscribe sc s = (Inr (Some i), s1)"
  shows "delivery_ok i (replay_key sc) [] [] s1"
proof -
  note sub = subscribe_ok [OF assms(3)]
  have fresh: "i \<notin> set (subscribers_of s k)" for k
  proof
    assume "i \<in> set (subscribers_of s k)"
    then have "i \<le> st_next_subscriber_id s" using assms(1) by (simp add: subs_ok_def)
    with u64_less_Suc [OF assms(2)] sub(1) show False by (metis leD)
  qed
  with sub assms(1) show ?thesis by (auto simp: delivery_ok_def subs_ok_def)
qed


end
