(* ===== verification/Chat_Safety.thy ===== *)
theory Chat_Safety
  imports Chat_Delivery
begin

text \<open>
  What the operations of the chat state store keep between one another: the reachable stores are
  well formed, a started run stays active until it is finished, a claimed or resolved pending
  request stays so until it is registered again, an idempotency entry persists until it is
  completed, released or expired, and a held capacity reservation until it is used.
\<close>

subsection \<open>Reachable stores are well formed\<close>

lemma keys_ok_step: "limits_ok (st_limits s) \<Longrightarrow> keys_ok s \<Longrightarrow> keys_ok (chat_step s op)"
  by (blast intro: effs_inv [OF chat_step_effs] keys_ok_eff)

definition store_ok :: "store \<Rightarrow> bool" where
  "store_ok s \<longleftrightarrow> core_ok s \<and> keys_ok s \<and> buffers_ok s"

lemma store_ok_eff: "chat_eff s t \<Longrightarrow> store_ok s \<Longrightarrow> store_ok t"
  by (simp add: store_ok_def core_ok_eff keys_ok_eff buffers_ok_eff)

interpretation chat_store: invariant_machine chat_step store_ok
  by unfold_locales (metis chat_step_effs core_ok_def store_ok_def store_ok_eff effs_inv)

lemma store_ok_new: "store_ok (new_store e c l)"
  using normalize_limits_ok [of l]
  by (simp add: store_ok_def core_ok_def maps_ok_def caps_ok_def keys_ok_def buffers_ok_def new_store_def
      active_run_capacity_used_def active_pending_count_def limits_ok_def)

interpretation chat_log: event_log ev_event_id events_after
  by unfold_locales (simp add: events_after_def)

subsection \<open>Which operations touch which maps\<close>

lemma runs_frame1:
  "st_active_runs (snd (reserve_active_run_capacity t1 is s)) = st_active_runs s"
  "st_active_runs (snd (release_active_run_capacity is s)) = st_active_runs s"
  "st_active_runs (snd (append_event t1 t2 t3 inp s)) = st_active_runs s"
  "st_active_runs (snd (subscribe sc s)) = st_active_runs s"
  "st_active_runs (unsubscribe k i s) = st_active_runs s"
  "st_active_runs (snd (chan_receive i s)) = st_active_runs s"
  "st_active_runs (snd (replay t1 t2 c s)) = st_active_runs s"
  "st_active_runs (record_diagnostic t1 d s) = st_active_runs s"
  by (simp_all add: reserve_active_run_capacity_def release_active_run_capacity_def append_event_def
      subscribe_def unsubscribe_def chan_receive_def replay_def record_diagnostic_def publish_event_def
      set_subscribers_def Let_def split: option.splits list.splits)

lemma runs_frame2:
  "st_active_runs (snd (register_pending t1 t2 pin s)) = st_active_runs s"
  "st_active_runs (snd (claim_pending_resolution t1 t2 sc p s)) = st_active_runs s"
  "st_active_runs (snd (release_pending_resolution_claim t1 t2 sc p s)) = st_active_runs s"
  "st_active_runs (snd (pending_lookup t1 sc p s)) = st_active_runs s"
  "st_active_runs (snd (resolve_pending t1 t2 sc p s)) = st_active_runs s"
  by (simp_all add: register_pending_def claim_pending_resolution_def
      release_pending_resolution_claim_def pending_lookup_def resolve_pending_def
      put_pending_def set_pending_def Let_def split: option.splits)

lemma runs_frame3:
  "st_active_runs (snd (reserve_idempotency t1 t2 is s)) = st_active_runs s"
  "st_active_runs (snd (complete_idempotency t1 t2 is res s)) = st_active_runs s"
  "st_active_runs (snd (release_idempotency t1 is s)) = st_active_runs s"
  by (simp_all add: reserve_idempotency_def complete_idempotency_def release_idempotency_def
      Let_def split: option.splits)

lemmas runs_frame = runs_frame1 runs_frame2 runs_frame3

lemma reservations_frame1:
  "st_reservations (snd (start_run t1 t2 sc ik s)) = st_reservations s"
  "st_reservations (snd (update_run_state t1 sc rst s)) = st_reservations s"
  "st_reservations (snd (restore_run_state_after_pending t1 sc s)) = st_reservations s"
  "st_reservations (snd (bind_run_id t1 sc r s)) = st_reservations s"
  "st_reservations (snd (complete_run t1 sc rst s)) = st_reservations s"
  by (simp_all add: start_run_def update_run_state_def restore_run_state_after_pending_def
      bind_run_id_def complete_run_def put_run_def close_subscribers_def Let_def split: option.splits)

lemma reservations_frame2:
  "st_reservations (snd (append_event t1 t2 t3 inp s)) = st_reservations s"
  "st_reservations (snd (subscribe sc s)) = st_reservations s"
  "st_reservations (unsubscribe k i s) = st_reservations s"
  "st_reservations (snd (chan_receive i s)) = st_reservations s"
  "st_reservations (snd (replay t1 t2 c s)) = st_reservations s"
  "st_reservations (record_diagnostic t1 d s) = st_reservations s"
  by (simp_all add: append_event_def
      subscribe_def unsubscribe_def chan_receive_def replay_def record_diagnostic_def publish_event_def
      set_subscribers_def Let_def split: option.splits list.splits)

lemma reservations_frame3:
  "st_reservations (snd (register_pending t1 t2 pin s)) = st_reservations s"
  "st_reservations (snd (register_pending_for_active_run t1 t2 pin s)) = st_reservations s"
  "st_reservations (snd (claim_pending_resolution t1 t2 sc p s)) = st_reservations s"
  "st_reservations (snd (release_pending_resolution_claim t1 t2 sc p s)) = st_reservations s"
  "st_reservations (snd (pending_lookup t1 sc p s)) = st_reservations s"
  "st_reservations (snd (resolve_pending t1 t2 sc p s)) = st_reservations s"
  by (simp_all add: register_pending_def register_pending_for_active_run_def claim_pending_resolution_def
      release_pending_resolution_claim_def pending_lookup_def resolve_pending_def put_run_def
      put_pending_def set_pending_def Let_def split: option.splits)

lemma reservations_frame4:
  "st_reservations (snd (reserve_idempotency t1 t2 is s)) = st_reservations s"
  "st_reservations (snd (complete_idempotency t1 t2 is res s)) = st_reservations s"
  "st_reservations (snd (release_idempotency t1 is s)) = st_reservations s"
  by (simp_all add: reserve_idempotency_def complete_idempotency_def release_idempotency_def
      Let_def split: option.splits)

lemmas reservations_frame = reservations_frame1 reservations_frame2 reservations_frame3 reservations_frame4

subsection \<open>One active run per chat\<close>

text \<open>The operations that may finish the run of the chat under \<open>k\<close>.\<close>

fun finishes_run :: "string \<Rightarrow> chat_op \<Rightarrow> bool" where
  "finishes_run k (OpCompleteRun t sc st) \<longleftrightarrow> active_run_key (rs_scope sc) = k"
| "finishes_run k (OpUpdateRunState t sc st) \<longleftrightarrow> active_run_key (rs_scope sc) = k \<and> is_terminal_run_state st"
| "finishes_run k _ \<longleftrightarrow> False"

lemma has_active_put: "has_active_run (put_run k' r s) k =
    (if k = k' then \<not> is_terminal_run_state (rr_state r) else has_active_run s k)"
  by (simp add: has_active_run_def put_run_def)

lemma has_active_frame: "st_active_runs t = st_active_runs s \<Longrightarrow> has_active_run t k = has_active_run s k"
  by (simp add: has_active_run_def)

lemma has_active_run_of: "has_active_run s (active_run_key (rs_scope sc)) \<Longrightarrow> run_of s sc = Some r \<Longrightarrow>
    \<not> is_terminal_run_state (rr_state r)"
  by (auto simp: has_active_run_def run_of_def split: option.splits if_splits)

lemma new_run_live [simp]: "\<not> is_terminal_run_state (rr_state (new_run t sc ik))"
  by (simp add: new_run_def is_terminal_run_state_def)

lemma has_active_reservation: "has_active_run (s\<lparr>st_reservations := x\<rparr>) k = has_active_run s k"
  by (simp add: has_active_run_def)

lemma has_active_starts:
  assumes "has_active_run s k"
  shows "has_active_run (snd (start_run t1 t2 sc ik s)) k"
    and "has_active_run (snd (start_run_with_reservation t1 t2 is sc ik s)) k"
  using assms
  by (auto simp: start_run_def start_run_with_reservation_def Let_def has_active_put has_active_reservation
      has_active_frame [of "cleanup _ _"] split: option.splits)

lemma has_active_runops:
  assumes "has_active_run s k"
  shows "has_active_run (snd (restore_run_state_after_pending t1 sc s)) k"
    and "has_active_run (snd (bind_run_id t1 sc r s)) k"
    and "\<not> finishes_run k (OpUpdateRunState t1 sc rst) \<Longrightarrow> has_active_run (snd (update_run_state t1 sc rst s)) k"
  using assms
  by (auto simp: restore_run_state_after_pending_def bind_run_id_def update_run_state_def Let_def has_active_put
      is_terminal_run_state_def [of RunStateRunning] dest: has_active_run_of split: option.splits)

lemma has_active_register:
  assumes "has_active_run s k"
  shows "has_active_run (snd (register_pending_for_active_run t1 t2 pin s)) k"
proof -
  have p: "has_active_run (put_pending p u) k = has_active_run u k" for p u
    by (simp add: has_active_run_def put_pending_def)
  show ?thesis using assms
    by (auto simp: register_pending_for_active_run_def Let_def has_active_put p
        has_active_frame [of "cleanup _ _"] is_terminal_run_state_def [of RunStatePending] split: option.splits)
qed

lemma has_active_complete:
  assumes "has_active_run s k" "\<not> finishes_run k (OpCompleteRun t1 sc rst)"
  shows "has_active_run (snd (complete_run t1 sc rst s)) k"
proof -
  have c: "has_active_run (close_subscribers k' u) k = has_active_run u k" for k' u
    by (simp add: has_active_run_def close_subscribers_def)
  have d: "has_active_run (u\<lparr>st_active_runs := gm_del k' (st_active_runs u)\<rparr>) k \<longleftrightarrow> k \<noteq> k' \<and> has_active_run u k" for k' u
    by (simp add: has_active_run_def)
  show ?thesis using assms by (auto simp: complete_run_def c d split: option.splits)
qed

lemma has_active_step:
  assumes "has_active_run s k" "\<not> finishes_run k op"
  shows "has_active_run (chat_step s op) k"
  using assms
  by (cases op) (simp_all add: has_active_starts has_active_runops has_active_register has_active_complete
      runs_frame [THEN has_active_frame])

lemma has_active_run_steps:
  "has_active_run s k \<Longrightarrow> list_all (\<lambda>op. \<not> finishes_run k op) ops \<Longrightarrow> has_active_run (chat_run s ops) k"
  by (induction ops arbitrary: s) (simp_all add: has_active_step)


subsection \<open>Tables that an operation at most cleans up\<close>

text \<open>The operation's first clock reading, the time its cleanup uses (if it has one).\<close>

fun cleanup_time :: "chat_op \<Rightarrow> gtime option" where
  "cleanup_time (OpStartRun t1 t2 sc k) = Some t1"
| "cleanup_time (OpReserveCapacity t1 sc) = Some t1"
| "cleanup_time (OpStartRunReserved t1 t2 r sc k) = Some t1"
| "cleanup_time (OpAppend t1 t2 t3 i) = Some t1"
| "cleanup_time (OpReplay t1 t2 c) = Some t1"
| "cleanup_time (OpRegisterPending t1 t2 i) = Some t1"
| "cleanup_time (OpRegisterPendingActive t1 t2 i) = Some t1"
| "cleanup_time (OpClaimPending t1 t2 sc p) = Some t1"
| "cleanup_time (OpReleaseClaim t1 t2 sc p) = Some t1"
| "cleanup_time (OpPending t1 sc p) = Some t1"
| "cleanup_time (OpResolvePending t1 t2 sc p) = Some t1"
| "cleanup_time (OpReserveIdempotency t1 t2 sc) = Some t1"
| "cleanup_time (OpCompleteIdempotency t1 t2 sc r) = Some t1"
| "cleanup_time (OpReleaseIdempotency t1 sc) = Some t1"
| "cleanup_time _ = None"

text \<open>A table that is the old one or the cleaned one.\<close>

definition cleaned :: "(store \<Rightarrow> 'a) \<Rightarrow> gtime option \<Rightarrow> store \<Rightarrow> store \<Rightarrow> bool" where
  "cleaned tab ct s u \<longleftrightarrow> tab u = tab s \<or> (\<exists>t. ct = Some t \<and> tab u = tab (cleanup t s))"

fun pending_op :: "chat_op \<Rightarrow> string option" where
  "pending_op (OpRegisterPending t1 t2 i) = Some (pending_key (pi_run_scope i) (pi_pending_request_id i))"
| "pending_op (OpRegisterPendingActive t1 t2 i) = Some (pending_key (pi_run_scope i) (pi_pending_request_id i))"
| "pending_op (OpClaimPending t1 t2 sc p) = Some (pending_key sc p)"
| "pending_op (OpReleaseClaim t1 t2 sc p) = Some (pending_key sc p)"
| "pending_op (OpResolvePending t1 t2 sc p) = Some (pending_key sc p)"
| "pending_op _ = None"

fun idempotency_op :: "chat_op \<Rightarrow> idempotency_scope option" where
  "idempotency_op (OpReserveIdempotency t1 t2 sc) = Some sc"
| "idempotency_op (OpCompleteIdempotency t1 t2 sc r) = Some sc"
| "idempotency_op (OpReleaseIdempotency t1 sc) = Some sc"
| "idempotency_op _ = None"

lemma tables_runs:
  "cleaned st_pending (Some t1) s (snd (start_run t1 t2 sc ik s))"
  "cleaned st_pending (Some t1) s (snd (reserve_active_run_capacity t1 is s))"
  "cleaned st_pending (Some t1) s (snd (start_run_with_reservation t1 t2 is sc ik s))"
  "cleaned st_idempotency (Some t1) s (snd (start_run t1 t2 sc ik s))"
  "cleaned st_idempotency (Some t1) s (snd (reserve_active_run_capacity t1 is s))"
  "cleaned st_idempotency (Some t1) s (snd (start_run_with_reservation t1 t2 is sc ik s))"
  by (simp_all add: cleaned_def start_run_def reserve_active_run_capacity_def
      start_run_with_reservation_def put_run_def Let_def split: option.splits)

lemma tables_runs2:
  "cleaned st_pending None s (snd (release_active_run_capacity is s))"
  "cleaned st_pending None s (snd (update_run_state t1 sc rst s))"
  "cleaned st_pending None s (snd (restore_run_state_after_pending t1 sc s))"
  "cleaned st_pending None s (snd (bind_run_id t1 sc r s))"
  "cleaned st_pending None s (snd (complete_run t1 sc rst s))"
  "cleaned st_idempotency None s (snd (release_active_run_capacity is s))"
  "cleaned st_idempotency None s (snd (update_run_state t1 sc rst s))"
  "cleaned st_idempotency None s (snd (restore_run_state_after_pending t1 sc s))"
  "cleaned st_idempotency None s (snd (bind_run_id t1 sc r s))"
  "cleaned st_idempotency None s (snd (complete_run t1 sc rst s))"
  by (simp_all add: cleaned_def release_active_run_capacity_def update_run_state_def
      restore_run_state_after_pending_def bind_run_id_def complete_run_def put_run_def
      close_subscribers_def Let_def split: option.splits)

lemma tables_events:
  "cleaned st_pending (Some t1) s (snd (append_event t1 t2 t3 inp s))"
  "cleaned st_pending (Some t1) s (snd (replay t1 t2 c s))"
  "cleaned st_idempotency (Some t1) s (snd (append_event t1 t2 t3 inp s))"
  "cleaned st_idempotency (Some t1) s (snd (replay t1 t2 c s))"
  by (simp_all add: cleaned_def append_event_def replay_def publish_event_def set_subscribers_def
      Let_def split: option.splits)

lemma tables_events2:
  "cleaned st_pending None s (snd (subscribe sc s))" "cleaned st_pending None s (unsubscribe k i s)"
  "cleaned st_pending None s (snd (chan_receive i s))" "cleaned st_pending None s (record_diagnostic t1 d s)"
  "cleaned st_idempotency None s (snd (subscribe sc s))" "cleaned st_idempotency None s (unsubscribe k i s)"
  "cleaned st_idempotency None s (snd (chan_receive i s))" "cleaned st_idempotency None s (record_diagnostic t1 d s)"
  by (simp_all add: cleaned_def subscribe_def unsubscribe_def chan_receive_def record_diagnostic_def
      set_subscribers_def Let_def split: option.splits list.splits)

lemma tables_pending:
  "cleaned st_pending (Some t1) s (snd (pending_lookup t1 sc p s))"
  "cleaned st_idempotency (Some t1) s (snd (pending_lookup t1 sc p s))"
  "cleaned st_idempotency (Some t1) s (snd (register_pending t1 t2 pin s))"
  "cleaned st_idempotency (Some t1) s (snd (register_pending_for_active_run t1 t2 pin s))"
  "cleaned st_idempotency (Some t1) s (snd (claim_pending_resolution t1 t2 sc p s))"
  "cleaned st_idempotency (Some t1) s (snd (release_pending_resolution_claim t1 t2 sc p s))"
  "cleaned st_idempotency (Some t1) s (snd (resolve_pending t1 t2 sc p s))"
  by (simp_all add: cleaned_def pending_lookup_def register_pending_def register_pending_for_active_run_def
      claim_pending_resolution_def release_pending_resolution_claim_def resolve_pending_def
      put_run_def put_pending_def set_pending_def Let_def split: option.splits)

lemma tables_idempotency:
  "cleaned st_pending (Some t1) s (snd (reserve_idempotency t1 t2 is s))"
  "cleaned st_pending (Some t1) s (snd (complete_idempotency t1 t2 is res s))"
  "cleaned st_pending (Some t1) s (snd (release_idempotency t1 is s))"
  by (simp_all add: cleaned_def reserve_idempotency_def complete_idempotency_def release_idempotency_def
      Let_def split: option.splits)

lemmas tables_all = tables_runs tables_runs2 tables_events tables_events2 tables_pending tables_idempotency

lemma pending_cleaned: "pending_op op = None \<Longrightarrow> cleaned st_pending (cleanup_time op) s (chat_step s op)"
  by (cases op) (simp_all add: tables_all)

lemma idempotency_cleaned: "idempotency_op op = None \<Longrightarrow> cleaned st_idempotency (cleanup_time op) s (chat_step s op)"
  by (cases op) (simp_all add: tables_all)


subsection \<open>A pending request is claimed by one caller and resolved once\<close>

text \<open>The operations that may open (again) the request under key \<open>k\<close>.\<close>

fun registers_pending :: "string \<Rightarrow> chat_op \<Rightarrow> bool" where
  "registers_pending k (OpRegisterPending t1 t2 i) \<longleftrightarrow> pending_key (pi_run_scope i) (pi_pending_request_id i) = k"
| "registers_pending k (OpRegisterPendingActive t1 t2 i) \<longleftrightarrow> pending_key (pi_run_scope i) (pi_pending_request_id i) = k"
| "registers_pending k _ \<longleftrightarrow> False"

fun reopens_pending :: "string \<Rightarrow> chat_op \<Rightarrow> bool" where
  "reopens_pending k (OpReleaseClaim t1 t2 sc p) \<longleftrightarrow> pending_key sc p = k"
| "reopens_pending k op \<longleftrightarrow> registers_pending k op"

text \<open>Every record under key \<open>k\<close> satisfies \<open>Q\<close>.\<close>

definition pending_all :: "(pending_record \<Rightarrow> bool) \<Rightarrow> string \<Rightarrow> store \<Rightarrow> bool" where
  "pending_all Q k s \<longleftrightarrow> gm_all (\<lambda>k' r. k' = k \<longrightarrow> Q r) (st_pending s)"

abbreviation "unclaimable \<equiv> pending_all (\<lambda>r. pn_status r \<noteq> PendingStatusActive)"
abbreviation "settled \<equiv> pending_all (\<lambda>r. \<not> pending_live r)"

lemma gm_all_key: "gm_wf m \<Longrightarrow> gm_get m k = Some v \<Longrightarrow> Q v \<Longrightarrow> gm_all (\<lambda>k' r. k' = k \<longrightarrow> Q r) m"
proof -
  assume wf: "gm_wf m" and v: "gm_get m k = Some v" "Q v"
  have "v' = v" if "(k, v') \<in> set m" for v' using map_of_is_SomeI [OF wf that] v(1) by simp
  with v(2) show ?thesis by (auto simp: gm_all_def list_all_iff)
qed

lemma pending_all_cleanup:
  assumes "pending_all Q k s" "\<And>r x. Q r \<Longrightarrow> Q (r\<lparr>pn_status := PendingStatusExpired\<rparr>)"
  shows "pending_all Q k (cleanup t s)"
  using assms by (auto simp: pending_all_def cleanup_def cleanup_pending_record_def Let_def split: if_splits
      intro!: gm_all_filter_map)

lemma pending_all_cleaned:
  assumes "pending_all Q k s" "\<And>r x. Q r \<Longrightarrow> Q (r\<lparr>pn_status := PendingStatusExpired\<rparr>)"
    "cleaned st_pending ct s u"
  shows "pending_all Q k u"
  using assms(3) assms(1) pending_all_cleanup [OF assms(1,2)]
  by (auto simp: cleaned_def pending_all_def)

lemma pending_all_set: "pending_all Q k s \<Longrightarrow> (pending_key sc p = k \<Longrightarrow> Q r) \<Longrightarrow> pending_all Q k (set_pending sc p r s)"
  by (auto simp: pending_all_def set_pending_def intro!: gm_all_put)

lemma pending_all_put: "pending_all Q k s \<Longrightarrow> pending_key (pn_run_scope r) (pn_pending_request_id r) \<noteq> k \<Longrightarrow>
    pending_all Q k (put_pending r s)"
  by (auto simp: pending_all_def put_pending_def intro!: gm_all_put)

lemma pending_all_put_run: "pending_all Q k (put_run k' r s) = pending_all Q k s"
  by (simp add: pending_all_def put_run_def)

lemma pending_all_of: "pending_all Q k s \<Longrightarrow> pending_key sc p = k \<Longrightarrow> pending_of s sc p = Some r \<Longrightarrow> Q r"
  by (auto simp: pending_all_def pending_of_def dest: gm_allD)

lemma new_pending_key [simp]:
  "pn_run_scope (new_pending t l i) = pi_run_scope i"
  "pn_pending_request_id (new_pending t l i) = pi_pending_request_id i"
  by (simp_all add: new_pending_def Let_def)

lemma pending_all_registers:
  assumes "pending_all Q k s" "\<And>r x. Q r \<Longrightarrow> Q (r\<lparr>pn_status := PendingStatusExpired\<rparr>)"
    "pending_key (pi_run_scope i) (pi_pending_request_id i) \<noteq> k"
  shows "pending_all Q k (snd (register_pending t1 t2 i s))"
    "pending_all Q k (snd (register_pending_for_active_run t1 t2 i s))"
  using pending_all_cleanup [OF assms(1,2)] assms(1,3)
  by (auto simp: register_pending_def register_pending_for_active_run_def Let_def pending_all_put_run
      intro!: pending_all_put split: option.splits)

lemma pending_all_resolving:
  assumes "pending_all Q k s" "\<And>r x. Q r \<Longrightarrow> Q (r\<lparr>pn_status := PendingStatusExpired\<rparr>)"
    "\<And>r x. Q r \<Longrightarrow> pn_status r = PendingStatusActive \<Longrightarrow> Q (r\<lparr>pn_status := PendingStatusClaimed\<rparr>)"
    "\<And>r x. Q (r\<lparr>pn_status := PendingStatusResolved, pn_resolved_at := x\<rparr>)"
  shows "pending_all Q k (snd (claim_pending_resolution t1 t2 sc p s))"
    "pending_all Q k (snd (resolve_pending t1 t2 sc p s))"
proof -
  note c = pending_all_cleanup [OF assms(1,2), of t1]
  show "pending_all Q k (snd (claim_pending_resolution t1 t2 sc p s))"
    "pending_all Q k (snd (resolve_pending t1 t2 sc p s))"
    using c assms(1) pending_all_of [OF c, of sc p]
    by (auto simp: claim_pending_resolution_def resolve_pending_def Let_def assms(2-4)
        intro!: pending_all_set split: option.splits)
qed

lemma pending_all_release:
  assumes "pending_all Q k s" "\<And>r x. Q r \<Longrightarrow> Q (r\<lparr>pn_status := PendingStatusExpired\<rparr>)"
    "pending_key sc p \<noteq> k \<or> (\<forall>r. Q r \<longrightarrow> pn_status r \<noteq> PendingStatusClaimed)"
  shows "pending_all Q k (snd (release_pending_resolution_claim t1 t2 sc p s))"
proof -
  note c = pending_all_cleanup [OF assms(1,2), of t1]
  show ?thesis
    using c assms(1,3) pending_all_of [OF c, of sc p]
    by (auto simp: release_pending_resolution_claim_def Let_def assms(2)
        intro!: pending_all_set split: option.splits)
qed

text \<open>An operation that does not open the request keeps it closed, for the two notions of closed.\<close>

lemma unclaimable_step:
  assumes "unclaimable k s" "\<not> reopens_pending k op"
  shows "unclaimable k (chat_step s op)"
proof (cases "pending_op op")
  case None
  show ?thesis by (rule pending_all_cleaned [OF assms(1) _ pending_cleaned [OF None]]) simp
next
  case (Some x)
  with assms show ?thesis
    by (cases op) (simp_all add: pending_all_registers pending_all_resolving pending_all_release)
qed

lemma settled_step:
  assumes "settled k s" "\<not> registers_pending k op"
  shows "settled k (chat_step s op)"
proof (cases "pending_op op")
  case None
  show ?thesis by (rule pending_all_cleaned [OF assms(1) _ pending_cleaned [OF None]]) (simp add: pending_live_def)
next
  case (Some x)
  with assms show ?thesis
    by (cases op) (auto simp: pending_live_def intro!: pending_all_registers pending_all_resolving pending_all_release)
qed

lemma unclaimable_steps:
  "unclaimable k s \<Longrightarrow> list_all (\<lambda>op. \<not> reopens_pending k op) ops \<Longrightarrow> unclaimable k (chat_run s ops)"
  by (induction ops arbitrary: s) (simp_all add: unclaimable_step)

lemma settled_steps:
  "settled k s \<Longrightarrow> list_all (\<lambda>op. \<not> registers_pending k op) ops \<Longrightarrow> settled k (chat_run s ops)"
  by (induction ops arbitrary: s) (simp_all add: settled_step)

lemma unclaimable_claim:
  assumes "unclaimable (pending_key sc p) s"
  shows "\<exists>e. fst (claim_pending_resolution t1 t2 sc p s) = Inl e"
proof -
  have c: "unclaimable (pending_key sc p) (cleanup t1 s)" by (rule pending_all_cleanup [OF assms]) simp
  show ?thesis using pending_all_of [OF c refl]
    by (auto simp: claim_pending_resolution_def Let_def split: option.splits)
qed

lemma settled_resolve:
  assumes "settled (pending_key sc p) s"
  shows "\<exists>e. fst (resolve_pending t1 t2 sc p s) = Inl e"
    and "\<exists>e. fst (claim_pending_resolution t1 t2 sc p s) = Inl e"
proof -
  have c: "settled (pending_key sc p) (cleanup t1 s)"
    by (rule pending_all_cleanup [OF assms]) (simp add: pending_live_def)
  show "\<exists>e. fst (resolve_pending t1 t2 sc p s) = Inl e" using pending_all_of [OF c refl]
    by (auto simp: resolve_pending_def Let_def split: option.splits)
  show "\<exists>e. fst (claim_pending_resolution t1 t2 sc p s) = Inl e" using pending_all_of [OF c refl]
    by (auto simp: claim_pending_resolution_def Let_def pending_live_def split: option.splits)
qed

lemma core_ok_cleanup: "core_ok s \<Longrightarrow> core_ok (cleanup t s)"
  by (rule core_ok_eff [OF eff_cleanup])

lemma claim_unclaimable:
  assumes "claim_pending_resolution t1 t2 sc p s = (Inr r, s1)" "core_ok s"
  shows "unclaimable (pending_key sc p) s1"
proof -
  have "gm_wf (st_pending (cleanup t1 s))"
    using core_ok_cleanup [OF assms(2), of t1] by (simp add: core_ok_def maps_ok_def)
  moreover have "s1 = set_pending sc p r (cleanup t1 s)" "pn_status r = PendingStatusClaimed"
    using assms(1) by (auto simp: claim_pending_resolution_def Let_def split: option.splits if_splits)
  ultimately show ?thesis
    by (auto simp: pending_all_def set_pending_def intro!: gm_all_key)
qed

lemma resolve_settled:
  assumes "resolve_pending t1 t2 sc p s = (Inr r, s1)" "core_ok s"
  shows "settled (pending_key sc p) s1"
proof -
  have "gm_wf (st_pending (cleanup t1 s))"
    using core_ok_cleanup [OF assms(2), of t1] by (simp add: core_ok_def maps_ok_def)
  moreover have "s1 = set_pending sc p r (cleanup t1 s)" "pn_status r = PendingStatusResolved"
    using assms(1) by (auto simp: resolve_pending_def Let_def split: option.splits if_splits)
  ultimately show ?thesis
    by (auto simp: pending_all_def set_pending_def pending_live_def intro!: gm_all_key)
qed

subsection \<open>Idempotency entries persist\<close>

text \<open>The operations that leave an existing entry alone: none but a completion or a release of its
  own scope changes it, and a cleanup keeps it while it is in flight or fresh.\<close>

fun keeps_entry :: "limits \<Rightarrow> idempotency_entry \<Rightarrow> chat_op \<Rightarrow> bool" where
  "keeps_entry l e op \<longleftrightarrow>
     (case cleanup_time op of None \<Rightarrow> True | Some t \<Rightarrow>
        ie_state e = IdemInFlight \<or> t \<le> from_milli (ie_updated_at e) + lim_replay_ttl l) \<and>
     (case op of OpCompleteIdempotency t1 t2 sc r \<Rightarrow> sc \<noteq> ie_scope e
      | OpReleaseIdempotency t1 sc \<Rightarrow> sc \<noteq> ie_scope e \<or> ie_state e \<noteq> IdemInFlight
      | _ \<Rightarrow> True)"

definition idem_entry :: "idempotency_entry \<Rightarrow> store \<Rightarrow> bool" where
  "idem_entry e s \<longleftrightarrow> gm_get (st_idempotency s) (idempotency_key (ie_scope e)) = Some e"

lemma idem_entry_cleanup:
  assumes "core_ok s" "idem_entry e s"
    "ie_state e = IdemInFlight \<or> t \<le> from_milli (ie_updated_at e) + lim_replay_ttl (st_limits s)"
  shows "idem_entry e (cleanup t s)"
proof -
  have w: "gm_wf (st_idempotency s)" using assms(1) by (simp add: core_ok_def maps_ok_def)
  have c: "cleanup_idempotency_entry t (lim_replay_ttl (st_limits s)) e = Some e"
    using assms(3) by (auto simp: cleanup_idempotency_entry_def)
  have "gm_get (st_idempotency (cleanup t s)) k = Option.bind (gm_get (st_idempotency s) k)
      (cleanup_idempotency_entry t (lim_replay_ttl (st_limits s)))" for k
    by (simp add: cleanup_def gm_get_filter_map [OF w])
  with c assms(2) show ?thesis unfolding idem_entry_def by (simp only: bind.simps)
qed

text \<open>What an idempotency operation does to a table that holds \<open>e\<close>.\<close>

lemma idem_entry_put: "idem_entry e s \<Longrightarrow> idempotency_key (ie_scope e) \<noteq> k \<Longrightarrow>
    idem_entry e (s\<lparr>st_idempotency := gm_put k x (st_idempotency s)\<rparr>)"
  by (simp add: idem_entry_def)

lemma idem_entry_del: "idem_entry e s \<Longrightarrow> idempotency_key (ie_scope e) \<noteq> k \<Longrightarrow>
    idem_entry e (s\<lparr>st_idempotency := gm_del k (st_idempotency s)\<rparr>)"
  by (simp add: idem_entry_def)

lemma idem_entry_ops:
  assumes "idem_entry e s" "idem_entry e (cleanup t1 s)"
  shows "idem_entry e (snd (reserve_idempotency t1 t2 sc s))"
    and "sc \<noteq> ie_scope e \<Longrightarrow> idem_entry e (snd (complete_idempotency t1 t2 sc r s))"
    and "sc \<noteq> ie_scope e \<or> ie_state e \<noteq> IdemInFlight \<Longrightarrow> idem_entry e (snd (release_idempotency t1 sc s))"
proof -
  let ?c = "cleanup t1 s"
  have g: "x = e" if "gm_get (st_idempotency ?c) (idempotency_key sc) = Some x"
    "idempotency_key (ie_scope e) = idempotency_key sc" for x
    using assms(2) that by (simp add: idem_entry_def)
  have n: "idempotency_key (ie_scope e) \<noteq> idempotency_key sc"
    if "gm_get (st_idempotency ?c) (idempotency_key sc) = None"
    using assms(2) that by (metis idem_entry_def option.distinct(1))
  show "idem_entry e (snd (reserve_idempotency t1 t2 sc s))"
    using assms n by (auto simp: reserve_idempotency_def Let_def intro: idem_entry_put split: option.split simp del: cleanup_simps)
  show "sc \<noteq> ie_scope e \<Longrightarrow> idem_entry e (snd (complete_idempotency t1 t2 sc r s))"
    using assms g by (auto simp: complete_idempotency_def Let_def intro: idem_entry_put split: option.split simp del: cleanup_simps)
  show "sc \<noteq> ie_scope e \<or> ie_state e \<noteq> IdemInFlight \<Longrightarrow> idem_entry e (snd (release_idempotency t1 sc s))"
    using assms g by (auto simp: release_idempotency_def Let_def intro: idem_entry_del split: option.split simp del: cleanup_simps)
qed

lemma idem_entry_step:
  assumes "core_ok s" "idem_entry e s" "keeps_entry (st_limits s) e op"
  shows "idem_entry e (chat_step s op)"
proof (cases "idempotency_op op")
  case None
  from idempotency_cleaned [OF None, of s] show ?thesis
    using assms idem_entry_cleanup [OF assms(1,2)] by (auto simp: cleaned_def idem_entry_def)
next
  case (Some sc)
  have c: "idem_entry e (cleanup t s)" if "cleanup_time op = Some t" for t
    using idem_entry_cleanup [OF assms(1,2)] assms(3) that by simp
  show ?thesis
  proof (cases op)
    case (OpReserveIdempotency t1 t2 sc')
    then show ?thesis using idem_entry_ops(1) [OF assms(2) c] by simp
  next
    case (OpCompleteIdempotency t1 t2 sc' r)
    then show ?thesis using idem_entry_ops(2) [OF assms(2) c] assms(3) by simp
  next
    case (OpReleaseIdempotency t1 sc')
    then show ?thesis using idem_entry_ops(3) [OF assms(2) c] assms(3) by simp
  qed (use Some in simp_all)
qed

lemma limits_step [simp]: "core_ok s \<Longrightarrow> st_limits (chat_step s op) = st_limits s"
  by (rule effs_inv [where P = "\<lambda>u. st_limits u = st_limits s", OF chat_step_effs]) (simp_all add: core_ok_def)

lemma idem_entry_steps:
  assumes "core_ok s" "idem_entry e s" "list_all (keeps_entry (st_limits s) e) ops"
  shows "idem_entry e (chat_run s ops)" "core_ok (chat_run s ops)" "st_limits (chat_run s ops) = st_limits s"
  using assms by (induction ops arbitrary: s) (simp_all add: idem_entry_step core.inv_step del: keeps_entry.simps)

lemma idem_entry_reserve:
  assumes "core_ok s" "idem_entry e s" "validate_idempotency_scope (ie_scope e) = None"
    "ie_state e = IdemInFlight \<or> t1 \<le> from_milli (ie_updated_at e) + lim_replay_ttl (st_limits s)"
  shows "reserve_idempotency t1 t2 (ie_scope e) s = (Inr (e, True), cleanup t1 s)"
  using idem_entry_cleanup [OF assms(1,2,4)] assms(3)
  by (simp add: reserve_idempotency_def idem_entry_def Let_def)

subsection \<open>A held reservation stays until it is used or released\<close>

fun uses_reservation :: "string \<Rightarrow> chat_op \<Rightarrow> bool" where
  "uses_reservation k (OpReleaseCapacity sc) \<longleftrightarrow> active_run_reservation_key sc = k"
| "uses_reservation k (OpStartRunReserved t1 t2 r sc ik) \<longleftrightarrow> active_run_reservation_key r = k"
| "uses_reservation k _ \<longleftrightarrow> False"

lemma reservation_step:
  assumes "gm_get (st_reservations s) k \<noteq> None" "\<not> uses_reservation k op"
  shows "gm_get (st_reservations (chat_step s op)) k \<noteq> None"
proof (cases op)
  case (OpReserveCapacity t1 sc)
  with assms show ?thesis by (auto simp: reserve_active_run_capacity_def Let_def split: option.splits)
next
  case (OpReleaseCapacity sc)
  with assms show ?thesis by (auto simp: release_active_run_capacity_def split: option.splits)
next
  case (OpStartRunReserved t1 t2 r sc ik)
  with assms show ?thesis by (auto simp: start_run_with_reservation_def put_run_def Let_def split: option.splits)
qed (use assms(1) in \<open>simp_all add: reservations_frame\<close>)

lemma reservation_steps:
  "gm_get (st_reservations s) k \<noteq> None \<Longrightarrow> list_all (\<lambda>op. \<not> uses_reservation k op) ops \<Longrightarrow>
     gm_get (st_reservations (chat_run s ops)) k \<noteq> None"
proof (induction ops arbitrary: s)
  case (Cons op ops)
  from Cons.IH [OF reservation_step [OF Cons.prems(1)]] Cons.prems(2) show ?case by simp
qed simp

end
