(* ===== verification/Chat_Properties.thy ===== *)
theory Chat_Properties
  imports Chat_Safety
begin

subsection \<open>Replay\<close>

lemma log_ok_reachable: "log_ok (history (new_store e c l) ops) (chat_run (new_store e c l) ops)"
  using log_ok_run [OF log_ok_new, of e c l ops] by simp

lemma limits_reachable [simp]: "st_limits (chat_run (new_store e c l) ops) = normalize_limits l"
proof -
  have "core_ok s \<Longrightarrow> st_limits (chat_run s ops) = st_limits s" for s
    by (induction ops arbitrary: s) (simp_all add: core.inv_step)
  from this [of "new_store e c l"] store_ok_new [of e c l] show ?thesis
    by (simp add: store_ok_def) (simp add: new_store_def)
qed

lemma run_events_increase:
  assumes "log_ok h s" "length h < 2 ^ 64"
  shows "ids_increase ev_event_id (run_events k h)" "\<And>e. e \<in> set (run_events k h) \<Longrightarrow> 0 < ev_event_id e"
proof -
  have "ids_increase ev_event_id h"
    using assms by (intro consecutive_ids_increase) (auto simp: log_ok_def)
  then show "ids_increase ev_event_id (run_events k h)"
    by (simp add: run_events_def ids_increase_filter)
  show "0 < ev_event_id e" if "e \<in> set (run_events k h)" for e
  proof -
    from that obtain i where "i < length h" "e = h ! i" by (auto simp: run_events_def in_set_conv_nth)
    with assms show ?thesis using consecutive_id_pos [of i h ev_event_id] by (auto simp: log_ok_def)
  qed
qed

lemma replay_ok_buffer:
  assumes "fst (replay t1 t2 c s) = Inr r"
  obtains b where "b = enforce_replay_limits t2 (st_limits s) (buffer_of s (replay_key (cu_run_scope c)))"
    "rb_events b \<noteq> []" "read_buffer c b = Inr r" "cu_epoch c = st_epoch s"
proof -
  let ?k = "replay_key (cu_run_scope c)"
  have ep: "cu_epoch c = st_epoch s"
    using assms by (simp add: replay_def Let_def split: if_splits)
  with assms obtain b0 where b0: "gm_get (st_replay s) ?k = Some b0"
    by (cases "gm_get (st_replay s) ?k") (simp_all add: replay_def Let_def)
  let ?b = "enforce_replay_limits t2 (st_limits s) b0"
  have ne: "rb_events b0 \<noteq> []" using assms ep b0 by (auto simp: replay_def Let_def)
  have ne': "rb_events ?b \<noteq> []" using assms ep b0 ne by (auto simp: replay_def Let_def)
  have "read_buffer c ?b = Inr r" using assms ep b0 ne ne' by (simp add: replay_def Let_def)
  with that [of ?b] ne' ep b0 show thesis by (simp add: buffer_of_def)
qed

lemma read_buffer_ok:
  assumes "read_buffer c b = Inr r"
  shows "rp_events r = events_after (cu_after_event_id c) (rb_events b)"
    "\<not> cu_after_event_id c < ev_event_id (hd (rb_events b)) - 1 \<or>
       (cu_after_event_id c = 0 \<and> \<not> rp_from_start_available r)"
  using assms by (auto simp: read_buffer_def replay_view_def Let_def split: if_splits)

lemma replay_reads_history:
  assumes "log_ok h s" "length h < 2 ^ 64" "fst (replay t1 t2 c s) = Inr r"
  defines "es \<equiv> run_events (replay_key (cu_run_scope c)) h"
  shows "rp_events r = events_after (cu_after_event_id c) es \<or>
    (cu_after_event_id c = 0 \<and> \<not> rp_from_start_available r \<and> rp_events r \<noteq> [] \<and> suffix (rp_events r) es)"
proof -
  obtain b where b: "b = enforce_replay_limits t2 (st_limits s) (buffer_of s (replay_key (cu_run_scope c)))"
    "rb_events b \<noteq> []" "read_buffer c b = Inr r"
    using assms(3) by (rule replay_ok_buffer)
  obtain n where n: "rb_events b = drop n es"
    using assms(1) enforce_suffix [of t2 "st_limits s"] b(1) unfolding log_ok_def es_def by (metis drop_drop)
  have inc: "ids_increase ev_event_id es" unfolding es_def by (rule run_events_increase [OF assms(1,2)])
  have pos: "0 < ev_event_id e" if "e \<in> set (rb_events b)" for e
    using that run_events_increase(2) [OF assms(1,2)] n by (auto simp: es_def dest: in_set_dropD)
  show ?thesis
  proof (cases "cu_after_event_id c < ev_event_id (hd (rb_events b)) - 1")
    case False
    have "events_after (cu_after_event_id c) (rb_events b) = events_after (cu_after_event_id c) es"
      by (rule chat_log.buffer_complete [OF inc n b(2)])
        (use pos b(2) False in simp_all)
    with read_buffer_ok [OF b(3)] show ?thesis by simp
  next
    case True
    with read_buffer_ok [OF b(3)] have c: "cu_after_event_id c = 0" "\<not> rp_from_start_available r" by auto
    have "rp_events r = rb_events b"
      using read_buffer_ok(1) [OF b(3)] c(1) chat_log.after_all [of "rb_events b" 0] pos by simp
    with b(2) n c show ?thesis by (simp add: suffix_drop)
  qed
qed

lemma append_fresh_buffer:
  assumes "validate_run_scope (ei_run_scope inp) = None" "0 \<le> ei_size_bytes inp"
    "gm_get (st_replay s) (replay_key (ei_run_scope inp)) = None"
    "\<not> replay_evicts t3 (st_limits s) [new_event t2 inp (cleanup t1 s)] (i64 (ei_size_bytes inp)) (new_event t2 inp (cleanup t1 s))"
  shows "buffer_of (snd (append_event t1 t2 t3 inp s)) (replay_key (ei_run_scope inp)) =
    \<lparr>rb_events = [new_event t2 inp (cleanup t1 s)], rb_bytes = i64 (ei_size_bytes inp), rb_start_evicted_before = 0\<rparr>"
proof -
  have "fst (append_event t1 t2 t3 inp s) = Inr (new_event t2 inp (cleanup t1 s))"
    using assms(1,2) by (simp add: append_event_def Let_def)
  from append_ok(2) [OF this] assms(3,4) show ?thesis
    by (simp add: buffer_of_def buffer_add_def empty_buffer_def enforce_replay_limits_def new_event_def)
qed


lemma start_run_busy:
  assumes "has_active_run s (active_run_key (rs_scope sc))" "validate_run_scope sc = None"
  shows "fst (start_run t1 t2 sc ik s) = Inl (already_running sc)"
  using assms by (simp add: start_run_def Let_def has_active_run_def)

subsection \<open>A concrete store for the witnesses\<close>

definition ex_scope :: "string \<Rightarrow> run_scope" where
  "ex_scope chat = \<lparr>rs_scope = \<lparr>sc_session_group_id = ''g'', sc_workspace_id = ''w'', sc_chat_id = chat\<rparr>,
     rs_run_id = ''r''\<rparr>"

definition ex_body :: event_body where
  "ex_body = \<lparr>eb_kind = ''status'', eb_state = ''running'', eb_reason = ReasonNone,
     eb_assistant_delta = None, eb_assistant_message_completed = None, eb_pending_created = None,
     eb_pending_resolved = None, eb_terminal = None, eb_command_started = None,
     eb_command_output_delta = None, eb_gateway_warning = None\<rparr>"

definition ex_input :: "string \<Rightarrow> event_input" where
  "ex_input chat = \<lparr>ei_run_scope = ex_scope chat, ei_body = ex_body, ei_size_bytes = 10\<rparr>"

abbreviation ex_store :: store where
  "ex_store \<equiv> new_store ''e'' ''c'' default_limits"

definition ex_cursor :: "string \<Rightarrow> u64 \<Rightarrow> cursor" where
  "ex_cursor chat n = \<lparr>cu_epoch = ''e'', cu_run_scope = ex_scope chat, cu_after_event_id = n\<rparr>"

definition ex_idem :: idempotency_scope where
  "ex_idem = \<lparr>is_operation = ''SendTurn'', is_session_group_id = ''g'', is_workspace_id = ''w'',
     is_chat_id = ''c'', is_pending_request_id = [], is_client_message_id = [], is_key = ''k''\<rparr>"

definition ex_pending :: pending_input where
  "ex_pending = \<lparr>pi_run_scope = ex_scope ''c'', pi_pending_request_id = ''p'', pi_ttl = 10 ^ 12,
     pi_reason = ReasonNone\<rparr>"


subsection \<open>The properties\<close>

text \<open>
  C25: Every store reachable from a new one by any operations is well formed: each map has one
  entry per key, the capacities of runs, pending requests, idempotency entries and diagnostics are
  respected, each entry sits under its own key, and each replay buffer is within its byte and
  count limits with its byte counter exact.
\<close>

theorem chat_store_invariants: "store_ok (chat_run (new_store e c l) ops)"
  by (rule chat_store.inv_run [OF store_ok_new])

text \<open>
  C18: A replay of a chat run that succeeds returns exactly the run's events after the cursor, of
  all the events ever appended to it; only a replay from the start may return less, and then it
  says that the start is gone and returns a non-empty suffix of them. (Go: Store.AppendEvent,
  Store.Replay and the eviction by count, bytes and age; any number of operations on any scopes in
  between.)
\<close>

theorem replay_complete:
  assumes "length (history (new_store ep ck l) ops) < 2 ^ 64"
    and "fst (replay t1 t2 c (chat_run (new_store ep ck l) ops)) = Inr r"
  shows "rp_events r = events_after (cu_after_event_id c)
      (run_events (replay_key (cu_run_scope c)) (history (new_store ep ck l) ops)) \<or>
    (cu_after_event_id c = 0 \<and> \<not> rp_from_start_available r \<and> rp_events r \<noteq> [] \<and>
     suffix (rp_events r) (run_events (replay_key (cu_run_scope c)) (history (new_store ep ck l) ops)))"
  by (rule replay_reads_history [OF log_ok_reachable assms])

lemma returned_pair: "\<not> isl (fst x) \<Longrightarrow> x = (Inr (projr (fst x)), snd x)"
  by (simp add: sum.collapse(2) flip: prod.collapse)

abbreviation ex_ops :: "chat_op list" where
  "ex_ops \<equiv> [OpAppend 0 0 0 (ex_input ''c''), OpAppend 0 0 0 (ex_input ''d''), OpAppend 0 0 0 (ex_input ''c'')]"

abbreviation ex_replayed :: replay_result where
  "ex_replayed \<equiv> projr (fst (replay 0 0 (ex_cursor ''c'' 1) (chat_run ex_store ex_ops)))"

theorem replay_complete_witness:
  "length (history ex_store ex_ops) < 2 ^ 64 \<and>
   fst (replay 0 0 (ex_cursor ''c'' 1) (chat_run ex_store ex_ops)) = Inr ex_replayed \<and>
   map ev_event_id (rp_events ex_replayed) = [3] \<and>
   rp_events ex_replayed = events_after 1 (run_events (replay_key (ex_scope ''c'')) (history ex_store ex_ops))"
proof -
  have "length (history ex_store ex_ops) = 3" by code_simp
  then have 1: "length (history ex_store ex_ops) < 2 ^ 64" by (simp only:) simp
  have "\<not> isl (fst (replay 0 0 (ex_cursor ''c'' 1) (chat_run ex_store ex_ops)))" by code_simp
  then have 2: "fst (replay 0 0 (ex_cursor ''c'' 1) (chat_run ex_store ex_ops)) = Inr ex_replayed"
    by (rule sum.collapse(2) [symmetric])
  have 3: "map ev_event_id (rp_events ex_replayed) = [3]" by code_simp
  have 4: "cu_run_scope (ex_cursor ''c'' 1) = ex_scope ''c''" "cu_after_event_id (ex_cursor ''c'' 1) = 1"
    by (simp_all add: ex_cursor_def)
  from replay_complete [OF 1 2, unfolded 4] 1 2 3 show ?thesis by (simp only: one_neq_zero) blast
qed

text \<open>
  C20: While a started chat run has not been completed, updated to a terminal state or replaced,
  no second run of the same chat can be started: the attempt is answered with already running.
\<close>

theorem active_run_exclusive:
  assumes "fst (start_run t1 t2 sc ik s) = Inr r"
    and "list_all (\<lambda>op. \<not> finishes_run (active_run_key (rs_scope sc)) op) ops"
    and "rs_scope sc' = rs_scope sc" "rs_run_id sc' \<noteq> []"
  shows "fst (start_run t1' t2' sc' ik' (chat_run (snd (start_run t1 t2 sc ik s)) ops)) = Inl (already_running sc')"
proof -
  have v: "validate_run_scope sc = None" using assms(1) by (simp add: start_run_def split: option.splits)
  have "has_active_run (snd (start_run t1 t2 sc ik s)) (active_run_key (rs_scope sc))"
    using assms(1) v by (auto simp: start_run_def Let_def has_active_put split: if_splits)
  note has_active_run_steps [OF this assms(2)]
  moreover have "validate_run_scope sc' = None"
    using v assms(3,4) by (simp add: validate_run_scope_def split: if_splits)
  ultimately show ?thesis using assms(3) by (intro start_run_busy) simp_all
qed

abbreviation ex_start :: "run_record result \<times> store" where
  "ex_start \<equiv> start_run 0 0 (ex_scope ''c'') ''k'' ex_store"

theorem active_run_exclusive_witness:
  "fst ex_start = Inr (projr (fst ex_start)) \<and>
   fst (start_run 5 5 (ex_scope ''c'') ''k2'' (chat_run (snd ex_start) ex_ops)) = Inl (already_running (ex_scope ''c''))"
proof -
  have "\<not> isl (fst ex_start)" by code_simp
  then have 1: "fst ex_start = Inr (projr (fst ex_start))" by (rule sum.collapse(2) [symmetric])
  have 2: "list_all (\<lambda>op. \<not> finishes_run (active_run_key (rs_scope (ex_scope ''c''))) op) ex_ops" by code_simp
  have 3: "rs_run_id (ex_scope ''c'') \<noteq> []" by code_simp
  from active_run_exclusive [OF 1 2 refl 3] 1 show ?thesis by simp
qed

text \<open>
  C21: Once a pending request of a chat has been claimed for resolution, every further claim fails
  until the claim is released, the request is registered again, or it is resolved; whatever other
  operations happen, expiry included.
\<close>

theorem pending_claim_exclusive:
  assumes "claim_pending_resolution t1 t2 sc p (chat_run (new_store ep ck l) ops0) = (Inr r, s1)"
    and "list_all (\<lambda>op. \<not> reopens_pending (pending_key sc p) op) ops"
  shows "\<exists>e. fst (claim_pending_resolution t1' t2' sc p (chat_run s1 ops)) = Inl e"
proof -
  have "core_ok (chat_run (new_store ep ck l) ops0)"
    using chat_store.inv_run [OF store_ok_new] by (simp add: store_ok_def)
  from claim_unclaimable [OF assms(1) this] assms(2) show ?thesis
    by (intro unclaimable_claim unclaimable_steps)
qed

abbreviation ex_registered :: "chat_op list" where
  "ex_registered \<equiv> [OpRegisterPending 0 0 ex_pending]"

abbreviation ex_claim :: "pending_record result \<times> store" where
  "ex_claim \<equiv> claim_pending_resolution 1 1 (ex_scope ''c'') ''p'' (chat_run ex_store ex_registered)"

theorem pending_claim_exclusive_witness:
  "ex_claim = (Inr (projr (fst ex_claim)), snd ex_claim) \<and>
   (\<exists>e. fst (claim_pending_resolution 2 2 (ex_scope ''c'') ''p'' (chat_run (snd ex_claim) ex_ops)) = Inl e)"
proof -
  have "\<not> isl (fst ex_claim)" by code_simp
  then have 1: "ex_claim = (Inr (projr (fst ex_claim)), snd ex_claim)" by (rule returned_pair)
  have 2: "list_all (\<lambda>op. \<not> reopens_pending (pending_key (ex_scope ''c'') ''p'') op) ex_ops" by code_simp
  from pending_claim_exclusive [OF 1 2] 1 show ?thesis by blast
qed

text \<open>
  A pending request is resolved at most once: after a successful resolution every further
  resolution fails until the request is registered again.
\<close>

theorem pending_resolved_once:
  assumes "resolve_pending t1 t2 sc p (chat_run (new_store ep ck l) ops0) = (Inr r, s1)"
    and "list_all (\<lambda>op. \<not> registers_pending (pending_key sc p) op) ops"
  shows "\<exists>e. fst (resolve_pending t1' t2' sc p (chat_run s1 ops)) = Inl e"
proof -
  have "core_ok (chat_run (new_store ep ck l) ops0)"
    using chat_store.inv_run [OF store_ok_new] by (simp add: store_ok_def)
  from resolve_settled [OF assms(1) this] assms(2) show ?thesis
    by (intro settled_resolve settled_steps)
qed

abbreviation ex_resolve :: "pending_record result \<times> store" where
  "ex_resolve \<equiv> resolve_pending 1 1 (ex_scope ''c'') ''p'' (chat_run ex_store ex_registered)"

theorem pending_resolved_once_witness:
  "ex_resolve = (Inr (projr (fst ex_resolve)), snd ex_resolve) \<and>
   (\<exists>e. fst (resolve_pending 2 2 (ex_scope ''c'') ''p''
      (chat_run (snd ex_resolve) [OpReleaseClaim 2 2 (ex_scope ''c'') ''p''])) = Inl e)"
proof -
  have "\<not> isl (fst ex_resolve)" by code_simp
  then have 1: "ex_resolve = (Inr (projr (fst ex_resolve)), snd ex_resolve)" by (rule returned_pair)
  have 2: "list_all (\<lambda>op. \<not> registers_pending (pending_key (ex_scope ''c'') ''p'') op)
      [OpReleaseClaim 2 2 (ex_scope ''c'') ''p'']" by simp
  from pending_resolved_once [OF 1 2] 1 show ?thesis by blast
qed

text \<open>
  C22: After a reservation of an idempotency key, the same request finds the entry in flight,
  however long it takes, until the entry is completed or released.
\<close>

theorem idempotency_in_flight:
  assumes "reserve_idempotency t1 t2 sc (chat_run (new_store ep ck l) ops0) = (Inr (e, False), s1)"
    and "list_all (keeps_entry (normalize_limits l) e) ops"
  shows "fst (reserve_idempotency t1' t2' sc (chat_run s1 ops)) = Inr (e, True) \<and> ie_state e = IdemInFlight"
proof -
  let ?s = "chat_run (new_store ep ck l) ops0"
  have "core_ok ?s" "st_limits ?s = normalize_limits l"
    using chat_store.inv_run [OF store_ok_new] by (simp_all add: store_ok_def limits_reachable)
  moreover have e: "ie_state e = IdemInFlight" "ie_scope e = sc" "validate_idempotency_scope sc = None"
    "s1 = (cleanup t1 ?s)\<lparr>st_idempotency := gm_put (idempotency_key sc) e (st_idempotency (cleanup t1 ?s))\<rparr>"
    using assms(1) by (auto simp: reserve_idempotency_def Let_def split: option.splits if_splits)
  ultimately have "core_ok s1" "idem_entry e s1" "st_limits s1 = normalize_limits l"
    using core.inv_step [of ?s "OpReserveIdempotency t1 t2 sc"] assms(1) by (simp_all add: idem_entry_def)
  with idem_entry_steps [of s1 e ops] assms(2) e(1-3)
    idem_entry_reserve [of "chat_run s1 ops" e t1' t2'] show ?thesis by simp
qed

text \<open>
  C23: After an idempotency entry was completed, the same request is answered with the recorded
  result until the retention time has passed.
\<close>

theorem idempotency_result_kept:
  assumes "complete_idempotency t1 t2 sc res (chat_run (new_store ep ck l) ops0) = (Inr e, s1)"
    and "list_all (keeps_entry (normalize_limits l) e) ops"
    and "t1' \<le> from_milli (ie_updated_at e) + lim_replay_ttl (normalize_limits l)"
  shows "fst (reserve_idempotency t1' t2' sc (chat_run s1 ops)) = Inr (e, True) \<and>
    ie_state e = IdemSucceeded \<and> ie_result e = res"
proof -
  let ?s = "chat_run (new_store ep ck l) ops0"
  have "core_ok ?s" "st_limits ?s = normalize_limits l"
    using chat_store.inv_run [OF store_ok_new] by (simp_all add: store_ok_def limits_reachable)
  moreover have e: "ie_state e = IdemSucceeded" "ie_scope e = sc" "validate_idempotency_scope sc = None" "ie_result e = res"
    "s1 = (cleanup t1 ?s)\<lparr>st_idempotency := gm_put (idempotency_key sc) e (st_idempotency (cleanup t1 ?s))\<rparr>"
    using assms(1) by (auto simp: complete_idempotency_def Let_def split: option.splits if_splits)
  ultimately have "core_ok s1" "idem_entry e s1" "st_limits s1 = normalize_limits l"
    using core.inv_step [of ?s "OpCompleteIdempotency t1 t2 sc res"] assms(1) by (simp_all add: idem_entry_def)
  with idem_entry_steps [of s1 e ops] assms(2,3) e(1-4)
    idem_entry_reserve [of "chat_run s1 ops" e t1' t2'] show ?thesis by simp
qed


abbreviation ex_reserved :: "(idempotency_entry \<times> bool) result \<times> store" where
  "ex_reserved \<equiv> reserve_idempotency 0 0 ex_idem (chat_run ex_store ex_ops)"

abbreviation ex_entry :: idempotency_entry where
  "ex_entry \<equiv> fst (projr (fst ex_reserved))"

theorem idempotency_in_flight_witness:
  "ex_reserved = (Inr (ex_entry, False), snd ex_reserved) \<and>
   fst (reserve_idempotency (10 ^ 18) (10 ^ 18) ex_idem (chat_run (snd ex_reserved) ex_ops)) = Inr (ex_entry, True)"
proof -
  have new: "\<not> isl (fst ex_reserved) \<and> \<not> snd (projr (fst ex_reserved))" by code_simp
  then have "(ex_entry, False) = projr (fst ex_reserved)" by (simp only: prod_eq_iff fst_conv snd_conv simp_thms)
  with new returned_pair [of ex_reserved] have 1: "ex_reserved = (Inr (ex_entry, False), snd ex_reserved)" by argo
  have 2: "list_all (keeps_entry (normalize_limits default_limits) ex_entry) ex_ops" by code_simp
  from idempotency_in_flight [OF 1 2] 1 show ?thesis by blast
qed

definition ex_result :: idempotency_result_ref where
  "ex_result = \<lparr>ir_chat_id = ''c'', ir_run_id = ''r'', ir_status = ''running'', ir_last_event_id = 7,
     ir_event_cursor = ''x''\<rparr>"

abbreviation ex_completed :: "idempotency_entry result \<times> store" where
  "ex_completed \<equiv> complete_idempotency 0 0 ex_idem ex_result (chat_run ex_store [OpReserveIdempotency 0 0 ex_idem])"

theorem idempotency_result_kept_witness:
  "ex_completed = (Inr (projr (fst ex_completed)), snd ex_completed) \<and>
   fst (reserve_idempotency 1000 1000 ex_idem (chat_run (snd ex_completed) ex_ops)) =
     Inr (projr (fst ex_completed), True) \<and> ie_result (projr (fst ex_completed)) = ex_result"
proof -
  have "\<not> isl (fst ex_completed)" by code_simp
  then have 1: "ex_completed = (Inr (projr (fst ex_completed)), snd ex_completed)" by (rule returned_pair)
  have 2: "list_all (keeps_entry (normalize_limits default_limits) (projr (fst ex_completed))) ex_ops" by code_simp
  have 3: "1000 \<le> from_milli (ie_updated_at (projr (fst ex_completed))) + lim_replay_ttl (normalize_limits default_limits)"
    by code_simp
  from idempotency_result_kept [OF 1 2 3] 1 show ?thesis by blast
qed

text \<open>
  C19: What a live subscriber has received and what still waits in its channel is, at any time
  after any operations, a prefix of the events appended to its run since it subscribed, in order;
  and it is all of them as long as the subscriber is still registered (it was not dropped for
  being slow, and its run not completed).
\<close>

theorem live_delivery:
  assumes "subscribe sc (chat_run (new_store ep ck l) ops0) = (Inr (Some i), s1)"
    and "length ops0 + length ops + 2 < 2 ^ 64"
  shows "prefix (received i s1 ops @ chan_queue i (chat_run s1 ops)) (run_events (replay_key sc) (history s1 ops)) \<and>
    (i \<in> set (subscribers_of (chat_run s1 ops) (replay_key sc)) \<longrightarrow>
      received i s1 ops @ chan_queue i (chat_run s1 ops) = run_events (replay_key sc) (history s1 ops))"
proof -
  let ?s = "chat_run (new_store ep ck l) ops0"
  have n: "unat (st_next_subscriber_id ?s) \<le> length ops0"
    using next_subscriber_run [of "new_store ep ck l" ops0] by (simp add: new_store_def)
  have "subs_ok ?s" by (rule subs_ok_run [OF subs_ok_new]) (use assms(2) in \<open>simp add: new_store_def\<close>)
  moreover have m: "st_next_subscriber_id ?s \<noteq> - 1" using n assms(2) by (intro u64_not_max) simp
  ultimately have "delivery_ok i (replay_key sc) [] [] s1" using assms(1) by (rule subscribe_delivery)
  moreover have "unat (st_next_subscriber_id s1) = Suc (unat (st_next_subscriber_id ?s))"
    using subscribe_ok(1,2) [OF assms(1)] u64_Suc [OF m] by simp
  ultimately have "delivery_ok i (replay_key sc) ([] @ received i s1 ops)
      ([] @ run_events (replay_key sc) (history s1 ops)) (chat_run s1 ops)"
    using n assms(2) by (intro delivery_run) simp_all
  then show ?thesis by (simp add: delivery_ok_def)
qed

abbreviation ex_subscribe :: "u64 option result \<times> store" where
  "ex_subscribe \<equiv> subscribe (ex_scope ''c'') (chat_run ex_store [OpStartRun 0 0 (ex_scope ''c'') ''k''])"

theorem live_delivery_witness:
  "ex_subscribe = (Inr (Some 1), snd ex_subscribe) \<and>
   received 1 (snd ex_subscribe) (ex_ops @ [OpReceive 1]) @ chan_queue 1 (chat_run (snd ex_subscribe) (ex_ops @ [OpReceive 1])) =
     run_events (replay_key (ex_scope ''c'')) (history (snd ex_subscribe) (ex_ops @ [OpReceive 1])) \<and>
   map ev_event_id (received 1 (snd ex_subscribe) (ex_ops @ [OpReceive 1])) = [1]"
proof -
  have "fst ex_subscribe = Inr (Some 1)" by code_simp
  then have 1: "ex_subscribe = (Inr (Some 1), snd ex_subscribe)" by (metis prod.collapse)
  have 2: "length [OpStartRun 0 0 (ex_scope ''c'') ''k''] + length (ex_ops @ [OpReceive 1]) + 2 < 2 ^ 64" by simp
  have 3: "1 \<in> set (subscribers_of (chat_run (snd ex_subscribe) (ex_ops @ [OpReceive 1])) (replay_key (ex_scope ''c'')))"
    by code_simp
  have 4: "map ev_event_id (received 1 (snd ex_subscribe) (ex_ops @ [OpReceive 1])) = [1]" by code_simp
  from live_delivery [OF 1 2] 1 3 4 show ?thesis by blast
qed

text \<open>
  C24: A held capacity reservation is a promise: until it is used or released, a start with it
  never fails for capacity; it fails only when the chat itself is already running.
\<close>

theorem reservation_guarantees_start:
  assumes "fst (reserve_active_run_capacity t1 res s) = Inr ()"
    and "list_all (\<lambda>op. \<not> uses_reservation (active_run_reservation_key res) op) ops"
    and "validate_run_scope sc = None"
  defines "u \<equiv> chat_run (snd (reserve_active_run_capacity t1 res s)) ops"
  shows "fst (start_run_with_reservation t1' t2' res sc ik u) =
    (if has_active_run u (active_run_key (rs_scope sc)) then Inl (already_running sc)
     else Inr (new_run t2' sc ik))"
proof -
  have v: "validate_idempotency_scope res = None"
    using assms(1) by (simp add: reserve_active_run_capacity_def split: option.splits)
  have "gm_get (st_reservations (snd (reserve_active_run_capacity t1 res s))) (active_run_reservation_key res) \<noteq> None"
    using assms(1) v by (auto simp: reserve_active_run_capacity_def Let_def split: if_splits)
  from reservation_steps [OF this assms(2)]
  have "gm_get (st_reservations u) (active_run_reservation_key res) \<noteq> None" by (simp add: u_def)
  with v assms(3) show ?thesis by (auto simp: start_run_with_reservation_def Let_def has_active_run_def)
qed

abbreviation ex_held :: "unit result \<times> store" where
  "ex_held \<equiv> reserve_active_run_capacity 0 ex_idem (new_store ''e'' ''c'' (default_limits\<lparr>lim_active_runs_cap := 1\<rparr>))"

theorem reservation_guarantees_start_witness:
  "fst ex_held = Inr () \<and>
   fst (start_run_with_reservation 1 1 ex_idem (ex_scope ''c'') ''k''
      (chat_run (snd ex_held) [OpStartRun 0 0 (ex_scope ''d'') ''k2''])) = Inr (new_run 1 (ex_scope ''c'') ''k'')"
proof -
  have 1: "fst ex_held = Inr ()" by code_simp
  have 2: "list_all (\<lambda>op. \<not> uses_reservation (active_run_reservation_key ex_idem) op)
      [OpStartRun 0 0 (ex_scope ''d'') ''k2'']" by simp
  have 3: "validate_run_scope (ex_scope ''c'') = None" by code_simp
  have 4: "\<not> has_active_run (chat_run (snd ex_held) [OpStartRun 0 0 (ex_scope ''d'') ''k2''])
      (active_run_key (rs_scope (ex_scope ''c'')))" by code_simp
  note main = reservation_guarantees_start [OF 1 2 3, unfolded if_not_P [OF 4]]
  from 1 main show ?thesis by blast
qed

text \<open>
  C26: Event ids are numbered across the whole store, so the first event of a run that is not the
  first of the store has an id above 1; a replay of that run from its start, nothing having been
  evicted, is answered with cursor evicted.
\<close>

theorem fresh_run_start_not_replayable:
  fixes s :: store and inp :: event_input and t1 t2 t3 :: gtime
  defines "e \<equiv> new_event t2 inp (cleanup t1 s)"
    and "u \<equiv> snd (append_event t1 t2 t3 inp s)"
  assumes "validate_run_scope (ei_run_scope inp) = None" "0 \<le> ei_size_bytes inp"
    and "gm_get (st_replay s) (replay_key (ei_run_scope inp)) = None"
    and "0 < st_next_event_id s"
    and "\<not> replay_evicts t3 (st_limits s) [e] (i64 (ei_size_bytes inp)) e"
    and "\<not> replay_evicts t5 (st_limits s) [e] (i64 (ei_size_bytes inp)) e"
    and "cu_epoch c = st_epoch s" "cu_run_scope c = ei_run_scope inp" "cu_after_event_id c = 0"
  shows "fst (replay t4 t5 c u) = Inl (replay_cursor_evicted c)"
proof -
  let ?k = "replay_key (ei_run_scope inp)"
  let ?b = "\<lparr>rb_events = [e], rb_bytes = i64 (ei_size_bytes inp), rb_start_evicted_before = 0\<rparr>"
  have b: "buffer_of u ?k = ?b"
    unfolding u_def e_def by (rule append_fresh_buffer) (use assms in \<open>simp_all add: e_def\<close>)
  then have "gm_get (st_replay u) ?k = Some ?b"
    by (auto simp: buffer_of_def empty_buffer_def split: option.splits)
  moreover have "st_limits u = st_limits s \<and> st_epoch u = st_epoch s"
    unfolding u_def by (rule effs_inv [where P = "\<lambda>v. st_limits v = st_limits s \<and> st_epoch v = st_epoch s", OF effs_append]) simp_all
  moreover have "enforce_replay_limits t5 (st_limits s) ?b = ?b"
    using assms(8) by (simp add: enforce_replay_limits_def)
  moreover have "read_buffer c ?b = Inl (replay_cursor_evicted c)"
    using assms by (simp add: read_buffer_def replay_view_def Let_def new_event_def)
  ultimately show ?thesis using assms by (simp add: replay_def Let_def)
qed

theorem fresh_run_start_not_replayable_witness:
  "fst (replay 0 0 (ex_cursor ''d'' 0) (snd (append_event 0 0 0 (ex_input ''d'')
     (chat_run ex_store [OpAppend 0 0 0 (ex_input ''c'')])))) = Inl (replay_cursor_evicted (ex_cursor ''d'' 0))"
  by (rule fresh_run_start_not_replayable) code_simp+

text \<open>
  An event appended to one run changes neither the replay buffer nor the subscribers of
  another run, when the ids of their scopes contain no NUL byte (the separator of the map keys).
\<close>

theorem runs_isolated:
  assumes "nul_free_scope (rs_scope sc)" "nul_free_scope (rs_scope (ei_run_scope inp))" "sc \<noteq> ei_run_scope inp"
  shows "buffer_of (snd (append_event t1 t2 t3 inp s)) (replay_key sc) = buffer_of s (replay_key sc) \<and>
    subscribers_of (snd (append_event t1 t2 t3 inp s)) (replay_key sc) = subscribers_of s (replay_key sc)"
proof -
  have k: "replay_key sc \<noteq> replay_key (ei_run_scope inp)" using replay_key_inj assms by blast
  show ?thesis
  proof (cases "fst (append_event t1 t2 t3 inp s)")
    case (Inl er)
    then show ?thesis by (simp add: append_err)
  next
    case (Inr e)
    show ?thesis unfolding append_ok(2) [OF Inr] using k
      by (simp add: buffer_of_def subscribers_publish subscribers_of_frame [of "_\<lparr>st_next_event_id := _, st_replay := _\<rparr>" s])
  qed
qed

theorem runs_isolated_witness:
  "buffer_of (snd (append_event 0 0 0 (ex_input ''d'') (chat_run ex_store ex_ops))) (replay_key (ex_scope ''c'')) =
     buffer_of (chat_run ex_store ex_ops) (replay_key (ex_scope ''c''))"
proof -
  have 1: "nul_free_scope (rs_scope (ex_scope ''c''))" "nul_free_scope (rs_scope (ei_run_scope (ex_input ''d'')))"
    "ex_scope ''c'' \<noteq> ei_run_scope (ex_input ''d'')" by code_simp+
  from runs_isolated [OF 1] show ?thesis by blast
qed

end
