(* ===== verification/Redact_Registry.thy ===== *)
theory Redact_Registry
  imports Prelude
begin

text \<open>
  The registry of sensitive byte segments (\<open>gateway/internal/redact/registry.go\<close>) and the part of
  the redactor that the stream uses (\<open>redactor.go\<close>).  A string is its list of bytes.  The
  registry's \<open>seen\<close> set is a list; its mutex makes every operation atomic.
\<close>

subsection \<open>Splitting a value and adding it\<close>

definition min_sensitive_value_bytes :: nat where "min_sensitive_value_bytes = 4"
definition max_sensitive_segment_bytes :: nat where "max_sensitive_segment_bytes = 2 * 1024"

abbreviation slice :: "nat \<Rightarrow> nat \<Rightarrow> 'a list \<Rightarrow> 'a list" where
  "slice i j xs \<equiv> take (j - i) (drop i xs)"

definition segment_size :: "nat \<Rightarrow> nat" where
  "segment_size remaining =
     (let size = min max_sensitive_segment_bytes remaining; remainder = remaining - size in
      if remaining > max_sensitive_segment_bytes \<and> remainder > 0 \<and> remainder < min_sensitive_value_bytes
      then size - (min_sensitive_value_bytes - remainder) else size)"

lemma segment_size_pos: "0 < n \<Longrightarrow> 0 < segment_size n"
  by (auto simp add: segment_size_def Let_def max_sensitive_segment_bytes_def min_sensitive_value_bytes_def min_def)

function split_from :: "string \<Rightarrow> nat \<Rightarrow> string list" where
  "split_from v start =
     (if start < length v
      then (let size = segment_size (length v - start) in
        slice start (start + size) v # split_from v (start + size))
      else [])"
  by pat_completeness auto
termination
  by (relation "measure (\<lambda>(v, start). length v - start)") (auto intro!: diff_less_mono2 simp: segment_size_pos)

declare split_from.simps [simp del]

definition split_sensitive_value :: "string \<Rightarrow> string list" where
  "split_sensitive_value v =
     (if length v < min_sensitive_value_bytes then []
      else if length v \<le> max_sensitive_segment_bytes then [v]
      else split_from v 0)"

record registry =
  rg_segments :: "string list"
  rg_seen :: "string list"
  rg_longest :: nat

definition new_registry :: registry where
  "new_registry = \<lparr>rg_segments = [], rg_seen = [], rg_longest = 0\<rparr>"

definition add_segment :: "string \<Rightarrow> registry \<Rightarrow> registry" where
  "add_segment seg r =
     (if length seg < min_sensitive_value_bytes then r
      else if seg \<in> set (rg_seen r) then r
      else r\<lparr>rg_seen := seg # rg_seen r, rg_segments := rg_segments r @ [seg],
             rg_longest := max (rg_longest r) (length seg)\<rparr>)"

definition registry_add :: "string \<Rightarrow> registry \<Rightarrow> registry" where
  "registry_add v r =
     (if length v < min_sensitive_value_bytes then r else fold add_segment (split_sensitive_value v) r)"

definition registry_add_many :: "string list \<Rightarrow> registry \<Rightarrow> registry" where
  "registry_add_many vs r = fold registry_add vs r"

text \<open>What every registry built by the operations satisfies.\<close>

definition registry_ok :: "registry \<Rightarrow> bool" where
  "registry_ok r \<longleftrightarrow> set (rg_seen r) = set (rg_segments r) \<and> distinct (rg_segments r) \<and>
     rg_longest r = foldr max (map length (rg_segments r)) 0 \<and>
     (\<forall>seg\<in>set (rg_segments r). min_sensitive_value_bytes \<le> length seg \<and> length seg \<le> max_sensitive_segment_bytes)"

lemma foldr_max_append: "foldr max (xs @ [y]) 0 = max (foldr max xs 0) (y :: nat)"
  by (induction xs) (auto simp: max.assoc)

lemma foldr_max_ge: "x \<in> set xs \<Longrightarrow> (x :: nat) \<le> foldr max xs 0"
  by (induction xs) auto

lemma add_segment_ok:
  assumes "registry_ok r" "length seg \<le> max_sensitive_segment_bytes"
  shows "registry_ok (add_segment seg r)"
  using assms by (auto simp: registry_ok_def add_segment_def foldr_max_append simp del: foldr_append)

text \<open>The pieces of a value: each within the bounds, together the value.\<close>

lemma segment_size_bounds:
  assumes "4 \<le> n"
  shows "4 \<le> segment_size n" "segment_size n \<le> 2048" "segment_size n \<le> n"
    "segment_size n = n \<or> 4 \<le> n - segment_size n"
  using assms by (auto simp: segment_size_def Let_def max_sensitive_segment_bytes_def
      min_sensitive_value_bytes_def min_def)

lemma split_from_ok:
  assumes "start \<le> length v" "start = length v \<or> 4 \<le> length v - start"
  shows "concat (split_from v start) = drop start v \<and> (\<forall>seg\<in>set (split_from v start). 4 \<le> length seg \<and> length seg \<le> 2048)"
  using assms
proof (induction v start rule: split_from.induct)
  case (1 v start)
  show ?case
  proof (cases "start < length v")
    case False
    then show ?thesis by (simp add: split_from.simps)
  next
    case True
    define size where "size = segment_size (length v - start)"
    have b: "4 \<le> size" "size \<le> 2048" "size \<le> length v - start"
      "start + size = length v \<or> 4 \<le> length v - (start + size)"
      using segment_size_bounds [of "length v - start"] 1 True by (auto simp: size_def)
    have IH: "concat (split_from v (start + size)) = drop (start + size) v \<and>
        (\<forall>seg\<in>set (split_from v (start + size)). 4 \<le> length seg \<and> length seg \<le> 2048)"
      using 1(1) [OF True size_def] b by simp
    have "take size (drop start v) @ drop (start + size) v = drop start v"
      by (metis append_take_drop_id drop_drop add.commute)
    then show ?thesis using IH b True
      by (subst (1 2) split_from.simps) (auto simp: Let_def size_def [symmetric])
  qed
qed

lemma split_sensitive_value_ok:
  assumes "min_sensitive_value_bytes \<le> length v"
  shows "concat (split_sensitive_value v) = v"
    "seg \<in> set (split_sensitive_value v) \<Longrightarrow> min_sensitive_value_bytes \<le> length seg \<and> length seg \<le> max_sensitive_segment_bytes"
  using assms split_from_ok [of 0 v]
  by (auto simp: split_sensitive_value_def min_sensitive_value_bytes_def max_sensitive_segment_bytes_def
      split: if_splits)

lemma fold_add_segment_ok:
  "registry_ok r \<Longrightarrow> \<forall>seg\<in>set segs. length seg \<le> max_sensitive_segment_bytes \<Longrightarrow> registry_ok (fold add_segment segs r)"
  by (induction segs arbitrary: r) (simp_all add: add_segment_ok)

lemma registry_add_ok: "registry_ok r \<Longrightarrow> registry_ok (registry_add v r)"
  using split_sensitive_value_ok(2) [of v]
  by (auto simp: registry_add_def not_less intro!: fold_add_segment_ok)

lemma new_registry_ok: "registry_ok new_registry"
  by (simp add: registry_ok_def new_registry_def)

interpretation registry: invariant_machine "\<lambda>r v. registry_add v r" registry_ok
  by unfold_locales (rule registry_add_ok)

lemma fold_add_segments: "registry_ok r \<Longrightarrow> \<forall>seg\<in>set segs. min_sensitive_value_bytes \<le> length seg \<Longrightarrow>
    \<forall>seg\<in>set segs. length seg \<le> max_sensitive_segment_bytes \<Longrightarrow>
    set (rg_segments (fold add_segment segs r)) = set (rg_segments r) \<union> set segs"
proof (induction segs arbitrary: r)
  case (Cons seg segs)
  have "set (rg_segments (add_segment seg r)) = set (rg_segments r) \<union> {seg}"
    using Cons.prems by (auto simp: add_segment_def registry_ok_def)
  with Cons add_segment_ok [of r seg] show ?case by simp
qed simp

lemma registry_add_segments:
  assumes "registry_ok r"
  shows "set (rg_segments (registry_add v r)) = set (rg_segments r) \<union> set (split_sensitive_value v)"
proof (cases "length v < min_sensitive_value_bytes")
  case True
  then show ?thesis by (simp add: registry_add_def split_sensitive_value_def)
next
  case False
  with fold_add_segments [OF assms, of "split_sensitive_value v"] split_sensitive_value_ok(2) [of v]
  show ?thesis by (simp add: registry_add_def)
qed

subsection \<open>Redacting a whole text\<close>

text \<open>\<open>strings.ReplaceAll\<close> with a nonempty pattern: the leftmost occurrences that do not overlap.
  The counter is the number of characters still to skip.\<close>

fun replace_from :: "'a list \<Rightarrow> 'a list \<Rightarrow> nat \<Rightarrow> 'a list \<Rightarrow> 'a list" where
  "replace_from old new n [] = []"
| "replace_from old new (Suc n) (c # cs) = replace_from old new n cs"
| "replace_from old new 0 (c # cs) =
     (if prefix old (c # cs) then new @ replace_from old new (length old - 1) cs
      else c # replace_from old new 0 cs)"

definition replace_all :: "string \<Rightarrow> string \<Rightarrow> string \<Rightarrow> string" where
  "replace_all old new text = replace_from old new 0 text"

definition sensitive_value_marker :: string where
  "sensitive_value_marker = ''[REDACTED:sensitive-value]''"

definition redact_segments_longest_first :: "string \<Rightarrow> string list \<Rightarrow> string" where
  "redact_segments_longest_first text segs =
     (if text = [] \<or> segs = [] then text
      else foldl (\<lambda>t seg. replace_all seg sensitive_value_marker t) text (sort_key (\<lambda>seg. - int (length seg)) segs))"

definition registry_redact :: "registry option \<Rightarrow> string \<Rightarrow> string" where
  "registry_redact r text = (case r of None \<Rightarrow> text | Some g \<Rightarrow>
     if text = [] then text else redact_segments_longest_first text (rg_segments g))"

subsection \<open>The redactor (redactor.go), with its regular-expression passes as a parameter\<close>

record redactor =
  rd_task :: "registry option"
  rd_connection :: "registry option"

definition segments_of :: "registry option \<Rightarrow> string list" where
  "segments_of r = (case r of None \<Rightarrow> [] | Some g \<Rightarrow> rg_segments g)"

definition longest_of :: "registry option \<Rightarrow> nat" where
  "longest_of r = (case r of None \<Rightarrow> 0 | Some g \<Rightarrow> rg_longest g)"

definition sensitive_segments :: "redactor \<Rightarrow> string list" where
  "sensitive_segments r = segments_of (rd_task r) @ segments_of (rd_connection r)"

definition longest_sensitive_segment_bytes :: "redactor \<Rightarrow> nat" where
  "longest_sensitive_segment_bytes r = max (longest_of (rd_task r)) (longest_of (rd_connection r))"

definition redactor_ok :: "redactor \<Rightarrow> bool" where
  "redactor_ok r \<longleftrightarrow> pred_option registry_ok (rd_task r) \<and> pred_option registry_ok (rd_connection r)"

text \<open>What the streaming redactor relies on.\<close>

locale segment_source =
  fixes segments :: "'r \<Rightarrow> string list" and longest :: "'r \<Rightarrow> nat" and ok :: "'r \<Rightarrow> bool"
  assumes segment_bounds: "ok r \<Longrightarrow> seg \<in> set (segments r) \<Longrightarrow> 2 \<le> length seg \<and> length seg \<le> longest r"
    and longest_bound: "ok r \<Longrightarrow> longest r \<le> 2048"

interpretation redactor: segment_source sensitive_segments longest_sensitive_segment_bytes redactor_ok
proof
  fix r seg
  assume ok: "redactor_ok r" and seg: "seg \<in> set (sensitive_segments r)"
  have b: "2 \<le> length seg \<and> length seg \<le> rg_longest g" if "registry_ok g" "seg \<in> set (rg_segments g)" for g
    using that foldr_max_ge [of "length seg" "map length (rg_segments g)"]
    by (auto simp: registry_ok_def min_sensitive_value_bytes_def)
  from seg consider g where "rd_task r = Some g" "seg \<in> set (rg_segments g)"
    | g where "rd_connection r = Some g" "seg \<in> set (rg_segments g)"
    by (cases "rd_task r"; cases "rd_connection r") (auto simp: sensitive_segments_def segments_of_def)
  then show "2 \<le> length seg \<and> length seg \<le> longest_sensitive_segment_bytes r"
    by cases (use ok b in \<open>force simp: redactor_ok_def longest_sensitive_segment_bytes_def longest_of_def\<close>)+
next
  fix r
  have "foldr max xs 0 \<le> (2048::nat)" if "\<forall>x\<in>set xs. x \<le> 2048" for xs
    using that by (induction xs) auto
  then have "registry_ok g \<Longrightarrow> rg_longest g \<le> 2048" for g
    by (simp add: registry_ok_def max_sensitive_segment_bytes_def)
  then show "redactor_ok r \<Longrightarrow> longest_sensitive_segment_bytes r \<le> 2048"
    by (auto simp: redactor_ok_def longest_sensitive_segment_bytes_def longest_of_def split: option.splits)
qed

end
