(* ===== verification/Redact_Stream.thy ===== *)
theory Redact_Stream
  imports Redact_Registry
begin

text \<open>
  The streaming redactor (\<open>gateway/internal/redact/stream.go\<close>): it holds back the end of the text
  that could be the start of a sensitive segment, and replaces what is covered by an occurrence of
  a segment by a marker.  The regular expressions that run over each published piece
  (\<open>Redactor.RedactString\<close>) are a parameter of \<open>render\<close>; everything below is about which bytes
  reach them.
\<close>

subsection \<open>Sensitive intervals\<close>

record sensitive_interval =
  iv_start :: nat
  iv_end :: nat

text \<open>\<open>strings.Index\<close>.\<close>

fun str_index :: "'a list \<Rightarrow> 'a list \<Rightarrow> nat option" where
  "str_index [] pat = (if pat = [] then Some 0 else None)"
| "str_index (c # cs) pat = (if prefix pat (c # cs) then Some 0 else map_option Suc (str_index cs pat))"

text \<open>The search loop for one segment, from \<open>start\<close> on.\<close>

function segment_intervals :: "string \<Rightarrow> string \<Rightarrow> nat \<Rightarrow> sensitive_interval list" where
  "segment_intervals w seg start =
     (if length w < start then []
      else case str_index (drop start w) seg of None \<Rightarrow> []
        | Some i \<Rightarrow> \<lparr>iv_start = start + i, iv_end = start + i + length seg\<rparr> # segment_intervals w seg (start + i + 1))"
  by pat_completeness auto
termination
  by (relation "measure (\<lambda>(w, seg, start). Suc (length w) - start)") auto

declare segment_intervals.simps [simp del]

definition sensitive_intervals :: "string list \<Rightarrow> string \<Rightarrow> sensitive_interval list" where
  "sensitive_intervals segs w =
     (if w = [] then []
      else sort_key iv_start (sort_key (\<lambda>iv. - int (iv_end iv)) (concat (map (\<lambda>seg. segment_intervals w seg 0) segs))))"

definition safe_publish_pass :: "sensitive_interval list \<Rightarrow> nat \<Rightarrow> nat" where
  "safe_publish_pass ivs p = foldl (\<lambda>q iv. if iv_start iv < q \<and> q < iv_end iv then iv_end iv else q) p ivs"

lemma safe_publish_pass_ge: "p \<le> safe_publish_pass ivs p"
  unfolding safe_publish_pass_def by (induction ivs arbitrary: p) (auto intro: order_trans less_imp_le)

lemma safe_publish_pass_le: "safe_publish_pass ivs p \<le> max p (foldr max (map iv_end ivs) 0)"
proof (induction ivs arbitrary: p)
  case (Cons iv ivs)
  from Cons.IH [of "if iv_start iv < p \<and> p < iv_end iv then iv_end iv else p"] show ?case
    by (auto simp: safe_publish_pass_def split: if_splits)
qed (simp add: safe_publish_pass_def)

function safe_publish_end :: "sensitive_interval list \<Rightarrow> nat \<Rightarrow> nat" where
  "safe_publish_end ivs p =
     (if safe_publish_pass ivs p = p then p else safe_publish_end ivs (safe_publish_pass ivs p))"
  by pat_completeness auto
termination
proof (relation "measure (\<lambda>(ivs, p). foldr max (map iv_end ivs) 0 - p)")
  fix ivs p assume "safe_publish_pass ivs p \<noteq> p"
  with safe_publish_pass_ge [of p ivs] safe_publish_pass_le [of ivs p]
  show "((ivs, safe_publish_pass ivs p), (ivs, p)) \<in> measure (\<lambda>(ivs, p). foldr max (map iv_end ivs) 0 - p)"
    by (simp add: max_def split: if_splits)
qed simp

declare safe_publish_end.simps [simp del]

subsection \<open>The stream\<close>

text \<open>What a write publishes, piece by piece: raw text that goes through the redactor's whole-text
  pass, or a marker in place of a sensitive interval.\<close>

datatype piece = Raw string | Marker

fun range_pieces :: "string \<Rightarrow> nat \<Rightarrow> nat \<Rightarrow> sensitive_interval list \<Rightarrow> piece list" where
  "range_pieces w cursor end [] = (if cursor < end then [Raw (slice cursor end w)] else [])"
| "range_pieces w cursor end (iv # ivs) =
     (if iv_end iv \<le> cursor \<or> end \<le> iv_start iv then range_pieces w cursor end ivs
      else let raw_end = min (max (iv_start iv) cursor) end in
        (if cursor < raw_end then [Raw (slice cursor raw_end w)] else []) @
        Marker # range_pieces w (min (max cursor (iv_end iv)) end) end ivs)"

definition redact_range :: "string \<Rightarrow> nat \<Rightarrow> nat \<Rightarrow> sensitive_interval list \<Rightarrow> piece list" where
  "redact_range w start end ivs =
     (if end \<le> start then [] else if ivs = [] then [Raw (slice start end w)] else range_pieces w start end ivs)"

definition render :: "(string \<Rightarrow> string) \<Rightarrow> piece list \<Rightarrow> string" where
  "render redact ps = concat (map (\<lambda>p. case p of Raw t \<Rightarrow> redact t | Marker \<Rightarrow> sensitive_value_marker) ps)"

definition max_streaming_carry_bytes :: nat where "max_streaming_carry_bytes = 2 * 1024"

record stream =
  sm_carry :: string
  sm_published :: nat

definition new_stream :: stream where "new_stream = \<lparr>sm_carry = [], sm_published = 0\<rparr>"

definition hold_bytes :: "nat \<Rightarrow> string \<Rightarrow> nat" where
  "hold_bytes longest w =
     (if longest \<le> 1 then 0 else min (min (longest - 1) max_streaming_carry_bytes) (length w))"

definition stream_write :: "string list \<Rightarrow> nat \<Rightarrow> string \<Rightarrow> stream \<Rightarrow> piece list \<times> stream" where
  "stream_write segs longest chunk s =
     (if chunk = [] then ([], s) else
      let w = sm_carry s @ chunk; hold = hold_bytes longest w in
      if hold = 0 then (redact_range w 0 (length w) [], new_stream)
      else if length w \<le> hold then ([], \<lparr>sm_carry = w, sm_published = min (sm_published s) (length w)\<rparr>)
      else let ivs = sensitive_intervals segs w; carry_start = length w - hold;
               publish_end = safe_publish_end ivs carry_start;
               emit_start = min (sm_published s) (length w) in
        (redact_range w emit_start publish_end ivs,
         \<lparr>sm_carry = drop carry_start w, sm_published = max emit_start publish_end - carry_start\<rparr>))"

definition stream_flush :: "string list \<Rightarrow> stream \<Rightarrow> piece list \<times> stream" where
  "stream_flush segs s =
     (if sm_carry s = [] then ([], s) else
      (redact_range (sm_carry s) (min (sm_published s) (length (sm_carry s))) (length (sm_carry s))
         (sensitive_intervals segs (sm_carry s)), new_stream))"

fun stream_writes :: "string list \<Rightarrow> nat \<Rightarrow> string list \<Rightarrow> stream \<Rightarrow> piece list \<times> stream" where
  "stream_writes segs longest [] s = ([], s)"
| "stream_writes segs longest (c # cs) s =
     (let (ps, s') = stream_write segs longest c s; (qs, s'') = stream_writes segs longest cs s' in (ps @ qs, s''))"

definition stream_all :: "string list \<Rightarrow> nat \<Rightarrow> string list \<Rightarrow> piece list" where
  "stream_all segs longest chunks =
     (let (ps, s) = stream_writes segs longest chunks new_stream in ps @ fst (stream_flush segs s))"

subsection \<open>What is sensitive in a text\<close>

definition occurs_at :: "string \<Rightarrow> nat \<Rightarrow> string \<Rightarrow> bool" where
  "occurs_at seg i w \<longleftrightarrow> prefix seg (drop i w)"

text \<open>The positions covered by an occurrence of a segment.\<close>

definition covered :: "string list \<Rightarrow> string \<Rightarrow> nat \<Rightarrow> bool" where
  "covered segs w p \<longleftrightarrow> (\<exists>seg\<in>set segs. \<exists>i\<le>p. p < i + length seg \<and> occurs_at seg i w)"

lemma str_index_None: "str_index w pat = None \<Longrightarrow> \<not> occurs_at pat i w"
proof (induction w arbitrary: i)
  case (Cons c cs)
  then show ?case by (cases i) (auto simp: occurs_at_def split: if_splits)
qed (auto simp: occurs_at_def split: if_splits)

lemma str_index_Some: "str_index w pat = Some i \<Longrightarrow> occurs_at pat i w \<and> (\<forall>j<i. \<not> occurs_at pat j w)"
proof (induction w arbitrary: i)
  case (Cons c cs)
  show ?case
  proof (cases "prefix pat (c # cs)")
    case True
    with Cons.prems show ?thesis by (simp add: occurs_at_def)
  next
    case False
    with Cons.prems obtain i' where "str_index cs pat = Some i'" "i = Suc i'" by auto
    with Cons.IH [of i'] False show ?thesis
      by (auto simp: occurs_at_def less_Suc_eq_0_disj)
  qed
qed (auto simp: occurs_at_def split: if_splits)

lemma occurs_at_drop: "occurs_at pat i (drop n w) = occurs_at pat (n + i) w"
  by (simp add: occurs_at_def add.commute)

lemma segment_intervals_set:
  assumes "seg \<noteq> []"
  shows "set (segment_intervals w seg start) =
    {\<lparr>iv_start = i, iv_end = i + length seg\<rparr> | i. start \<le> i \<and> occurs_at seg i w}"
  using assms
proof (induction w seg start rule: segment_intervals.induct)
  case (1 w seg start)
  have past: "\<not> occurs_at seg i w" if "length w \<le> i" for i
    using that 1(2) by (simp add: occurs_at_def)
  show ?case
  proof (cases "length w < start")
    case True
    with past show ?thesis by (subst segment_intervals.simps) auto
  next
    case le: False
    show ?thesis
    proof (cases "str_index (drop start w) seg")
      case None
      have "\<not> occurs_at seg i w" if "start \<le> i" for i
        using str_index_None [OF None, of "i - start"] that by (simp add: occurs_at_drop)
      with None le show ?thesis by (subst segment_intervals.simps) auto
    next
      case (Some i)
      have o: "occurs_at seg (start + i) w" "\<not> occurs_at seg j w" if "start \<le> j" "j < start + i" for j
        using str_index_Some [OF Some] that by (auto simp: occurs_at_drop dest!: spec [of _ "j - start"])
      have at: "occurs_at seg (start + i) w" using str_index_Some [OF Some] by (simp add: occurs_at_drop)
      have "start \<le> j \<and> occurs_at seg j w \<longleftrightarrow> j = start + i \<or> (start + i + 1 \<le> j \<and> occurs_at seg j w)" for j
        using o(2) [of j] at by (cases "j < start + i") auto
      then have "{\<lparr>iv_start = j, iv_end = j + length seg\<rparr> |j. start \<le> j \<and> occurs_at seg j w} =
          insert \<lparr>iv_start = start + i, iv_end = start + i + length seg\<rparr>
            {\<lparr>iv_start = j, iv_end = j + length seg\<rparr> |j. start + i + 1 \<le> j \<and> occurs_at seg j w}"
        by auto
      with 1(1) [OF le Some 1(2)] Some le show ?thesis by (subst segment_intervals.simps) simp
    qed
  qed
qed

lemma sensitive_intervals_set:
  assumes "\<forall>seg\<in>set segs. seg \<noteq> []"
  shows "set (sensitive_intervals segs w) =
    {\<lparr>iv_start = i, iv_end = i + length seg\<rparr> | i seg. seg \<in> set segs \<and> occurs_at seg i w}"
proof (cases "w = []")
  case True
  with assms show ?thesis by (auto simp: sensitive_intervals_def occurs_at_def)
next
  case False
  have "set (sensitive_intervals segs w) = (\<Union>seg\<in>set segs. set (segment_intervals w seg 0))"
    using False by (simp add: sensitive_intervals_def)
  also have "\<dots> = (\<Union>seg\<in>set segs. {\<lparr>iv_start = i, iv_end = i + length seg\<rparr> | i. occurs_at seg i w})"
    by (rule SUP_cong [OF refl], subst segment_intervals_set) (use assms in auto)
  finally show ?thesis by auto
qed

lemma sensitive_intervals_sorted: "sorted (map iv_start (sensitive_intervals segs w))"
  by (simp add: sensitive_intervals_def)

subsection \<open>The raw text a range publishes\<close>

fun raw_of :: "piece list \<Rightarrow> string" where
  "raw_of [] = []"
| "raw_of (Raw t # ps) = t @ raw_of ps"
| "raw_of (Marker # ps) = raw_of ps"

lemma raw_of_append [simp]: "raw_of (ps @ qs) = raw_of ps @ raw_of qs"
  by (induction ps rule: raw_of.induct) simp_all

definition in_interval :: "sensitive_interval list \<Rightarrow> nat \<Rightarrow> bool" where
  "in_interval ivs p \<longleftrightarrow> (\<exists>iv\<in>set ivs. iv_start iv \<le> p \<and> p < iv_end iv)"

text \<open>The characters of \<open>w\<close> at the positions of \<open>[i, j)\<close> that satisfy \<open>P\<close>.\<close>

definition chars :: "(nat \<Rightarrow> bool) \<Rightarrow> string \<Rightarrow> nat \<Rightarrow> nat \<Rightarrow> string" where
  "chars P w i j = map (nth w) (filter P [i..<j])"

lemma upt_split: "i \<le> j \<Longrightarrow> j \<le> k \<Longrightarrow> [i..<k] = [i..<j] @ [j..<k]"
  using upt_add_eq_append [of i j "k - j"] by simp

lemma chars_append: "i \<le> j \<Longrightarrow> j \<le> k \<Longrightarrow> chars P w i j @ chars P w j k = chars P w i k"
  by (simp add: chars_def upt_split [of i j k])

lemma chars_none: "(\<And>p. i \<le> p \<Longrightarrow> p < j \<Longrightarrow> \<not> P p) \<Longrightarrow> chars P w i j = []"
  by (simp add: chars_def filter_empty_conv)

lemma chars_all:
  assumes "\<And>p. i \<le> p \<Longrightarrow> p < j \<Longrightarrow> P p" "j \<le> length w"
  shows "chars P w i j = slice i j w"
proof -
  have "filter P [i..<j] = [i..<j]" using assms(1) by simp
  moreover have "map (nth w) [i..<j] = slice i j w"
    by (rule nth_equalityI) (use assms(2) in auto)
  ultimately show ?thesis by (simp add: chars_def)
qed

lemma chars_cong: "(\<And>p. i \<le> p \<Longrightarrow> p < j \<Longrightarrow> P p = Q p) \<Longrightarrow> chars P w i j = chars Q w i j"
  unfolding chars_def by (rule arg_cong [where f = "map (nth w)"], rule filter_cong) auto

lemma chars_shift:
  assumes "b + j \<le> length w"
  shows "chars P (drop b w) i j = chars (\<lambda>p. P (p - b)) w (b + i) (b + j)"
proof -
  have "[b + i..<b + j] = map (\<lambda>p. p + b) [i..<j]"
    by (rule nth_equalityI) auto
  moreover have "nth (drop b w) p = nth w (p + b)" if "p \<in> set (filter P [i..<j])" for p
    using that assms by (simp add: add.commute)
  ultimately show ?thesis by (simp add: chars_def filter_map comp_def)
qed

lemma raw_range_pieces:
  assumes "sorted (map iv_start ivs)" "end \<le> length w" "\<forall>iv\<in>set ivs. iv_start iv \<le> iv_end iv"
  shows "raw_of (range_pieces w cursor end ivs) = chars (\<lambda>p. \<not> in_interval ivs p) w cursor end"
  using assms(1,3)
proof (induction ivs arbitrary: cursor)
  case Nil
  show ?case using chars_all [of cursor "end" "\<lambda>p. True" w] assms(2)
    by (auto simp: in_interval_def chars_def)
next
  case (Cons iv ivs)
  have later: "iv_start iv \<le> iv_start iv'" if "iv' \<in> set ivs" for iv' using Cons.prems that by auto
  show ?case
  proof (cases "iv_end iv \<le> cursor \<or> end \<le> iv_start iv")
    case True
    have "chars (\<lambda>p. \<not> in_interval (iv # ivs) p) w cursor end = chars (\<lambda>p. \<not> in_interval ivs p) w cursor end"
      by (rule chars_cong) (use True in \<open>auto simp: in_interval_def\<close>)
    with True Cons show ?thesis by simp
  next
    case False
    define raw_end where "raw_end = min (max (iv_start iv) cursor) end"
    define next' where "next' = min (max cursor (iv_end iv)) end"
    show ?thesis
    proof (cases "cursor < end")
      case ce: True
      have b: "cursor \<le> raw_end" "raw_end \<le> next'" "next' \<le> end" "raw_end \<le> length w"
        using False ce assms(2) Cons.prems(2) by (auto simp: raw_end_def next'_def)
      let ?P = "\<lambda>p. \<not> in_interval (iv # ivs) p"
      have 1: "chars ?P w cursor raw_end = (if cursor < raw_end then slice cursor raw_end w else [])"
      proof (cases "cursor < raw_end")
        case True
        with False ce have "raw_end = iv_start iv" by (auto simp: raw_end_def min_def max_def split: if_splits)
        moreover have "\<not> in_interval (iv # ivs) p" if "p < iv_start iv" for p
          using that later by (fastforce simp: in_interval_def)
        ultimately show ?thesis using True b by (auto intro!: chars_all)
      qed (simp add: chars_def)
      have 2: "chars ?P w raw_end next' = []"
        by (rule chars_none) (use False ce in \<open>auto simp: in_interval_def raw_end_def next'_def\<close>)
      have 3: "chars ?P w next' end = chars (\<lambda>p. \<not> in_interval ivs p) w next' end"
        by (rule chars_cong) (use False in \<open>auto simp: in_interval_def next'_def\<close>)
      have "chars ?P w cursor end = chars ?P w cursor raw_end @ chars ?P w raw_end next' @ chars ?P w next' end"
        using b by (simp add: chars_append)
      moreover have "min (iv_end iv) end = next'" using False by (simp add: next'_def max_def)
      ultimately show ?thesis using Cons.IH [of next'] Cons.prems False
        by (simp add: Let_def 1 2 3 flip: raw_end_def)
    next
      case ce: False
      with False have "raw_end = end" "next' = end" by (auto simp: raw_end_def next'_def)
      moreover have "chars P w cursor end = []" "chars P w end end = []" for P using ce by (simp_all add: chars_def)
      moreover have "min (iv_end iv) end = next'" using False by (simp add: next'_def max_def)
      ultimately show ?thesis using Cons.IH [of "end"] Cons.prems False ce
        by (simp add: Let_def flip: raw_end_def)
    qed
  qed
qed

lemma raw_redact_range:
  assumes "sorted (map iv_start ivs)" "end \<le> length w" "\<forall>iv\<in>set ivs. iv_start iv \<le> iv_end iv"
  shows "raw_of (redact_range w start end ivs) = chars (\<lambda>p. \<not> in_interval ivs p) w start end"
proof (cases "end \<le> start")
  case True
  then show ?thesis by (simp add: redact_range_def chars_def)
next
  case False
  then show ?thesis using raw_range_pieces [OF assms, of start]
    by (auto simp: redact_range_def)
qed

subsection \<open>The end of a publication is not inside an interval\<close>

lemma safe_publish_pass_fix:
  "safe_publish_pass ivs p = p \<Longrightarrow> iv \<in> set ivs \<Longrightarrow> \<not> (iv_start iv < p \<and> p < iv_end iv)"
proof (induction ivs)
  case (Cons a ivs)
  have "safe_publish_pass ivs (if iv_start a < p \<and> p < iv_end a then iv_end a else p) = p"
    using Cons.prems(1) by (simp add: safe_publish_pass_def)
  with safe_publish_pass_ge [of "if iv_start a < p \<and> p < iv_end a then iv_end a else p" ivs]
  have "\<not> (iv_start a < p \<and> p < iv_end a)" by (auto split: if_splits)
  with Cons show ?case by (auto simp: safe_publish_pass_def split: if_splits)
qed simp

lemma safe_publish_end_safe:
  "iv \<in> set ivs \<Longrightarrow> \<not> (iv_start iv < safe_publish_end ivs p \<and> safe_publish_end ivs p < iv_end iv)"
proof (induction ivs p rule: safe_publish_end.induct)
  case (1 ivs p)
  then show ?case using safe_publish_pass_fix [of ivs p iv]
    by (cases "safe_publish_pass ivs p = p") (simp_all add: safe_publish_end.simps [of ivs p])
qed

lemma safe_publish_end_ge: "p \<le> safe_publish_end ivs p"
proof (induction ivs p rule: safe_publish_end.induct)
  case (1 ivs p)
  then show ?case using safe_publish_pass_ge [of p ivs]
    by (cases "safe_publish_pass ivs p = p") (simp_all add: safe_publish_end.simps [of ivs p])
qed

lemma safe_publish_pass_covered:
  "p \<le> x \<Longrightarrow> x < safe_publish_pass ivs p \<Longrightarrow> in_interval ivs x"
proof (induction ivs arbitrary: p)
  case (Cons a ivs)
  let ?q = "if iv_start a < p \<and> p < iv_end a then iv_end a else p"
  have s: "safe_publish_pass (a # ivs) p = safe_publish_pass ivs ?q" by (simp add: safe_publish_pass_def)
  show ?case
  proof (cases "?q \<le> x")
    case True
    with Cons.IH [OF True] Cons.prems s show ?thesis by (auto simp: in_interval_def)
  next
    case False
    with Cons.prems(1) show ?thesis by (auto simp: in_interval_def split: if_splits)
  qed
qed (simp add: safe_publish_pass_def)

lemma safe_publish_end_covered:
  "p \<le> x \<Longrightarrow> x < safe_publish_end ivs p \<Longrightarrow> in_interval ivs x"
proof (induction ivs p rule: safe_publish_end.induct)
  case (1 ivs p)
  show ?case
  proof (cases "safe_publish_pass ivs p = p")
    case True
    with 1 show ?thesis by (simp add: safe_publish_end.simps [of ivs p])
  next
    case False
    with 1 safe_publish_pass_covered [of p x ivs] show ?thesis
      by (cases "x < safe_publish_pass ivs p") (simp_all add: safe_publish_end.simps [of ivs p])
  qed
qed

lemma safe_publish_end_le: "p \<le> n \<Longrightarrow> \<forall>iv\<in>set ivs. iv_end iv \<le> n \<Longrightarrow> safe_publish_end ivs p \<le> n"
proof (induction ivs p rule: safe_publish_end.induct)
  case (1 ivs p)
  have "foldr max (map iv_end ivs) 0 \<le> n" using 1(3) by (induction ivs) auto
  with 1 safe_publish_pass_le [of ivs p] show ?case
    by (cases "safe_publish_pass ivs p = p") (simp_all add: safe_publish_end.simps [of ivs p])
qed


subsection \<open>Occurrences in a growing text\<close>

lemma occurs_at_append: "occurs_at seg i w \<Longrightarrow> i \<le> length w \<Longrightarrow> occurs_at seg i (w @ v)"
  by (auto simp: occurs_at_def prefix_def)

lemma occurs_at_le: "occurs_at seg i w \<Longrightarrow> seg \<noteq> [] \<Longrightarrow> i + length seg \<le> length w"
  using prefix_length_le [of seg "drop i w"] by (cases "i \<le> length w") (auto simp: occurs_at_def)

lemma occurs_at_shorter: "occurs_at seg i (w @ v) \<Longrightarrow> i + length seg \<le> length w \<Longrightarrow> occurs_at seg i w"
proof -
  assume o: "occurs_at seg i (w @ v)" and l: "i + length seg \<le> length w"
  then obtain z where "drop i w @ v = seg @ z" by (auto simp: occurs_at_def prefix_def)
  then have "take (length seg) (drop i w @ v) = seg" by simp
  then have "take (length seg) (drop i w) = seg" using l by simp
  then show "occurs_at seg i w" unfolding occurs_at_def by (metis take_is_prefix)
qed

context segment_source
begin

text \<open>
  The invariant of the stream after the text \<open>w\<close> was written: the carry is the end of \<open>w\<close>, from
  position \<open>b\<close> on; the raw text published so far is exactly what is uncovered before \<open>b\<close>; of the
  carry only covered positions were published, up to \<open>e\<close>; and nothing sensitive that starts
  before the carry reaches past \<open>e\<close>.
\<close>

definition stream_inv :: "'r \<Rightarrow> string \<Rightarrow> string \<Rightarrow> stream \<Rightarrow> bool" where
  "stream_inv r w out s \<longleftrightarrow> (\<exists>b. b \<le> length w \<and> sm_carry s = drop b w \<and>
     sm_published s \<le> length (sm_carry s) \<and>
     (b = 0 \<or> longest r - 1 \<le> length (sm_carry s)) \<and> (b = 0 \<longrightarrow> sm_published s = 0) \<and>
     out = chars (\<lambda>p. \<not> covered (segments r) w p) w 0 b \<and>
     (\<forall>p. b \<le> p \<longrightarrow> p < b + sm_published s \<longrightarrow> covered (segments r) w p) \<and>
     (\<forall>seg\<in>set (segments r). \<forall>i<b. occurs_at seg i w \<longrightarrow> i + length seg \<le> b + sm_published s))"

lemma stream_inv_new: "stream_inv r [] [] new_stream"
  by (auto simp: stream_inv_def new_stream_def chars_def)

lemma no_segments:
  assumes "ok r" "longest r \<le> 1"
  shows "segments r = []"
proof (rule ccontr)
  assume "segments r \<noteq> []"
  then obtain seg where "seg \<in> set (segments r)" by (cases "segments r") auto
  from segment_bounds [OF assms(1) this] assms(2) show False by simp
qed

text \<open>Whether a position before the carry is covered is settled.\<close>

lemma covered_settled:
  assumes "ok r" "p < b" "b = 0 \<or> longest r - 1 \<le> length w - b" "b \<le> length w"
  shows "covered (segments r) (w @ v) p = covered (segments r) w p"
proof -
  have "occurs_at seg i (w @ v) = occurs_at seg i w" if "seg \<in> set (segments r)" "i \<le> p" for seg i
  proof -
    have "i + length seg \<le> length w"
      using segment_bounds [OF assms(1) that(1)] that(2) assms(2-4) by auto
    then show ?thesis using occurs_at_append [of seg i w v] occurs_at_shorter [of seg i w v] by auto
  qed
  then show ?thesis by (auto simp: covered_def)
qed

lemma window_intervals:
  assumes "ok r" "w = drop b t"
  shows "set (sensitive_intervals (segments r) w) =
    {\<lparr>iv_start = i, iv_end = i + length seg\<rparr> | i seg. seg \<in> set (segments r) \<and> occurs_at seg (b + i) t}"
proof -
  have "\<forall>seg\<in>set (segments r). seg \<noteq> []" using segment_bounds [OF assms(1)] by fastforce
  then show ?thesis by (simp add: sensitive_intervals_set assms(2) occurs_at_drop)
qed

lemma in_window_interval:
  assumes "ok r" "w = drop b t"
  shows "in_interval (sensitive_intervals (segments r) w) p \<longleftrightarrow>
    (\<exists>seg\<in>set (segments r). \<exists>i\<le>p. p < i + length seg \<and> occurs_at seg (b + i) t)"
proof
  assume "in_interval (sensitive_intervals (segments r) w) p"
  then obtain iv where iv: "iv \<in> set (sensitive_intervals (segments r) w)" "iv_start iv \<le> p" "p < iv_end iv"
    by (auto simp: in_interval_def)
  from iv(1) obtain seg i where "seg \<in> set (segments r)" "occurs_at seg (b + i) t"
    "iv = \<lparr>iv_start = i, iv_end = i + length seg\<rparr>"
    unfolding window_intervals [OF assms] by blast
  with iv(2,3) show "\<exists>seg\<in>set (segments r). \<exists>i\<le>p. p < i + length seg \<and> occurs_at seg (b + i) t"
    by (intro bexI [of _ seg] exI [of _ i]) simp_all
next
  assume "\<exists>seg\<in>set (segments r). \<exists>i\<le>p. p < i + length seg \<and> occurs_at seg (b + i) t"
  then obtain seg i where "seg \<in> set (segments r)" "i \<le> p" "p < i + length seg" "occurs_at seg (b + i) t"
    by blast
  then show "in_interval (sensitive_intervals (segments r) w) p"
    unfolding in_interval_def window_intervals [OF assms]
    by (intro bexI [of _ "\<lparr>iv_start = i, iv_end = i + length seg\<rparr>"]) auto
qed

text \<open>The raw text a window publishes, in terms of the whole text.\<close>

lemma raw_window:
  assumes "ok r" "w = drop b t" "b + j \<le> length t"
    and old: "\<forall>seg\<in>set (segments r). \<forall>i<b. occurs_at seg i t \<longrightarrow> i + length seg \<le> b + k" and "k \<le> j"
  shows "raw_of (redact_range w k j (sensitive_intervals (segments r) w)) =
    chars (\<lambda>p. \<not> covered (segments r) t p) t (b + k) (b + j)"
proof -
  let ?ivs = "sensitive_intervals (segments r) w"
  have cov: "in_interval ?ivs p = covered (segments r) t (b + p)" if "k \<le> p" for p
  proof
    assume "in_interval ?ivs p"
    then obtain seg i where "seg \<in> set (segments r)" "i \<le> p" "p < i + length seg" "occurs_at seg (b + i) t"
      unfolding in_window_interval [OF assms(1,2)] by blast
    then show "covered (segments r) t (b + p)"
      unfolding covered_def by (intro bexI [of _ seg] exI [of _ "b + i"]) auto
  next
    assume "covered (segments r) t (b + p)"
    then obtain seg i where s: "seg \<in> set (segments r)" "i \<le> b + p" "b + p < i + length seg" "occurs_at seg i t"
      unfolding covered_def by blast
    with old that have "b \<le> i" by (meson leI le_less_trans nat_add_left_cancel_le not_le order_trans)
    with s show "in_interval ?ivs p"
      unfolding in_window_interval [OF assms(1,2)]
      by (intro bexI [of _ seg] exI [of _ "i - b"]) auto
  qed
  have "raw_of (redact_range w k j ?ivs) = chars (\<lambda>p. \<not> in_interval ?ivs p) w k j"
    by (rule raw_redact_range [OF sensitive_intervals_sorted])
      (use assms(2,3) window_intervals [OF assms(1,2)] in auto)
  also have "\<dots> = chars (\<lambda>p. \<not> covered (segments r) t (b + p)) w k j"
    by (rule chars_cong) (simp add: cov)
  also have "\<dots> = chars (\<lambda>p. \<not> covered (segments r) t (b + (p - b))) t (b + k) (b + j)"
    unfolding assms(2) by (rule chars_shift [OF assms(3)])
  also have "\<dots> = chars (\<lambda>p. \<not> covered (segments r) t p) t (b + k) (b + j)"
    by (rule chars_cong) simp
  finally show ?thesis .
qed


text \<open>A write that publishes nothing, one that publishes all of the window (there is nothing
  sensitive), and one that holds back the end of the window.\<close>

lemma write_hold:
  assumes ok: "ok r" and inv: "stream_inv r t out s" and chunk: "chunk \<noteq> []"
    and w: "w = sm_carry s @ chunk" and hold: "length w \<le> hold_bytes (longest r) w"
  shows "stream_inv r (t @ chunk) out \<lparr>sm_carry = w, sm_published = min (sm_published s) (length w)\<rparr>"
proof -
  obtain b where b: "b \<le> length t" "sm_carry s = drop b t" "b = 0 \<or> longest r - 1 \<le> length (sm_carry s)"
    "b = 0 \<longrightarrow> sm_published s = 0" "out = chars (\<lambda>p. \<not> covered (segments r) t p) t 0 b"
    using inv unfolding stream_inv_def by blast
  have "length w \<le> longest r - 1" using hold by (auto simp: hold_bytes_def split: if_splits)
  with b(3) chunk w have "b = 0" by (cases chunk) auto
  with b w show ?thesis by (auto simp: stream_inv_def chars_def)
qed

lemma write_all:
  assumes ok: "ok r" and inv: "stream_inv r t out s" and w: "w = sm_carry s @ chunk"
    and chunk: "chunk \<noteq> []" and hold: "hold_bytes (longest r) w = 0"
  shows "stream_inv r (t @ chunk) (out @ raw_of (redact_range w 0 (length w) [])) new_stream"
proof -
  obtain b where b: "b \<le> length t" "sm_carry s = drop b t" "out = chars (\<lambda>p. \<not> covered (segments r) t p) t 0 b"
    using inv unfolding stream_inv_def by blast
  have "longest r \<le> 1" using hold w chunk by (auto simp: hold_bytes_def max_streaming_carry_bytes_def min_def split: if_splits)
  with no_segments [OF ok] have nil: "segments r = []" by blast
  have unc: "\<not> covered (segments r) x p" "\<not> covered [] x p" for x p by (simp_all add: covered_def nil)
  have "out = take b t" using b(1,3) unc chars_all [of 0 b "\<lambda>p. True" t] by simp
  moreover have "raw_of (redact_range w 0 (length w) []) = w" by (auto simp: redact_range_def)
  moreover have "chars (\<lambda>p. True) (t @ chunk) 0 (length (t @ chunk)) = t @ chunk"
    by (subst chars_all) simp_all
  ultimately show ?thesis using w b(2) \<open>longest r \<le> 1\<close>
    by (auto simp: stream_inv_def new_stream_def nil unc intro!: exI [of _ "length (t @ chunk)"])
qed

lemma write_publish:
  assumes ok: "ok r" and inv: "stream_inv r t out s" and w: "w = sm_carry s @ chunk"
    and hold: "hold = hold_bytes (longest r) w" "0 < hold" "hold < length w"
    and ivs: "ivs = sensitive_intervals (segments r) w" and cs: "carry_start = length w - hold"
    and pe: "publish_end = safe_publish_end ivs carry_start" and es: "emit_start = min (sm_published s) (length w)"
  shows "stream_inv r (t @ chunk) (out @ raw_of (redact_range w emit_start publish_end ivs))
    \<lparr>sm_carry = drop carry_start w, sm_published = max emit_start publish_end - carry_start\<rparr>"
proof -
  obtain b where b: "b \<le> length t" "sm_carry s = drop b t" "sm_published s \<le> length (sm_carry s)"
    "b = 0 \<or> longest r - 1 \<le> length (sm_carry s)" "b = 0 \<longrightarrow> sm_published s = 0"
    "out = chars (\<lambda>p. \<not> covered (segments r) t p) t 0 b"
    "\<forall>p. b \<le> p \<longrightarrow> p < b + sm_published s \<longrightarrow> covered (segments r) t p"
    "\<forall>seg\<in>set (segments r). \<forall>i<b. occurs_at seg i t \<longrightarrow> i + length seg \<le> b + sm_published s"
    using inv unfolding stream_inv_def by blast
  let ?t = "t @ chunk" and ?c = "covered (segments r)"
  have wt: "w = drop b ?t" using w b(1,2) by simp
  have lw: "b + length w = length ?t" using w b(1,2) by simp
  have hl: "hold = longest r - 1"
    using hold longest_bound [OF ok] by (auto simp: hold_bytes_def max_streaming_carry_bytes_def split: if_splits)
  have es': "emit_start = sm_published s" using es b(3) w by simp
  have pe1: "carry_start \<le> publish_end" unfolding pe by (rule safe_publish_end_ge)
  have ends: "iv_end iv \<le> length w" if "iv \<in> set ivs" for iv
  proof -
    from that obtain i seg where "iv = \<lparr>iv_start = i, iv_end = i + length seg\<rparr>" "seg \<in> set (segments r)" "occurs_at seg (b + i) ?t"
      unfolding ivs window_intervals [OF ok wt] by blast
    with occurs_at_le [of seg "b + i" ?t] segment_bounds [OF ok, of seg] lw show ?thesis by fastforce
  qed
  have pe2: "publish_end \<le> length w"
    unfolding pe by (rule safe_publish_end_le) (use cs ends in auto)
  have old: "\<forall>seg\<in>set (segments r). \<forall>i<b. occurs_at seg i ?t \<longrightarrow> i + length seg \<le> b + emit_start"
  proof (intro ballI allI impI)
    fix seg i assume s: "seg \<in> set (segments r)" "i < b" "occurs_at seg i ?t"
    have "i + length seg \<le> length t" using segment_bounds [OF ok s(1)] s(2) b(1,2,4) by auto
    with s(3) have "occurs_at seg i t" by (rule occurs_at_shorter)
    with b(8) s(1,2) es' show "i + length seg \<le> b + emit_start" by simp
  qed
  have covt: "?c ?t p = ?c t p" if "p < b" for p
    by (rule covered_settled [OF ok that]) (use b in auto)
  have cov_old: "?c ?t p" if "b \<le> p" "p < b + emit_start" for p
  proof -
    from b(7) that es' have "?c t p" by simp
    then obtain seg i where "seg \<in> set (segments r)" "i \<le> p" "p < i + length seg" "occurs_at seg i t" by (auto simp: covered_def)
    then show ?thesis
      using that b(3) es' occurs_at_append [of seg i t chunk] b(1,2)
      unfolding covered_def by (intro bexI [of _ seg] exI [of _ i]) auto
  qed
  have cov_new: "?c ?t p" if "b + carry_start \<le> p" "p < b + publish_end" for p
  proof -
    have "in_interval ivs (p - b)"
      unfolding pe by (rule safe_publish_end_covered [of carry_start]) (use that pe in auto)
    then obtain seg i where "seg \<in> set (segments r)" "i \<le> p - b" "p - b < i + length seg" "occurs_at seg (b + i) ?t"
      unfolding ivs in_window_interval [OF ok wt] by blast
    with that show ?thesis unfolding covered_def by (intro bexI [of _ seg] exI [of _ "b + i"]) auto
  qed
  let ?P = "\<lambda>p. \<not> ?c ?t p" and ?b' = "b + carry_start"
  have out: "out = chars ?P ?t 0 b"
  proof -
    have "out = chars ?P t 0 b" unfolding b(6) by (rule chars_cong) (simp add: covt)
    also have "\<dots> = chars ?P ?t 0 b" using b(1) by (auto simp: chars_def nth_append)
    finally show ?thesis .
  qed
  have raw: "raw_of (redact_range w emit_start publish_end ivs) = chars ?P ?t b ?b'"
  proof (cases "emit_start \<le> publish_end")
    case True
    have "raw_of (redact_range w emit_start publish_end ivs) = chars ?P ?t (b + emit_start) (b + publish_end)"
      unfolding ivs by (rule raw_window [OF ok wt _ old True]) (use pe2 lw in simp)
    also have "\<dots> = chars ?P ?t b (b + emit_start) @ chars ?P ?t (b + emit_start) (b + publish_end)"
      using chars_none [of b "b + emit_start" ?P ?t] cov_old by simp
    also have "\<dots> = chars ?P ?t b ?b' @ chars ?P ?t ?b' (b + publish_end)"
      using True pe1 by (simp add: chars_append)
    also have "\<dots> = chars ?P ?t b ?b'" using chars_none [of ?b' "b + publish_end" ?P ?t] cov_new by simp
    finally show ?thesis .
  next
    case False
    then have "raw_of (redact_range w emit_start publish_end ivs) = []" by (simp add: redact_range_def)
    also have "\<dots> = chars ?P ?t b ?b'" using chars_none [of b ?b' ?P ?t] cov_old False pe1 by simp
    finally show ?thesis .
  qed
  have late: "i + length seg \<le> b + max emit_start publish_end"
    if "seg \<in> set (segments r)" "i < ?b'" "occurs_at seg i ?t" for seg i
  proof (cases "i < b")
    case True
    with old that show ?thesis by fastforce
  next
    case False
    let ?iv = "\<lparr>iv_start = i - b, iv_end = i - b + length seg\<rparr>"
    have "?iv \<in> set ivs" unfolding ivs window_intervals [OF ok wt] using False that by auto
    from safe_publish_end_safe [OF this, of carry_start] False that(2) pe1 show ?thesis by (auto simp: pe)
  qed
  let ?pub = "max emit_start publish_end - carry_start"
  have top: "?b' + ?pub = b + max emit_start publish_end" using pe1 by simp
  have c1: "?b' \<le> length ?t" using lw cs by simp
  have c2: "drop carry_start w = drop ?b' ?t" unfolding wt by (simp only: drop_drop add.commute)
  have c3: "?pub \<le> length (drop carry_start w)" using pe2 es by simp
  have c4: "longest r - 1 \<le> length (drop carry_start w)" using cs hold hl by simp
  have c5: "?b' \<noteq> 0" using cs hold by simp
  have c6: "out @ chars ?P ?t b ?b' = chars ?P ?t 0 ?b'" using out by (simp add: chars_append)
  have c7: "?c ?t p" if "?b' \<le> p" "p < ?b' + ?pub" for p
    using that cov_old [of p] cov_new [of p] unfolding top by (cases "p < b + emit_start") auto
  show ?thesis unfolding stream_inv_def raw
  proof (intro exI [of _ ?b'] conjI)
    show "\<forall>seg\<in>set (segments r). \<forall>i<?b'. occurs_at seg i ?t \<longrightarrow>
      i + length seg \<le> ?b' + sm_published \<lparr>sm_carry = drop carry_start w, sm_published = ?pub\<rparr>"
      using late unfolding stream.simps top by blast
  qed (use c1 c2 c3 c4 c5 c6 c7 in \<open>auto simp del: drop_append append_assoc\<close>)
qed

lemma stream_write_inv:
  assumes "ok r" "stream_inv r t out s"
  shows "stream_inv r (t @ chunk) (out @ raw_of (fst (stream_write (segments r) (longest r) chunk s)))
    (snd (stream_write (segments r) (longest r) chunk s))"
proof (cases "chunk = []")
  case True
  with assms(2) show ?thesis by (simp add: stream_write_def)
next
  case False
  let ?w = "sm_carry s @ chunk"
  consider "hold_bytes (longest r) ?w = 0" | "0 < hold_bytes (longest r) ?w" "length ?w \<le> hold_bytes (longest r) ?w"
    | "0 < hold_bytes (longest r) ?w" "hold_bytes (longest r) ?w < length ?w" by linarith
  then show ?thesis
  proof cases
    case 1
    with write_all [OF assms refl False] False show ?thesis by (simp add: stream_write_def Let_def)
  next
    case 2
    with write_hold [OF assms False refl] False show ?thesis by (simp add: stream_write_def Let_def)
  next
    case 3
    with write_publish [OF assms refl refl 3 refl refl refl refl] False show ?thesis
      by (simp add: stream_write_def Let_def)
  qed
qed

lemma stream_writes_inv:
  assumes "ok r" "stream_inv r t out s" "stream_writes (segments r) (longest r) chunks s = (ps, s')"
  shows "stream_inv r (t @ concat chunks) (out @ raw_of ps) s'"
  using assms(2,3)
proof (induction chunks arbitrary: t out s ps s')
  case (Cons c cs)
  obtain ps1 s1 where 1: "stream_write (segments r) (longest r) c s = (ps1, s1)" by fastforce
  obtain ps2 where 2: "stream_writes (segments r) (longest r) cs s1 = (ps2, s')" "ps = ps1 @ ps2"
    using Cons.prems(2) 1 by (auto split: prod.splits)
  from stream_write_inv [OF assms(1) Cons.prems(1), of c] 1
  have "stream_inv r (t @ c) (out @ raw_of ps1) s1" by simp
  from Cons.IH [OF this 2(1)] 2(2) show ?case by simp
qed simp

lemma stream_flush_raw:
  assumes ok: "ok r" and inv: "stream_inv r t out s"
  shows "out @ raw_of (fst (stream_flush (segments r) s)) = chars (\<lambda>p. \<not> covered (segments r) t p) t 0 (length t)"
proof -
  obtain b where b: "b \<le> length t" "sm_carry s = drop b t" "sm_published s \<le> length (sm_carry s)"
    "out = chars (\<lambda>p. \<not> covered (segments r) t p) t 0 b"
    "\<forall>p. b \<le> p \<longrightarrow> p < b + sm_published s \<longrightarrow> covered (segments r) t p"
    "\<forall>seg\<in>set (segments r). \<forall>i<b. occurs_at seg i t \<longrightarrow> i + length seg \<le> b + sm_published s"
    using inv unfolding stream_inv_def by blast
  let ?P = "\<lambda>p. \<not> covered (segments r) t p"
  show ?thesis
  proof (cases "sm_carry s = []")
    case True
    with b show ?thesis by (simp add: stream_flush_def)
  next
    case False
    have "raw_of (fst (stream_flush (segments r) s)) = chars ?P t (b + sm_published s) (b + length (sm_carry s))"
      using False b(3) raw_window [OF ok b(2) _ b(6) b(3)] b(1,2) by (simp add: stream_flush_def)
    also have "\<dots> = chars ?P t b (b + sm_published s) @ chars ?P t (b + sm_published s) (length t)"
      using chars_none [of b "b + sm_published s" ?P t] b by simp
    also have "\<dots> = chars ?P t b (length t)" using b(1-3) by (simp add: chars_append)
    finally show ?thesis using b(1,4) by (simp add: chars_append)
  qed
qed

text \<open>However the text is cut into chunks, the raw text published is exactly its uncovered part.\<close>

lemma stream_all_raw:
  assumes "ok r"
  shows "raw_of (stream_all (segments r) (longest r) chunks) =
    chars (\<lambda>p. \<not> covered (segments r) (concat chunks) p) (concat chunks) 0 (length (concat chunks))"
proof -
  obtain ps s where 1: "stream_writes (segments r) (longest r) chunks new_stream = (ps, s)" by fastforce
  from stream_flush_raw [OF assms stream_writes_inv [OF assms stream_inv_new 1]] 1 show ?thesis
    by (simp add: stream_all_def)
qed

end

end
