(* ===== verification/Redact_Json.thy ===== *)
theory Redact_Json
  imports Redact_Stream
begin

text \<open>
  Sensitive scalars of JSON documents (\<open>gateway/internal/redact/json.go\<close>): which names make a
  scalar sensitive, its registration, and its redaction.  The parser and printer of the standard
  library are outside: a document is the value the decoder returns.
\<close>

subsection \<open>A registered value is covered wherever it occurs\<close>

lemma occurs_concat:
  assumes "occurs_at (concat segs) i w" "i \<le> p" "p < i + length (concat segs)"
  shows "\<exists>seg\<in>set segs. \<exists>j\<le>p. p < j + length seg \<and> occurs_at seg j w"
  using assms
proof (induction segs arbitrary: i)
  case (Cons seg segs)
  obtain z where z: "drop i w = (seg @ concat segs) @ z" using Cons.prems(1) by (auto simp: occurs_at_def prefix_def)
  show ?case
  proof (cases "p < i + length seg")
    case True
    have "occurs_at seg i w" using z by (simp add: occurs_at_def)
    with True Cons.prems(2) show ?thesis by auto
  next
    case False
    have "drop (i + length seg) w = drop (length seg) (drop i w)" by (simp add: add.commute)
    then have "drop (i + length seg) w = concat segs @ z" by (simp only: z) simp
    then have "occurs_at (concat segs) (i + length seg) w" by (simp add: occurs_at_def)
    from Cons.IH [OF this] False Cons.prems(3) show ?thesis by auto
  qed
qed simp

lemma covered_mono: "set segs \<subseteq> set segs' \<Longrightarrow> covered segs w p \<Longrightarrow> covered segs' w p"
  by (auto simp: covered_def)

lemma covered_value:
  assumes "min_sensitive_value_bytes \<le> length v" "set (split_sensitive_value v) \<subseteq> set segs"
    "occurs_at v i w" "i \<le> p" "p < i + length v"
  shows "covered segs w p"
  using occurs_concat [of "split_sensitive_value v" i w p] split_sensitive_value_ok(1) [OF assms(1)] assms(2-5)
  unfolding covered_def by auto

subsection \<open>JSON documents (json.go)\<close>

datatype json =
    JNull | JBool bool | JNumber string | JString string
  | JArray "json list" | JObject "(string \<times> json) list"

text \<open>
  \<open>strings.ToLower\<close> as far as the search for an ASCII fragment can see it: ASCII letters, and the
  two other characters whose lower case is an ASCII letter (the Kelvin sign and the dotted capital
  I, in UTF-8); the remaining bytes stay outside ASCII either way.
\<close>

definition lower_ascii :: "char \<Rightarrow> char" where
  "lower_ascii c = (let n = of_char c :: nat in if 65 \<le> n \<and> n \<le> 90 then char_of (n + 32) else c)"

fun to_lower :: "string \<Rightarrow> string" where
  "to_lower [] = []"
| "to_lower (c # cs) =
     (case cs of
        d # e # rest \<Rightarrow>
          if c = CHR 0xE2 \<and> d = CHR 0x84 \<and> e = CHR 0xAA then CHR ''k'' # to_lower rest
          else if c = CHR 0xC4 \<and> d = CHR 0xB0 then CHR ''i'' # to_lower (e # rest)
          else lower_ascii c # to_lower cs
      | [d] \<Rightarrow> if c = CHR 0xC4 \<and> d = CHR 0xB0 then ''i'' else lower_ascii c # to_lower cs
      | [] \<Rightarrow> [lower_ascii c])"

definition str_contains :: "string \<Rightarrow> string \<Rightarrow> bool" where
  "str_contains text pat = (str_index text pat \<noteq> None)"

definition sensitive_name_fragments :: "string list" where
  "sensitive_name_fragments = [''token'', ''secret'', ''password'', ''passwd'', ''api_key'', ''apikey'',
     ''access_key'', ''refresh_token'', ''access_token'', ''session'', ''cookie'', ''authorization'',
     ''credential'', ''client_secret'']"

definition is_sensitive_name :: "string \<Rightarrow> bool" where
  "is_sensitive_name name = list_ex (str_contains (to_lower name)) sensitive_name_fragments"

definition has_sensitive_json_path :: "string list \<Rightarrow> bool" where
  "has_sensitive_json_path path = list_ex is_sensitive_name path"

text \<open>The text of a scalar that is registered, redacted or searched; null has none.\<close>

fun scalar_text :: "json \<Rightarrow> string option" where
  "scalar_text (JBool b) = Some (if b then ''true'' else ''false'')"
| "scalar_text (JNumber n) = Some n"
| "scalar_text (JString s) = Some s"
| "scalar_text _ = None"

definition register_sensitive_json_scalar :: "string list \<Rightarrow> string \<Rightarrow> registry \<Rightarrow> registry" where
  "register_sensitive_json_scalar path v r = (if has_sensitive_json_path path then registry_add v r else r)"

fun register_sensitive_json_value :: "string list \<Rightarrow> json \<Rightarrow> registry \<Rightarrow> registry" where
  "register_sensitive_json_value path (JObject kvs) r =
     fold (\<lambda>(k, child). register_sensitive_json_value (path @ [k]) child) kvs r"
| "register_sensitive_json_value path (JArray vs) r = fold (register_sensitive_json_value path) vs r"
| "register_sensitive_json_value path v r =
     (case scalar_text v of None \<Rightarrow> r | Some t \<Rightarrow> register_sensitive_json_scalar path t r)"

definition json_scalar_is_redactable :: "json \<Rightarrow> bool" where
  "json_scalar_is_redactable v \<longleftrightarrow> scalar_text v \<noteq> None"

definition json_secret_marker :: string where
  "json_secret_marker = ''[REDACTED:secret]''"

fun redact_sensitive_json_value :: "string list \<Rightarrow> json \<Rightarrow> json \<times> bool" where
  "redact_sensitive_json_value path (JObject kvs) =
     (let rs = map (\<lambda>(k, child). (k, child, redact_sensitive_json_value (path @ [k]) child)) kvs in
      (JObject (map (\<lambda>(k, child, redacted, changed). (k, if changed then redacted else child)) rs),
       list_ex (\<lambda>(k, child, redacted, changed). changed) rs))"
| "redact_sensitive_json_value path (JArray vs) =
     (let rs = map (\<lambda>child. (child, redact_sensitive_json_value path child)) vs in
      (JArray (map (\<lambda>(child, redacted, changed). if changed then redacted else child) rs),
       list_ex (\<lambda>(child, redacted, changed). changed) rs))"
| "redact_sensitive_json_value path v =
     (if has_sensitive_json_path path \<and> json_scalar_is_redactable v then (JString json_secret_marker, True) else (v, False))"

text \<open>The scalars of a document that sit below a sensitive name, and the others, in order.\<close>

fun scalars :: "(string list \<Rightarrow> bool) \<Rightarrow> string list \<Rightarrow> json \<Rightarrow> string list" where
  "scalars P path (JObject kvs) = concat (map (\<lambda>(k, child). scalars P (path @ [k]) child) kvs)"
| "scalars P path (JArray vs) = concat (map (scalars P path) vs)"
| "scalars P path v = (case scalar_text v of None \<Rightarrow> [] | Some t \<Rightarrow> if P path then [t] else [])"

abbreviation sensitive_scalars :: "string list \<Rightarrow> json \<Rightarrow> string list" where
  "sensitive_scalars \<equiv> scalars has_sensitive_json_path"

abbreviation open_scalars :: "string list \<Rightarrow> json \<Rightarrow> string list" where
  "open_scalars \<equiv> scalars (\<lambda>path. \<not> has_sensitive_json_path path)"

lemma redact_changed:
  "snd (redact_sensitive_json_value path (JObject kvs)) \<longleftrightarrow>
     (\<exists>kv\<in>set kvs. snd (redact_sensitive_json_value (path @ [fst kv]) (snd kv)))"
  "snd (redact_sensitive_json_value path (JArray vs)) \<longleftrightarrow> (\<exists>c\<in>set vs. snd (redact_sensitive_json_value path c))"
  by (simp_all add: Let_def list_ex_iff split_beta)

lemma redact_parts:
  "fst (redact_sensitive_json_value path (JObject kvs)) =
     JObject (map (\<lambda>kv. (fst kv, if snd (redact_sensitive_json_value (path @ [fst kv]) (snd kv))
       then fst (redact_sensitive_json_value (path @ [fst kv]) (snd kv)) else snd kv)) kvs)"
  "fst (redact_sensitive_json_value path (JArray vs)) =
     JArray (map (\<lambda>c. if snd (redact_sensitive_json_value path c)
       then fst (redact_sensitive_json_value path c) else c) vs)"
  by (simp_all add: Let_def comp_def split_beta)

lemma redact_unchanged: "\<not> snd (redact_sensitive_json_value path v) \<Longrightarrow> fst (redact_sensitive_json_value path v) = v"
proof (induction path v rule: redact_sensitive_json_value.induct)
  case (1 path kvs)
  then show ?case unfolding redact_parts redact_changed by (simp add: map_idI)
next
  case (2 path vs)
  then show ?case unfolding redact_parts redact_changed by (simp add: map_idI)
qed (auto split: if_splits)

text \<open>So the flag only avoids copying: the children are redacted one by one.\<close>

lemma redact_children:
  "fst (redact_sensitive_json_value path (JObject kvs)) =
     JObject (map (\<lambda>kv. (fst kv, fst (redact_sensitive_json_value (path @ [fst kv]) (snd kv)))) kvs)"
  "fst (redact_sensitive_json_value path (JArray vs)) =
     JArray (map (\<lambda>c. fst (redact_sensitive_json_value path c)) vs)"
  unfolding redact_parts using redact_unchanged by simp_all

lemma scalars_object:
  "scalars P path (JObject kvs) = concat (map (\<lambda>kv. scalars P (path @ [fst kv]) (snd kv)) kvs)"
  by (simp only: scalars.simps split_def)

lemma concat_map_cong: "(\<And>x. x \<in> set xs \<Longrightarrow> f x = map h (g x)) \<Longrightarrow> concat (map f xs) = map h (concat (map g xs))"
  by (induction xs) auto

lemma redact_scalars:
  "sensitive_scalars path (fst (redact_sensitive_json_value path v)) =
     map (\<lambda>_. json_secret_marker) (sensitive_scalars path v) \<and>
   open_scalars path (fst (redact_sensitive_json_value path v)) = open_scalars path v \<and>
   (snd (redact_sensitive_json_value path v) \<longleftrightarrow> sensitive_scalars path v \<noteq> [])"
  (is "?A path v \<and> ?B path v \<and> ?C path v")
proof (induction path v rule: redact_sensitive_json_value.induct)
  case (1 path kvs)
  have ih: "?A (path @ [fst kv]) (snd kv)" "?B (path @ [fst kv]) (snd kv)" "?C (path @ [fst kv]) (snd kv)"
    if "kv \<in> set kvs" for kv
    using 1 [OF that, of "fst kv" "snd kv"] by simp_all
  have "?A path (JObject kvs)"
    unfolding redact_children scalars_object map_map comp_def fst_conv snd_conv
    by (rule concat_map_cong) (rule ih)
  moreover have "?B path (JObject kvs)"
    unfolding redact_children scalars_object map_map comp_def fst_conv snd_conv
    by (rule arg_cong [where f = concat], rule map_cong) (simp_all add: ih)
  moreover have "?C path (JObject kvs)"
    unfolding redact_changed scalars_object using ih(3) by auto
  ultimately show ?case by blast
next
  case (2 path vs)
  note ih = 2
  have "?A path (JArray vs)"
    unfolding redact_children scalars.simps map_map comp_def
    by (rule concat_map_cong) (use ih in blast)
  moreover have "?B path (JArray vs)"
    unfolding redact_children scalars.simps map_map comp_def
    by (rule arg_cong [where f = concat], rule map_cong) (simp_all add: ih)
  moreover have "?C path (JArray vs)"
    unfolding redact_changed scalars.simps using ih by auto
  ultimately show ?case by blast
qed (auto simp: json_scalar_is_redactable_def)

lemma fold_register:
  assumes "\<And>x r. x \<in> set xs \<Longrightarrow> registry_ok r \<Longrightarrow>
      registry_ok (f x r) \<and> set (rg_segments (f x r)) = set (rg_segments r) \<union> S x" "registry_ok r"
  shows "registry_ok (fold f xs r) \<and> set (rg_segments (fold f xs r)) = set (rg_segments r) \<union> (\<Union>x\<in>set xs. S x)"
  using assms by (induction xs arbitrary: r) (simp_all add: Un_assoc)

definition json_segments :: "string list \<Rightarrow> json \<Rightarrow> string set" where
  "json_segments path v = (\<Union>t\<in>set (sensitive_scalars path v). set (split_sensitive_value t))"

lemma json_segments_object: "json_segments path (JObject kvs) = (\<Union>kv\<in>set kvs. json_segments (path @ [fst kv]) (snd kv))"
  unfolding json_segments_def scalars_object by auto

lemma json_segments_array: "json_segments path (JArray vs) = (\<Union>c\<in>set vs. json_segments path c)"
  unfolding json_segments_def scalars.simps by auto

lemma register_segments:
  assumes "registry_ok r"
  shows "registry_ok (register_sensitive_json_value path v r) \<and>
    set (rg_segments (register_sensitive_json_value path v r)) = set (rg_segments r) \<union> json_segments path v"
  using assms
proof (induction path v r rule: register_sensitive_json_value.induct)
  case (1 path kvs r)
  show ?case
    unfolding register_sensitive_json_value.simps json_segments_object split_def
    by (rule fold_register [OF _ 1(2)]) (use 1(1) [OF _ surjective_pairing] in simp)
next
  case (2 path vs r)
  show ?case
    unfolding register_sensitive_json_value.simps json_segments_array
    by (rule fold_register [OF _ 2(2)]) (rule 2(1))
qed (auto simp: register_sensitive_json_scalar_def registry_add_ok registry_add_segments json_segments_def)

end
