(* ===== verification/Redact_Properties.thy ===== *)
theory Redact_Properties
  imports Redact_Json
begin

text \<open>
  The properties of the redaction component, each with a concrete instance.
\<close>

subsection \<open>The properties\<close>

text \<open>
  The segments a sensitive value is split into concatenate to the value, and each is between
  four bytes and two kilobytes long.
\<close>

theorem split_value_roundtrip:
  assumes "min_sensitive_value_bytes \<le> length v"
  shows "concat (split_sensitive_value v) = v \<and>
    (\<forall>seg\<in>set (split_sensitive_value v).
       min_sensitive_value_bytes \<le> length seg \<and> length seg \<le> max_sensitive_segment_bytes)"
  using split_sensitive_value_ok [OF assms] by blast

theorem split_value_roundtrip_witness:
  "concat (split_sensitive_value (replicate 2050 CHR ''a'')) = replicate 2050 CHR ''a''"
proof -
  have "min_sensitive_value_bytes \<le> length (replicate 2050 CHR ''a'')" by (simp add: min_sensitive_value_bytes_def)
  from split_value_roundtrip [OF this] show ?thesis by blast
qed





text \<open>
  C31: After a JSON document is registered, no occurrence of a scalar of at least four bytes that
  sits below a sensitive name is published by a stream of the redactor.
\<close>

theorem json_secrets_not_streamed:
  fixes doc :: json and g :: registry and c :: "registry option"
  defines "r \<equiv> \<lparr>rd_task = Some (register_sensitive_json_value [] doc g), rd_connection = c\<rparr>"
  assumes "registry_ok g" "pred_option registry_ok c"
    and "v \<in> set (sensitive_scalars [] doc)" "min_sensitive_value_bytes \<le> length v"
    and "occurs_at v i (concat chunks)" "i \<le> p" "p < i + length v"
  shows "covered (sensitive_segments r) (concat chunks) p \<and>
    raw_of (stream_all (sensitive_segments r) (longest_sensitive_segment_bytes r) chunks) =
      chars (\<lambda>p. \<not> covered (sensitive_segments r) (concat chunks) p) (concat chunks) 0 (length (concat chunks))"
proof -
  let ?g = "register_sensitive_json_value [] doc g"
  note g = register_segments [OF assms(2), of "[]" doc]
  have "redactor_ok r" using g assms(3) by (simp add: r_def redactor_ok_def)
  moreover have "set (split_sensitive_value v) \<subseteq> set (sensitive_segments r)"
    using g assms(4) by (auto simp: r_def sensitive_segments_def segments_of_def json_segments_def)
  ultimately show ?thesis
    using covered_value [OF assms(5) _ assms(6-8)] redactor.stream_all_raw by blast
qed

definition ex_doc :: json where
  "ex_doc = JObject [(''n'', JString ''bob''), (''a'', JObject [(''token'', JString ''s3cr3t'')])]"

definition ex_doc_redactor :: redactor where
  "ex_doc_redactor = \<lparr>rd_task = Some (register_sensitive_json_value [] ex_doc new_registry), rd_connection = None\<rparr>"

lemma ex_doc_sensitive: "''s3cr3t'' \<in> set (scalars has_sensitive_json_path [] ex_doc)"
  by code_simp

theorem json_secrets_not_streamed_witness:
  "covered (sensitive_segments ex_doc_redactor) (concat [''x s3c'', ''r3t y'']) 5"
proof -
  have 1: "pred_option registry_ok None" by simp
  have 2: "min_sensitive_value_bytes \<le> length ''s3cr3t''" by code_simp
  have 3: "occurs_at ''s3cr3t'' 2 (concat [''x s3c'', ''r3t y''])" by code_simp
  from json_secrets_not_streamed [OF new_registry_ok 1 ex_doc_sensitive 2 3, of 5]
  show ?thesis by (simp add: ex_doc_redactor_def)
qed

text \<open>
  C32: The redaction of a JSON document replaces every scalar below a sensitive name by the marker
  and leaves every other scalar as it is, and its flag tells whether there was one.
\<close>

theorem json_redaction_complete:
  "sensitive_scalars path (fst (redact_sensitive_json_value path v)) =
     map (\<lambda>_. json_secret_marker) (sensitive_scalars path v) \<and>
   open_scalars path (fst (redact_sensitive_json_value path v)) = open_scalars path v \<and>
   (snd (redact_sensitive_json_value path v) \<longleftrightarrow> sensitive_scalars path v \<noteq> [])"
  by (rule redact_scalars)

end
