(* ===== verification/Utf8.thy ===== *)
theory Utf8
  imports Prelude
begin

text \<open>
  Text as Go sees it: a string is its bytes.  Valid UTF-8 and its truncation to a number of bytes
  (\<open>truncateUTF8Bytes\<close> of \<open>gateway/internal/tasks/notification_mapping.go\<close>), and
  \<open>strings.TrimSpace\<close> of the standard library.
\<close>

subsection \<open>White space\<close>

text \<open>The encodings of the white-space characters of Unicode, and trimming them at both ends.\<close>

definition space_codes :: "string list" where
  "space_codes = [[CHR 0x09], [CHR 0x0A], [CHR 0x0B], [CHR 0x0C], [CHR 0x0D], [CHR 0x20],
     [CHR 0xC2, CHR 0x85], [CHR 0xC2, CHR 0xA0], [CHR 0xE1, CHR 0x9A, CHR 0x80]] @
     map (\<lambda>n. [CHR 0xE2, CHR 0x80, char_of (128 + n)]) [0..<11] @
     [[CHR 0xE2, CHR 0x80, CHR 0xA8], [CHR 0xE2, CHR 0x80, CHR 0xA9], [CHR 0xE2, CHR 0x80, CHR 0xAF],
      [CHR 0xE2, CHR 0x81, CHR 0x9F], [CHR 0xE3, CHR 0x80, CHR 0x80]]"

function strip_codes :: "string list \<Rightarrow> string \<Rightarrow> string" where
  "strip_codes codes s =
     (case List.find (\<lambda>c. c \<noteq> [] \<and> prefix c s) codes of None \<Rightarrow> s
      | Some c \<Rightarrow> strip_codes codes (drop (length c) s))"
  by pat_completeness auto
termination
  by (relation "measure (length \<circ> snd)") (auto simp: find_Some_iff prefix_def)

declare strip_codes.simps [simp del]

definition trim_space :: "string \<Rightarrow> string" where
  "trim_space s = rev (strip_codes (map rev space_codes) (rev (strip_codes space_codes s)))"

lemma strip_codes_suffix: "suffix (strip_codes codes s) s"
proof (induction codes s rule: strip_codes.induct)
  case (1 codes s)
  show ?case
  proof (cases "List.find (\<lambda>c. c \<noteq> [] \<and> prefix c s) codes")
    case None
    then show ?thesis by (subst strip_codes.simps) simp
  next
    case (Some c)
    with 1 have "suffix (strip_codes codes (drop (length c) s)) (drop (length c) s)" by simp
    with Some show ?thesis
      by (subst strip_codes.simps) (auto intro: suffix_order.trans suffix_drop)
  qed
qed

subsection \<open>Valid UTF-8\<close>

definition byte :: "char \<Rightarrow> nat" where
  "byte c = of_char c"

definition cont_byte :: "char \<Rightarrow> bool" where
  "cont_byte c \<longleftrightarrow> 128 \<le> byte c \<and> byte c \<le> 191"

text \<open>The second byte after a leading byte of three or four.\<close>

definition second_byte :: "nat \<Rightarrow> char \<Rightarrow> bool" where
  "second_byte b c \<longleftrightarrow>
     (if b = 224 then 160 else if b = 240 then 144 else 128) \<le> byte c \<and>
     byte c \<le> (if b = 237 then 159 else if b = 244 then 143 else 191)"

text \<open>The length of the encoded character a text starts with, if it starts with one.\<close>

definition rune_length :: "string \<Rightarrow> nat option" where
  "rune_length t =
     (case t of [] \<Rightarrow> None | c # cs \<Rightarrow>
      if byte c < 128 then Some 1
      else if 194 \<le> byte c \<and> byte c \<le> 223
      then (if 1 \<le> length cs \<and> cont_byte (cs ! 0) then Some 2 else None)
      else if 224 \<le> byte c \<and> byte c \<le> 239
      then (if 2 \<le> length cs \<and> second_byte (byte c) (cs ! 0) \<and> cont_byte (cs ! 1) then Some 3 else None)
      else if 240 \<le> byte c \<and> byte c \<le> 244
      then (if 3 \<le> length cs \<and> second_byte (byte c) (cs ! 0) \<and> cont_byte (cs ! 1) \<and> cont_byte (cs ! 2)
            then Some 4 else None)
      else None)"

lemma rune_length_bounds: "rune_length t = Some n \<Longrightarrow> 1 \<le> n \<and> n \<le> 4 \<and> n \<le> length t"
  by (auto simp: rune_length_def split: list.splits if_splits)

lemma rune_length_take: "rune_length t = Some n \<Longrightarrow> n \<le> k \<Longrightarrow> rune_length (take k t) = Some n"
  by (cases t; cases k) (auto simp: rune_length_def split: if_splits)

function valid_utf8 :: "string \<Rightarrow> bool" where
  "valid_utf8 t =
     (if t = [] then True
      else case rune_length t of None \<Rightarrow> False | Some n \<Rightarrow> valid_utf8 (drop n t))"
  by pat_completeness auto
termination
  by (relation "measure length") (auto dest!: rune_length_bounds)

declare valid_utf8.simps [simp del]

lemma valid_utf8_Nil [simp]: "valid_utf8 []"
  by (simp add: valid_utf8.simps)

fun trim_invalid :: "string \<Rightarrow> string" where
  "trim_invalid t = (if \<not> valid_utf8 t \<and> t \<noteq> [] then trim_invalid (butlast t) else t)"

declare trim_invalid.simps [simp del]

definition truncate_utf8_bytes :: "string \<Rightarrow> int \<Rightarrow> string \<times> bool" where
  "truncate_utf8_bytes v max_bytes =
     (if max_bytes \<le> 0 \<or> int (length v) \<le> max_bytes then (v, False)
      else (trim_invalid (take (nat max_bytes) v), True))"

lemma trim_invalid_prefix: "prefix (trim_invalid t) t"
proof (induction t rule: trim_invalid.induct)
  case (1 t)
  have "prefix (butlast t) t" by (metis prefixeq_butlast)
  with 1 show ?case by (subst trim_invalid.simps) (auto intro: prefix_order.trans)
qed

lemma trim_invalid_valid: "valid_utf8 (trim_invalid t)"
proof (induction t rule: trim_invalid.induct)
  case (1 t)
  then show ?case by (subst trim_invalid.simps) auto
qed

lemma trim_invalid_longest: "k \<le> length t \<Longrightarrow> valid_utf8 (take k t) \<Longrightarrow> k \<le> length (trim_invalid t)"
proof (induction t rule: trim_invalid.induct)
  case (1 t)
  show ?case
  proof (cases "\<not> valid_utf8 t \<and> t \<noteq> []")
    case True
    then have "k < length t" using 1(2,3) by (cases "k = length t") auto
    then have "k \<le> length (butlast t)" "take k (butlast t) = take k t"
      by (simp_all add: take_butlast)
    with 1 True show ?thesis by (subst trim_invalid.simps) simp
  next
    case False
    with 1 show ?thesis by (subst trim_invalid.simps) auto
  qed
qed

text \<open>Every cut of a valid text is at most three bytes after a character boundary.\<close>

lemma valid_cut: "valid_utf8 v \<Longrightarrow> n \<le> length v \<Longrightarrow> \<exists>k\<le>n. n \<le> k + 3 \<and> valid_utf8 (take k v)"
proof (induction v arbitrary: n rule: valid_utf8.induct)
  case (1 v)
  show ?case
  proof (cases "n \<le> 3 \<or> v = []")
    case True
    then show ?thesis using 1(3) by (intro exI [of _ 0]) auto
  next
    case False
    then obtain m where m: "rune_length v = Some m" "valid_utf8 (drop m v)"
      using 1(2) by (auto simp: valid_utf8.simps [of v] split: option.splits)
    note b = rune_length_bounds [OF m(1)]
    obtain k where k: "k \<le> n - m" "n - m \<le> k + 3" "valid_utf8 (take k (drop m v))"
      using 1(1) [OF _ m, of "n - m"] diff_le_mono [OF 1(3), of m] False by auto
    have "rune_length (take (m + k) v) = Some m" by (rule rune_length_take [OF m(1)]) simp
    moreover have "drop m (take (m + k) v) = take k (drop m v)" by (simp add: drop_take)
    ultimately have "valid_utf8 (take (m + k) v)" using k(3) False b by (subst valid_utf8.simps) auto
    with k False b show ?thesis by (intro exI [of _ "m + k"]) auto
  qed
qed

lemma nat_le: "m < int n \<Longrightarrow> nat m \<le> n"
  by linarith

lemma truncate_utf8:
  assumes "0 < m" "m < int (length v)"
  shows "snd (truncate_utf8_bytes v m) \<and> valid_utf8 (fst (truncate_utf8_bytes v m)) \<and>
    prefix (fst (truncate_utf8_bytes v m)) v \<and> int (length (fst (truncate_utf8_bytes v m))) \<le> m \<and>
    (valid_utf8 v \<longrightarrow> m - 3 \<le> int (length (fst (truncate_utf8_bytes v m))))"
proof -
  let ?t = "take (nat m) v"
  have e: "truncate_utf8_bytes v m = (trim_invalid ?t, True)" using assms by (simp add: truncate_utf8_bytes_def)
  have p: "prefix (trim_invalid ?t) ?t" by (rule trim_invalid_prefix)
  have "prefix (trim_invalid ?t) v" using p by (metis take_is_prefix prefix_order.trans)
  moreover have "int (length (trim_invalid ?t)) \<le> m" using prefix_length_le [OF p] assms by simp
  moreover have "m - 3 \<le> int (length (trim_invalid ?t))" if v: "valid_utf8 v"
  proof -
    obtain k where k: "k \<le> nat m" "nat m \<le> k + 3" "valid_utf8 (take k v)"
      using valid_cut [OF v, of "nat m"] nat_le [OF assms(2)] by blast
    with trim_invalid_longest [of k ?t] nat_le [OF assms(2)] have "k \<le> length (trim_invalid ?t)" by (auto simp: min_def)
    with k show ?thesis by linarith
  qed
  ultimately show ?thesis using trim_invalid_valid by (simp add: e)
qed

end
