(* ===== verification/Pending_Manager.thy ===== *)
theory Pending_Manager
  imports Domain_Types Redact_Json Utf8
    "HOL-Library.Product_Lexorder" "HOL-Library.List_Lexorder" "HOL-Library.Char_ord"
begin

text \<open>
  The manager of a task's pending requests (\<open>gateway/internal/pending/types.go\<close>): requests by
  their generated id, and two indexes of the active ones, by the app-server's request id and by the
  JSON-RPC id.  A \<open>*Record\<close> of the code is shared between the maps; here the indexes hold ids and
  the map \<open>mg_requests\<close> holds the records, so an update is seen through every index.
\<close>

declare map_of_eq_Some_iff [simp del]

subsection \<open>Decimal numbers\<close>

text \<open>\<open>strconvUint\<close>: the digits are written from the last place backwards.\<close>

function strconv_loop :: "nat \<Rightarrow> string \<Rightarrow> string" where
  "strconv_loop n acc = (if n = 0 then acc else strconv_loop (n div 10) (char_of (48 + n mod 10) # acc))"
  by pat_completeness auto
termination by (relation "measure fst") auto

declare strconv_loop.simps [simp del]

definition strconv_uint :: "u64 \<Rightarrow> string" where
  "strconv_uint v = (if v = 0 then ''0'' else strconv_loop (unat v) [])"

definition digits_value :: "string \<Rightarrow> nat" where
  "digits_value s = foldl (\<lambda>n c. 10 * n + (of_char c - 48)) 0 s"

lemma foldl_digits: "foldl (\<lambda>n c. 10 * n + (of_char c - 48)) a s = a * 10 ^ length s + digits_value s"
proof (induction s arbitrary: a)
  case (Cons c s)
  show ?case
    using Cons.IH [of "10 * a + (of_char c - 48)"] Cons.IH [of "of_char c - 48"]
    by (simp add: digits_value_def algebra_simps)
qed (simp add: digits_value_def)

lemma strconv_loop_value: "digits_value (strconv_loop n acc) = n * 10 ^ length acc + digits_value acc"
proof (induction n acc rule: strconv_loop.induct)
  case (1 n acc)
  show ?case
  proof (cases "n = 0")
    case True
    then show ?thesis by (simp add: strconv_loop.simps)
  next
    case False
    have d: "digits_value (char_of (48 + n mod 10) # acc) = n mod 10 * 10 ^ length acc + digits_value acc"
      using foldl_digits [of "of_char (char_of (48 + n mod 10) :: char) - 48" acc]
      by (simp add: digits_value_def)
    have "n * 10 ^ length acc = (n div 10 * 10 + n mod 10) * 10 ^ length acc" by (simp only: div_mult_mod_eq)
    also have "\<dots> = n div 10 * 10 ^ Suc (length acc) + n mod 10 * 10 ^ length acc"
      by (simp only: add_mult_distrib mult.assoc power_Suc)
    finally have "n * 10 ^ length acc = n div 10 * 10 ^ Suc (length acc) + n mod 10 * 10 ^ length acc" .
    with 1 [OF False] d False show ?thesis by (subst strconv_loop.simps) simp
  qed
qed

lemma strconv_uint_value: "digits_value (strconv_uint v) = unat v"
  using strconv_loop_value [of "unat v" "[]"] by (simp add: strconv_uint_def digits_value_def)

lemma strconv_uint_inj: "strconv_uint v = strconv_uint w \<longleftrightarrow> v = w"
  using strconv_uint_value [of v] strconv_uint_value [of w] by (metis word_unat_eq_iff)

subsection \<open>Request ids\<close>

definition is_space :: "char \<Rightarrow> bool" where
  "is_space c \<longleftrightarrow> c = CHR '' '' \<or> c = CHR 0x0A \<or> c = CHR 0x0D \<or> c = CHR 0x09"

definition bytes_trim_space :: "string \<Rightarrow> string" where
  "bytes_trim_space raw = rev (dropWhile is_space (rev (dropWhile is_space raw)))"

definition request_id_key :: "string \<Rightarrow> string" where
  "request_id_key raw = bytes_trim_space raw"

subsection \<open>The manager\<close>

datatype response_state = ResponseStateResponding | ResponseStateAccepted | ResponseStateFailed

record respond_pending_response =
  rq_task_id :: string
  rq_session_group_id :: string
  rq_pending_request_id :: string
  rq_client_response_id :: string
  rq_accepted :: bool
  rq_already_applied :: bool
  rq_resolved_event_id :: u64

record response_entry =
  rn_client_response_id :: string
  rn_fingerprint :: string
  rn_state :: response_state
  rn_done :: bool    \<comment> \<open>the channel \<open>Done\<close> is closed\<close>
  rn_response :: respond_pending_response
  rn_err :: "gateway_error option"

record permission_grant =
  pg_kind :: string
  pg_grantable :: bool
  pg_section :: string
  pg_field :: string
  pg_value :: json

record tool_question_spec =
  qs_is_secret :: bool
  qs_is_other :: bool
  qs_allowed_values :: "string list"   \<comment> \<open>a set\<close>

record pending_entry =
  pe_method :: string
  pe_app_server_request_id :: string
  pe_jsonrpc_id :: string
  pe_active :: bool
  pe_pending :: pending_request
  pe_approval_options :: "(string, approval_decision_option) gomap"
  pe_permission_grants :: "(string, permission_grant) gomap"
  pe_tool_questions :: "(string, tool_question_spec) gomap"
  pe_mcp_sensitive_fields :: "string list"   \<comment> \<open>a set\<close>
  pe_responses :: "(string, response_entry) gomap"
  pe_in_flight_client_response_id :: string

record manager =
  mg_next_seq :: u64
  mg_requests :: "(string, pending_entry) gomap"
  mg_active_by_server_id :: "(string, string list) gomap"
  mg_active_by_jsonrpc_id :: "(string, string list) gomap"

definition new_manager :: manager where
  "new_manager = \<lparr>mg_next_seq = 0, mg_requests = [], mg_active_by_server_id = [], mg_active_by_jsonrpc_id = []\<rparr>"

definition index_ids :: "(string, string list) gomap \<Rightarrow> string \<Rightarrow> string list" where
  "index_ids index key = (case gm_get index key of None \<Rightarrow> [] | Some ids \<Rightarrow> ids)"

definition add_active_id :: "string \<Rightarrow> string \<Rightarrow> (string, string list) gomap \<Rightarrow> (string, string list) gomap" where
  "add_active_id key pid index = (if key = [] then index else gm_put key (index_ids index key @ [pid]) index)"

definition remove_active_id :: "string \<Rightarrow> string \<Rightarrow> (string, string list) gomap \<Rightarrow> (string, string list) gomap" where
  "remove_active_id key pid index =
     (let ids = index_ids index key in
      if pid \<notin> set ids then index
      else let ids' = remove1 pid ids in
        if ids' = [] then gm_del key index else gm_put key ids' index)"

definition pending_id :: "u64 \<Rightarrow> string" where
  "pending_id n = ''pending-'' @ strconv_uint n"

definition manager_add :: "pending_entry \<Rightarrow> manager \<Rightarrow> string \<times> manager" where
  "manager_add r m =
     (let seq = mg_next_seq m + 1; pid = pending_id seq;
          r' = r\<lparr>pe_pending := (pe_pending r)\<lparr>pr_pending_request_id := pid\<rparr>, pe_active := True\<rparr> in
      (pid, m\<lparr>mg_next_seq := seq, mg_requests := gm_put pid r' (mg_requests m),
         mg_active_by_server_id := add_active_id (pe_app_server_request_id r) pid (mg_active_by_server_id m),
         mg_active_by_jsonrpc_id := add_active_id (request_id_key (pe_jsonrpc_id r)) pid (mg_active_by_jsonrpc_id m)\<rparr>))"

definition manager_get :: "string \<Rightarrow> manager \<Rightarrow> pending_entry option" where
  "manager_get pid m = gm_get (mg_requests m) pid"

definition active_entries :: "manager \<Rightarrow> pending_entry list" where
  "active_entries m = filter pe_active (map snd (mg_requests m))"

text \<open>\<open>Active\<close> lists them by creation time and id.\<close>

definition active_pending :: "manager \<Rightarrow> pending_request list" where
  "active_pending m =
     sort_key (\<lambda>p. (pr_created_at p, pr_pending_request_id p)) (map pe_pending (active_entries m))"

definition active_count :: "manager \<Rightarrow> int" where
  "active_count m = int (length (active_entries m))"

definition active_by_index :: "(string, string list) gomap \<Rightarrow> string \<Rightarrow> manager \<Rightarrow> pending_entry option" where
  "active_by_index index key m =
     (if key = [] then None
      else List.find pe_active (List.map_filter (\<lambda>pid. gm_get (mg_requests m) pid) (index_ids index key)))"

definition active_by_server_request_id :: "string \<Rightarrow> manager \<Rightarrow> pending_entry option" where
  "active_by_server_request_id sid m = (if sid = [] then None else active_by_index (mg_active_by_server_id m) sid m)"

text \<open>
  \<open>json_string\<close> is the standard library's decoder of a JSON text into a string: \<open>None\<close> when the text
  is not one JSON string.
\<close>

definition normalize_server_request_id :: "(string \<Rightarrow> string option) \<Rightarrow> string \<Rightarrow> string \<Rightarrow> string" where
  "normalize_server_request_id json_string raw_id raw =
     (if trim_space raw_id \<noteq> [] then raw_id
      else case json_string raw of
          Some s \<Rightarrow> if trim_space s \<noteq> [] then s else request_id_key raw
        | None \<Rightarrow> request_id_key raw)"

definition active_by_resolved_server_request_id ::
  "(string \<Rightarrow> string option) \<Rightarrow> string \<Rightarrow> manager \<Rightarrow> pending_entry option" where
  "active_by_resolved_server_request_id json_string raw m =
     (let key = request_id_key raw in
      if key = [] then None
      else case active_by_index (mg_active_by_jsonrpc_id m) key m of Some r \<Rightarrow> Some r | None \<Rightarrow>
        let exact = filter (\<lambda>r. request_id_key (pe_jsonrpc_id r) = key) (map snd (mg_requests m)) in
        case List.find pe_active exact of Some r \<Rightarrow> Some r | None \<Rightarrow>
          if exact \<noteq> [] then None
          else active_by_server_request_id (normalize_server_request_id json_string [] raw) m)"

definition mark_resolved :: "string \<Rightarrow> manager \<Rightarrow> manager" where
  "mark_resolved pid m =
     (case gm_get (mg_requests m) pid of None \<Rightarrow> m | Some r \<Rightarrow>
      m\<lparr>mg_requests := gm_put pid (r\<lparr>pe_active := False\<rparr>) (mg_requests m),
        mg_active_by_server_id :=
          (if pe_app_server_request_id r = [] then mg_active_by_server_id m
           else remove_active_id (pe_app_server_request_id r) pid (mg_active_by_server_id m)),
        mg_active_by_jsonrpc_id :=
          (if request_id_key (pe_jsonrpc_id r) = [] then mg_active_by_jsonrpc_id m
           else remove_active_id (request_id_key (pe_jsonrpc_id r)) pid (mg_active_by_jsonrpc_id m))\<rparr>)"

text \<open>An update of an entry that leaves its id, its keys and its activity alone (the responses).\<close>

definition update_entry :: "string \<Rightarrow> (pending_entry \<Rightarrow> pending_entry) \<Rightarrow> manager \<Rightarrow> manager" where
  "update_entry pid f m = (case gm_get (mg_requests m) pid of None \<Rightarrow> m | Some r \<Rightarrow>
     m\<lparr>mg_requests := gm_put pid (f r) (mg_requests m)\<rparr>)"

subsection \<open>Methods and request types\<close>

definition method_pending_type :: "string \<Rightarrow> pending_type option" where
  "method_pending_type m =
     (if m = ''item/commandExecution/requestApproval'' then Some PendingTypeCommandApproval
      else if m = ''item/fileChange/requestApproval'' then Some PendingTypeFileChangeApproval
      else if m = ''item/permissions/requestApproval'' then Some PendingTypePermissionsApproval
      else if m = ''mcpServer/elicitation/request'' then Some PendingTypeMcpElicitation
      else if m = ''item/tool/requestUserInput'' then Some PendingTypeToolUserInput
      else None)"

definition request_type_for_pending_type :: "pending_type \<Rightarrow> string" where
  "request_type_for_pending_type t =
     (case t of PendingTypeCommandApproval \<Rightarrow> ''command_approval''
      | PendingTypeFileChangeApproval \<Rightarrow> ''file_approval''
      | PendingTypePermissionsApproval \<Rightarrow> ''permissions_approval''
      | PendingTypeMcpElicitation \<Rightarrow> ''mcp_elicitation''
      | PendingTypeToolUserInput \<Rightarrow> ''tool_user_input'')"

definition auto_resolution_for_pending_type :: "pending_type \<Rightarrow> string" where
  "auto_resolution_for_pending_type t =
     (case t of PendingTypePermissionsApproval \<Rightarrow> ''deny_all''
      | PendingTypeToolUserInput \<Rightarrow> ''jsonrpc_error''
      | _ \<Rightarrow> ''decline'')"

subsection \<open>The indexes describe the active requests\<close>

definition index_ok :: "(pending_entry \<Rightarrow> string) \<Rightarrow> (string, string list) gomap \<Rightarrow> manager \<Rightarrow> bool" where
  "index_ok key index m \<longleftrightarrow> (\<forall>k pid. k \<noteq> [] \<longrightarrow>
     (pid \<in> set (index_ids index k) \<longleftrightarrow>
       (\<exists>r. gm_get (mg_requests m) pid = Some r \<and> pe_active r \<and> key r = k))) \<and>
     (\<forall>k. distinct (index_ids index k))"

definition manager_ok :: "manager \<Rightarrow> bool" where
  "manager_ok m \<longleftrightarrow> gm_wf (mg_requests m) \<and>
     (\<forall>pid r. gm_get (mg_requests m) pid = Some r \<longrightarrow>
       pr_pending_request_id (pe_pending r) = pid \<and> (\<exists>n. 0 < n \<and> n \<le> mg_next_seq m \<and> pid = pending_id n)) \<and>
     index_ok pe_app_server_request_id (mg_active_by_server_id m) m \<and>
     index_ok (\<lambda>r. request_id_key (pe_jsonrpc_id r)) (mg_active_by_jsonrpc_id m) m"

lemma pending_id_inj: "pending_id m = pending_id n \<longleftrightarrow> m = n"
  by (simp add: pending_id_def strconv_uint_inj)

lemma manager_ok_new: "manager_ok new_manager"
  by (simp add: manager_ok_def new_manager_def index_ok_def index_ids_def)

lemma fresh_pending_id:
  assumes "manager_ok m" "mg_next_seq m \<noteq> - 1"
  shows "gm_get (mg_requests m) (pending_id (mg_next_seq m + 1)) = None"
proof (rule ccontr)
  assume "gm_get (mg_requests m) (pending_id (mg_next_seq m + 1)) \<noteq> None"
  then obtain n where "n \<le> mg_next_seq m" "pending_id (mg_next_seq m + 1) = pending_id n"
    using assms(1) unfolding manager_ok_def by blast
  then show False using u64_less_Suc [OF assms(2)] by (simp add: pending_id_inj)
qed

lemma index_ids_put [simp]: "index_ids (gm_put k ids index) k' = (if k' = k then ids else index_ids index k')"
  by (simp add: index_ids_def)

lemma index_ids_del [simp]: "index_ids (gm_del k index) k' = (if k' = k then [] else index_ids index k')"
  by (simp add: index_ids_def)

lemma index_ids_add: "index_ids (add_active_id k pid index) k' =
    (if k' = k \<and> k \<noteq> [] then index_ids index k @ [pid] else index_ids index k')"
  by (simp add: add_active_id_def)

lemma index_ids_remove: "index_ids (remove_active_id k pid index) k' =
    (if k' = k then remove1 pid (index_ids index k) else index_ids index k')"
  by (simp add: remove_active_id_def Let_def remove1_idem)

lemma index_ok_add:
  assumes "index_ok key index m" "gm_get (mg_requests m) pid = None" "pe_active r" "k = key r"
    "mg_requests m' = gm_put pid r (mg_requests m)"
  shows "index_ok key (add_active_id k pid index) m'"
proof -
  have "pid \<notin> set (index_ids index k')" if "k' \<noteq> []" for k'
    using assms(1,2) that by (auto simp: index_ok_def)
  then show ?thesis using assms by (auto simp: index_ok_def index_ids_add)
qed

lemma index_ok_resolve:
  assumes "index_ok key index m" "gm_get (mg_requests m) pid = Some r" "key r' = key r" "\<not> pe_active r'"
    "mg_requests m' = gm_put pid r' (mg_requests m)"
  shows "index_ok key (if key r = [] then index else remove_active_id (key r) pid index) m'"
  using assms by (auto simp: index_ok_def index_ids_remove)

lemma manager_add_ok:
  assumes "manager_ok m" "mg_next_seq m \<noteq> - 1"
  shows "manager_ok (snd (manager_add r m))"
proof -
  let ?pid = "pending_id (mg_next_seq m + 1)" and ?m = "snd (manager_add r m)"
  let ?r = "r\<lparr>pe_pending := (pe_pending r)\<lparr>pr_pending_request_id := ?pid\<rparr>, pe_active := True\<rparr>"
  note fresh = fresh_pending_id [OF assms]
  have n: "0 < mg_next_seq m + 1" using u64_less_Suc [OF assms(2)] word_zero_le le_less_trans by blast
  have le: "n \<le> mg_next_seq m + 1" if "n \<le> mg_next_seq m" for n
    using that u64_le_Suc [OF assms(2)] by (simp add: less_imp_le)
  have q: "mg_requests ?m = gm_put ?pid ?r (mg_requests m)" "mg_next_seq ?m = mg_next_seq m + 1"
    by (simp_all add: manager_add_def Let_def)
  have "index_ok pe_app_server_request_id (mg_active_by_server_id ?m) ?m"
    using index_ok_add [of pe_app_server_request_id "mg_active_by_server_id m" m ?pid ?r _ ?m] assms(1) fresh q
    by (simp add: manager_ok_def manager_add_def Let_def)
  moreover have "index_ok (\<lambda>r. request_id_key (pe_jsonrpc_id r)) (mg_active_by_jsonrpc_id ?m) ?m"
    using index_ok_add [of "\<lambda>r. request_id_key (pe_jsonrpc_id r)" "mg_active_by_jsonrpc_id m" m ?pid ?r _ ?m] assms(1) fresh q
    by (simp add: manager_ok_def manager_add_def Let_def)
  moreover have "pr_pending_request_id (pe_pending r') = pid \<and> (\<exists>n. 0 < n \<and> n \<le> mg_next_seq ?m \<and> pid = pending_id n)"
    if "gm_get (mg_requests ?m) pid = Some r'" for pid r'
  proof (cases "pid = ?pid")
    case True
    with that q n show ?thesis by auto
  next
    case False
    with that q have "gm_get (mg_requests m) pid = Some r'" by simp
    with assms(1) q(2) le show ?thesis unfolding manager_ok_def by metis
  qed
  moreover have "gm_wf (mg_requests ?m)" using assms(1) q by (simp add: manager_ok_def)
  ultimately show ?thesis unfolding manager_ok_def by blast
qed

lemma mark_resolved_ok:
  assumes "manager_ok m"
  shows "manager_ok (mark_resolved pid m)"
proof (cases "gm_get (mg_requests m) pid")
  case None
  with assms show ?thesis by (simp add: mark_resolved_def)
next
  case (Some r)
  let ?m = "mark_resolved pid m" and ?r = "r\<lparr>pe_active := False\<rparr>"
  have q: "mg_requests ?m = gm_put pid ?r (mg_requests m)" using Some by (simp add: mark_resolved_def)
  have "index_ok pe_app_server_request_id (mg_active_by_server_id ?m) ?m"
    using index_ok_resolve [of pe_app_server_request_id "mg_active_by_server_id m" m pid r ?r ?m] assms Some q
    by (simp add: manager_ok_def mark_resolved_def)
  moreover have "index_ok (\<lambda>r. request_id_key (pe_jsonrpc_id r)) (mg_active_by_jsonrpc_id ?m) ?m"
    using index_ok_resolve [of "\<lambda>r. request_id_key (pe_jsonrpc_id r)" "mg_active_by_jsonrpc_id m" m pid r ?r ?m] assms Some q
    by (simp add: manager_ok_def mark_resolved_def)
  moreover have "mg_next_seq ?m = mg_next_seq m" using Some by (simp add: mark_resolved_def)
  ultimately show ?thesis using assms Some q unfolding manager_ok_def by auto
qed

text \<open>A lookup by server id finds exactly the active requests of that id.\<close>

lemma find_Some_ex: "(\<exists>r. List.find P xs = Some r) \<longleftrightarrow> (\<exists>x\<in>set xs. P x)"
  by (induction xs) auto

lemma map_filter_ex: "(\<exists>r\<in>set (List.map_filter f xs). P r) \<longleftrightarrow> (\<exists>x\<in>set xs. \<exists>r. f x = Some r \<and> P r)"
  by (induction xs) (auto simp: List.map_filter_simps split: option.splits)

lemma active_lookup:
  assumes "manager_ok m" "sid \<noteq> []"
  shows "(\<exists>r. active_by_server_request_id sid m = Some r) \<longleftrightarrow>
    (\<exists>pid r. gm_get (mg_requests m) pid = Some r \<and> pe_active r \<and> pe_app_server_request_id r = sid)"
proof -
  have "(\<exists>r. active_by_server_request_id sid m = Some r) \<longleftrightarrow>
      (\<exists>r\<in>set (List.map_filter (\<lambda>pid. gm_get (mg_requests m) pid) (index_ids (mg_active_by_server_id m) sid)). pe_active r)"
    using assms(2) by (simp add: active_by_server_request_id_def active_by_index_def find_Some_ex)
  also have "\<dots> \<longleftrightarrow> (\<exists>pid\<in>set (index_ids (mg_active_by_server_id m) sid). \<exists>r. gm_get (mg_requests m) pid = Some r \<and> pe_active r)"
    by (simp add: map_filter_ex)
  also have "\<dots> \<longleftrightarrow> (\<exists>pid r. gm_get (mg_requests m) pid = Some r \<and> pe_active r \<and> pe_app_server_request_id r = sid)"
    using assms unfolding manager_ok_def index_ok_def by (metis option.inject)
  finally show ?thesis .
qed

text \<open>Resolving a request takes one off the count.\<close>

lemma active_count_resolve:
  assumes "gm_wf (mg_requests m)" "gm_get (mg_requests m) pid = Some r"
  shows "active_count (mark_resolved pid m) = active_count m - (if pe_active r then 1 else 0)"
proof -
  have "length (filter pe_active (map snd (gm_put k (r\<lparr>pe_active := False\<rparr>) q))) + (if pe_active r then 1 else 0) =
      length (filter pe_active (map snd q))" if "gm_get q k = Some r" for q k
    using that by (induction q) auto
  from this [OF assms(2)] have "length (active_entries (mark_resolved pid m)) + (if pe_active r then 1 else 0) = length (active_entries m)"
    using assms(2) by (simp add: active_entries_def mark_resolved_def)
  then show ?thesis unfolding active_count_def by (auto split: if_splits)
qed

datatype manager_op = ManagerAdd pending_entry | ManagerMarkResolved string

fun manager_step :: "manager \<Rightarrow> manager_op \<Rightarrow> manager" where
  "manager_step m (ManagerAdd r) = snd (manager_add r m)"
| "manager_step m (ManagerMarkResolved pid) = mark_resolved pid m"

lemma manager_seq_step: "unat (mg_next_seq (manager_step m op)) \<le> Suc (unat (mg_next_seq m))"
  by (cases op) (simp_all add: manager_add_def mark_resolved_def Let_def unat_word_ariths(1) split: option.split)

lemma manager_ok_run:
  assumes "manager_ok m" "unat (mg_next_seq m) + length ops < 2 ^ 64"
  shows "manager_ok (foldl manager_step m ops)"
  using assms
proof (induction ops arbitrary: m)
  case (Cons op ops)
  have "mg_next_seq m \<noteq> - 1"
  proof
    assume "mg_next_seq m = - 1"
    with Cons.prems(2) show False by (simp add: unsigned_minus_1_eq_mask mask_eq_exp_minus_1)
  qed
  then have "manager_ok (manager_step m op)"
    using Cons.prems(1) by (cases op) (simp_all add: manager_add_ok mark_resolved_ok)
  with Cons manager_seq_step [of m op] show ?case by simp
qed simp

end
