(* ===== verification/Pending_Response.thy ===== *)
theory Pending_Response
  imports Pending_Manager
begin

text \<open>
  The validation of a client's response to a pending request
  (\<open>gateway/internal/pending/response.go\<close>) and the payloads sent to the app-server for it
  (\<open>gateway/internal/appserver/mapping.go\<close>).  Two functions of the standard library are arguments:
  \<open>decode\<close> is the JSON decoder (the value of a text that is one JSON value, \<open>None\<close> for every other
  text, so that \<open>json.Valid\<close> is \<open>decode \<noteq> None\<close>) and \<open>lower\<close> is \<open>strings.ToLower\<close>.  The registry of
  sensitive values is passed along; an error keeps what was registered before it.
\<close>

subsection \<open>Responses (domain/commands.go)\<close>

record permissions_pending_response =
  pp_permission_ids :: "string list"
  pp_scope :: "permission_scope option"   \<comment> \<open>None: the empty string\<close>
  pp_strict_auto_review :: bool

record mcp_elicitation_pending_response =
  mp_action :: mcp_elicitation_action
  mp_content_json :: string

record tool_user_input_answer =
  ta_question_id :: string
  ta_answers :: "string list"

record pending_response =
  pz_approval :: "string option"          \<comment> \<open>DecisionID\<close>
  pz_permissions :: "permissions_pending_response option"
  pz_mcp_elicitation :: "mcp_elicitation_pending_response option"
  pz_tool_user_input :: "tool_user_input_answer list option"

definition response_matches_type :: "pending_type \<Rightarrow> pending_response \<Rightarrow> bool" where
  "response_matches_type t r =
     (case t of
        PendingTypePermissionsApproval \<Rightarrow> pz_approval r = None \<and> pz_permissions r \<noteq> None \<and>
          pz_mcp_elicitation r = None \<and> pz_tool_user_input r = None
      | PendingTypeMcpElicitation \<Rightarrow> pz_approval r = None \<and> pz_permissions r = None \<and>
          pz_mcp_elicitation r \<noteq> None \<and> pz_tool_user_input r = None
      | PendingTypeToolUserInput \<Rightarrow> pz_approval r = None \<and> pz_permissions r = None \<and>
          pz_mcp_elicitation r = None \<and> pz_tool_user_input r \<noteq> None
      | _ \<Rightarrow> pz_approval r \<noteq> None \<and> pz_permissions r = None \<and>
          pz_mcp_elicitation r = None \<and> pz_tool_user_input r = None)"

subsection \<open>Payloads (appserver/mapping.go)\<close>

definition app_server_wire_value :: "approval_wire_decision \<Rightarrow> string" where
  "app_server_wire_value d = (case d of WireDecisionAccept \<Rightarrow> ''accept''
     | WireDecisionAcceptForSession \<Rightarrow> ''acceptForSession''
     | WireDecisionDecline \<Rightarrow> ''decline'' | WireDecisionCancel \<Rightarrow> ''cancel'')"

datatype response_payload =
    DirectApprovalPayload string                                   \<comment> \<open>Decision\<close>
  | PermissionsPayload string "(string, json) gomap" bool          \<comment> \<open>Scope, Permissions, StrictAutoReview\<close>
  | McpElicitationPayload string string                            \<comment> \<open>Action, Content\<close>
  | ToolUserInputPayload "(string, string list) gomap"             \<comment> \<open>Answers\<close>

definition new_permissions_request_approval_response ::
  "(string, json) gomap \<Rightarrow> permission_scope option \<Rightarrow> bool \<Rightarrow> response_payload option" where
  "new_permissions_request_approval_response permissions scope strict =
     (if permissions = [] \<and> (scope = Some PermissionScopeSession \<or> strict) then None
      else Some (PermissionsPayload
        (if scope = Some PermissionScopeSession then ''session'' else []) permissions strict))"

definition new_mcp_elicitation_response_payload ::
  "(string \<Rightarrow> json option) \<Rightarrow> mcp_elicitation_pending_response \<Rightarrow> response_payload option" where
  "new_mcp_elicitation_response_payload decode r =
     (case mp_action r of
        McpElicitationActionAccept \<Rightarrow>
          if decode (mp_content_json r) = None then None
          else Some (McpElicitationPayload ''accept'' (mp_content_json r))
      | McpElicitationActionDecline \<Rightarrow>
          if mp_content_json r \<noteq> [] then None else Some (McpElicitationPayload ''decline'' ''null'')
      | McpElicitationActionCancel \<Rightarrow>
          if mp_content_json r \<noteq> [] then None else Some (McpElicitationPayload ''cancel'' ''null''))"

text \<open>A change of a registry through its pointer; a nil registry registers nothing.\<close>

abbreviation on_registry :: "(registry \<Rightarrow> registry) \<Rightarrow> registry option \<Rightarrow> registry option" where
  "on_registry \<equiv> map_option"

definition new_mcp_elicitation_response_payload_with_redaction ::
  "(string \<Rightarrow> json option) \<Rightarrow> mcp_elicitation_pending_response \<Rightarrow> registry option \<Rightarrow>
    response_payload option \<times> registry option" where
  "new_mcp_elicitation_response_payload_with_redaction decode r reg =
     (case new_mcp_elicitation_response_payload decode r of None \<Rightarrow> (None, reg) | Some payload \<Rightarrow>
      if mp_action r = McpElicitationActionAccept
      then case decode (mp_content_json r) of None \<Rightarrow> (None, reg)
        | Some doc \<Rightarrow> (Some payload, on_registry (register_sensitive_json_value [] doc) reg)
      else (Some payload, reg))"

fun add_answers :: "tool_user_input_answer list \<Rightarrow> (string, string list) gomap \<Rightarrow> (string, string list) gomap option" where
  "add_answers [] m = Some m"
| "add_answers (a # as) m =
     (if ta_question_id a = [] \<or> gm_get m (ta_question_id a) \<noteq> None then None
      else add_answers as (gm_put (ta_question_id a) (ta_answers a) m))"

definition new_tool_user_input_response_payload :: "tool_user_input_answer list \<Rightarrow> response_payload option" where
  "new_tool_user_input_response_payload answers = map_option ToolUserInputPayload (add_answers answers [])"

subsection \<open>Validation (response.go)\<close>

record validated_response =
  vr_payload :: response_payload
  vr_resolution :: pending_resolution

definition approval_resolution :: "approval_wire_decision \<Rightarrow> pending_resolution" where
  "approval_resolution d = (case d of
       WireDecisionAccept \<Rightarrow> PendingResolutionAccepted
     | WireDecisionAcceptForSession \<Rightarrow> PendingResolutionAccepted
     | WireDecisionDecline \<Rightarrow> PendingResolutionDeclined
     | WireDecisionCancel \<Rightarrow> PendingResolutionCancelled)"

definition mcp_resolution :: "mcp_elicitation_action \<Rightarrow> pending_resolution" where
  "mcp_resolution a = (case a of
       McpElicitationActionAccept \<Rightarrow> PendingResolutionAccepted
     | McpElicitationActionDecline \<Rightarrow> PendingResolutionDeclined
     | McpElicitationActionCancel \<Rightarrow> PendingResolutionCancelled)"

definition validate_approval_response :: "pending_entry \<Rightarrow> pending_response \<Rightarrow> string + validated_response" where
  "validate_approval_response e r =
     (if \<not> response_matches_type (pr_pending_type (pe_pending e)) r then Inl ''response type mismatch''
      else case gm_get (pe_approval_options e) (the (pz_approval r)) of
          None \<Rightarrow> Inl ''approval decision is not selectable''
        | Some opt \<Rightarrow>
            if \<not> ao_selectable opt \<or> ao_wire_decision opt = None then Inl ''approval decision is not selectable''
            else let d = the (ao_wire_decision opt) in
              Inr \<lparr>vr_payload = DirectApprovalPayload (app_server_wire_value d),
                   vr_resolution = approval_resolution d\<rparr>)"

definition section_map :: "json option \<Rightarrow> (string, json) gomap" where
  "section_map v = (case v of Some (JObject kvs) \<Rightarrow> kvs | _ \<Rightarrow> [])"

definition list_field :: "string \<Rightarrow> bool" where
  "list_field field \<longleftrightarrow> field = ''entries'' \<or> field = ''read'' \<or> field = ''write''"

definition merge_field :: "string \<Rightarrow> json \<Rightarrow> (string, json) gomap \<Rightarrow> (string, json) gomap" where
  "merge_field field v m =
     (case gm_get m field of
        Some (JArray vs) \<Rightarrow> gm_put field (JArray (vs @ [v])) m
      | existing \<Rightarrow>
          if (existing = None \<or> existing = Some JNull) \<and> list_field field
          then gm_put field (JArray [v]) m else gm_put field v m)"

definition merge_permission_grant :: "(string, json) gomap \<Rightarrow> permission_grant \<Rightarrow> (string, json) gomap" where
  "merge_permission_grant target g =
     (let section = (if pg_section g = [] then pg_kind g else pg_section g) in
      if pg_field g = [] then gm_put section (pg_value g) target
      else gm_put section (JObject (merge_field (pg_field g) (pg_value g) (section_map (gm_get target section)))) target)"

fun grant_permissions ::
  "pending_entry \<Rightarrow> string list \<Rightarrow> string list \<Rightarrow> (string, json) gomap \<Rightarrow> string + (string, json) gomap" where
  "grant_permissions e seen [] granted = Inr granted"
| "grant_permissions e seen (pid # pids) granted =
     (if pid \<in> set seen then Inl ''permission id is duplicated''
      else case gm_get (pe_permission_grants e) pid of
          None \<Rightarrow> Inl ''permission id is not grantable''
        | Some g \<Rightarrow>
            if \<not> pg_grantable g then Inl ''permission id is not grantable''
            else grant_permissions e (pid # seen) pids (merge_permission_grant granted g))"

definition validate_permissions_response :: "pending_entry \<Rightarrow> pending_response \<Rightarrow> string + validated_response" where
  "validate_permissions_response e r =
     (if \<not> response_matches_type (pr_pending_type (pe_pending e)) r then Inl ''response type mismatch''
      else let p = the (pz_permissions r) in
      case grant_permissions e [] (pp_permission_ids p) [] of Inl err \<Rightarrow> Inl err | Inr granted \<Rightarrow>
      case new_permissions_request_approval_response granted (pp_scope p) (pp_strict_auto_review p) of
        None \<Rightarrow> Inl ''permissions response cannot be mapped''
      | Some payload \<Rightarrow> Inr \<lparr>vr_payload = payload,
          vr_resolution = (if pp_permission_ids p \<noteq> [] then PendingResolutionGranted else PendingResolutionDenied)\<rparr>)"

fun register_all_scalar_values :: "json \<Rightarrow> registry \<Rightarrow> registry" where
  "register_all_scalar_values (JObject kvs) r = fold (\<lambda>(k, child). register_all_scalar_values child) kvs r"
| "register_all_scalar_values (JArray vs) r = fold register_all_scalar_values vs r"
| "register_all_scalar_values v r = (case scalar_text v of None \<Rightarrow> r | Some t \<Rightarrow> registry_add t r)"

fun register_mcp_schema_sensitive_value :: "(string \<Rightarrow> string) \<Rightarrow> string list \<Rightarrow> json \<Rightarrow> registry \<Rightarrow> registry" where
  "register_mcp_schema_sensitive_value lower names (JObject kvs) r =
     fold (\<lambda>(k, child). if lower k \<in> set names then register_all_scalar_values child
           else register_mcp_schema_sensitive_value lower names child) kvs r"
| "register_mcp_schema_sensitive_value lower names (JArray vs) r =
     fold (register_mcp_schema_sensitive_value lower names) vs r"
| "register_mcp_schema_sensitive_value lower names v r = r"

definition validate_mcp_elicitation_response ::
  "(string \<Rightarrow> json option) \<Rightarrow> (string \<Rightarrow> string) \<Rightarrow> pending_entry \<Rightarrow> pending_response \<Rightarrow> registry option \<Rightarrow>
    (string + validated_response) \<times> registry option" where
  "validate_mcp_elicitation_response decode lower e r reg =
     (if \<not> response_matches_type PendingTypeMcpElicitation r then (Inl ''response type mismatch'', reg)
      else let m = the (pz_mcp_elicitation r) in
      case new_mcp_elicitation_response_payload_with_redaction decode m reg of
        (None, reg) \<Rightarrow> (Inl ''mcp elicitation response cannot be mapped'', reg)
      | (Some payload, reg) \<Rightarrow>
          (Inr \<lparr>vr_payload = payload, vr_resolution = mcp_resolution (mp_action m)\<rparr>,
           if mp_action m = McpElicitationActionAccept
           then case decode (mp_content_json m) of None \<Rightarrow> reg
             | Some doc \<Rightarrow> on_registry (register_mcp_schema_sensitive_value lower (pe_mcp_sensitive_fields e) doc) reg
           else reg))"

fun check_answers ::
  "pending_entry \<Rightarrow> string list \<Rightarrow> tool_user_input_answer list \<Rightarrow> registry option \<Rightarrow> string option \<times> registry option" where
  "check_answers e seen [] reg = (None, reg)"
| "check_answers e seen (a # as) reg =
     (if ta_question_id a \<in> set seen then (Some ''tool user input question id is duplicated'', reg)
      else case gm_get (pe_tool_questions e) (ta_question_id a) of
          None \<Rightarrow> (Some ''unknown tool user input question id'', reg)
        | Some q \<Rightarrow>
            if qs_allowed_values q \<noteq> [] \<and> \<not> qs_is_other q \<and> \<not> set (ta_answers a) \<subseteq> set (qs_allowed_values q)
            then (Some ''tool user input answer value is not allowed'', reg)
            else check_answers e (ta_question_id a # seen) as
              (if qs_is_secret q then on_registry (registry_add_many (ta_answers a)) reg else reg))"

definition validate_tool_user_input_response ::
  "pending_entry \<Rightarrow> pending_response \<Rightarrow> registry option \<Rightarrow> (string + validated_response) \<times> registry option" where
  "validate_tool_user_input_response e r reg =
     (if \<not> response_matches_type (pr_pending_type (pe_pending e)) r then (Inl ''response type mismatch'', reg)
      else let answers = the (pz_tool_user_input r) in
      case check_answers e [] answers reg of
        (Some err, reg) \<Rightarrow> (Inl err, reg)
      | (None, reg) \<Rightarrow>
          case new_tool_user_input_response_payload answers of
            None \<Rightarrow> (Inl ''tool user input response cannot be mapped'', reg)
          | Some payload \<Rightarrow> (Inr \<lparr>vr_payload = payload, vr_resolution = PendingResolutionAnswered\<rparr>, reg))"

definition validate_response ::
  "(string \<Rightarrow> json option) \<Rightarrow> (string \<Rightarrow> string) \<Rightarrow> pending_entry \<Rightarrow> pending_response \<Rightarrow> registry option \<Rightarrow>
    (string + validated_response) \<times> registry option" where
  "validate_response decode lower e r reg =
     (case pr_pending_type (pe_pending e) of
        PendingTypePermissionsApproval \<Rightarrow> (validate_permissions_response e r, reg)
      | PendingTypeMcpElicitation \<Rightarrow> validate_mcp_elicitation_response decode lower e r reg
      | PendingTypeToolUserInput \<Rightarrow> validate_tool_user_input_response e r reg
      | _ \<Rightarrow> (validate_approval_response e r, reg))"

text \<open>The answer the gateway gives itself when it cannot show a request: the payload, or an error.\<close>

definition auto_resolution_payload :: "pending_type \<Rightarrow> (int \<times> string) + response_payload" where
  "auto_resolution_payload t =
     (case t of
        PendingTypePermissionsApproval \<Rightarrow> Inr (PermissionsPayload [] [] False)
      | PendingTypeMcpElicitation \<Rightarrow> Inr (McpElicitationPayload ''decline'' ''null'')
      | PendingTypeToolUserInput \<Rightarrow> Inl (- 32003, ''pending_request_over_limit'')
      | _ \<Rightarrow> Inr (DirectApprovalPayload ''decline''))"

subsection \<open>Which permissions are granted\<close>

definition leaves :: "json \<Rightarrow> string list" where
  "leaves v = scalars (\<lambda>_. True) [] v"

lemma scalars_path: "scalars (\<lambda>_. True) p v = scalars (\<lambda>_. True) q v"
proof (induction v arbitrary: p q)
  case (JArray vs)
  then show ?case unfolding scalars.simps by (metis (no_types, lifting) map_eq_conv)
next
  case (JObject kvs)
  have "scalars (\<lambda>_. True) (p @ [fst kv]) (snd kv) = scalars (\<lambda>_. True) (q @ [fst kv]) (snd kv)" if "kv \<in> set kvs" for kv
    using JObject [of kv "snd kv"] that by (cases kv) auto
  then show ?case unfolding scalars_object by (metis (no_types, lifting) map_eq_conv)
qed (simp_all)

lemma leaves_simps [simp]:
  "leaves (JObject kvs) = concat (map (\<lambda>kv. leaves (snd kv)) kvs)"
  "leaves (JArray vs) = concat (map leaves vs)"
  "leaves JNull = []" "leaves (JBool b) = [if b then ''true'' else ''false'']" "leaves (JNumber n) = [n]" "leaves (JString s) = [s]"
proof -
  show "leaves (JObject kvs) = concat (map (\<lambda>kv. leaves (snd kv)) kvs)"
    unfolding leaves_def scalars_object
    by (intro arg_cong [where f = concat] map_cong refl scalars_path)
qed (simp_all add: leaves_def [abs_def])

lemma put_leaves: "set (leaves (JObject (gm_put k v m))) \<subseteq> set (leaves (JObject m)) \<union> set (leaves v)"
  by (induction m) auto

lemma get_leaves: "gm_get m k = Some v \<Longrightarrow> set (leaves v) \<subseteq> set (leaves (JObject m))"
  by (drule map_of_SomeD) force

lemma section_map_leaves: "set (leaves (JObject (section_map (gm_get m k)))) \<subseteq> set (leaves (JObject m))"
proof (cases "\<exists>kvs. gm_get m k = Some (JObject kvs)")
  case True
  then obtain kvs where "gm_get m k = Some (JObject kvs)" by blast
  from get_leaves [OF this] this show ?thesis by (simp add: section_map_def del: leaves_simps)
next
  case False
  then have "section_map (gm_get m k) = []" by (auto simp: section_map_def split: option.split json.split)
  then show ?thesis by simp
qed

definition grant_section :: "permission_grant \<Rightarrow> string" where
  "grant_section g = (if pg_section g = [] then pg_kind g else pg_section g)"

lemma merge_field_leaves: "set (leaves (JObject (merge_field f v m))) \<subseteq> set (leaves (JObject m)) \<union> set (leaves v)"
proof -
  consider vs where "gm_get m f = Some (JArray vs)" | "merge_field f v m = gm_put f (JArray [v]) m"
    | "merge_field f v m = gm_put f v m"
  proof (cases "gm_get m f")
    case None
    then show ?thesis using that(2,3) by (cases "list_field f") (simp_all add: merge_field_def)
  next
    case (Some w)
    then show ?thesis using that by (cases w; cases "list_field f") (simp_all add: merge_field_def)
  qed
  then show ?thesis
  proof cases
    case 1
    have "set (leaves (JArray (vs @ [v]))) \<subseteq> set (leaves (JObject m)) \<union> set (leaves v)"
      using get_leaves [OF 1] by (simp del: leaves_simps(1)) blast
    moreover have "merge_field f v m = gm_put f (JArray (vs @ [v])) m" using 1 by (simp add: merge_field_def)
    ultimately show ?thesis using put_leaves [of f "JArray (vs @ [v])" m] by (simp del: leaves_simps) blast
  next
    case 2
    then show ?thesis using put_leaves [of f "JArray [v]" m] by (simp del: leaves_simps(1))
  next
    case 3
    then show ?thesis using put_leaves [of f v m] by (simp del: leaves_simps)
  qed
qed

lemma merge_leaves:
  "set (leaves (JObject (merge_permission_grant m g))) \<subseteq> set (leaves (JObject m)) \<union> set (leaves (pg_value g))"
proof (cases "pg_field g = []")
  case True
  then show ?thesis using put_leaves by (simp add: merge_permission_grant_def Let_def del: leaves_simps)
next
  case False
  let ?m = "section_map (gm_get m (grant_section g))"
  have "merge_permission_grant m g = gm_put (grant_section g) (JObject (merge_field (pg_field g) (pg_value g) ?m)) m"
    using False by (simp add: merge_permission_grant_def grant_section_def Let_def)
  then show ?thesis
    using put_leaves [of "grant_section g" "JObject (merge_field (pg_field g) (pg_value g) ?m)" m]
      merge_field_leaves [of "pg_field g" "pg_value g" ?m] section_map_leaves [of m "grant_section g"]
    by (simp del: leaves_simps) blast
qed

lemma merge_keys: "fst ` set (merge_permission_grant m g) = insert (grant_section g) (fst ` set m)"
  by (simp add: merge_permission_grant_def grant_section_def Let_def dom_update)

definition offered :: "pending_entry \<Rightarrow> string \<Rightarrow> permission_grant option" where
  "offered e pid = (case gm_get (pe_permission_grants e) pid of
     None \<Rightarrow> None | Some g \<Rightarrow> if pg_grantable g then Some g else None)"

definition selected_grants :: "pending_entry \<Rightarrow> string list \<Rightarrow> permission_grant list" where
  "selected_grants e pids = map (\<lambda>p. the (offered e p)) pids"

lemma grant_permissions_iff:
  "grant_permissions e seen pids m = Inr g \<longleftrightarrow>
     distinct pids \<and> set pids \<inter> set seen = {} \<and> (\<forall>p\<in>set pids. offered e p \<noteq> None) \<and>
     g = foldl merge_permission_grant m (selected_grants e pids)"
proof (induction e seen pids m rule: grant_permissions.induct)
  case (2 e seen p pids m)
  then show ?case
    by (auto simp: offered_def selected_grants_def split: option.split)
qed (auto simp: selected_grants_def)

lemma foldl_merge:
  "set (leaves (JObject (foldl merge_permission_grant m gs))) \<subseteq>
     set (leaves (JObject m)) \<union> (\<Union>g\<in>set gs. set (leaves (pg_value g))) \<and>
   fst ` set (foldl merge_permission_grant m gs) = fst ` set m \<union> grant_section ` set gs"
proof (induction gs arbitrary: m)
  case (Cons g gs)
  from Cons [of "merge_permission_grant m g"] merge_leaves [of m g] merge_keys [of m g] show ?case
    by (simp del: leaves_simps) blast
qed simp

subsection \<open>Which secrets are registered\<close>

text \<open>A registration of the values \<open>vs\<close>: the registry stays well formed and gains their segments.\<close>

definition registers :: "(registry \<Rightarrow> registry) \<Rightarrow> string set \<Rightarrow> bool" where
  "registers f vs \<longleftrightarrow> (\<forall>r. registry_ok r \<longrightarrow> registry_ok (f r) \<and>
     set (rg_segments (f r)) = set (rg_segments r) \<union> (\<Union>v\<in>vs. set (split_sensitive_value v)))"

lemma registers_id: "registers id {}" "registers (\<lambda>r. r) {}"
  by (simp_all add: registers_def)

lemma registers_add: "registers (registry_add v) {v}"
  by (simp add: registers_def registry_add_ok registry_add_segments)

lemma registers_comp: "registers f vs \<Longrightarrow> registers g ws \<Longrightarrow> registers (g \<circ> f) (vs \<union> ws)"
  by (simp add: registers_def Un_assoc)

lemma registers_fold:
  assumes "\<And>x. x \<in> set xs \<Longrightarrow> registers (f x) (S x)"
  shows "registers (fold f xs) (\<Union>x\<in>set xs. S x)"
  using assms
proof (induction xs)
  case (Cons x xs)
  then have "registers (fold f xs \<circ> f x) (S x \<union> (\<Union>x\<in>set xs. S x))"
    by (intro registers_comp) simp_all
  then show ?case by (simp add: comp_def)
qed (simp add: registers_id)

lemma registers_add_many: "registers (registry_add_many vs) (set vs)"
  using registers_fold [of vs registry_add "\<lambda>v. {v}"] registers_add by (simp add: registry_add_many_def [abs_def])

lemma registers_all: "registers (register_all_scalar_values v) (set (leaves v))"
proof (induction v)
  case (JArray vs)
  have "registers (fold register_all_scalar_values vs) (\<Union>v\<in>set vs. set (leaves v))"
    by (rule registers_fold) (rule JArray)
  then show ?case by (simp add: fun_eq_iff [symmetric] registers_def)
next
  case (JObject kvs)
  have "registers (register_all_scalar_values (snd kv)) (set (leaves (snd kv)))" if "kv \<in> set kvs" for kv
    using JObject [of kv "snd kv"] that by (cases kv) auto
  then have "registers (fold (\<lambda>kv. register_all_scalar_values (snd kv)) kvs) (\<Union>kv\<in>set kvs. set (leaves (snd kv)))"
    by (rule registers_fold)
  then show ?case by (simp add: registers_def split_def)
qed (use registers_add in \<open>simp_all add: registers_def\<close>)

text \<open>The values below a field that the schema marks as sensitive.\<close>

fun schema_secrets :: "(string \<Rightarrow> string) \<Rightarrow> string list \<Rightarrow> json \<Rightarrow> string list" where
  "schema_secrets lower names (JObject kvs) =
     concat (map (\<lambda>(k, child). if lower k \<in> set names then leaves child else schema_secrets lower names child) kvs)"
| "schema_secrets lower names (JArray vs) = concat (map (schema_secrets lower names) vs)"
| "schema_secrets lower names v = []"

lemma registers_schema:
  "registers (register_mcp_schema_sensitive_value lower names v) (set (schema_secrets lower names v))"
proof (induction v)
  case (JArray vs)
  have "registers (fold (register_mcp_schema_sensitive_value lower names) vs)
      (\<Union>v\<in>set vs. set (schema_secrets lower names v))"
    by (rule registers_fold) (rule JArray)
  then show ?case by (simp add: registers_def)
next
  case (JObject kvs)
  have "registers (register_mcp_schema_sensitive_value lower names (snd kv)) (set (schema_secrets lower names (snd kv)))"
    if "kv \<in> set kvs" for kv
    using JObject [of kv "snd kv"] that by (cases kv) auto
  then have "registers (fold (\<lambda>kv. if lower (fst kv) \<in> set names then register_all_scalar_values (snd kv)
        else register_mcp_schema_sensitive_value lower names (snd kv)) kvs)
      (\<Union>kv\<in>set kvs. set (if lower (fst kv) \<in> set names then leaves (snd kv) else schema_secrets lower names (snd kv)))"
    by (intro registers_fold) (simp add: registers_all)
  moreover have "set (schema_secrets lower names (JObject kvs)) =
      (\<Union>kv\<in>set kvs. set (if lower (fst kv) \<in> set names then leaves (snd kv) else schema_secrets lower names (snd kv)))"
    by (simp only: schema_secrets.simps split_def set_concat set_map image_image)
  moreover have "register_mcp_schema_sensitive_value lower names (JObject kvs) =
      fold (\<lambda>kv. if lower (fst kv) \<in> set names then register_all_scalar_values (snd kv)
        else register_mcp_schema_sensitive_value lower names (snd kv)) kvs"
    by (rule ext) (simp only: register_mcp_schema_sensitive_value.simps split_def)
  ultimately show ?case by simp
qed (simp_all add: registers_def)

lemma registers_json: "registers (register_sensitive_json_value path v) (set (sensitive_scalars path v))"
  by (simp add: registers_def register_segments json_segments_def)

text \<open>The secret answers of a response to a tool's questions.\<close>

definition secret_answers :: "pending_entry \<Rightarrow> tool_user_input_answer list \<Rightarrow> string list" where
  "secret_answers e as = concat (map (\<lambda>a. case gm_get (pe_tool_questions e) (ta_question_id a) of
     Some q \<Rightarrow> if qs_is_secret q then ta_answers a else [] | None \<Rightarrow> []) as)"

definition question_allows :: "pending_entry \<Rightarrow> tool_user_input_answer \<Rightarrow> bool" where
  "question_allows e a = (case gm_get (pe_tool_questions e) (ta_question_id a) of None \<Rightarrow> False
     | Some q \<Rightarrow> qs_allowed_values q = [] \<or> qs_is_other q \<or> set (ta_answers a) \<subseteq> set (qs_allowed_values q))"

lemma check_answers_ok:
  "check_answers e seen as reg = (None, reg') \<Longrightarrow>
     \<exists>f. reg' = on_registry f reg \<and> registers f (set (secret_answers e as))"
proof (induction e seen as reg rule: check_answers.induct)
  case (1 e seen reg)
  then show ?case using registers_id(2) by (intro exI [of _ "\<lambda>r. r"]) (simp add: secret_answers_def option.map_ident)
next
  case (2 e seen a as reg)
  from 2(2) obtain q where q: "gm_get (pe_tool_questions e) (ta_question_id a) = Some q"
    and new: "ta_question_id a \<notin> set seen"
    and ok: "\<not> (qs_allowed_values q \<noteq> [] \<and> \<not> qs_is_other q \<and> \<not> set (ta_answers a) \<subseteq> set (qs_allowed_values q))"
    and rest: "check_answers e (ta_question_id a # seen) as
        (if qs_is_secret q then on_registry (registry_add_many (ta_answers a)) reg else reg) = (None, reg')"
    by (auto split: if_splits option.splits)
  let ?g = "if qs_is_secret q then registry_add_many (ta_answers a) else (\<lambda>r. r)"
  have g: "registers ?g (if qs_is_secret q then set (ta_answers a) else {})"
    using registers_add_many registers_id(2) by simp
  from 2(1) [OF new q ok rest] obtain f where f: "registers f (set (secret_answers e as))"
      "reg' = on_registry f (if qs_is_secret q then on_registry (registry_add_many (ta_answers a)) reg else reg)"
    by blast
  have "reg' = on_registry (f \<circ> ?g) reg" using f(2) by (cases reg) simp_all
  moreover have "registers (f \<circ> ?g) (set (secret_answers e (a # as)))"
    using registers_comp [OF g f(1)] q by (simp add: secret_answers_def split: if_splits)
  ultimately show ?case by blast
qed

lemma check_answers_iff:
  "fst (check_answers e seen as reg) = None \<longleftrightarrow>
     distinct (map ta_question_id as) \<and> set (map ta_question_id as) \<inter> set seen = {} \<and> list_all (question_allows e) as"
proof (induction e seen as reg rule: check_answers.induct)
  case (2 e seen a as reg)
  show ?case
  proof (cases "ta_question_id a \<in> set seen \<or> \<not> question_allows e a")
    case True
    then show ?thesis by (auto simp: question_allows_def split: option.splits)
  next
    case False
    then obtain q where q: "gm_get (pe_tool_questions e) (ta_question_id a) = Some q"
      and new: "ta_question_id a \<notin> set seen"
      and ok: "\<not> (qs_allowed_values q \<noteq> [] \<and> \<not> qs_is_other q \<and> \<not> set (ta_answers a) \<subseteq> set (qs_allowed_values q))"
      by (auto simp: question_allows_def split: option.splits)
    have "check_answers e seen (a # as) reg = check_answers e (ta_question_id a # seen) as
        (if qs_is_secret q then on_registry (registry_add_many (ta_answers a)) reg else reg)"
      using q new ok by auto
    with 2 [OF new q ok] False show ?thesis by auto
  qed
qed simp

lemma add_answers_iff:
  "add_answers as m \<noteq> None \<longleftrightarrow>
     distinct (map ta_question_id as) \<and> [] \<notin> set (map ta_question_id as) \<and>
     (\<forall>a\<in>set as. gm_get m (ta_question_id a) = None)"
proof (induction as arbitrary: m)
  case (Cons a as)
  show ?case
  proof (cases "ta_question_id a = [] \<or> gm_get m (ta_question_id a) \<noteq> None")
    case False
    have "(\<forall>b\<in>set as. gm_get (gm_put (ta_question_id a) (ta_answers a) m) (ta_question_id b) = None) \<longleftrightarrow>
        ta_question_id a \<notin> set (map ta_question_id as) \<and> (\<forall>b\<in>set as. gm_get m (ta_question_id b) = None)"
      by (auto simp: update_conv' image_iff)
    with False Cons [of "gm_put (ta_question_id a) (ta_answers a) m"] show ?thesis by auto
  qed auto
qed simp

end
