(* ===== verification/Pending_Properties.thy ===== *)
theory Pending_Properties
  imports Pending_Response
begin

text \<open>
  The properties of pending requests: the manager's indexes find every active request, its listing is
  complete and ordered, a validated response grants only what was offered, and the secrets of a
  response are registered for redaction.
\<close>

subsection \<open>The manager\<close>

lemma manager_reachable: "length ops < 2 ^ 64 \<Longrightarrow> manager_ok (foldl manager_step new_manager ops)"
  by (rule manager_ok_run) (simp_all add: manager_ok_def index_ok_def index_ids_def new_manager_def)

lemma find_SomeD: "List.find P xs = Some x \<Longrightarrow> P x \<and> x \<in> set xs"
  by (induction xs) (auto split: if_splits)

lemma index_okD: "index_ok key index m \<Longrightarrow> k \<noteq> [] \<Longrightarrow> pid \<in> set (index_ids index k) \<longleftrightarrow>
    (\<exists>r. gm_get (mg_requests m) pid = Some r \<and> pe_active r \<and> key r = k)"
  by (simp add: index_ok_def)

lemma index_lookup:
  assumes "manager_ok m" "index_ok key index m" "k \<noteq> []"
    "gm_get (mg_requests m) pid = Some r" "pe_active r" "key r = k"
  shows "\<exists>r'. active_by_index index k m = Some r' \<and> pe_active r' \<and> key r' = k"
proof -
  have "pid \<in> set (index_ids index k)" using index_okD [OF assms(2,3)] assms(4-6) by blast
  then have "\<exists>x\<in>set (List.map_filter (\<lambda>pid. gm_get (mg_requests m) pid) (index_ids index k)). pe_active x"
    using assms(4,5) by (auto simp: map_filter_ex)
  from find_Some_ex [THEN iffD2, OF this]
  obtain r' where r': "List.find pe_active (List.map_filter (\<lambda>pid. gm_get (mg_requests m) pid) (index_ids index k)) = Some r'" ..
  have "pe_active r'" "r' \<in> set (List.map_filter (\<lambda>pid. gm_get (mg_requests m) pid) (index_ids index k))"
    using find_SomeD [OF r'] by simp_all
  then obtain pid' where "pid' \<in> set (index_ids index k)" "gm_get (mg_requests m) pid' = Some r'"
    using map_filter_ex [of "\<lambda>pid. gm_get (mg_requests m) pid" "index_ids index k" "\<lambda>x. x = r'"] by auto
  with index_okD [OF assms(2,3), of pid'] have "key r' = k" by force
  with r' \<open>pe_active r'\<close> assms(3) show ?thesis by (auto simp: active_by_index_def)
qed

text \<open>
  After any sequence of additions and resolutions, an active pending request is found by its
  app-server request id and by its JSON-RPC id (white space around the id aside), the answer being
  an active request with that very id.
\<close>

theorem pending_request_found:
  assumes "length ops < 2 ^ 64"
    and "gm_get (mg_requests (foldl manager_step new_manager ops)) pid = Some r" "pe_active r"
  shows "(pe_app_server_request_id r \<noteq> [] \<longrightarrow>
      (\<exists>r'. active_by_server_request_id (pe_app_server_request_id r) (foldl manager_step new_manager ops) = Some r' \<and>
        pe_active r' \<and> pe_app_server_request_id r' = pe_app_server_request_id r)) \<and>
    (request_id_key raw = request_id_key (pe_jsonrpc_id r) \<and> request_id_key raw \<noteq> [] \<longrightarrow>
      (\<exists>r'. active_by_resolved_server_request_id js raw (foldl manager_step new_manager ops) = Some r' \<and>
        pe_active r' \<and> request_id_key (pe_jsonrpc_id r') = request_id_key raw))"
proof -
  let ?m = "foldl manager_step new_manager ops"
  have ok: "manager_ok ?m" by (rule manager_reachable [OF assms(1)])
  then have ix: "index_ok pe_app_server_request_id (mg_active_by_server_id ?m) ?m"
    "index_ok (\<lambda>r. request_id_key (pe_jsonrpc_id r)) (mg_active_by_jsonrpc_id ?m) ?m"
    by (simp_all add: manager_ok_def)
  note found = index_lookup [OF ok ix(1) _ assms(2,3) refl] index_lookup [OF ok ix(2) _ assms(2,3)]
  show ?thesis
    using found by (fastforce simp: active_by_server_request_id_def active_by_resolved_server_request_id_def Let_def)
qed

lemma entry_ids:
  assumes "manager_ok m"
  shows "distinct (map (\<lambda>r. pr_pending_request_id (pe_pending r)) (map snd (mg_requests m)))"
proof -
  have "pr_pending_request_id (pe_pending (snd kv)) = fst kv" if "kv \<in> set (mg_requests m)" for kv
  proof -
    have "gm_get (mg_requests m) (fst kv) = Some (snd kv)"
      using assms that by (cases kv) (simp add: manager_ok_def map_of_is_SomeI)
    with assms show ?thesis by (simp add: manager_ok_def)
  qed
  then have "map (\<lambda>r. pr_pending_request_id (pe_pending r)) (map snd (mg_requests m)) = map fst (mg_requests m)" by simp
  then show ?thesis using assms by (simp only: manager_ok_def)
qed

lemma distinct_map_sort: "distinct (map f (sort_key k xs)) \<longleftrightarrow> distinct (map f xs)"
  by (simp add: distinct_map)

text \<open>
  The listing of active requests contains exactly the active ones, each once, ordered by
  creation time and id.
\<close>

theorem active_requests_listed:
  assumes "length ops < 2 ^ 64"
  defines "m \<equiv> foldl manager_step new_manager ops"
  shows "set (active_pending m) = {pe_pending r | pid r. gm_get (mg_requests m) pid = Some r \<and> pe_active r} \<and>
    distinct (map pr_pending_request_id (active_pending m)) \<and>
    sorted (map (\<lambda>p. (pr_created_at p, pr_pending_request_id p)) (active_pending m))"
proof -
  have ok: "manager_ok m" unfolding m_def by (rule manager_reachable [OF assms(1)])
  have "set (map snd (mg_requests m)) = {r. \<exists>pid. gm_get (mg_requests m) pid = Some r}"
    using ok by (auto simp: manager_ok_def image_iff) (force intro: map_of_is_SomeI dest: map_of_SomeD)+
  then have "set (active_pending m) = {pe_pending r | pid r. gm_get (mg_requests m) pid = Some r \<and> pe_active r}"
    by (auto simp: active_pending_def active_entries_def)
  moreover have "distinct (map pr_pending_request_id (active_pending m))"
    using distinct_map_filter [OF entry_ids [OF ok, unfolded map_map], of "pe_active \<circ> snd"]
    by (simp add: active_pending_def active_entries_def distinct_map_sort filter_map comp_def)
  ultimately show ?thesis by (simp add: active_pending_def)
qed


subsection \<open>Responses\<close>

lemma leaves_empty: "leaves (JObject []) = []"
  by simp

text \<open>
  C29: The permissions sent to the app-server for an accepted response come from the selection:
  the selected ids are distinct and each was offered as grantable, every scalar in the payload is
  one of a selected grant's value, and the sections of the payload are those of the selected
  grants.
\<close>

theorem permissions_granted_from_selection:
  assumes "pr_pending_type (pe_pending e) = PendingTypePermissionsApproval"
    and "fst (validate_response decode lower e r reg) = Inr v"
  shows "\<exists>p perms. pz_permissions r = Some p \<and>
    vr_payload v = PermissionsPayload (if pp_scope p = Some PermissionScopeSession then ''session'' else []) perms
      (pp_strict_auto_review p) \<and>
    distinct (pp_permission_ids p) \<and> (\<forall>pid\<in>set (pp_permission_ids p). offered e pid \<noteq> None) \<and>
    set (leaves (JObject perms)) \<subseteq> (\<Union>pid\<in>set (pp_permission_ids p). set (leaves (pg_value (the (offered e pid))))) \<and>
    fst ` set perms = grant_section ` (\<lambda>pid. the (offered e pid)) ` set (pp_permission_ids p)"
proof -
  have "validate_permissions_response e r = Inr v" using assms by (simp add: validate_response_def)
  then have m: "response_matches_type PendingTypePermissionsApproval r"
    using assms(1) by (auto simp: validate_permissions_response_def split: if_splits)
  then obtain p where p: "pz_permissions r = Some p" by (auto simp: response_matches_type_def)
  with m assms obtain granted where g: "grant_permissions e [] (pp_permission_ids p) [] = Inr granted"
    and v: "vr_payload v = PermissionsPayload (if pp_scope p = Some PermissionScopeSession then ''session'' else []) granted (pp_strict_auto_review p)"
    by (auto simp: validate_response_def validate_permissions_response_def Let_def
        new_permissions_request_approval_response_def split: sum.splits option.splits if_splits)
  from g have d: "distinct (pp_permission_ids p)" "\<forall>pid\<in>set (pp_permission_ids p). offered e pid \<noteq> None"
    and gr: "granted = foldl merge_permission_grant [] (selected_grants e (pp_permission_ids p))"
    by (simp_all add: grant_permissions_iff)
  from foldl_merge [of "[]" "selected_grants e (pp_permission_ids p)"] gr
  have "set (leaves (JObject granted)) \<subseteq> (\<Union>pid\<in>set (pp_permission_ids p). set (leaves (pg_value (the (offered e pid)))))"
    "fst ` set granted = grant_section ` (\<lambda>pid. the (offered e pid)) ` set (pp_permission_ids p)"
    by (simp_all add: selected_grants_def image_image leaves_empty del: leaves_simps(1))
  with p v d show ?thesis by blast
qed


text \<open>
  C30: A response to a tool's questions is accepted exactly when its question ids are distinct and
  non-empty, each question was asked, and each answer is allowed by its question.
\<close>

theorem tool_answers_accepted:
  assumes "pr_pending_type (pe_pending e) = PendingTypeToolUserInput"
    and "response_matches_type PendingTypeToolUserInput r" "pz_tool_user_input r = Some as"
  shows "(\<exists>v. fst (validate_response decode lower e r reg) = Inr v) \<longleftrightarrow>
    distinct (map ta_question_id as) \<and> [] \<notin> set (map ta_question_id as) \<and> list_all (question_allows e) as"
proof (cases "fst (check_answers e [] as reg)")
  case None
  then obtain reg' where c: "check_answers e [] as reg = (None, reg')" by (cases "check_answers e [] as reg") simp
  have "(\<exists>v. fst (validate_response decode lower e r reg) = Inr v) \<longleftrightarrow> add_answers as [] \<noteq> None"
    using assms c by (auto simp: validate_response_def validate_tool_user_input_response_def
        new_tool_user_input_response_payload_def split: option.split)
  with None check_answers_iff [of e "[]" as reg] add_answers_iff [of as "[]"] show ?thesis by auto
next
  case (Some err)
  then obtain reg' where c: "check_answers e [] as reg = (Some err, reg')" by (cases "check_answers e [] as reg") simp
  have "(\<nexists>v. fst (validate_response decode lower e r reg) = Inr v)"
    using assms c by (auto simp: validate_response_def validate_tool_user_input_response_def)
  with Some check_answers_iff [of e "[]" as reg] show ?thesis by auto
qed

text \<open>The values of a response that must not be shown again.\<close>

definition response_secrets :: "(string \<Rightarrow> json option) \<Rightarrow> (string \<Rightarrow> string) \<Rightarrow> pending_entry \<Rightarrow> pending_response \<Rightarrow> string list" where
  "response_secrets decode lower e r =
     (case pr_pending_type (pe_pending e) of
        PendingTypeToolUserInput \<Rightarrow> secret_answers e (case pz_tool_user_input r of None \<Rightarrow> [] | Some as \<Rightarrow> as)
      | PendingTypeMcpElicitation \<Rightarrow>
          (case pz_mcp_elicitation r of None \<Rightarrow> [] | Some m \<Rightarrow>
             if mp_action m \<noteq> McpElicitationActionAccept then []
             else case decode (mp_content_json m) of None \<Rightarrow> []
               | Some doc \<Rightarrow> sensitive_scalars [] doc @ schema_secrets lower (pe_mcp_sensitive_fields e) doc)
      | _ \<Rightarrow> [])"

lemma response_registers:
  assumes "validate_response decode lower e r reg = (Inr v, reg')"
  shows "\<exists>f. reg' = on_registry f reg \<and> registers f (set (response_secrets decode lower e r))"
proof -
  have id: "\<exists>f. reg = on_registry f reg \<and> registers f {}"
    using registers_id(2) by (intro exI [of _ "\<lambda>r. r"]) (simp add: option.map_ident)
  show ?thesis
  proof (cases "pr_pending_type (pe_pending e)")
    case PendingTypeMcpElicitation
    with assms obtain m where m: "pz_mcp_elicitation r = Some m"
      by (auto simp: validate_response_def validate_mcp_elicitation_response_def response_matches_type_def split: if_splits)
    show ?thesis
    proof (cases "mp_action m = McpElicitationActionAccept")
      case True
      with assms PendingTypeMcpElicitation m obtain doc where doc: "decode (mp_content_json m) = Some doc"
        and reg': "reg' = on_registry (register_mcp_schema_sensitive_value lower (pe_mcp_sensitive_fields e) doc \<circ>
               register_sensitive_json_value [] doc) reg"
        by (auto simp: validate_response_def validate_mcp_elicitation_response_def Let_def
            new_mcp_elicitation_response_payload_with_redaction_def new_mcp_elicitation_response_payload_def
            option.map_comp split: if_splits option.splits)
      have "registers (register_mcp_schema_sensitive_value lower (pe_mcp_sensitive_fields e) doc \<circ>
               register_sensitive_json_value [] doc)
          (set (sensitive_scalars [] doc) \<union> set (schema_secrets lower (pe_mcp_sensitive_fields e) doc))"
        by (rule registers_comp [OF registers_json registers_schema])
      with reg' doc True m PendingTypeMcpElicitation show ?thesis by (auto simp: response_secrets_def)
    next
      case False
      with assms PendingTypeMcpElicitation m have "reg' = reg"
        by (auto simp: validate_response_def validate_mcp_elicitation_response_def Let_def
            new_mcp_elicitation_response_payload_with_redaction_def split: if_splits option.splits)
      with id False m PendingTypeMcpElicitation show ?thesis by (simp add: response_secrets_def)
    qed
  next
    case PendingTypeToolUserInput
    with assms obtain as where as: "pz_tool_user_input r = Some as"
      by (auto simp: validate_response_def validate_tool_user_input_response_def response_matches_type_def split: if_splits)
    with assms PendingTypeToolUserInput have "check_answers e [] as reg = (None, reg')"
      by (auto simp: validate_response_def validate_tool_user_input_response_def Let_def
          split: if_splits option.splits prod.splits)
    from check_answers_ok [OF this] as PendingTypeToolUserInput show ?thesis by (simp add: response_secrets_def)
  qed (use assms id in \<open>simp_all add: validate_response_def response_secrets_def\<close>)
qed

text \<open>
  C28: After the gateway accepted a response to a pending request, no occurrence of a secret of
  the response (a secret answer to a tool's question; a value of an elicited document below a
  sensitive name or below a field that its schema marks) of at least four bytes is ever published
  by a stream of the task, however it is cut into chunks.
\<close>

theorem response_secrets_not_streamed:
  assumes "validate_response decode lower e r (Some g) = (Inr v, Some g')"
    and "registry_ok g" "pred_option registry_ok c"
    and "t \<in> set (response_secrets decode lower e r)" "min_sensitive_value_bytes \<le> length t"
    and "occurs_at t i (concat chunks)" "i \<le> p" "p < i + length t"
  defines "rd \<equiv> \<lparr>rd_task = Some g', rd_connection = c\<rparr>"
  shows "covered (sensitive_segments rd) (concat chunks) p \<and>
    raw_of (stream_all (sensitive_segments rd) (longest_sensitive_segment_bytes rd) chunks) =
      chars (\<lambda>p. \<not> covered (sensitive_segments rd) (concat chunks) p) (concat chunks) 0 (length (concat chunks))"
proof -
  from response_registers [OF assms(1)] obtain f where f: "g' = f g"
    and reg: "registers f (set (response_secrets decode lower e r))" by auto
  from reg assms(2) have g': "registry_ok g'" "set (rg_segments g') =
      set (rg_segments g) \<union> (\<Union>v\<in>set (response_secrets decode lower e r). set (split_sensitive_value v))"
    by (simp_all add: registers_def f)
  then have "set (split_sensitive_value t) \<subseteq> set (sensitive_segments rd)"
    using assms(4) by (auto simp: rd_def sensitive_segments_def segments_of_def)
  moreover have "redactor_ok rd" using g' assms(3) by (simp add: rd_def redactor_ok_def)
  ultimately show ?thesis using covered_value [OF assms(5) _ assms(6-8)] redactor.stream_all_raw by blast
qed


subsection \<open>Instances\<close>

definition ex_entry :: "pending_type \<Rightarrow> pending_entry" where
  "ex_entry t = \<lparr>pe_method = ''m'', pe_app_server_request_id = ''srv-7'', pe_jsonrpc_id = ''7 '', pe_active = False,
     pe_pending = \<lparr>pr_pending_request_id = [], pr_task_id = ''task-1'', pr_pending_type = t, pr_created_at = 5,
       pr_thread_id = ''th'', pr_turn_id = ''tu'', pr_item_id = ''it'', pr_display = ToolUserInput []\<rparr>,
     pe_approval_options = [],
     pe_permission_grants = [(''permission-1'', \<lparr>pg_kind = ''read'', pg_grantable = True,
       pg_section = ''fileSystem'', pg_field = ''read'', pg_value = JString ''/w''\<rparr>),
       (''permission-2'', \<lparr>pg_kind = ''write'', pg_grantable = True,
       pg_section = ''fileSystem'', pg_field = ''write'', pg_value = JString ''/x''\<rparr>)],
     pe_tool_questions = [(''q1'', \<lparr>qs_is_secret = True, qs_is_other = False, qs_allowed_values = []\<rparr>)],
     pe_mcp_sensitive_fields = [], pe_responses = [], pe_in_flight_client_response_id = []\<rparr>"

definition ex_manager_ops :: "manager_op list" where
  "ex_manager_ops = [ManagerAdd (ex_entry PendingTypeToolUserInput), ManagerAdd (ex_entry PendingTypePermissionsApproval),
     ManagerMarkResolved ''pending-1'']"

definition ex_found :: pending_entry where
  "ex_found = the (gm_get (mg_requests (foldl manager_step new_manager ex_manager_ops)) ''pending-2'')"

lemma ex_manager_length: "length ex_manager_ops < 2 ^ 64"
  by (simp add: ex_manager_ops_def)

lemma ex_found: "gm_get (mg_requests (foldl manager_step new_manager ex_manager_ops)) ''pending-2'' = Some ex_found"
  "pe_active ex_found" "pe_app_server_request_id ex_found \<noteq> []" "request_id_key ''7'' = request_id_key (pe_jsonrpc_id ex_found)"
  "request_id_key ''7'' \<noteq> []"
  by code_simp+

theorem pending_request_found_witness:
  "active_by_resolved_server_request_id (\<lambda>_. None) ''7'' (foldl manager_step new_manager ex_manager_ops) \<noteq> None"
  using pending_request_found [OF ex_manager_length ex_found(1,2), of "''7''" "\<lambda>_. None"] ex_found(4,5) by blast

theorem active_requests_listed_witness:
  "distinct (map pr_pending_request_id (active_pending (foldl manager_step new_manager ex_manager_ops))) \<and>
   map pr_pending_request_id (active_pending (foldl manager_step new_manager ex_manager_ops)) = [''pending-2'']"
proof
  show "distinct (map pr_pending_request_id (active_pending (foldl manager_step new_manager ex_manager_ops)))"
    using active_requests_listed [OF ex_manager_length] by blast
qed code_simp

definition ex_grant_response :: pending_response where
  "ex_grant_response = \<lparr>pz_approval = None, pz_permissions = Some \<lparr>pp_permission_ids = [''permission-1''],
     pp_scope = None, pp_strict_auto_review = False\<rparr>, pz_mcp_elicitation = None, pz_tool_user_input = None\<rparr>"

definition ex_grant :: validated_response where
  "ex_grant = projr (fst (validate_response (\<lambda>_. None) id (ex_entry PendingTypePermissionsApproval) ex_grant_response None))"

lemma ex_grant_ok:
  "fst (validate_response (\<lambda>_. None) id (ex_entry PendingTypePermissionsApproval) ex_grant_response None) = Inr ex_grant"
  "pr_pending_type (pe_pending (ex_entry PendingTypePermissionsApproval)) = PendingTypePermissionsApproval"
  by code_simp+

theorem permissions_granted_from_selection_witness:
  "\<exists>perms. vr_payload ex_grant = PermissionsPayload [] perms False \<and> set (leaves (JObject perms)) \<subseteq> {''/w''}"
proof -
  have "pz_permissions ex_grant_response = Some p \<Longrightarrow> p = \<lparr>pp_permission_ids = [''permission-1''],
     pp_scope = None, pp_strict_auto_review = False\<rparr>" for p
    by (simp add: ex_grant_response_def)
  moreover have "pg_value (the (offered (ex_entry PendingTypePermissionsApproval) ''permission-1'')) = JString ''/w''" by code_simp
  ultimately show ?thesis
    using permissions_granted_from_selection [OF ex_grant_ok(2,1)] by (fastforce simp del: leaves_simps(1))
qed

definition ex_answers :: "tool_user_input_answer list" where
  "ex_answers = [\<lparr>ta_question_id = ''q1'', ta_answers = [''hunter2'']\<rparr>]"

definition ex_answer_response :: pending_response where
  "ex_answer_response = \<lparr>pz_approval = None, pz_permissions = None, pz_mcp_elicitation = None,
     pz_tool_user_input = Some ex_answers\<rparr>"

lemma ex_answer_ok:
  "pr_pending_type (pe_pending (ex_entry PendingTypeToolUserInput)) = PendingTypeToolUserInput"
  "response_matches_type PendingTypeToolUserInput ex_answer_response"
  "pz_tool_user_input ex_answer_response = Some ex_answers"
  "distinct (map ta_question_id ex_answers) \<and> [] \<notin> set (map ta_question_id ex_answers) \<and>
    list_all (question_allows (ex_entry PendingTypeToolUserInput)) ex_answers"
  by code_simp+

theorem tool_answers_accepted_witness:
  "\<exists>v. fst (validate_response (\<lambda>_. None) id (ex_entry PendingTypeToolUserInput) ex_answer_response None) = Inr v"
  using tool_answers_accepted [OF ex_answer_ok(1-3)] ex_answer_ok(4) by blast

definition ex_answer_result where
  "ex_answer_result =
     validate_response (\<lambda>_. None) id (ex_entry PendingTypeToolUserInput) ex_answer_response (Some new_registry)"

lemma ex_answer_result:
  "validate_response (\<lambda>_. None) id (ex_entry PendingTypeToolUserInput) ex_answer_response (Some new_registry) =
     (Inr (projr (fst ex_answer_result)), Some (the (snd ex_answer_result)))"
  "''hunter2'' \<in> set (response_secrets (\<lambda>_. None) id (ex_entry PendingTypeToolUserInput) ex_answer_response)"
  "min_sensitive_value_bytes \<le> length ''hunter2''"
  "occurs_at ''hunter2'' 3 (concat [''pw=hun'', ''ter2!''])"
  by code_simp+

theorem response_secrets_not_streamed_witness:
  "covered (sensitive_segments \<lparr>rd_task = Some (the (snd ex_answer_result)), rd_connection = None\<rparr>) (concat [''pw=hun'', ''ter2!'']) 5"
  using response_secrets_not_streamed [OF ex_answer_result(1) new_registry_ok _ ex_answer_result(2-4), of None 5] by simp

subsection \<open>Truncated text\<close>

text \<open>
  A text that is too long is cut to valid UTF-8 of at most the given number of bytes, a
  prefix of the text, and a valid text loses at most three bytes more than it must.
\<close>

theorem text_truncated_at_character:
  assumes "0 < m" "m < int (length v)"
  shows "snd (truncate_utf8_bytes v m) \<and> valid_utf8 (fst (truncate_utf8_bytes v m)) \<and>
    prefix (fst (truncate_utf8_bytes v m)) v \<and> int (length (fst (truncate_utf8_bytes v m))) \<le> m \<and>
    (valid_utf8 v \<longrightarrow> m - 3 \<le> int (length (fst (truncate_utf8_bytes v m))))"
  by (rule truncate_utf8 [OF assms])

theorem text_truncated_at_character_witness:
  "valid_utf8 (fst (truncate_utf8_bytes [CHR ''a'', CHR 0xC3, CHR 0xA9, CHR ''b''] 2)) \<and>
   fst (truncate_utf8_bytes [CHR ''a'', CHR 0xC3, CHR 0xA9, CHR ''b''] 2) = ''a''"
proof
  show "valid_utf8 (fst (truncate_utf8_bytes [CHR ''a'', CHR 0xC3, CHR 0xA9, CHR ''b''] 2))"
    using text_truncated_at_character [of 2 "[CHR ''a'', CHR 0xC3, CHR 0xA9, CHR ''b'']"] by simp
qed code_simp

end
