(* ===== verification/Go_Strings.thy ===== *)
theory Go_Strings
  imports Redact_Json Utf8 "HOL-Library.Product_Lexorder" "HOL-Library.List_Lexorder" "HOL-Library.Char_ord"
begin

text \<open>
  What the gateway uses of Go's packages \<open>strings\<close>, \<open>strconv\<close>, \<open>fmt\<close> and \<open>encoding/json\<close> for
  text: splitting at a byte, numbers in a base, \<open>fmt.Sprint\<close> of a decoded JSON value, and
  \<open>json.Marshal\<close> with the escapes that keep a text on one line.
\<close>

subsection \<open>Cutting and splitting\<close>

text \<open>\<open>strings.Cut\<close> at a byte: what stands before the first one, and after it.\<close>

definition cut_before :: "char \<Rightarrow> string \<Rightarrow> string" where
  "cut_before c s = takeWhile (\<lambda>x. x \<noteq> c) s"

definition cut_after :: "char \<Rightarrow> string \<Rightarrow> string" where
  "cut_after c s = drop 1 (dropWhile (\<lambda>x. x \<noteq> c) s)"

text \<open>The same at the last one; without one nothing stands before it.\<close>

definition last_before :: "char \<Rightarrow> string \<Rightarrow> string" where
  "last_before c s = rev (cut_after c (rev s))"

definition last_after :: "char \<Rightarrow> string \<Rightarrow> string" where
  "last_after c s = rev (cut_before c (rev s))"

fun split_on :: "char \<Rightarrow> string \<Rightarrow> string list" where
  "split_on c [] = [[]]"
| "split_on c (x # xs) =
     (if x = c then [] # split_on c xs
      else case split_on c xs of [] \<Rightarrow> [[x]] | y # ys \<Rightarrow> (x # y) # ys)"

fun join_with :: "string \<Rightarrow> string list \<Rightarrow> string" where
  "join_with sep [] = []"
| "join_with sep [s] = s"
| "join_with sep (s # t # ts) = s @ sep @ join_with sep (t # ts)"

definition replace_byte :: "char \<Rightarrow> char \<Rightarrow> string \<Rightarrow> string" where
  "replace_byte a b s = map (\<lambda>x. if x = a then b else x) s"

definition trim_right_byte :: "char \<Rightarrow> string \<Rightarrow> string" where
  "trim_right_byte c s = rev (dropWhile (\<lambda>x. x = c) (rev s))"

lemma split_on_not_Nil [simp]: "split_on c s \<noteq> []"
  by (induction s) (auto split: list.split)

lemma split_on_join: "join_with [c] (split_on c s) = s"
proof (induction s)
  case (Cons x xs)
  then show ?case by (cases "split_on c xs"; cases "tl (split_on c xs)") auto
qed simp

lemma split_on_free: "p \<in> set (split_on c s) \<Longrightarrow> c \<notin> set p"
  by (induction s arbitrary: p) (auto split: list.splits if_splits)

lemma cut_parts: "c \<in> set s \<Longrightarrow> s = cut_before c s @ c # cut_after c s"
  by (induction s) (auto simp: cut_before_def cut_after_def)

lemma cut_before_free: "c \<notin> set (cut_before c s)"
  by (auto simp: cut_before_def dest: set_takeWhileD)

subsection \<open>Letters and digits\<close>

definition is_digit :: "char \<Rightarrow> bool" where
  "is_digit c \<longleftrightarrow> 48 \<le> byte c \<and> byte c \<le> 57"

definition is_letter :: "char \<Rightarrow> bool" where
  "is_letter c \<longleftrightarrow> 65 \<le> byte c \<and> byte c \<le> 90 \<or> 97 \<le> byte c \<and> byte c \<le> 122"

text \<open>The value of a hexadecimal digit of either case.\<close>

definition hex_value :: "char \<Rightarrow> nat option" where
  "hex_value c = (let n = byte c in
     if 48 \<le> n \<and> n \<le> 57 then Some (n - 48)
     else if 97 \<le> n \<and> n \<le> 102 then Some (n - 87)
     else if 65 \<le> n \<and> n \<le> 70 then Some (n - 55) else None)"

definition hex_digit :: "bool \<Rightarrow> nat \<Rightarrow> char" where
  "hex_digit upper n = (if n < 10 then char_of (48 + n) else if upper then char_of (55 + n) else char_of (87 + n))"

text \<open>\<open>strconv.ParseUint\<close> to 64 bits of digits that are known to be valid for the base.\<close>

definition base_value :: "int \<Rightarrow> string \<Rightarrow> int" where
  "base_value base ds = foldl (\<lambda>n c. n * base + (case hex_value c of None \<Rightarrow> 0 | Some d \<Rightarrow> int d)) 0 ds"

definition parse_uint :: "int \<Rightarrow> string \<Rightarrow> int option" where
  "parse_uint base ds = (if base_value base ds < 2 ^ 64 then Some (base_value base ds) else None)"

text \<open>
  \<open>strings.EqualFold\<close> with a lower-case ASCII text: besides the case, the long s folds to s and the
  Kelvin sign to k.
\<close>

fun fold_ascii :: "string \<Rightarrow> string" where
  "fold_ascii (a # b # c # s) =
     (if a = CHR 0xE2 \<and> b = CHR 0x84 \<and> c = CHR 0xAA then CHR ''k'' # fold_ascii s
      else if a = CHR 0xC5 \<and> b = CHR 0xBF then CHR ''s'' # fold_ascii (c # s)
      else lower_ascii a # fold_ascii (b # c # s))"
| "fold_ascii [a, b] = (if a = CHR 0xC5 \<and> b = CHR 0xBF then ''s'' else [lower_ascii a, lower_ascii b])"
| "fold_ascii s = map lower_ascii s"

definition equal_fold :: "string \<Rightarrow> string \<Rightarrow> bool" where
  "equal_fold s t = (fold_ascii s = t)"

subsection \<open>Printing\<close>

text \<open>\<open>fmt.Sprint\<close> of a decoded JSON value: a map with its keys in order, a nil as \<open><nil>\<close>.\<close>

fun fmt_sprint :: "json \<Rightarrow> string" where
  "fmt_sprint JNull = ''<nil>''"
| "fmt_sprint (JBool b) = (if b then ''true'' else ''false'')"
| "fmt_sprint (JNumber n) = n"
| "fmt_sprint (JString s) = s"
| "fmt_sprint (JArray vs) = ''['' @ join_with '' '' (map fmt_sprint vs) @ '']''"
| "fmt_sprint (JObject kvs) =
     ''map['' @ join_with '' '' (map (\<lambda>(k, s). k @ '':'' @ s)
       (sort_key fst (map (\<lambda>(k, v). (k, fmt_sprint v)) kvs))) @ '']''"

text \<open>The short escapes of \<open>json.Marshal\<close>, and the others with four hexadecimal digits.\<close>

definition json_escape_byte :: "char \<Rightarrow> string" where
  "json_escape_byte c =
     (let n = byte c in
      if c = CHR 0x22 \<or> c = CHR 0x5C then [CHR 0x5C, c]
      else if n = 8 then [CHR 0x5C, CHR ''b''] else if n = 12 then [CHR 0x5C, CHR ''f'']
      else if n = 10 then [CHR 0x5C, CHR ''n''] else if n = 13 then [CHR 0x5C, CHR ''r'']
      else if n = 9 then [CHR 0x5C, CHR ''t'']
      else if n < 32 \<or> c = CHR ''<'' \<or> c = CHR ''>'' \<or> c = CHR ''&''
      then [CHR 0x5C, CHR ''u'', CHR ''0'', CHR ''0'', hex_digit False (n div 16), hex_digit False (n mod 16)]
      else [c])"

text \<open>
  A text inside the quotes: bytes that are not the start of a character become the replacement
  character, and the two line separators of Unicode are escaped.
\<close>

function json_escape :: "string \<Rightarrow> string" where
  "json_escape s =
     (case s of [] \<Rightarrow> [] | c # cs \<Rightarrow>
      case rune_length s of
        None \<Rightarrow> [CHR 0x5C] @ ''ufffd'' @ json_escape cs
      | Some n \<Rightarrow>
          if n = 1 then json_escape_byte c @ json_escape cs
          else if take 3 s = [CHR 0xE2, CHR 0x80, CHR 0xA8] then [CHR 0x5C] @ ''u2028'' @ json_escape (drop 3 s)
          else if take 3 s = [CHR 0xE2, CHR 0x80, CHR 0xA9] then [CHR 0x5C] @ ''u2029'' @ json_escape (drop 3 s)
          else take n s @ json_escape (drop n s))"
  by pat_completeness auto
termination
  by (relation "measure length") (auto dest: rune_length_bounds)

declare json_escape.simps [simp del]

definition json_quote :: "string \<Rightarrow> string" where
  "json_quote s = [CHR 0x22] @ json_escape s @ [CHR 0x22]"

text \<open>\<open>json.Marshal\<close> of a decoded value: the keys of an object in order.\<close>

fun json_marshal :: "json \<Rightarrow> string" where
  "json_marshal JNull = ''null''"
| "json_marshal (JBool b) = (if b then ''true'' else ''false'')"
| "json_marshal (JNumber n) = n"
| "json_marshal (JString s) = json_quote s"
| "json_marshal (JArray vs) = ''['' @ join_with '','' (map json_marshal vs) @ '']''"
| "json_marshal (JObject kvs) =
     ''{'' @ join_with '','' (map (\<lambda>(k, s). json_quote k @ '':'' @ s)
       (sort_key fst (map (\<lambda>(k, v). (k, json_marshal v)) kvs))) @ ''}''"

end
