(* ===== verification/Net_Url.thy ===== *)
theory Net_Url
  imports Go_Strings
begin

text \<open>
  What the gateway uses of Go's packages \<open>net/url\<close>, \<open>net\<close> and \<open>net/netip\<close>: parsing a URL, the
  escaping of its path, host and port, and IP addresses with their classes.
\<close>

subsection \<open>Percent encoding (url.go)\<close>

datatype encoding = EncodePath | EncodePathSegment | EncodeHost | EncodeZone | EncodeUserPassword | EncodeFragment

definition should_escape :: "encoding \<Rightarrow> char \<Rightarrow> bool" where
  "should_escape m c =
     (if is_letter c \<or> is_digit c then False
      else if (m = EncodeHost \<or> m = EncodeZone) \<and> c \<in> set ([CHR 0x22, CHR 0x27] @ ''!$&()*+,;=:[]<>'') then False
      else if c \<in> set ''-_.~'' then False
      else if c \<in> set ''$&+,/:;=?@'' \<and> m \<noteq> EncodeHost \<and> m \<noteq> EncodeZone
      then (case m of EncodePath \<Rightarrow> c = CHR ''?'' | EncodePathSegment \<Rightarrow> c \<in> set ''/;,?''
              | EncodeUserPassword \<Rightarrow> c \<in> set ''@/?:'' | _ \<Rightarrow> False)
      else \<not> (m = EncodeFragment \<and> c \<in> set ''!()*''))"

text \<open>\<open>unescape\<close>: \<open>None\<close> is its error.\<close>

fun unescape :: "encoding \<Rightarrow> string \<Rightarrow> string option" where
  "unescape m [] = Some []"
| "unescape m (c # cs) =
     (if c = CHR ''%''
      then (case cs of
          a # b # rest \<Rightarrow>
            (case (hex_value a, hex_value b) of
               (Some x, Some y) \<Rightarrow>
                 if m = EncodeHost \<and> x < 8 \<and> [a, b] \<noteq> ''25'' then None
                 else if m = EncodeZone \<and> [a, b] \<noteq> ''25'' \<and> 16 * x + y \<noteq> 32 \<and>
                   should_escape EncodeHost (char_of (16 * x + y)) then None
                 else map_option (Cons (char_of (16 * x + y))) (unescape m rest)
             | _ \<Rightarrow> None)
        | _ \<Rightarrow> None)
      else if (m = EncodeHost \<or> m = EncodeZone) \<and> byte c < 128 \<and> should_escape m c then None
      else map_option (Cons c) (unescape m cs))"

definition escape :: "encoding \<Rightarrow> string \<Rightarrow> string" where
  "escape m s = concat (map (\<lambda>c. if should_escape m c
     then [CHR ''%'', hex_digit True (byte c div 16), hex_digit True (byte c mod 16)] else [c]) s)"

definition path_unescape :: "string \<Rightarrow> string option" where
  "path_unescape s = unescape EncodePathSegment s"

subsection \<open>URLs\<close>

text \<open>The fields that the gateway reads; \<open>ur_user\<close> is the user information as it stands.\<close>

record parsed_url =
  ur_scheme :: string
  ur_user :: "string option"
  ur_host :: string
  ur_path :: string
  ur_raw_path :: string
  ur_force_query :: bool
  ur_raw_query :: string
  ur_fragment :: string

text \<open>\<open>getScheme\<close>: the scheme (empty without one) and the rest; \<open>None\<close> for a leading colon.\<close>

fun scheme_length :: "nat \<Rightarrow> string \<Rightarrow> nat option" where
  "scheme_length i [] = None"
| "scheme_length i (c # cs) =
     (if is_letter c then scheme_length (Suc i) cs
      else if is_digit c \<or> c \<in> set ''+-.'' then (if i = 0 then None else scheme_length (Suc i) cs)
      else if c = CHR '':'' then Some i else None)"

definition get_scheme :: "string \<Rightarrow> (string \<times> string) option" where
  "get_scheme s = (case scheme_length 0 s of None \<Rightarrow> Some ([], s)
     | Some 0 \<Rightarrow> None | Some i \<Rightarrow> Some (take i s, drop (Suc i) s))"

definition valid_optional_port :: "string \<Rightarrow> bool" where
  "valid_optional_port p = (case p of [] \<Rightarrow> True | c # ds \<Rightarrow> c = CHR '':'' \<and> list_all is_digit ds)"

definition valid_userinfo :: "string \<Rightarrow> bool" where
  "valid_userinfo s = list_all (\<lambda>c. is_letter c \<or> is_digit c \<or> c \<in> set ([CHR 0x27] @ ''-._:~!$&()*+,;=%@'')) s"

text \<open>\<open>parseHost\<close>; in brackets, the part from \<open>%25\<close> on is a zone.\<close>

definition parse_host :: "string \<Rightarrow> string option" where
  "parse_host h =
     (if prefix ''['' h
      then if CHR '']'' \<notin> set h then None
        else if \<not> valid_optional_port (last_after CHR '']'' h) then None
        else let inner = last_before CHR '']'' h; rest = CHR '']'' # last_after CHR '']'' h in
          case str_index inner ''%25'' of
            None \<Rightarrow> unescape EncodeHost h
          | Some z \<Rightarrow>
              (case (unescape EncodeHost (take z inner), unescape EncodeZone (drop z inner), unescape EncodeHost rest) of
                 (Some a, Some b, Some c) \<Rightarrow> Some (a @ b @ c) | _ \<Rightarrow> None)
      else if CHR '':'' \<in> set h \<and> \<not> valid_optional_port (CHR '':'' # last_after CHR '':'' h) then None
      else unescape EncodeHost h)"

definition parse_userinfo :: "string \<Rightarrow> string option" where
  "parse_userinfo s =
     (if \<not> valid_userinfo s then None
      else if CHR '':'' \<notin> set s then map_option (\<lambda>_. s) (unescape EncodeUserPassword s)
      else case (unescape EncodeUserPassword (cut_before CHR '':'' s), unescape EncodeUserPassword (cut_after CHR '':'' s)) of
          (Some _, Some _) \<Rightarrow> Some s | _ \<Rightarrow> None)"

definition parse_authority :: "string \<Rightarrow> (string option \<times> string) option" where
  "parse_authority a =
     (if CHR ''@'' \<notin> set a then map_option (Pair None) (parse_host a)
      else case (parse_host (last_after CHR ''@'' a), parse_userinfo (last_before CHR ''@'' a)) of
          (Some h, Some u) \<Rightarrow> Some (Some u, h) | _ \<Rightarrow> None)"

definition empty_url :: parsed_url where
  "empty_url = \<lparr>ur_scheme = [], ur_user = None, ur_host = [], ur_path = [], ur_raw_path = [],
     ur_force_query = False, ur_raw_query = [], ur_fragment = []\<rparr>"

definition set_path :: "string \<Rightarrow> parsed_url \<Rightarrow> parsed_url option" where
  "set_path p u = map_option (\<lambda>path. u\<lparr>ur_path := path,
     ur_raw_path := (if p = escape EncodePath path then [] else p)\<rparr>) (unescape EncodePath p)"

text \<open>\<open>parse\<close> after the scheme and the query: an opaque rest, an authority, a path.\<close>

definition parse_rest :: "string \<Rightarrow> parsed_url \<Rightarrow> parsed_url option" where
  "parse_rest rest u =
     (if \<not> prefix ''/'' rest \<and> ur_scheme u \<noteq> [] then Some u
      else if \<not> prefix ''/'' rest \<and> CHR '':'' \<in> set (cut_before CHR ''/'' rest) then None
      else if (ur_scheme u \<noteq> [] \<or> \<not> prefix ''///'' rest) \<and> prefix ''//'' rest
      then let a = drop 2 rest in
        case parse_authority (cut_before CHR ''/'' a) of None \<Rightarrow> None
        | Some (user, host) \<Rightarrow> set_path (drop (length (cut_before CHR ''/'' a)) a) (u\<lparr>ur_user := user, ur_host := host\<rparr>)
      else set_path rest u)"

definition parse_without_fragment :: "string \<Rightarrow> parsed_url option" where
  "parse_without_fragment s =
     (if list_ex (\<lambda>c. byte c < 32 \<or> byte c = 127) s then None
      else if s = ''*'' then Some (empty_url\<lparr>ur_path := ''*''\<rparr>)
      else case get_scheme s of None \<Rightarrow> None
      | Some (scheme, rest) \<Rightarrow>
          let u = empty_url\<lparr>ur_scheme := map lower_ascii scheme\<rparr> in
          if suffix ''?'' rest \<and> count_list rest CHR ''?'' = 1
          then parse_rest (butlast rest) (u\<lparr>ur_force_query := True\<rparr>)
          else parse_rest (cut_before CHR ''?'' rest) (u\<lparr>ur_raw_query := cut_after CHR ''?'' rest\<rparr>))"

definition url_parse :: "string \<Rightarrow> parsed_url option" where
  "url_parse s =
     (case parse_without_fragment (cut_before CHR ''#'' s) of None \<Rightarrow> None
      | Some u \<Rightarrow> if cut_after CHR ''#'' s = [] then Some u
          else map_option (\<lambda>f. u\<lparr>ur_fragment := f\<rparr>) (unescape EncodeFragment (cut_after CHR ''#'' s)))"

definition valid_encoded :: "encoding \<Rightarrow> string \<Rightarrow> bool" where
  "valid_encoded m s = list_all (\<lambda>c. c \<in> set ([CHR 0x27] @ ''!$&()*+,;=:@[]%'') \<or> \<not> should_escape m c) s"

definition escaped_path :: "parsed_url \<Rightarrow> string" where
  "escaped_path u =
     (if ur_raw_path u \<noteq> [] \<and> valid_encoded EncodePath (ur_raw_path u) \<and>
         unescape EncodePath (ur_raw_path u) = Some (ur_path u)
      then ur_raw_path u
      else if ur_path u = ''*'' then ''*'' else escape EncodePath (ur_path u))"

text \<open>\<open>Hostname\<close>: the host without its port and brackets.\<close>

definition hostname :: "parsed_url \<Rightarrow> string" where
  "hostname u =
     (let h = ur_host u;
          h = (if CHR '':'' \<in> set h \<and> valid_optional_port (CHR '':'' # last_after CHR '':'' h)
               then last_before CHR '':'' h else h)
      in if prefix ''['' h \<and> suffix '']'' h \<and> 2 \<le> length h then butlast (tl h) else h)"

text \<open>\<open>net.SplitHostPort\<close>: the host, \<open>None\<close> for its error.\<close>

definition split_host_port :: "string \<Rightarrow> string option" where
  "split_host_port s =
     (if CHR '':'' \<notin> set s then None
      else if prefix ''['' s
      then if CHR '']'' \<notin> set s then None
        else let host = cut_before CHR '']'' (tl s); rest = cut_after CHR '']'' (tl s) in
          if \<not> prefix '':'' rest \<or> CHR '':'' \<in> set (tl rest) then None
          else if CHR ''['' \<in> set (tl s) \<or> CHR '']'' \<in> set rest then None
          else Some host
      else let host = last_before CHR '':'' s in
        if CHR '':'' \<in> set host then None
        else if CHR ''['' \<in> set s \<or> CHR '']'' \<in> set s then None
        else Some host)"

end
