(* ===== verification/Net_Ip.thy ===== *)
theory Net_Ip
  imports Go_Strings
begin

text \<open>
  IP addresses as Go's package \<open>net/netip\<close> reads and classifies them.  An address is the list of its
  parts: four bytes, or eight groups of sixteen bits with a zone.
\<close>

datatype ip_addr =
    IPv4 int int int int
  | IPv6 "int list" string   \<comment> \<open>eight groups, the zone\<close>

subsection \<open>Parsing\<close>

text \<open>A decimal field: digits without a leading zero, at most 255.\<close>

definition ipv4_field :: "string \<Rightarrow> int option" where
  "ipv4_field s =
     (if s = [] \<or> \<not> list_all is_digit s \<or> (prefix ''0'' s \<and> length s \<noteq> 1) \<or> base_value 10 s > 255
      then None else Some (base_value 10 s))"

definition parse_ipv4 :: "string \<Rightarrow> (int \<times> int \<times> int \<times> int) option" where
  "parse_ipv4 s =
     (case map ipv4_field (split_on CHR ''.'' s) of
        [Some a, Some b, Some c, Some d] \<Rightarrow> Some (a, b, c, d) | _ \<Rightarrow> None)"

text \<open>
  The groups that follow: \<open>n\<close> are still missing, \<open>gs\<close> are those read, \<open>el\<close> is where the ellipsis
  stands.  The result: the groups and the ellipsis.
\<close>

fun ipv6_groups :: "nat \<Rightarrow> int list \<Rightarrow> nat option \<Rightarrow> string \<Rightarrow> (int list \<times> nat option) option" where
  "ipv6_groups 0 gs el s = (if s = [] then Some (gs, el) else None)"
| "ipv6_groups (Suc n) gs el s =
     (let ds = takeWhile (\<lambda>c. hex_value c \<noteq> None) s; rest = drop (length ds) s in
      if ds = [] \<or> length ds > 4 then None
      else if prefix ''.'' rest
      then (if el = None \<and> length gs \<noteq> 6 \<or> n = 0 then None
            else case parse_ipv4 s of None \<Rightarrow> None
              | Some (a, b, c, d) \<Rightarrow> Some (gs @ [256 * a + b, 256 * c + d], el))
      else let gs = gs @ [base_value 16 ds] in
        case rest of
          [] \<Rightarrow> Some (gs, el)
        | [c] \<Rightarrow> None
        | c # d # cs \<Rightarrow>
            if c \<noteq> CHR '':'' then None
            else if d = CHR '':''
            then (if el \<noteq> None then None
                  else if cs = [] then Some (gs, Some (length gs)) else ipv6_groups n gs (Some (length gs)) cs)
            else ipv6_groups n gs el (d # cs))"

definition expand_ellipsis :: "int list \<times> nat option \<Rightarrow> int list option" where
  "expand_ellipsis r = (case r of (gs, el) \<Rightarrow>
     if length gs < 8
     then (case el of None \<Rightarrow> None | Some i \<Rightarrow> Some (take i gs @ replicate (8 - length gs) 0 @ drop i gs))
     else if el = None then Some gs else None)"

definition parse_ipv6 :: "string \<Rightarrow> ip_addr option" where
  "parse_ipv6 s =
     (let body = cut_before CHR ''%'' s; zone = cut_after CHR ''%'' s in
      if CHR ''%'' \<in> set s \<and> zone = [] then None
      else map_option (\<lambda>gs. IPv6 gs zone)
        (if body = ''::'' then Some (replicate 8 0)
         else Option.bind
           (if prefix ''::'' body then ipv6_groups 8 [] (Some 0) (drop 2 body) else ipv6_groups 8 [] None body)
           expand_ellipsis))"

definition parse_addr :: "string \<Rightarrow> ip_addr option" where
  "parse_addr s =
     (case List.find (\<lambda>c. c = CHR ''.'' \<or> c = CHR '':'' \<or> c = CHR ''%'') s of
        None \<Rightarrow> None
      | Some c \<Rightarrow> if c = CHR ''.'' then map_option (\<lambda>(a, b, c, d). IPv4 a b c d) (parse_ipv4 s)
          else if c = CHR '':'' then parse_ipv6 s else None)"

subsection \<open>Classes\<close>

text \<open>\<open>Unmap\<close>: an IPv4 address that is mapped into IPv6.\<close>

fun unmap :: "ip_addr \<Rightarrow> ip_addr" where
  "unmap (IPv6 gs z) = (if take 6 gs = [0, 0, 0, 0, 0, 65535]
     then IPv4 (gs ! 6 div 256) (gs ! 6 mod 256) (gs ! 7 div 256) (gs ! 7 mod 256) else IPv6 gs z)"
| "unmap a = a"

fun is_loopback :: "ip_addr \<Rightarrow> bool" where
  "is_loopback (IPv4 a b c d) = (a = 127)"
| "is_loopback (IPv6 gs z) = (gs = [0, 0, 0, 0, 0, 0, 0, 1])"

fun is_unspecified :: "ip_addr \<Rightarrow> bool" where
  "is_unspecified (IPv4 a b c d) = (a = 0 \<and> b = 0 \<and> c = 0 \<and> d = 0)"
| "is_unspecified (IPv6 gs z) = (gs = replicate 8 0 \<and> z = [])"

fun is_private :: "ip_addr \<Rightarrow> bool" where
  "is_private (IPv4 a b c d) = (a = 10 \<or> a = 172 \<and> b div 16 = 1 \<or> a = 192 \<and> b = 168)"
| "is_private (IPv6 gs z) = (hd gs div 512 = 126)"

fun is_link_local_unicast :: "ip_addr \<Rightarrow> bool" where
  "is_link_local_unicast (IPv4 a b c d) = (a = 169 \<and> b = 254)"
| "is_link_local_unicast (IPv6 gs z) = (hd gs div 64 = 1018)"

fun is_link_local_multicast :: "ip_addr \<Rightarrow> bool" where
  "is_link_local_multicast (IPv4 a b c d) = (a = 224 \<and> b = 0 \<and> c = 0)"
| "is_link_local_multicast (IPv6 gs z) = (hd gs div 256 = 255 \<and> hd gs mod 16 = 2)"

end
