(* ===== verification/Pending_Url.thy ===== *)
theory Pending_Url
  imports Net_Url Net_Ip Domain_Types
begin

text \<open>
  Which URLs and option texts of the app-server may be shown to a client (the filters of
  \<open>gateway/internal/pending/build.go\<close>): no local path, no path that leaves its directory however
  often it is decoded, no credentials or query, and no host of the local machine or network.
\<close>

definition max_source_uri_bytes :: nat where "max_source_uri_bytes = 2048"
definition max_option_label_bytes :: nat where "max_option_label_bytes = 256"

subsection \<open>Paths\<close>

definition has_windows_drive_prefix :: "string \<Rightarrow> bool" where
  "has_windows_drive_prefix v = (case v of a # b # _ \<Rightarrow> b = CHR '':'' \<and> is_letter a | _ \<Rightarrow> False)"

definition backslash :: char where "backslash = CHR 0x5C"

definition looks_like_local_path :: "string \<Rightarrow> bool" where
  "looks_like_local_path v =
     (let v = trim_space v in
      if v = [] then False
      else let n = replace_byte backslash CHR ''/'' v in
        prefix ''/'' n \<or> prefix ''~/'' n \<or> n = ''~'' \<or> has_windows_drive_prefix n \<or> prefix ''//'' n)"

definition traversal_normalized :: "string \<Rightarrow> bool" where
  "traversal_normalized v = (''..'' \<in> set (split_on CHR ''/'' (replace_byte backslash CHR ''/'' v)))"

fun traversal_loop :: "nat \<Rightarrow> string \<Rightarrow> bool" where
  "traversal_loop 0 v =
     (traversal_normalized v \<or> (case path_unescape v of None \<Rightarrow> False | Some u \<Rightarrow> u \<noteq> v))"
| "traversal_loop (Suc n) v =
     (if traversal_normalized v then True
      else case path_unescape v of None \<Rightarrow> False | Some u \<Rightarrow> if u = v then False else traversal_loop n u)"

definition has_traversal_path_segment :: "string \<Rightarrow> bool" where
  "has_traversal_path_segment v = traversal_loop 4 v"

subsection \<open>Hosts\<close>

definition unsafe_mcp_display_ip :: "ip_addr \<Rightarrow> bool" where
  "unsafe_mcp_display_ip a =
     (let a = unmap a in is_loopback a \<or> is_unspecified a \<or> is_private a \<or> is_link_local_unicast a \<or>
        is_link_local_multicast a)"

definition valid_digits_for_base :: "string \<Rightarrow> int \<Rightarrow> bool" where
  "valid_digits_for_base v base = list_all (\<lambda>c.
     if is_digit c then int (byte c) - 48 < base else base = 16 \<and> hex_value c \<noteq> None) v"

definition all_ascii_digits :: "string \<Rightarrow> bool" where
  "all_ascii_digits v \<longleftrightarrow> list_all is_digit v \<and> v \<noteq> []"

definition parse_legacy_ipv4_number :: "string \<Rightarrow> int option" where
  "parse_legacy_ipv4_number v =
     (if v = [] then None
      else let (base, digits) =
          (if prefix ''0x'' v then (16, drop 2 v)
           else if length v > 1 \<and> hd v = CHR ''0'' then (8, tl v) else (10, v)) in
        if digits = [] \<or> \<not> valid_digits_for_base digits base then None else parse_uint base digits)"

definition ipv4_numeric_label :: "string \<Rightarrow> bool" where
  "ipv4_numeric_label v = (v \<noteq> [] \<and> (all_ascii_digits v \<or> parse_legacy_ipv4_number v \<noteq> None))"

definition legacy_ipv4_single_address :: "string \<Rightarrow> ip_addr option" where
  "legacy_ipv4_single_address host =
     (case parse_legacy_ipv4_number host of None \<Rightarrow> None | Some v \<Rightarrow>
      if v > 2 ^ 32 - 1 then None
      else Some (IPv4 (v div 2 ^ 24 mod 256) (v div 2 ^ 16 mod 256) (v div 2 ^ 8 mod 256) (v mod 256)))"

definition legacy_ipv4_like_host :: "string \<Rightarrow> bool" where
  "legacy_ipv4_like_host host =
     (let labels = split_on CHR ''.'' host in
      if length labels = 1
      then (case legacy_ipv4_single_address host of None \<Rightarrow> False | Some a \<Rightarrow> unsafe_mcp_display_ip a)
      else if length labels > 4 then False
      else list_all ipv4_numeric_label labels)"

definition local_domain :: "string \<Rightarrow> bool" where
  "local_domain host \<longleftrightarrow> host = ''localhost'' \<or> suffix ''.localhost'' host \<or> suffix ''.local'' host \<or>
     suffix ''.localdomain'' host"

definition local_style_hostname :: "string \<Rightarrow> bool" where
  "local_style_hostname host \<longleftrightarrow> CHR ''.'' \<notin> set host \<or> local_domain host"

definition unsafe_mcp_display_http_host :: "parsed_url \<Rightarrow> bool" where
  "unsafe_mcp_display_http_host u =
     (if ur_host u = [] then True
      else let host = trim_space (hostname u) in
      if host = [] \<or> CHR ''%'' \<in> set host then True
      else let host = to_lower (trim_right_byte CHR ''.'' host) in
      if host = [] then True
      else case parse_addr host of
          Some a \<Rightarrow> unsafe_mcp_display_ip a
        | None \<Rightarrow> if CHR '':'' \<in> set host \<or> legacy_ipv4_like_host host then True
            else local_style_hostname host)"

subsection \<open>URLs\<close>

definition unsafe_mcp_display_url :: "string \<Rightarrow> bool" where
  "unsafe_mcp_display_url raw =
     (if length raw > max_source_uri_bytes \<or> looks_like_local_path raw then True
      else case url_parse raw of None \<Rightarrow> True
      | Some u \<Rightarrow>
          if ur_user u \<noteq> None \<or> ur_raw_query u \<noteq> [] \<or> ur_force_query u \<or> ur_fragment u \<noteq> [] then True
          else if has_traversal_path_segment (escaped_path u) then True
          else if to_lower (ur_scheme u) = ''http'' \<or> to_lower (ur_scheme u) = ''https''
          then unsafe_mcp_display_http_host u
          else True)"

text \<open>\<open>redact v n fallback\<close> is \<open>RedactString\<close> of the build input (\<open>None\<close> for nil).\<close>

type_synonym redact_fun = "string \<Rightarrow> int \<Rightarrow> string \<Rightarrow> string"

definition truncate_text :: "string \<Rightarrow> int \<Rightarrow> string \<times> bool" where
  "truncate_text v max_bytes =
     (if max_bytes \<le> 0 \<or> int (length v) \<le> max_bytes then (v, False)
      else (trim_invalid (take (nat max_bytes) v), True))"

definition public_value :: "redact_fun option \<Rightarrow> string \<Rightarrow> int \<Rightarrow> string \<Rightarrow> string" where
  "public_value redact v max_bytes fallback =
     (case redact of Some f \<Rightarrow> f v max_bytes fallback
      | None \<Rightarrow> (let v = fst (truncate_text v max_bytes) in if v = [] then fallback else v))"

text \<open>The result: the URL to show (empty without one), \<open>None\<close> when it must not be shown.\<close>

definition mcp_display_url :: "redact_fun option \<Rightarrow> string \<Rightarrow> string option" where
  "mcp_display_url redact raw =
     (let raw = trim_space raw in
      if raw = [] then Some []
      else if unsafe_mcp_display_url raw then None
      else Some (public_value redact raw (int max_source_uri_bytes) []))"

subsection \<open>Option texts of a tool's question\<close>

text \<open>Whether the text has a scheme, and then whether it is unsafe.\<close>

definition public_option_token_scheme_safety :: "string \<Rightarrow> bool \<times> bool" where
  "public_option_token_scheme_safety v =
     (case url_parse v of None \<Rightarrow> (str_contains v ''://'', True)
      | Some u \<Rightarrow> if ur_scheme u = [] then (False, False) else (True, unsafe_mcp_display_url v))"

definition looks_like_relative_public_option_path :: "string \<Rightarrow> bool" where
  "looks_like_relative_public_option_path v =
     (let n = replace_byte backslash CHR ''/'' v in n = ''.'' \<or> prefix ''./'' n \<or> CHR ''/'' \<in> set n)"

definition trim_brackets :: "string \<Rightarrow> string" where
  "trim_brackets s = rev (dropWhile (\<lambda>c. c \<in> set ''[]'') (rev (dropWhile (\<lambda>c. c \<in> set ''[]'') s)))"

definition public_option_host_candidate :: "string \<Rightarrow> string" where
  "public_option_host_candidate v =
     (let v = trim_space v;
          plain = (case split_host_port v of Some host \<Rightarrow> host
            | None \<Rightarrow> if count_list v CHR '':'' = 1 then cut_before CHR '':'' v else v) in
      if v = [] then []
      else if prefix ''['' v
      then (case split_host_port v of Some host \<Rightarrow> trim_brackets host
            | None \<Rightarrow> if CHR '']'' \<in> set v then cut_before CHR '']'' (tl v) else plain)
      else plain)"

definition looks_like_local_public_option_host :: "string \<Rightarrow> bool" where
  "looks_like_local_public_option_host v =
     (let host = public_option_host_candidate v in
      if host = [] then False
      else if CHR ''%'' \<in> set host then True
      else let host = to_lower (trim_right_byte CHR ''.'' host) in
      if host = [] then False
      else case parse_addr host of
          Some a \<Rightarrow> unsafe_mcp_display_ip a
        | None \<Rightarrow> legacy_ipv4_like_host host \<or> local_domain host)"

definition unsafe_public_option_token :: "string \<Rightarrow> bool" where
  "unsafe_public_option_token token =
     (let v = trim_space token in
      if v = [] then False
      else if has_traversal_path_segment v \<or> looks_like_local_path v then True
      else let (has_scheme, unsafe) = public_option_token_scheme_safety v in
      if has_scheme then unsafe
      else if looks_like_relative_public_option_path v then True
      else looks_like_local_public_option_host v)"

text \<open>\<open>plain\<close> is \<open>RedactString\<close> of a redactor without registries.\<close>

definition sendable_tool_option_token :: "(string \<Rightarrow> string) \<Rightarrow> redact_fun option \<Rightarrow> string \<Rightarrow> bool" where
  "sendable_tool_option_token plain redact token =
     (if trim_space token = [] \<or> length token > max_option_label_bytes then False
      else if unsafe_public_option_token token then False
      else (case redact of None \<Rightarrow> plain token | Some f \<Rightarrow> f token (int max_option_label_bytes) []) = token)"

end
