(* ===== verification/Pending_Build.thy ===== *)
theory Pending_Build
  imports Pending_Url Pending_Response
begin

text \<open>
  The construction of a pending request from the parameters of an app-server request
  (\<open>gateway/internal/pending/build.go\<close>): what is shown to the client, and what a response may choose.
  \<open>root\<close> is the decoded object of the parameters.  The redactor and the path sanitizer are part of
  the input; \<open>lower\<close> is \<open>strings.ToLower\<close>.
\<close>

subsection \<open>Reading the parameters\<close>

type_synonym json_object = "(string \<times> json) list"

fun value_at :: "string list \<Rightarrow> json \<Rightarrow> json option" where
  "value_at [] v = Some v"
| "value_at (seg # segs) v = (case v of JObject kvs \<Rightarrow>
     (case gm_get kvs seg of None \<Rightarrow> None | Some c \<Rightarrow> value_at segs c) | _ \<Rightarrow> None)"

definition value_at_path :: "json_object \<Rightarrow> string \<Rightarrow> json option" where
  "value_at_path root path = value_at (split_on CHR ''.'' path) (JObject root)"

text \<open>The first value that is present and not null.\<close>

fun first_value :: "json_object \<Rightarrow> string list \<Rightarrow> json option" where
  "first_value root [] = None"
| "first_value root (p # ps) = (case value_at_path root p of
     Some v \<Rightarrow> if v = JNull then first_value root ps else Some v | None \<Rightarrow> first_value root ps)"

fun first_string :: "json_object \<Rightarrow> string list \<Rightarrow> string" where
  "first_string root [] = []"
| "first_string root (p # ps) = (case first_value root [p] of
     Some (JString s) \<Rightarrow> if s \<noteq> [] then s else first_string root ps
   | Some (JNumber n) \<Rightarrow> n
   | Some (JBool b) \<Rightarrow> (if b then ''true'' else ''false'')
   | _ \<Rightarrow> first_string root ps)"

fun first_path_string :: "json_object \<Rightarrow> string list \<Rightarrow> string" where
  "first_path_string root [] = []"
| "first_path_string root (p # ps) = (case value_at_path root p of
     Some (JString s) \<Rightarrow> if s \<noteq> [] then s else first_path_string root ps | _ \<Rightarrow> first_path_string root ps)"

definition object_value :: "json option \<Rightarrow> json_object option" where
  "object_value v = (case v of Some (JObject kvs) \<Rightarrow> Some kvs | _ \<Rightarrow> None)"

definition object_fields :: "json_object option \<Rightarrow> json_object" where
  "object_fields o' = (case o' of None \<Rightarrow> [] | Some kvs \<Rightarrow> kvs)"

definition array_value :: "json option \<Rightarrow> json list" where
  "array_value v = (case v of Some (JArray vs) \<Rightarrow> vs | _ \<Rightarrow> [])"

definition bool_value :: "json option \<Rightarrow> bool option" where
  "bool_value v = (case v of Some (JBool b) \<Rightarrow> Some b
     | Some (JString s) \<Rightarrow> (if to_lower s = ''true'' then Some True
         else if to_lower s = ''false'' then Some False else None)
     | _ \<Rightarrow> None)"

definition decimal :: "nat \<Rightarrow> string" where
  "decimal n = (if n = 0 then ''0'' else strconv_loop n [])"

subsection \<open>The input and the result\<close>

record build_input =
  bi_task_id :: string
  bi_thread_id :: string
  bi_turn_id :: string
  bi_created_at :: int
  bi_redact :: "redact_fun option"
  bi_plain :: "string \<Rightarrow> string"          \<comment> \<open>\<open>redact.New().RedactString\<close>\<close>
  bi_sanitize :: "(string \<Rightarrow> string \<times> bool) option"
  bi_cached_file_diff :: "file_diff_updated_event option"

text \<open>What the builder of a type leaves in the record.\<close>

record built_request =
  bt_display :: pending_request_display
  bt_options :: "(string, approval_decision_option) gomap"
  bt_grants :: "(string, permission_grant) gomap"
  bt_questions :: "(string, tool_question_spec) gomap"
  bt_sensitive_fields :: "string list"

datatype build_error = BuildUnsupported | BuildOverLimit string

definition built :: "pending_request_display \<Rightarrow> built_request" where
  "built d = \<lparr>bt_display = d, bt_options = [], bt_grants = [], bt_questions = [], bt_sensitive_fields = []\<rparr>"

definition limit_controls :: string where "limit_controls = ''controls_too_large''"
definition limit_display :: string where "limit_display = ''display_payload_too_large''"
definition reason_security :: string where "reason_security = ''approval_security_metadata_unrepresentable''"
definition reason_grant_root :: string where "reason_grant_root = ''grant_root_unrepresentable''"

definition label_bytes :: int where "label_bytes = 256"
definition message_bytes :: int where "message_bytes = 2 * 1024"
definition command_bytes :: int where "command_bytes = 8 * 1024"
definition diff_bytes :: int where "diff_bytes = 64 * 1024"
definition display_string_bytes :: int where "display_string_bytes = 64 * 1024"
definition form_schema_bytes :: int where "form_schema_bytes = 32 * 1024"

definition max_permission_atoms :: nat where "max_permission_atoms = 128"
definition max_security_entries :: nat where "max_security_entries = 64"
definition max_decision_options :: nat where "max_decision_options = 16"
definition max_questions :: nat where "max_questions = 20"
definition max_question_options :: nat where "max_question_options = 20"
definition max_question_id_bytes :: nat where "max_question_id_bytes = 128"

definition redacted_path :: string where "redacted_path = ''[REDACTED:path]''"

definition shown :: "build_input \<Rightarrow> string \<Rightarrow> int \<Rightarrow> string \<Rightarrow> string" where
  "shown i = public_value (bi_redact i)"

subsection \<open>Paths\<close>

definition sanitize_path :: "build_input \<Rightarrow> string \<Rightarrow> string \<times> bool" where
  "sanitize_path i raw =
     (if trim_space raw = [] then (redacted_path, False)
      else case bi_sanitize i of None \<Rightarrow> (redacted_path, False)
        | Some f \<Rightarrow> (let (label, ok) = f (trim_space raw) in if label \<noteq> [] then (label, ok) else (redacted_path, False)))"

definition path_label :: "build_input \<Rightarrow> string \<Rightarrow> string \<Rightarrow> string" where
  "path_label i label fallback =
     (let label = trim_space label in
      if label = [] then fallback
      else shown i (if bi_sanitize i = None then label else fst (sanitize_path i label)) label_bytes fallback)"

definition path_object_label :: "build_input \<Rightarrow> json_object \<Rightarrow> string \<times> bool" where
  "path_object_label i root =
     (let ty = to_lower (trim_space (first_string root [''type''])) in
      if ty = [] \<or> ty = ''path'' \<or> ty = ''literal''
      then (if first_path_string root [''path''] \<noteq> [] then sanitize_path i (first_path_string root [''path''])
            else if first_path_string root [''value''] \<noteq> [] \<and> ty \<noteq> []
            then sanitize_path i (first_path_string root [''value''])
            else (redacted_path, False))
      else (redacted_path, False))"

definition path_entry_label :: "build_input \<Rightarrow> json \<Rightarrow> string \<times> bool" where
  "path_entry_label i v =
     (case v of
        JString s \<Rightarrow> sanitize_path i s
      | JObject kvs \<Rightarrow>
          (case object_value (first_value kvs [''path'']) of
             Some nested \<Rightarrow> path_object_label i nested
           | None \<Rightarrow>
               if first_path_string kvs [''path.path''] \<noteq> [] then sanitize_path i (first_path_string kvs [''path.path''])
               else if first_path_string kvs [''path''] \<noteq> [] then sanitize_path i (first_path_string kvs [''path''])
               else (redacted_path, False))
      | _ \<Rightarrow> (redacted_path, False))"

definition path_permission_values :: "json_object \<Rightarrow> string \<Rightarrow> json list" where
  "path_permission_values root field = (case first_value root [field] of
     Some (JArray vs) \<Rightarrow> vs | Some (JObject kvs) \<Rightarrow> [JObject kvs] | Some (JString s) \<Rightarrow> [JString s] | _ \<Rightarrow> [])"

definition access_for_path_permission :: "string \<Rightarrow> json \<Rightarrow> string" where
  "access_for_path_permission field v = (case object_value (Some v) of None \<Rightarrow> field
     | Some root \<Rightarrow> let access = first_string root [''access'', ''mode''] in if access \<noteq> [] then access else field)"

definition file_label :: "build_input \<Rightarrow> json_object \<Rightarrow> string" where
  "file_label i root =
     (case List.find (\<lambda>(label, ok). label \<noteq> [] \<and> ok) (map (path_entry_label i) (path_permission_values root ''changes'')) of
        Some (label, ok) \<Rightarrow> label
      | None \<Rightarrow> let label = first_string root [''fileLabel'', ''path'', ''filePath''] in
          if label \<noteq> [] then path_label i label ''file'' else ''file'')"

subsection \<open>Commands\<close>

definition command_value_display :: "json option \<Rightarrow> string" where
  "command_value_display v = (case v of None \<Rightarrow> [] | Some JNull \<Rightarrow> [] | Some (JString s) \<Rightarrow> s
     | Some (JArray vs) \<Rightarrow> join_with '' '' (map fmt_sprint vs) | Some w \<Rightarrow> fmt_sprint w)"

definition command_display :: "json_object \<Rightarrow> string" where
  "command_display root =
     (let display = first_string root [''commandDisplay'', ''item.commandDisplay''] in
      if display \<noteq> [] then display else command_value_display (first_value root [''command'', ''item.command'']))"

subsection \<open>Decision options\<close>

definition decision_label :: "approval_wire_decision \<Rightarrow> string" where
  "decision_label d = (case d of WireDecisionAccept \<Rightarrow> ''Accept'' | WireDecisionAcceptForSession \<Rightarrow> ''Accept for session''
     | WireDecisionDecline \<Rightarrow> ''Decline'' | WireDecisionCancel \<Rightarrow> ''Cancel'')"

definition parse_decision :: "string \<Rightarrow> approval_wire_decision option" where
  "parse_decision s = (if s = ''accept'' then Some WireDecisionAccept
     else if s = ''acceptForSession'' then Some WireDecisionAcceptForSession
     else if s = ''decline'' then Some WireDecisionDecline
     else if s = ''cancel'' then Some WireDecisionCancel else None)"

definition direct_decision :: "json \<Rightarrow> approval_wire_decision option" where
  "direct_decision v = (case v of JString s \<Rightarrow> parse_decision s | _ \<Rightarrow> None)"

definition direct_decision_option :: "string \<Rightarrow> approval_wire_decision \<Rightarrow> approval_decision_option" where
  "direct_decision_option blocking d =
     (let blocked = blocking \<noteq> [] \<and> (d = WireDecisionAccept \<or> d = WireDecisionAcceptForSession) in
      \<lparr>ao_decision_id = ''decision-'' @ app_server_wire_value d, ao_wire_decision = Some d,
       ao_display_label = decision_label d, ao_summary = [], ao_selectable = \<not> blocked,
       ao_unsupported_reason = (if blocked then blocking else [])\<rparr>)"

definition advanced_option :: "nat \<Rightarrow> approval_decision_option" where
  "advanced_option n = \<lparr>ao_decision_id = ''advanced-'' @ decimal n, ao_wire_decision = None,
     ao_display_label = ''advanced approval'', ao_summary = ''advanced approval is not supported by this gateway'',
     ao_selectable = False, ao_unsupported_reason = ''advanced_decision_out_of_mvp''\<rparr>"

definition all_decisions :: "approval_wire_decision list" where
  "all_decisions = [WireDecisionAccept, WireDecisionAcceptForSession, WireDecisionDecline, WireDecisionCancel]"

definition direct_decision_options :: "approval_wire_decision list \<Rightarrow> string \<Rightarrow> approval_decision_option list" where
  "direct_decision_options ds blocking = map (direct_decision_option blocking) ds"

text \<open>The offered decisions, if the parameters name any.\<close>

fun decision_values_at :: "json_object \<Rightarrow> string list \<Rightarrow> json list option" where
  "decision_values_at root [] = None"
| "decision_values_at root (p # ps) = (case first_value root [p] of
     Some (JArray vs) \<Rightarrow> Some vs | Some (JString s) \<Rightarrow> Some [JString s] | _ \<Rightarrow> decision_values_at root ps)"

definition decision_values :: "json_object \<Rightarrow> json list option" where
  "decision_values root = decision_values_at root [''availableDecisions'', ''decisionOptions'', ''decisions'', ''options'']"

text \<open>The loop over the offered decisions; a direct one that is repeated exceeds the limit.\<close>

fun decision_loop :: "string \<Rightarrow> json list \<Rightarrow> approval_wire_decision list \<Rightarrow> approval_decision_option list \<Rightarrow>
    (approval_wire_decision list \<times> approval_decision_option list) option" where
  "decision_loop blocking [] seen opts = Some (seen, opts)"
| "decision_loop blocking (v # vs) seen opts =
     (case direct_decision v of
        Some d \<Rightarrow> if d \<in> set seen then None
          else decision_loop blocking vs (d # seen) (opts @ [direct_decision_option blocking d])
      | None \<Rightarrow> decision_loop blocking vs seen (opts @ [advanced_option (Suc (length opts))]))"

definition command_decision_options :: "json_object \<Rightarrow> string \<Rightarrow> string + approval_decision_option list" where
  "command_decision_options root blocking =
     (case decision_values root of
        None \<Rightarrow> Inr (direct_decision_options all_decisions blocking)
      | Some vs \<Rightarrow>
          (case decision_loop blocking vs [] [] of None \<Rightarrow> Inl limit_controls
           | Some (seen, opts) \<Rightarrow>
               let opts = opts @ map (direct_decision_option blocking)
                 (filter (\<lambda>d. d \<notin> set seen) [WireDecisionDecline, WireDecisionCancel]) in
               if length opts > max_decision_options then Inl limit_controls else Inr opts))"

text \<open>The options that a response may choose.\<close>

definition selectable_options :: "approval_decision_option list \<Rightarrow> (string, approval_decision_option) gomap" where
  "selectable_options opts = fold (\<lambda>opt m. if ao_selectable opt \<and> ao_wire_decision opt \<noteq> None
     then gm_put (ao_decision_id opt) opt m else m) opts []"

end
