(* ===== verification/Pending_Forms.thy ===== *)
theory Pending_Forms
  imports Pending_Build
begin

text \<open>
  The builders of the five request types and \<open>Build\<close> itself
  (\<open>gateway/internal/pending/build.go\<close>).  A builder answers with a limit that the request exceeds, or
  with what it puts into the record.
\<close>

subsection \<open>What an approval would widen (approvalSecurity)\<close>

definition host_label :: "build_input \<Rightarrow> string \<Rightarrow> string" where
  "host_label i raw = (if trim_space raw = [] then ''network'' else shown i ''network'' label_bytes ''network'')"

definition outside_reason :: string where "outside_reason = ''path is outside configured cwd''"

text \<open>One further path: its entry, numbered after those before it.\<close>

definition filesystem_entry :: "build_input \<Rightarrow> nat \<Rightarrow> string \<Rightarrow> json \<Rightarrow> additional_filesystem_entry" where
  "filesystem_entry i n field v =
     (let (label, under_cwd) = path_entry_label i v in
      \<lparr>af_entry_id = ''fs-'' @ decimal (Suc n), af_access = shown i (access_for_path_permission field v) label_bytes field,
       af_path_label = shown i label label_bytes redacted_path, af_approvable = under_cwd,
       af_unapprovable_reason = (if under_cwd then [] else outside_reason)\<rparr>)"

fun filesystem_entries :: "build_input \<Rightarrow> nat \<Rightarrow> (string \<times> json) list \<Rightarrow> additional_filesystem_entry list" where
  "filesystem_entries i n [] = []"
| "filesystem_entries i n ((field, v) # vs) = filesystem_entry i n field v # filesystem_entries i (Suc n) vs"

definition security_paths :: "json_object option \<Rightarrow> (string \<times> json) list" where
  "security_paths fs = concat (map (\<lambda>field. map (Pair field) (path_permission_values (object_fields fs) field))
     [''entries'', ''read'', ''write''])"

definition network_amendment :: "build_input \<Rightarrow> json \<Rightarrow> network_policy_amendment_summary" where
  "network_amendment i v =
     (let root = object_fields (object_value (Some v)) in
      \<lparr>np_host_label = host_label i (first_string root [''host'', ''hostLabel'', ''hostname'']),
       np_action = shown i (first_string root [''action'', ''type'']) label_bytes ''network'', np_approvable = False\<rparr>)"

text \<open>The metadata (nil when nothing is widened), and why the approval cannot be offered.\<close>

definition approval_security ::
  "json_object \<Rightarrow> build_input \<Rightarrow> string + approval_security_metadata option \<times> string" where
  "approval_security root i =
     (let network = object_value (first_value root [''networkApprovalContext'', ''networkContext'']);
          context = map_option (\<lambda>nw. (host_label i (first_string nw [''host'', ''hostname'', ''hostLabel'', ''url'', ''origin'']),
            shown i (first_string nw [''protocol'', ''scheme'']) label_bytes [])) network;
          additional = object_value (first_value root [''additionalPermissions'', ''additional_permissions'']);
          extra_network = (case additional of None \<Rightarrow> None | Some a \<Rightarrow>
            (case object_value (first_value a [''network'']) of None \<Rightarrow> None
             | Some nw \<Rightarrow> bool_value (first_value nw [''enabled''])));
          paths = (case additional of None \<Rightarrow> []
            | Some a \<Rightarrow> security_paths (object_value (first_value a [''fileSystem'', ''filesystem'', ''fs''])));
          files = filesystem_entries i 0 paths;
          policy = first_value root [''proposedExecpolicyAmendment'', ''proposedExecPolicyAmendment''];
          summary = map_option (\<lambda>v. truncate_text (shown i (command_value_display (Some v)) command_bytes ''command'') command_bytes) policy;
          amendments = (case first_value root [''proposedNetworkPolicyAmendments''] of
            Some (JArray vs) \<Rightarrow> Some (map (network_amendment i) vs) | _ \<Rightarrow> None);
          blocking = (if list_ex (\<lambda>f. \<not> af_approvable f) files \<or> amendments \<noteq> None \<and> amendments \<noteq> Some []
            then reason_security else []);
          entries = (if context = None then 0 else 1) + (if extra_network = None then 0 else 1) + length files +
            (if policy = None then 0 else 1) + (case amendments of None \<Rightarrow> 0 | Some ams \<Rightarrow> length ams)
      in if entries > max_security_entries then Inl limit_controls
         else if network = None \<and> additional = None \<and> policy = None \<and> amendments = None then Inr (None, [])
         else Inr (Some \<lparr>as_has_privilege_expansion = True, as_network_context = context,
             as_additional_network = extra_network, as_additional_filesystem_entries = files,
             as_exec_policy_amendment_summary = summary,
             as_network_policy_amendment_summaries = (case amendments of None \<Rightarrow> [] | Some ams \<Rightarrow> ams),
             as_blocking_reason = blocking\<rparr>, blocking))"

subsection \<open>Approvals of commands and file changes\<close>

definition build_command_approval :: "json_object \<Rightarrow> build_input \<Rightarrow> string + built_request" where
  "build_command_approval root i =
     (case approval_security root i of Inl limit \<Rightarrow> Inl limit | Inr (security, blocking) \<Rightarrow>
      case command_decision_options root blocking of Inl limit \<Rightarrow> Inl limit | Inr opts \<Rightarrow>
      Inr ((built (CommandApproval \<lparr>cd_command_display = shown i (command_display root) command_bytes ''command'',
          cd_workspace_label = path_label i (first_string root [''workspaceLabel'', ''cwd'', ''workdir'']) [],
          cd_reason = shown i (first_string root [''reason'', ''description'', ''message'']) message_bytes [],
          cd_approval_security = security, cd_decision_options = opts\<rparr>))
        \<lparr>bt_options := selectable_options opts\<rparr>))"

definition file_grant_root :: "json_object \<Rightarrow> build_input \<Rightarrow> file_grant_root_display option \<times> string" where
  "file_grant_root root i =
     (let raw = first_string root [''grantRoot'', ''grant_root''] in
      if raw = [] then (None, [])
      else let (label, under_cwd) = sanitize_path i raw in
        (Some \<lparr>gr_present = True, gr_root_label = label, gr_under_configured_cwd = under_cwd, gr_approvable = under_cwd,
           gr_unapprovable_reason = (if under_cwd then [] else ''grant root is outside configured cwd'')\<rparr>,
         if under_cwd then [] else reason_grant_root))"

definition file_change_display :: "json_object \<Rightarrow> build_input \<Rightarrow> file_change_approval_display" where
  "file_change_display root i =
     (let label = path_label i (first_string root [''fileLabel'', ''path'', ''filePath'', ''change.path'', ''item.path'']) ''file'';
          label = (if label = ''file'' then file_label i root else label);
          summary = shown i (first_string root [''diffSummary'', ''summary'', ''diff.summary'']) diff_bytes [];
          unified = shown i (first_string root [''diffUnified'', ''unifiedDiff'', ''patch'', ''diff.unified'', ''diff'']) diff_bytes [];
          (grant, blocking) = file_grant_root root i;
          opts = direct_decision_options all_decisions blocking in
      case bi_cached_file_diff i of
        Some d \<Rightarrow> \<lparr>fd_file_label = fu_file_label d, fd_change_kind = fu_change_kind d, fd_diff_summary = fu_diff_summary d,
          fd_diff_unified = fu_diff_unified d, fd_diff_unavailable = False, fd_grant_root = grant, fd_decision_options = opts\<rparr>
      | None \<Rightarrow> \<lparr>fd_file_label = label,
          fd_change_kind = shown i (first_string root [''changeKind'', ''action'', ''change.kind'']) label_bytes [],
          fd_diff_summary = summary, fd_diff_unified = unified,
          fd_diff_unavailable = (summary = [] \<and> unified = []), fd_grant_root = grant, fd_decision_options = opts\<rparr>)"

definition build_file_change_approval :: "json_object \<Rightarrow> build_input \<Rightarrow> built_request" where
  "build_file_change_approval root i =
     (let d = file_change_display root i in
      (built (FileChangeApproval d))\<lparr>bt_options := selectable_options (fd_decision_options d)\<rparr>)"

subsection \<open>Permissions\<close>

text \<open>\<open>addGrant\<close>: one more atom, and its grant when it can be granted.\<close>

definition add_grant ::
  "build_input \<Rightarrow> string \<Rightarrow> string \<Rightarrow> string \<Rightarrow> bool \<Rightarrow> string \<Rightarrow> string \<Rightarrow> string \<Rightarrow> json \<Rightarrow>
    (string, permission_grant) gomap \<times> permission_atom list \<Rightarrow> (string, permission_grant) gomap \<times> permission_atom list" where
  "add_grant i kind label scope grantable reason sec field v st =
     (let (grants, atoms) = st; pid = ''permission-'' @ decimal (Suc (length atoms)) in
      (if grantable \<and> length grants < max_permission_atoms
       then gm_put pid \<lparr>pg_kind = kind, pg_grantable = True, pg_section = sec, pg_field = field, pg_value = v\<rparr> grants
       else grants,
       atoms @ [\<lparr>pa_permission_id = pid, pa_kind = shown i kind label_bytes ''permission'',
         pa_display_label = shown i label display_string_bytes ''permission'', pa_scope_label = shown i scope label_bytes [],
         pa_grantable = grantable, pa_ungrantable_reason = shown i reason message_bytes []\<rparr>]))"

definition add_path_permission ::
  "build_input \<Rightarrow> string \<Rightarrow> json \<Rightarrow> (string, permission_grant) gomap \<times> permission_atom list \<Rightarrow>
    (string, permission_grant) gomap \<times> permission_atom list" where
  "add_path_permission i field v =
     (let (label, under_cwd) = path_entry_label i v in
      add_grant i ''filesystem'' label (access_for_path_permission field v) under_cwd
        (if under_cwd then [] else outside_reason) ''fileSystem'' field v)"

definition add_path_permissions ::
  "build_input \<Rightarrow> json_object \<Rightarrow> string \<Rightarrow> (string, permission_grant) gomap \<times> permission_atom list \<Rightarrow>
    (string, permission_grant) gomap \<times> permission_atom list" where
  "add_path_permissions i root field = fold (add_path_permission i field) (path_permission_values root field)"

definition add_network_permission ::
  "build_input \<Rightarrow> json_object \<Rightarrow> (string, permission_grant) gomap \<times> permission_atom list \<Rightarrow>
    (string, permission_grant) gomap \<times> permission_atom list" where
  "add_network_permission i root st =
     (case object_value (first_value root [''network'']) of None \<Rightarrow> st | Some nw \<Rightarrow>
      case bool_value (first_value nw [''enabled'']) of None \<Rightarrow> st
      | Some enabled \<Rightarrow> add_grant i ''network'' ''network access'' [] enabled
          (if enabled then [] else ''network permission is disabled'') ''network'' ''enabled'' (JBool enabled) st)"

definition recommended_scope :: "json_object \<Rightarrow> permission_scope" where
  "recommended_scope root = (if to_lower (first_string root [''recommendedScope'', ''scope'']) = ''session''
     then PermissionScopeSession else PermissionScopeTurn)"

definition requested_permissions ::
  "json_object \<Rightarrow> build_input \<Rightarrow> (string, permission_grant) gomap \<times> permission_atom list" where
  "requested_permissions root i =
     (let perms = object_fields (object_value (first_value root [''permissions'', ''requestedPermissions'', ''permissionProfile'']));
          fs = object_fields (object_value (first_value perms [''fileSystem'', ''filesystem'', ''fs''])) in
      fold (\<lambda>(r, field). add_path_permissions i r field)
        [(fs, ''entries''), (fs, ''read''), (fs, ''write''), (perms, ''entries''), (perms, ''read''), (perms, ''write'')]
        (add_network_permission i perms ([], [])))"

definition build_permissions_approval :: "json_object \<Rightarrow> build_input \<Rightarrow> string + built_request" where
  "build_permissions_approval root i =
     (let (grants, atoms) = requested_permissions root i in
      if length atoms > max_permission_atoms then Inl limit_controls
      else Inr ((built (PermissionsApproval \<lparr>pd_requested_permissions = atoms, pd_recommended_scope = recommended_scope root,
          pd_reason = shown i (first_string root [''reason'', ''message'', ''description'']) message_bytes []\<rparr>))
        \<lparr>bt_grants := grants\<rparr>))"

subsection \<open>Elicitations of tool servers\<close>

definition schema_marks_sensitive :: "json_object \<Rightarrow> bool" where
  "schema_marks_sensitive root \<longleftrightarrow> equal_fold (first_string root [''format'']) ''password'' \<or>
     bool_value (first_value root [''writeOnly'']) = Some True \<or>
     bool_value (first_value root [''x-secret'', ''x_secret'']) = Some True"

text \<open>The smaller documents inside a value, for the termination of the search.\<close>

lemma value_at_size: "value_at segs (JObject kvs) = Some v \<Longrightarrow> segs \<noteq> [] \<Longrightarrow> size v < size (JObject kvs)"
proof (induction segs arbitrary: kvs)
  case (Cons seg segs)
  from Cons.prems(1) obtain c where c: "gm_get kvs seg = Some c" "value_at segs c = Some v" by (auto split: option.splits)
  from map_of_SomeD [OF c(1)] have "size c < size (JObject kvs)"
    by (fastforce dest: size_list_estimation [where f = "size_prod (\<lambda>_. 0) size" and y = "size c"])
  moreover have "size v \<le> size c"
  proof (cases segs)
    case Nil
    with c(2) show ?thesis by simp
  next
    case (Cons a as)
    with c(2) obtain ks where "c = JObject ks" by (cases c) auto
    with c(2) Cons.IH [of ks] Cons show ?thesis by simp
  qed
  ultimately show ?case by simp
qed simp

lemma first_value_size: "first_value root ps = Some v \<Longrightarrow> size v < size (JObject root)"
proof (induction ps)
  case (Cons p ps)
  then show ?case using value_at_size [of "split_on CHR ''.'' p" root] by (auto simp: value_at_path_def split: option.splits if_splits)
qed simp

lemma element_size: "v \<in> set vs \<Longrightarrow> size v < size (JArray vs)"
  by (induction vs) auto

lemma property_size: "(n, v) \<in> set ps \<Longrightarrow> size v < size (JObject ps)"
  by (induction ps) auto

text \<open>
  \<open>collectSensitiveSchemaFields\<close>: the lowered names of the fields that a schema marks as sensitive,
  or whose name says so, in the object's properties and all alternatives (a set in the code).
\<close>

function collect_sensitive_schema_fields :: "(string \<Rightarrow> string) \<Rightarrow> string \<Rightarrow> json \<Rightarrow> string list" where
  "collect_sensitive_schema_fields lower name (JObject root) =
     (if name \<noteq> [] \<and> (is_sensitive_name name \<or> schema_marks_sensitive root) then [lower name] else []) @
     (case first_value root [''properties''] of
        Some (JObject ps) \<Rightarrow> concat (map (\<lambda>(n, child). collect_sensitive_schema_fields lower n child) ps) | _ \<Rightarrow> []) @
     (case first_value root [''items''] of Some v \<Rightarrow> collect_sensitive_schema_fields lower name v | None \<Rightarrow> []) @
     (case first_value root [''anyOf''] of
        Some (JArray vs) \<Rightarrow> concat (map (collect_sensitive_schema_fields lower name) vs) | _ \<Rightarrow> []) @
     (case first_value root [''oneOf''] of
        Some (JArray vs) \<Rightarrow> concat (map (collect_sensitive_schema_fields lower name) vs) | _ \<Rightarrow> []) @
     (case first_value root [''allOf''] of
        Some (JArray vs) \<Rightarrow> concat (map (collect_sensitive_schema_fields lower name) vs) | _ \<Rightarrow> [])"
| "collect_sensitive_schema_fields lower name JNull = []"
| "collect_sensitive_schema_fields lower name (JBool b) = []"
| "collect_sensitive_schema_fields lower name (JNumber n) = []"
| "collect_sensitive_schema_fields lower name (JString s) = []"
| "collect_sensitive_schema_fields lower name (JArray vs) = []"
  by pat_completeness auto
termination
  by (relation "measure (\<lambda>(lower, name, schema). size schema)") (auto simp del: first_value.simps dest!: first_value_size dest: element_size property_size)

definition sensitive_schema_fields :: "(string \<Rightarrow> string) \<Rightarrow> json option \<Rightarrow> string list" where
  "sensitive_schema_fields lower schema = (case schema of None \<Rightarrow> []
     | Some v \<Rightarrow> remdups (collect_sensitive_schema_fields lower [] v))"

text \<open>The result: the text, and whether it had to be cut (then it is not shown).\<close>

definition json_display :: "build_input \<Rightarrow> json option \<Rightarrow> int \<Rightarrow> string \<times> bool" where
  "json_display i v max_bytes =
     (case v of None \<Rightarrow> ([], False) | Some v \<Rightarrow>
      let text = json_marshal v in
      if max_bytes > 0 \<and> int (length text) > max_bytes then ([], True)
      else truncate_text (shown i text (if max_bytes > 0 then max_bytes + 1 else max_bytes) []) max_bytes)"

definition build_mcp_elicitation :: "(string \<Rightarrow> string) \<Rightarrow> json_object \<Rightarrow> build_input \<Rightarrow> string + built_request" where
  "build_mcp_elicitation lower root i =
     (let schema = first_value root [''schema'', ''formSchema'', ''inputSchema''];
          (text, truncated) = json_display i schema form_schema_bytes in
      if truncated then Inl limit_display
      else case mcp_display_url (bi_redact i) (first_string root [''url'', ''href'']) of None \<Rightarrow> Inl limit_display
      | Some url \<Rightarrow> Inr ((built (McpElicitation \<lparr>md_mode = (if url \<noteq> [] then ElicitationModeURL else ElicitationModeForm),
            md_message = shown i (first_string root [''message'', ''prompt'', ''description'']) message_bytes [],
            md_form_schema_json = text, md_url = url,
            md_submit_label = shown i (first_string root [''submitLabel'', ''submit_label'']) label_bytes []\<rparr>))
          \<lparr>bt_sensitive_fields := sensitive_schema_fields lower schema\<rparr>))"

subsection \<open>Questions of tools\<close>

text \<open>The text that a response must repeat to choose an option, \<open>None\<close> when there is none.\<close>

definition string_token :: "json \<Rightarrow> string option" where
  "string_token v = (case v of JString s \<Rightarrow> if trim_space s \<noteq> [] then Some s else None | _ \<Rightarrow> None)"

definition tool_option_public_token :: "json \<Rightarrow> string option" where
  "tool_option_public_token v =
     (case v of
        JString s \<Rightarrow> Some s
      | JObject kvs \<Rightarrow>
          (case value_at_path kvs ''value'' of Some w \<Rightarrow> string_token w
           | None \<Rightarrow> (case value_at_path kvs ''id'' of Some w \<Rightarrow> string_token w
             | None \<Rightarrow> let token = first_string kvs [''label'', ''title'', ''name''] in
                 if token \<noteq> [] then Some token else None))
      | _ \<Rightarrow> None)"

fun tool_option_loop :: "build_input \<Rightarrow> json list \<Rightarrow> string list \<Rightarrow> string list option" where
  "tool_option_loop i [] found = Some found"
| "tool_option_loop i (v # vs) found =
     (case tool_option_public_token v of None \<Rightarrow> None | Some token \<Rightarrow>
      if \<not> sendable_tool_option_token (bi_plain i) (bi_redact i) token \<or> token \<in> set found then None
      else tool_option_loop i vs (found @ [token]))"

definition tool_options :: "build_input \<Rightarrow> json_object \<Rightarrow> string list option" where
  "tool_options i root =
     (let raw = array_value (first_value root [''options'', ''choices'']) in
      if length raw > max_question_options then None else tool_option_loop i raw [])"

text \<open>One question: its id must be new, and its options must be sendable.\<close>

definition tool_question ::
  "build_input \<Rightarrow> string list \<Rightarrow> json \<Rightarrow> (tool_user_input_question \<times> tool_question_spec) option" where
  "tool_question i seen v =
     (case v of JObject root \<Rightarrow>
        let qid = first_string root [''id'', ''questionId'', ''questionID''];
            secret = (bool_value (first_value root [''isSecret'', ''secret'']) = Some True);
            other = (bool_value (first_value root [''isOther'', ''other'']) = Some True) in
        if qid = [] \<or> length qid > max_question_id_bytes \<or> trim_space qid \<noteq> qid \<or> qid \<in> set seen then None
        else (case tool_options i root of None \<Rightarrow> None | Some opts \<Rightarrow>
          Some (\<lparr>tq_id = qid,
              tq_header = shown i (first_string root [''header'', ''label'', ''title'', ''name'']) label_bytes [],
              tq_question = shown i (first_string root [''question'', ''prompt'', ''message'', ''label'']) message_bytes [],
              tq_is_other = other, tq_is_secret = secret, tq_options = opts\<rparr>,
            \<lparr>qs_is_secret = secret, qs_is_other = other, qs_allowed_values = opts\<rparr>))
      | _ \<Rightarrow> None)"

fun tool_question_loop :: "build_input \<Rightarrow> json list \<Rightarrow> tool_user_input_question list \<Rightarrow>
    (string, tool_question_spec) gomap \<Rightarrow> (tool_user_input_question list \<times> (string, tool_question_spec) gomap) option" where
  "tool_question_loop i [] qs specs = Some (qs, specs)"
| "tool_question_loop i (v # vs) qs specs =
     (case tool_question i (map tq_id qs) v of None \<Rightarrow> None
      | Some (q, spec) \<Rightarrow> tool_question_loop i vs (qs @ [q]) (gm_put (tq_id q) spec specs))"

definition build_tool_user_input :: "json_object \<Rightarrow> build_input \<Rightarrow> string + built_request" where
  "build_tool_user_input root i =
     (let raw = array_value (first_value root [''questions'']) in
      if raw = [] \<or> length raw > max_questions then Inl limit_controls
      else case tool_question_loop i raw [] [] of None \<Rightarrow> Inl limit_controls
        | Some (qs, specs) \<Rightarrow> Inr ((built (ToolUserInput qs))\<lparr>bt_questions := specs\<rparr>))"

subsection \<open>Build\<close>

definition build_display ::
  "(string \<Rightarrow> string) \<Rightarrow> pending_type \<Rightarrow> json_object \<Rightarrow> build_input \<Rightarrow> string + built_request" where
  "build_display lower ty root i =
     (case ty of
        PendingTypeCommandApproval \<Rightarrow> build_command_approval root i
      | PendingTypeFileChangeApproval \<Rightarrow> Inr (build_file_change_approval root i)
      | PendingTypePermissionsApproval \<Rightarrow> build_permissions_approval root i
      | PendingTypeMcpElicitation \<Rightarrow> build_mcp_elicitation lower root i
      | PendingTypeToolUserInput \<Rightarrow> build_tool_user_input root i)"

definition item_id :: "json_object \<Rightarrow> string" where
  "item_id root = first_string root [''itemId'', ''itemID'', ''item.id'', ''id'']"

text \<open>\<open>js\<close> decodes a JSON text into a string (of the JSON-RPC id).\<close>

definition build_pending ::
  "(string \<Rightarrow> string option) \<Rightarrow> (string \<Rightarrow> string) \<Rightarrow> string \<Rightarrow> json_object \<Rightarrow> string \<Rightarrow> build_input \<Rightarrow>
    build_error + pending_entry" where
  "build_pending js lower meth root jsonrpc i =
     (case method_pending_type meth of None \<Rightarrow> Inl BuildUnsupported | Some ty \<Rightarrow>
      case build_display lower ty root i of Inl limit \<Rightarrow> Inl (BuildOverLimit limit) | Inr b \<Rightarrow>
      let thread = first_string root [''threadId'', ''thread.id'']; turn = first_string root [''turnId'', ''turn.id''] in
      Inr \<lparr>pe_method = meth,
        pe_app_server_request_id = normalize_server_request_id js (first_string root [''requestId'', ''requestID'']) jsonrpc,
        pe_jsonrpc_id = jsonrpc, pe_active = False,
        pe_pending = \<lparr>pr_pending_request_id = [], pr_task_id = bi_task_id i, pr_pending_type = ty,
          pr_created_at = bi_created_at i, pr_thread_id = (if thread = [] then bi_thread_id i else thread),
          pr_turn_id = (if turn = [] then bi_turn_id i else turn), pr_item_id = item_id root, pr_display = bt_display b\<rparr>,
        pe_approval_options = bt_options b, pe_permission_grants = bt_grants b, pe_tool_questions = bt_questions b,
        pe_mcp_sensitive_fields = bt_sensitive_fields b, pe_responses = [], pe_in_flight_client_response_id = []\<rparr>)"

end
