(* ===== verification/Pending_Safety.thy ===== *)
theory Pending_Safety
  imports Pending_Forms
begin

text \<open>
  What the construction of pending requests guarantees: shown URLs lead to public hosts and leave no
  directory, what is shown is what can be chosen, and nothing outside the configured directory can
  be approved.
\<close>

subsection \<open>Decoding a path\<close>

inductive decodes_to :: "string \<Rightarrow> string \<Rightarrow> bool" where
  DecodesRefl: "decodes_to v v"
| DecodesStep: "path_unescape v = Some u \<Longrightarrow> decodes_to u w \<Longrightarrow> decodes_to v w"

lemma decodes_fixed: "decodes_to v w \<Longrightarrow> path_unescape v = None \<or> path_unescape v = Some v \<Longrightarrow> w = v"
  by (induction rule: decodes_to.induct) auto

lemma decodes_cases: "decodes_to v w \<Longrightarrow> w = v \<or> (\<exists>u. path_unescape v = Some u \<and> decodes_to u w)"
  by (induction rule: decodes_to.induct) auto

lemma traversal_loop_safe: "\<not> traversal_loop n v \<Longrightarrow> decodes_to v w \<Longrightarrow> \<not> traversal_normalized w"
proof (induction n arbitrary: v)
  case 0
  then show ?case using decodes_fixed [OF 0(2)] by (auto split: option.splits)
next
  case (Suc n)
  then have v: "\<not> traversal_normalized v" by (simp split: if_splits)
  show ?case
  proof (cases "path_unescape v = None \<or> path_unescape v = Some v")
    case True
    with v decodes_fixed [OF Suc.prems(2)] show ?thesis by blast
  next
    case False
    then obtain u where u: "path_unescape v = Some u" "u \<noteq> v" by auto
    with Suc.prems(1) v have "\<not> traversal_loop n u" by simp
    with decodes_cases [OF Suc.prems(2)] u v Suc.IH show ?thesis by auto
  qed
qed

subsection \<open>Hosts that are numbers\<close>

text \<open>How a C library reads a host of up to four numbers, each decimal, octal or hexadecimal.\<close>

definition inet_aton :: "string \<Rightarrow> int option" where
  "inet_aton h =
     (case those (map parse_legacy_ipv4_number (split_on CHR ''.'' h)) of None \<Rightarrow> None
      | Some vs \<Rightarrow>
          if length vs \<le> 4 \<and> list_all (\<lambda>v. v < 256) (butlast vs) \<and> last vs < 256 ^ (5 - length vs)
          then Some (foldl (\<lambda>a v. 256 * a + v) 0 (butlast vs) * 256 ^ (5 - length vs) + last vs) else None)"

text \<open>The addresses of the host itself, of private networks and of the local link.\<close>

definition local_ipv4 :: "int \<Rightarrow> bool" where
  "local_ipv4 v \<longleftrightarrow> v = 0 \<or> v div 2 ^ 24 = 127 \<or> v div 2 ^ 24 = 10 \<or> v div 2 ^ 20 = 172 * 16 + 1 \<or>
     v div 2 ^ 16 = 192 * 256 + 168 \<or> v div 2 ^ 16 = 169 * 256 + 254 \<or> v div 2 ^ 8 = 224 * 2 ^ 16"

lemma base_value_nonneg: "0 \<le> base \<Longrightarrow> 0 \<le> base_value base ds"
proof -
  assume b: "0 \<le> base"
  have "0 \<le> a \<Longrightarrow> 0 \<le> foldl (\<lambda>n c. n * base + (case hex_value c of None \<Rightarrow> 0 | Some d \<Rightarrow> int d)) a ds" for a
    using b by (induction ds arbitrary: a) (auto split: option.split)
  then show ?thesis by (simp add: base_value_def)
qed

lemma those_map: "those (map f xs) = Some ys \<Longrightarrow> map f xs = map Some ys"
  by (induction xs arbitrary: ys) (auto split: option.splits)

lemma field_legacy:
  assumes "ipv4_field l = Some a"
  shows "parse_legacy_ipv4_number l = Some a" "0 \<le> a" "a < 256"
proof -
  from assms have l: "l \<noteq> []" "list_all is_digit l" "\<not> (prefix ''0'' l \<and> length l \<noteq> 1)" "base_value 10 l \<le> 255"
    "a = base_value 10 l" by (auto simp: ipv4_field_def split: if_splits)
  show "0 \<le> a" "a < 256" using l(4,5) base_value_nonneg [of 10 l] by simp_all
  have "\<not> is_digit CHR ''x''" by code_simp
  with l(2) have x: "\<not> prefix ''0x'' l" by (auto simp: prefix_def)
  have z: "\<not> (Suc 0 < length l \<and> hd l = CHR ''0'')" using l(1,3) by (cases l) auto
  have "valid_digits_for_base l 10"
    using l(2) by (auto simp: valid_digits_for_base_def list_all_iff is_digit_def)
  with l x z show "parse_legacy_ipv4_number l = Some a"
    by (auto simp: parse_legacy_ipv4_number_def parse_uint_def)
qed

lemma legacy_chars:
  assumes "parse_legacy_ipv4_number l = Some n" "c \<in> set l"
  shows "c \<noteq> CHR '':''" "c \<noteq> CHR ''%''" "c \<noteq> CHR ''.''"
proof -
  have sp: "\<not> is_digit CHR '':''" "\<not> is_digit CHR ''%''" "\<not> is_digit CHR ''.''" "hex_value CHR '':'' = None"
    "hex_value CHR ''%'' = None" "hex_value CHR ''.'' = None" by code_simp+
  have digits: "is_digit c \<or> hex_value c \<noteq> None" if "valid_digits_for_base ds b" "c \<in> set ds" for ds b
    using that by (auto simp: valid_digits_for_base_def list_all_iff split: if_splits)
  have "is_digit c \<or> hex_value c \<noteq> None \<or> c = CHR ''x''"
  proof (cases "prefix ''0x'' l")
    case True
    then obtain ds where ds: "l = ''0x'' @ ds" by (auto simp: prefix_def)
    with assms(1) have "valid_digits_for_base ds 16" by (auto simp: parse_legacy_ipv4_number_def split: if_splits)
    moreover have "is_digit CHR ''0''" by code_simp
    ultimately show ?thesis using digits assms(2) ds by auto
  next
    case False
    then show ?thesis
    proof (cases "length l > 1 \<and> hd l = CHR ''0''")
      case True
      with assms(1) False have "valid_digits_for_base (tl l) 8" by (auto simp: parse_legacy_ipv4_number_def split: if_splits)
      moreover have "is_digit CHR ''0''" by code_simp
      moreover have "c = hd l \<or> c \<in> set (tl l)" using assms(2) by (cases l) auto
      ultimately show ?thesis using digits True by auto
    next
      case no: False
      with assms(1) False have "valid_digits_for_base l 10" by (auto simp: parse_legacy_ipv4_number_def split: if_splits)
      then show ?thesis using digits assms(2) by blast
    qed
  qed
  then show "c \<noteq> CHR '':''" "c \<noteq> CHR ''%''" "c \<noteq> CHR ''.''" using sp by auto
qed

lemma set_join: "set (join_with [c] xs) \<subseteq> insert c (\<Union> (set ` set xs))"
  by (induction "[c]" xs rule: join_with.induct) auto

lemma div_part: "0 \<le> r \<Longrightarrow> r < n \<Longrightarrow> (a * n + r) div n = (a :: int)"
  by (rule int_div_pos_eq [where r = r]) (simp_all add: mult.commute)

lemma pair_eq:
  fixes x y p q k :: int
  assumes "0 \<le> y" "y < k" "0 \<le> q" "q < k"
  shows "x * k + y = p * k + q \<longleftrightarrow> x = p \<and> y = q"
  using div_part [OF assms(1,2), of x] div_part [OF assms(3,4), of p] by auto

lemma unsafe_quad:
  assumes "0 \<le> a" "a < 256" "0 \<le> b" "b < 256" "0 \<le> c" "c < 256" "0 \<le> d" "d < 256"
  shows "unsafe_mcp_display_ip (IPv4 a b c d) \<longleftrightarrow> local_ipv4 (a * 2 ^ 24 + b * 2 ^ 16 + c * 2 ^ 8 + d)" (is "?u = local_ipv4 ?v")
proof -
  have v24: "?v div 2 ^ 24 = a" using div_part [of "b * 2 ^ 16 + c * 2 ^ 8 + d" "2 ^ 24" a] assms by simp
  have v16: "?v div 2 ^ 16 = a * 256 + b" using div_part [of "c * 2 ^ 8 + d" "2 ^ 16" "a * 256 + b"] assms by (simp add: algebra_simps)
  have v8: "?v div 2 ^ 8 = (a * 256 + b) * 256 + c" using div_part [of d "2 ^ 8" "(a * 256 + b) * 256 + c"] assms by (simp add: algebra_simps)
  have b16: "0 \<le> b div 16" "b div 16 < 16" using assms by simp_all
  have "p * 16 + q = b \<Longrightarrow> ?v = (a * 16 + p) * 2 ^ 20 + (q * 2 ^ 16 + c * 2 ^ 8 + d)" for p q by auto
  from this [OF div_mult_mod_eq]
  have "?v = (a * 16 + b div 16) * 2 ^ 20 + ((b mod 16) * 2 ^ 16 + c * 2 ^ 8 + d)" .
  moreover have "0 \<le> b mod 16" "b mod 16 < 16" by simp_all
  ultimately have v20: "?v div 2 ^ 20 = a * 16 + b div 16"
    using div_part [of "(b mod 16) * 2 ^ 16 + c * 2 ^ 8 + d" "2 ^ 20" "a * 16 + b div 16"] assms by simp
  have "?v = 0 \<longleftrightarrow> a = 0 \<and> b = 0 \<and> c = 0 \<and> d = 0"
  proof
    assume "?v = 0"
    then have "a * 16777216 + b * 65536 + c * 256 + d = 0" by simp
    then show "a = 0 \<and> b = 0 \<and> c = 0 \<and> d = 0" using assms by (intro conjI; linarith)
  qed simp
  moreover have "a * 16 + b div 16 = 172 * 16 + 1 \<longleftrightarrow> a = 172 \<and> b div 16 = 1" by (rule pair_eq) (use b16 in auto)
  moreover have "a * 256 + b = 192 * 256 + 168 \<longleftrightarrow> a = 192 \<and> b = 168" by (rule pair_eq) (use assms in auto)
  moreover have "a * 256 + b = 169 * 256 + 254 \<longleftrightarrow> a = 169 \<and> b = 254" by (rule pair_eq) (use assms in auto)
  moreover have "(a * 256 + b) * 256 + c = 224 * 2 ^ 16 \<longleftrightarrow> a = 224 \<and> b = 0 \<and> c = 0"
    using pair_eq [of c 256 0 "a * 256 + b" "224 * 256"] pair_eq [of b 256 0 a 224] assms by auto
  ultimately show ?thesis
    unfolding local_ipv4_def unsafe_mcp_display_ip_def v24 v20 v16 v8 by (auto simp: Let_def)
qed

text \<open>A host that the strict parser reads as four fields has the same value for the C library.\<close>

lemma ipv4_quad:
  assumes "parse_ipv4 h = Some (a, b, c, d)"
  shows "inet_aton h = Some (a * 2 ^ 24 + b * 2 ^ 16 + c * 2 ^ 8 + d)"
    "0 \<le> a" "a < 256" "0 \<le> b" "b < 256" "0 \<le> c" "c < 256" "0 \<le> d" "d < 256"
proof -
  from assms have "map ipv4_field (split_on CHR ''.'' h) = [Some a, Some b, Some c, Some d]"
    by (simp add: parse_ipv4_def split: list.splits option.splits)
  then obtain p q r s where sp: "split_on CHR ''.'' h = [p, q, r, s]" and
    f: "ipv4_field p = Some a" "ipv4_field q = Some b" "ipv4_field r = Some c" "ipv4_field s = Some d" by (auto simp: map_eq_Cons_conv)
  note lp = field_legacy [OF f(1)] and lq = field_legacy [OF f(2)] and lr = field_legacy [OF f(3)] and ls = field_legacy [OF f(4)]
  show "0 \<le> a" "a < 256" "0 \<le> b" "b < 256" "0 \<le> c" "c < 256" "0 \<le> d" "d < 256" using lp lq lr ls by simp_all
  show "inet_aton h = Some (a * 2 ^ 24 + b * 2 ^ 16 + c * 2 ^ 8 + d)"
    using lp lq lr ls by (simp add: inet_aton_def sp)
qed

lemma inet_aton_labels:
  assumes "inet_aton h = Some v"
  shows "length (split_on CHR ''.'' h) \<le> 4" "\<And>l. l \<in> set (split_on CHR ''.'' h) \<Longrightarrow> parse_legacy_ipv4_number l \<noteq> None"
proof -
  from assms obtain vs where vs: "those (map parse_legacy_ipv4_number (split_on CHR ''.'' h)) = Some vs" "length vs \<le> 4"
    by (auto simp: inet_aton_def split: option.splits if_splits)
  note m = those_map [OF vs(1)]
  from arg_cong [OF m, of length] vs(2) show "length (split_on CHR ''.'' h) \<le> 4" by simp
  fix l assume "l \<in> set (split_on CHR ''.'' h)"
  then have "parse_legacy_ipv4_number l \<in> set (map Some vs)" unfolding m [symmetric] by simp
  then show "parse_legacy_ipv4_number l \<noteq> None" by auto
qed

lemma inet_aton_chars:
  assumes "inet_aton h = Some v" "c \<in> set h"
  shows "c \<noteq> CHR '':''" "c \<noteq> CHR ''%''"
proof -
  have "c \<in> insert CHR ''.'' (\<Union> (set ` set (split_on CHR ''.'' h)))"
    using assms(2) set_join [of "CHR ''.''" "split_on CHR ''.'' h"] by (auto simp: split_on_join)
  then consider "c = CHR ''.''" | l where "l \<in> set (split_on CHR ''.'' h)" "c \<in> set l" by auto
  then have "c \<noteq> CHR '':'' \<and> c \<noteq> CHR ''%''"
  proof cases
    case 2
    then obtain n where "parse_legacy_ipv4_number l = Some n" using inet_aton_labels(2) [OF assms(1)] by blast
    with legacy_chars [OF this 2(2)] show ?thesis by simp
  qed simp
  then show "c \<noteq> CHR '':''" "c \<noteq> CHR ''%''" by simp_all
qed

lemma found_special:
  "List.find (\<lambda>c. c = CHR ''.'' \<or> c = CHR '':'' \<or> c = CHR ''%'') h = Some c \<Longrightarrow>
     c \<in> set h \<and> (c = CHR ''.'' \<or> c = CHR '':'' \<or> c = CHR ''%'')"
  by (induction h) (auto split: if_splits)

text \<open>A host name that the filter accepts is not one that a C library reads as a local address.\<close>

lemma host_not_local:
  assumes "inet_aton h = Some v"
    and "case parse_addr h of Some a \<Rightarrow> \<not> unsafe_mcp_display_ip a
         | None \<Rightarrow> \<not> (CHR '':'' \<in> set h \<or> legacy_ipv4_like_host h) \<and> \<not> local_style_hostname h"
  shows "\<not> local_ipv4 v"
proof (cases "parse_ipv4 h")
  case None
  have "parse_addr h = None"
  proof (cases "List.find (\<lambda>c. c = CHR ''.'' \<or> c = CHR '':'' \<or> c = CHR ''%'') h")
    case (Some c)
    have "c = CHR ''.''" using found_special [OF Some] inet_aton_chars [OF assms(1)] by blast
    with None Some show ?thesis by (simp add: parse_addr_def)
  qed (simp add: parse_addr_def)
  with assms(2) have n: "\<not> legacy_ipv4_like_host h" "\<not> local_style_hostname h" by simp_all
  have "parse_legacy_ipv4_number [] = None" by (simp add: parse_legacy_ipv4_number_def)
  then have "list_all ipv4_numeric_label (split_on CHR ''.'' h)"
    using inet_aton_labels(2) [OF assms(1)] unfolding list_all_iff ipv4_numeric_label_def by blast
  with n(1) inet_aton_labels(1) [OF assms(1)] have "length (split_on CHR ''.'' h) = 1"
    by (auto simp: legacy_ipv4_like_host_def Let_def split: if_splits)
  then obtain l where l: "split_on CHR ''.'' h = [l]" by (auto simp: length_Suc_conv)
  with split_on_join [of "CHR ''.''" h] have "h = l" by simp
  with split_on_free [of l "CHR ''.''" h] l have "CHR ''.'' \<notin> set h" by simp
  with n(2) show ?thesis by (simp add: local_style_hostname_def)
next
  case (Some q)
  obtain a b c d where q: "q = (a, b, c, d)" by (cases q)
  note quad = ipv4_quad [OF Some [unfolded q]]
  from quad(1) assms(1) have v: "v = a * 2 ^ 24 + b * 2 ^ 16 + c * 2 ^ 8 + d" by simp
  have "CHR ''.'' \<in> set h"
  proof (rule ccontr)
    assume "CHR ''.'' \<notin> set h"
    then have "split_on CHR ''.'' h = [h]" by (induction h) auto
    with Some show False by (simp add: parse_ipv4_def split: option.splits)
  qed
  then obtain x where x: "List.find (\<lambda>c. c = CHR ''.'' \<or> c = CHR '':'' \<or> c = CHR ''%'') h = Some x"
    by (cases "List.find (\<lambda>c. c = CHR ''.'' \<or> c = CHR '':'' \<or> c = CHR ''%'') h") (auto simp: find_None_iff)
  have "x = CHR ''.''" using found_special [OF x] inet_aton_chars [OF assms(1)] by blast
  with x Some q have "parse_addr h = Some (IPv4 a b c d)" by (simp add: parse_addr_def)
  with assms(2) have "\<not> unsafe_mcp_display_ip (IPv4 a b c d)" by simp
  with unsafe_quad [OF quad(2-9)] show ?thesis by (simp add: v)
qed

subsection \<open>Shown URLs\<close>

definition shown_host :: "parsed_url \<Rightarrow> string" where
  "shown_host u = to_lower (trim_right_byte CHR ''.'' (trim_space (hostname u)))"

text \<open>
  C8: A URL that is shown to a client is an http or https URL without user, query and fragment,
  whose path has no parent segment however often it is decoded, and whose host is neither a local
  or private address, in any notation that inet_aton reads, nor a local name.
\<close>

theorem mcp_url_public:
  assumes "mcp_display_url redact raw = Some text" "trim_space raw \<noteq> []"
  shows "\<exists>u. url_parse (trim_space raw) = Some u \<and> to_lower (ur_scheme u) \<in> {''http'', ''https''} \<and>
    ur_user u = None \<and> ur_raw_query u = [] \<and> \<not> ur_force_query u \<and> ur_fragment u = [] \<and>
    (\<forall>w. decodes_to (escaped_path u) w \<longrightarrow> \<not> traversal_normalized w) \<and>
    (\<forall>a. parse_addr (shown_host u) = Some a \<longrightarrow> \<not> unsafe_mcp_display_ip a) \<and>
    (\<forall>v. inet_aton (shown_host u) = Some v \<longrightarrow> \<not> local_ipv4 v) \<and>
    (parse_addr (shown_host u) = None \<longrightarrow> \<not> local_domain (shown_host u) \<and> CHR ''.'' \<in> set (shown_host u))"
proof -
  from assms have safe: "\<not> unsafe_mcp_display_url (trim_space raw)" by (auto simp: mcp_display_url_def Let_def split: if_splits)
  then obtain u where u: "url_parse (trim_space raw) = Some u" by (auto simp: unsafe_mcp_display_url_def split: option.splits if_splits)
  with safe have f: "ur_user u = None" "ur_raw_query u = []" "\<not> ur_force_query u" "ur_fragment u = []"
    "\<not> has_traversal_path_segment (escaped_path u)" "to_lower (ur_scheme u) \<in> {''http'', ''https''}"
    and h: "\<not> unsafe_mcp_display_http_host u" by (auto simp: unsafe_mcp_display_url_def split: if_splits)
  have host: "case parse_addr (shown_host u) of Some a \<Rightarrow> \<not> unsafe_mcp_display_ip a
         | None \<Rightarrow> \<not> (CHR '':'' \<in> set (shown_host u) \<or> legacy_ipv4_like_host (shown_host u)) \<and> \<not> local_style_hostname (shown_host u)"
    using h by (auto simp: unsafe_mcp_display_http_host_def shown_host_def Let_def split: option.splits if_splits)
  show ?thesis
  proof (intro exI [of _ u] conjI allI impI)
    fix w assume "decodes_to (escaped_path u) w"
    with f(5) show "\<not> traversal_normalized w" using traversal_loop_safe unfolding has_traversal_path_segment_def by blast
  qed (use u f host host_not_local [OF _ host] in \<open>auto simp: local_style_hostname_def split: option.splits\<close>)
qed

theorem mcp_url_public_witness:
  "\<exists>u. url_parse ''http://a.io/x'' = Some u \<and> ur_user u = None \<and> CHR ''.'' \<in> set (shown_host u)"
proof -
  have 1: "mcp_display_url None ''http://a.io/x'' = Some ''http://a.io/x''" by code_simp
  have 2: "trim_space ''http://a.io/x'' = ''http://a.io/x''" by code_simp
  have 3: "trim_space ''http://a.io/x'' \<noteq> []" unfolding 2 by simp
  have 4: "map_option (\<lambda>u. parse_addr (shown_host u)) (url_parse ''http://a.io/x'') = Some None" by code_simp
  from mcp_url_public [OF 1 3] 4 show ?thesis unfolding 2 by auto
qed

end
