(* ===== verification/Pending_Choices.thy ===== *)
theory Pending_Choices
  imports Pending_Forms
begin

text \<open>
  What is shown is what can be chosen: the tables of a built request offer exactly the selectable
  options, the grantable permissions and the questions of its display.
\<close>

declare first_value.simps [simp del] first_string.simps [simp del]

subsection \<open>Decision options\<close>

lemma digits_decimal: "digits_value (decimal n) = n"
  using strconv_loop_value [of n "[]"] by (simp add: decimal_def digits_value_def)

lemma decimal_inj: "decimal m = decimal n \<longleftrightarrow> m = n"
  using digits_decimal [of m] digits_decimal [of n] by metis

lemma wire_value_inj: "app_server_wire_value d = app_server_wire_value e \<longleftrightarrow> d = e"
  by (cases d; cases e) (simp_all add: app_server_wire_value_def)

lemma direct_id: "ao_decision_id (direct_decision_option b d) = ao_decision_id (direct_decision_option b e) \<longleftrightarrow> d = e"
  by (simp add: direct_decision_option_def Let_def wire_value_inj)

lemma advanced_id:
  "ao_decision_id (advanced_option m) = ao_decision_id (advanced_option n) \<longleftrightarrow> m = n"
  "ao_decision_id (advanced_option m) \<noteq> ao_decision_id (direct_decision_option b d)"
  by (simp_all add: advanced_option_def direct_decision_option_def Let_def decimal_inj)

definition options_from :: "string \<Rightarrow> approval_wire_decision list \<Rightarrow> approval_decision_option list \<Rightarrow> bool" where
  "options_from blocking seen opts \<longleftrightarrow> distinct (map ao_decision_id opts) \<and>
     (\<forall>opt \<in> set opts. (\<exists>d \<in> set seen. opt = direct_decision_option blocking d) \<or>
        (\<exists>n \<le> length opts. opt = advanced_option n)) \<and>
     (\<forall>d \<in> set seen. direct_decision_option blocking d \<in> set opts)"

lemma options_from_direct:
  assumes "options_from blocking seen opts" "d \<notin> set seen"
  shows "options_from blocking (d # seen) (opts @ [direct_decision_option blocking d])"
proof -
  have "ao_decision_id opt \<noteq> ao_decision_id (direct_decision_option blocking d)" if "opt \<in> set opts" for opt
  proof -
    from that assms(1) consider e where "e \<in> set seen" "opt = direct_decision_option blocking e" | n where "opt = advanced_option n"
      unfolding options_from_def by blast
    then show ?thesis by cases (use assms(2) in \<open>auto simp: direct_id advanced_id\<close>)
  qed
  then have "ao_decision_id (direct_decision_option blocking d) \<notin> ao_decision_id ` set opts" by (metis imageE)
  moreover have "(\<exists>d' \<in> set (d # seen). opt = direct_decision_option blocking d') \<or> (\<exists>n \<le> Suc (length opts). opt = advanced_option n)"
    if "opt \<in> set (opts @ [direct_decision_option blocking d])" for opt
    using that assms(1) unfolding options_from_def by (auto intro: le_SucI)
  ultimately show ?thesis using assms(1) unfolding options_from_def by simp
qed

lemma options_from_advanced:
  assumes "options_from blocking seen opts"
  shows "options_from blocking seen (opts @ [advanced_option (Suc (length opts))])"
proof -
  have "ao_decision_id opt \<noteq> ao_decision_id (advanced_option (Suc (length opts)))" if "opt \<in> set opts" for opt
  proof -
    from that assms(1) consider e where "opt = direct_decision_option blocking e"
      | n where "n \<le> length opts" "opt = advanced_option n"
      unfolding options_from_def by blast
    then show ?thesis by cases (auto simp: advanced_id advanced_id(2) [THEN not_sym])
  qed
  then have "ao_decision_id (advanced_option (Suc (length opts))) \<notin> ao_decision_id ` set opts" by (metis imageE)
  with assms(1) show ?thesis unfolding options_from_def by simp (blast intro: le_SucI)
qed

lemma decision_loop_options:
  "decision_loop blocking vs seen opts = Some (seen', opts') \<Longrightarrow> options_from blocking seen opts \<Longrightarrow>
     options_from blocking seen' opts'"
proof (induction blocking vs seen opts rule: decision_loop.induct)
  case (2 blocking v vs seen opts)
  then show ?case
    using options_from_direct [of blocking seen opts] options_from_advanced [of blocking seen opts]
    by (auto split: option.splits if_splits)
qed simp

lemma options_from_all: "distinct ds \<Longrightarrow> options_from blocking ds (direct_decision_options ds blocking)"
  by (auto simp: options_from_def direct_decision_options_def distinct_map direct_id inj_on_def)

text \<open>The options of a request: distinct ids, direct ones with the same blocking, and always a way to decline.\<close>

lemma command_options:
  assumes "command_decision_options root blocking = Inr opts"
  shows "\<exists>seen. options_from blocking seen opts \<and> WireDecisionDecline \<in> set seen \<and> WireDecisionCancel \<in> set seen"
proof (cases "decision_values root")
  case None
  have "distinct all_decisions" by (simp add: all_decisions_def)
  from options_from_all [OF this, of blocking] assms None have "options_from blocking all_decisions opts"
    by (simp add: command_decision_options_def)
  moreover have "WireDecisionDecline \<in> set all_decisions" "WireDecisionCancel \<in> set all_decisions"
    by (simp_all add: all_decisions_def)
  ultimately show ?thesis by blast
next
  case (Some vs)
  with assms obtain seen os where os: "decision_loop blocking vs [] [] = Some (seen, os)"
    "opts = os @ map (direct_decision_option blocking) (filter (\<lambda>d. d \<notin> set seen) [WireDecisionDecline, WireDecisionCancel])"
    by (auto simp: command_decision_options_def Let_def split: option.splits if_splits)
  have start: "options_from blocking seen os" using decision_loop_options [OF os(1)] by (simp add: options_from_def)
  let ?add = "\<lambda>d s. if d \<in> set (fst s) then s else (d # fst s, snd s @ [direct_decision_option blocking d])"
  have step: "options_from blocking (fst (?add d s)) (snd (?add d s)) \<and> d \<in> set (fst (?add d s)) \<and> set (fst s) \<subseteq> set (fst (?add d s))"
    if "options_from blocking (fst s) (snd s)" for d s using that options_from_direct by auto
  have "opts = snd (?add WireDecisionCancel (?add WireDecisionDecline (seen, os)))" by (auto simp: os(2))
  with step [OF step [of "(seen, os)" WireDecisionDecline, THEN conjunct1], of WireDecisionCancel]
    step [of "(seen, os)" WireDecisionDecline] start
  show ?thesis by (intro exI [of _ "fst (?add WireDecisionCancel (?add WireDecisionDecline (seen, os)))"]) auto
qed

lemma selectable_snoc: "selectable_options (opts @ [opt]) =
    (if ao_selectable opt \<and> ao_wire_decision opt \<noteq> None then gm_put (ao_decision_id opt) opt (selectable_options opts)
     else selectable_options opts)"
  by (auto simp: selectable_options_def)

lemma selectable_get:
  "distinct (map ao_decision_id opts) \<Longrightarrow> gm_get (selectable_options opts) k = Some opt \<longleftrightarrow>
     opt \<in> set opts \<and> ao_selectable opt \<and> ao_wire_decision opt \<noteq> None \<and> ao_decision_id opt = k"
proof (induction opts rule: rev_induct)
  case (snoc x opts)
  from snoc.prems have "ao_decision_id opt \<noteq> ao_decision_id x" if "opt \<in> set opts" for opt using that by (auto simp: image_iff)
  with snoc show ?case by (auto simp: selectable_snoc)
qed (simp add: selectable_options_def)

subsection \<open>Permissions\<close>

text \<open>A grant that may be given: enabled network access, or a path under the configured directory.\<close>

definition grant_inside :: "build_input \<Rightarrow> permission_grant \<Rightarrow> bool" where
  "grant_inside i g \<longleftrightarrow>
     pg_section g = ''network'' \<and> pg_field g = ''enabled'' \<and> pg_value g = JBool True \<or>
     pg_section g = ''fileSystem'' \<and> snd (path_entry_label i (pg_value g))"

definition permission_id :: "nat \<Rightarrow> string" where
  "permission_id n = ''permission-'' @ decimal n"

lemma permission_id_inj: "permission_id m = permission_id n \<longleftrightarrow> m = n"
  by (simp add: permission_id_def decimal_inj)

definition perms_ok :: "build_input \<Rightarrow> (string, permission_grant) gomap \<times> permission_atom list \<Rightarrow> bool" where
  "perms_ok i st \<longleftrightarrow> (case st of (grants, atoms) \<Rightarrow>
     map pa_permission_id atoms = map permission_id [Suc 0..<Suc (length atoms)] \<and> length grants \<le> length atoms \<and>
     (\<forall>k g. gm_get grants k = Some g \<longrightarrow> pg_grantable g \<and> grant_inside i g \<and>
        (\<exists>a \<in> set atoms. pa_permission_id a = k \<and> pa_grantable a)) \<and>
     (length atoms \<le> max_permission_atoms \<longrightarrow>
        (\<forall>a \<in> set atoms. pa_grantable a \<longrightarrow> gm_get grants (pa_permission_id a) \<noteq> None)))"

lemma add_grant_id:
  "add_grant i kind label scope grantable reason sec field v (grants, atoms) =
     (let pid = permission_id (Suc (length atoms)) in
      (if grantable \<and> length grants < max_permission_atoms
       then gm_put pid \<lparr>pg_kind = kind, pg_grantable = True, pg_section = sec, pg_field = field, pg_value = v\<rparr> grants
       else grants,
       atoms @ [\<lparr>pa_permission_id = pid, pa_kind = shown i kind label_bytes ''permission'',
         pa_display_label = shown i label display_string_bytes ''permission'', pa_scope_label = shown i scope label_bytes [],
         pa_grantable = grantable, pa_ungrantable_reason = shown i reason message_bytes []\<rparr>]))"
  by (simp add: add_grant_def permission_id_def)

lemma perms_ok_add:
  assumes "perms_ok i st"
    and "grantable \<Longrightarrow> grant_inside i \<lparr>pg_kind = kind, pg_grantable = True, pg_section = sec, pg_field = field, pg_value = v\<rparr>"
  shows "perms_ok i (add_grant i kind label scope grantable reason sec field v st)"
proof -
  obtain grants atoms where st: "st = (grants, atoms)" by (cases st)
  let ?pid = "permission_id (Suc (length atoms))"
  from assms(1) have ids: "map pa_permission_id atoms = map permission_id [Suc 0..<Suc (length atoms)]" by (simp add: perms_ok_def st)
  have fresh: "pa_permission_id a \<noteq> ?pid" if "a \<in> set atoms" for a
  proof -
    from that have "pa_permission_id a \<in> set (map permission_id [Suc 0..<Suc (length atoms)])" unfolding ids [symmetric] by simp
    then show ?thesis by (auto simp: permission_id_inj)
  qed
  have ids': "map permission_id [Suc 0..<Suc (Suc (length atoms))] = map permission_id [Suc 0..<Suc (length atoms)] @ [?pid]" by simp
  have len: "length (gm_put k x m) \<le> Suc (length m)" for k and x :: permission_grant and m by (simp add: length_gm_put)
  have put: "length grants \<le> length atoms" using assms(1) by (simp add: perms_ok_def st)
  show ?thesis
    using assms fresh ids put len [of ?pid _ grants]
    by (auto simp: perms_ok_def st add_grant_id Let_def ids' simp del: upt_Suc
        intro: order_trans le_SucI split: if_splits)
qed

lemma perms_ok_path: "perms_ok i st \<Longrightarrow> perms_ok i (add_path_permission i field v st)"
  by (auto simp: add_path_permission_def grant_inside_def split: prod.split intro!: perms_ok_add)

lemma perms_ok_fold: "(\<And>x st. perms_ok i st \<Longrightarrow> perms_ok i (f x st)) \<Longrightarrow> perms_ok i st \<Longrightarrow> perms_ok i (fold f xs st)"
  by (induction xs arbitrary: st) auto

lemma perms_ok_requested: "perms_ok i (requested_permissions root i)"
proof -
  have start: "perms_ok i (add_network_permission i ps ([], []))" for ps
  proof -
    have "perms_ok i ([], [])" by (simp add: perms_ok_def)
    then show ?thesis by (auto simp: add_network_permission_def grant_inside_def split: option.split intro!: perms_ok_add)
  qed
  have "perms_ok i st \<Longrightarrow> perms_ok i (add_path_permissions i r field st)" for r field st
    unfolding add_path_permissions_def by (rule perms_ok_fold [OF perms_ok_path])
  then show ?thesis
    unfolding requested_permissions_def Let_def by (intro perms_ok_fold start) auto
qed

subsection \<open>Questions\<close>

definition spec_of_question :: "tool_user_input_question \<Rightarrow> tool_question_spec" where
  "spec_of_question q = \<lparr>qs_is_secret = tq_is_secret q, qs_is_other = tq_is_other q, qs_allowed_values = tq_options q\<rparr>"

definition questions_ok :: "tool_user_input_question list \<Rightarrow> (string, tool_question_spec) gomap \<Rightarrow> bool" where
  "questions_ok qs specs \<longleftrightarrow> distinct (map tq_id qs) \<and>
     (\<forall>k spec. gm_get specs k = Some spec \<longleftrightarrow> (\<exists>q \<in> set qs. tq_id q = k \<and> spec = spec_of_question q))"

lemma tool_question_new:
  "tool_question i seen v = Some (q, spec) \<Longrightarrow> tq_id q \<notin> set seen \<and> spec = spec_of_question q"
  by (auto simp: tool_question_def spec_of_question_def Let_def split: json.splits if_splits option.splits)

lemma questions_ok_add:
  assumes "questions_ok qs specs" "tq_id q \<notin> tq_id ` set qs"
  shows "questions_ok (qs @ [q]) (gm_put (tq_id q) (spec_of_question q) specs)"
proof -
  have "gm_get (gm_put (tq_id q) (spec_of_question q) specs) k = Some spec \<longleftrightarrow>
      (\<exists>q' \<in> set (qs @ [q]). tq_id q' = k \<and> spec = spec_of_question q')" for k spec
  proof (cases "k = tq_id q")
    case True
    have "\<not> (\<exists>q' \<in> set qs. tq_id q' = tq_id q)" using assms(2) by (metis imageI)
    with True show ?thesis by auto
  next
    case False
    with assms(1) show ?thesis by (auto simp: questions_ok_def)
  qed
  with assms show ?thesis by (simp add: questions_ok_def)
qed

lemma questions_loop:
  "tool_question_loop i vs qs specs = Some (qs', specs') \<Longrightarrow> questions_ok qs specs \<Longrightarrow> questions_ok qs' specs'"
proof (induction i vs qs specs rule: tool_question_loop.induct)
  case (2 i v vs qs specs)
  from 2(2) obtain q spec where q: "tool_question i (map tq_id qs) v = Some (q, spec)"
    "tool_question_loop i vs (qs @ [q]) (gm_put (tq_id q) spec specs) = Some (qs', specs')" by (auto split: option.splits)
  from tool_question_new [OF q(1)] questions_ok_add [OF 2(3)]
  have "questions_ok (qs @ [q]) (gm_put (tq_id q) spec specs)" by simp
  from 2(1) [OF q(1) refl q(2) this] show ?case .
qed simp

subsection \<open>Requests\<close>

fun display_type :: "pending_request_display \<Rightarrow> pending_type" where
  "display_type (CommandApproval d) = PendingTypeCommandApproval"
| "display_type (FileChangeApproval d) = PendingTypeFileChangeApproval"
| "display_type (PermissionsApproval d) = PendingTypePermissionsApproval"
| "display_type (McpElicitation d) = PendingTypeMcpElicitation"
| "display_type (ToolUserInput qs) = PendingTypeToolUserInput"

definition shown_options :: "pending_request_display \<Rightarrow> approval_decision_option list" where
  "shown_options d = (case d of CommandApproval x \<Rightarrow> cd_decision_options x | FileChangeApproval x \<Rightarrow> fd_decision_options x | _ \<Rightarrow> [])"

definition shown_atoms :: "pending_request_display \<Rightarrow> permission_atom list" where
  "shown_atoms d = (case d of PermissionsApproval x \<Rightarrow> pd_requested_permissions x | _ \<Rightarrow> [])"

definition shown_questions :: "pending_request_display \<Rightarrow> tool_user_input_question list" where
  "shown_questions d = (case d of ToolUserInput qs \<Rightarrow> qs | _ \<Rightarrow> [])"

definition choices_shown :: "pending_request_display \<Rightarrow> (string, approval_decision_option) gomap \<Rightarrow>
    (string, permission_grant) gomap \<Rightarrow> (string, tool_question_spec) gomap \<Rightarrow> bool" where
  "choices_shown d opts grants specs \<longleftrightarrow>
     distinct (map ao_decision_id (shown_options d)) \<and>
     (\<forall>k opt. gm_get opts k = Some opt \<longleftrightarrow> opt \<in> set (shown_options d) \<and> ao_selectable opt \<and>
        ao_wire_decision opt \<noteq> None \<and> ao_decision_id opt = k) \<and>
     distinct (map pa_permission_id (shown_atoms d)) \<and>
     (\<forall>k. gm_get grants k \<noteq> None \<longleftrightarrow> (\<exists>a \<in> set (shown_atoms d). pa_permission_id a = k \<and> pa_grantable a)) \<and>
     questions_ok (shown_questions d) specs"

lemma permissions_shown:
  assumes "perms_ok i (grants, atoms)" "length atoms \<le> max_permission_atoms"
  shows "distinct (map pa_permission_id atoms)"
    "(\<forall>k. gm_get grants k \<noteq> None \<longleftrightarrow> (\<exists>a \<in> set atoms. pa_permission_id a = k \<and> pa_grantable a))"
proof -
  from assms(1) have "map pa_permission_id atoms = map permission_id [Suc 0..<Suc (length atoms)]" by (simp add: perms_ok_def)
  moreover have "distinct (map permission_id [Suc 0..<Suc (length atoms)])" by (auto simp: distinct_map inj_on_def permission_id_inj)
  ultimately show "distinct (map pa_permission_id atoms)" by simp
  show "\<forall>k. gm_get grants k \<noteq> None \<longleftrightarrow> (\<exists>a \<in> set atoms. pa_permission_id a = k \<and> pa_grantable a)"
    using assms by (fastforce simp: perms_ok_def)
qed

lemma no_questions: "questions_ok [] []"
  by (simp add: questions_ok_def)

lemma choices_shown_options:
  "distinct (map ao_decision_id (shown_options d)) \<Longrightarrow> shown_atoms d = [] \<Longrightarrow> shown_questions d = [] \<Longrightarrow>
     choices_shown d (selectable_options (shown_options d)) [] []"
  by (simp add: choices_shown_def no_questions selectable_get)

lemma choices_shown_none:
  "shown_options d = [] \<Longrightarrow> shown_atoms d = [] \<Longrightarrow> shown_questions d = [] \<Longrightarrow> choices_shown d [] [] []"
  by (simp add: choices_shown_def no_questions)

lemma command_approval_shape:
  assumes "build_command_approval root i = Inr b"
  shows "\<exists>blocking d. command_decision_options root blocking = Inr (cd_decision_options d) \<and>
    (\<exists>sec. approval_security root i = Inr (sec, blocking) \<and> cd_approval_security d = sec) \<and>
    b = (built (CommandApproval d))\<lparr>bt_options := selectable_options (cd_decision_options d)\<rparr>"
proof -
  from assms obtain sec blocking where sec: "approval_security root i = Inr (sec, blocking)"
    by (auto simp: build_command_approval_def split: sum.splits)
  with assms obtain opts where "command_decision_options root blocking = Inr opts"
    by (auto simp: build_command_approval_def split: sum.splits)
  moreover define d where "d = \<lparr>cd_command_display = shown i (command_display root) command_bytes ''command'',
    cd_workspace_label = path_label i (first_string root [''workspaceLabel'', ''cwd'', ''workdir'']) [],
    cd_reason = shown i (first_string root [''reason'', ''description'', ''message'']) message_bytes [],
    cd_approval_security = sec, cd_decision_options = opts\<rparr>"
  ultimately show ?thesis using sec assms
    by (intro exI [of _ blocking] exI [of _ d]) (simp add: build_command_approval_def d_def)
qed

lemma build_display_ok:
  assumes "build_display lower ty root i = Inr b"
  shows "display_type (bt_display b) = ty \<and> choices_shown (bt_display b) (bt_options b) (bt_grants b) (bt_questions b)"
proof (cases ty)
  case PendingTypeCommandApproval
  with assms have "build_command_approval root i = Inr b" by (simp add: build_display_def)
  from command_approval_shape [OF this] obtain blocking d where d: "command_decision_options root blocking = Inr (cd_decision_options d)"
    "b = (built (CommandApproval d))\<lparr>bt_options := selectable_options (cd_decision_options d)\<rparr>" by blast
  from command_options [OF d(1)] have "distinct (map ao_decision_id (cd_decision_options d))" by (auto simp: options_from_def)
  with choices_shown_options [of "CommandApproval d"] show ?thesis
    by (simp add: d(2) built_def shown_options_def shown_atoms_def shown_questions_def PendingTypeCommandApproval)
next
  case PendingTypeFileChangeApproval
  have "distinct all_decisions" by (simp add: all_decisions_def)
  then have "distinct (map ao_decision_id (direct_decision_options all_decisions b'))" for b'
    using options_from_all by (simp add: options_from_def)
  then have "distinct (map ao_decision_id (fd_decision_options (file_change_display root i)))"
    by (simp add: file_change_display_def Let_def split: prod.split option.split)
  with choices_shown_options [of "FileChangeApproval (file_change_display root i)"] assms PendingTypeFileChangeApproval show ?thesis
    by (auto simp: build_display_def build_file_change_approval_def Let_def built_def shown_options_def
        shown_atoms_def shown_questions_def)
next
  case PendingTypePermissionsApproval
  obtain grants atoms where p: "requested_permissions root i = (grants, atoms)" by (cases "requested_permissions root i")
  with assms PendingTypePermissionsApproval have len: "length atoms \<le> max_permission_atoms"
    by (auto simp: build_display_def build_permissions_approval_def split: if_splits)
  have "perms_ok i (grants, atoms)" using perms_ok_requested [of i root] p by simp
  note shown = permissions_shown [OF this len]
  from assms p len PendingTypePermissionsApproval obtain d where "bt_display b = PermissionsApproval d"
    "pd_requested_permissions d = atoms" "bt_options b = []" "bt_grants b = grants" "bt_questions b = []"
    by (auto simp: build_display_def build_permissions_approval_def built_def)
  with shown PendingTypePermissionsApproval show ?thesis
    by (simp add: choices_shown_def shown_options_def shown_atoms_def shown_questions_def no_questions)
next
  case PendingTypeMcpElicitation
  with assms obtain d where "bt_display b = McpElicitation d" "bt_options b = []" "bt_grants b = []" "bt_questions b = []"
    by (auto simp: build_display_def build_mcp_elicitation_def Let_def built_def split: prod.splits if_splits option.splits)
  with choices_shown_none [of "McpElicitation d"] PendingTypeMcpElicitation show ?thesis
    by (simp add: shown_options_def shown_atoms_def shown_questions_def)
next
  case PendingTypeToolUserInput
  with assms obtain qs specs where q: "tool_question_loop i (array_value (first_value root [''questions''])) [] [] = Some (qs, specs)"
    "b = (built (ToolUserInput qs))\<lparr>bt_questions := specs\<rparr>"
    by (auto simp: build_display_def build_tool_user_input_def Let_def split: if_splits option.splits)
  have "questions_ok qs specs" using questions_loop [OF q(1)] by (simp add: questions_ok_def)
  with q(2) PendingTypeToolUserInput show ?thesis
    by (auto simp: choices_shown_def built_def shown_options_def shown_atoms_def shown_questions_def)
qed

end
