(* ===== verification/Context_Safety.thy ===== *)
theory Context_Safety
  imports Context_Pack "HOL-Library.Monad_Syntax"
begin

text \<open>
  The position loop over the lines of a block against splitting the text at the line feeds, and the
  envelope against a reader that takes it apart again.
\<close>

subsection \<open>Lines\<close>

definition chop_return :: "string \<Rightarrow> string" where
  "chop_return l = (if l \<noteq> [] \<and> last l = CHR 0x0D then butlast l else l)"

definition short_line :: "string \<Rightarrow> bool" where
  "short_line l \<longleftrightarrow> int (length (chop_return l)) \<le> max_context_source_line_bytes"

lemma split_on_piece: "c \<notin> set p \<Longrightarrow> split_on c (p @ c # s) = p # split_on c s"
  by (induction p) auto

lemma split_on_single: "c \<notin> set p \<Longrightarrow> split_on c p = [p]"
  by (induction p) auto

lemma line_too_long: "source_line_too_long (pre @ cur @ rest) (length pre) (length pre + length cur) \<longleftrightarrow> \<not> short_line cur"
proof (cases cur rule: rev_cases)
  case (snoc ys y)
  then show ?thesis
    by (auto simp: source_line_too_long_def short_line_def chop_return_def Let_def nth_append)
qed (auto simp: source_line_too_long_def short_line_def chop_return_def)

lemma source_lines_split:
  "CHR 0x0A \<notin> set cur \<Longrightarrow> source_lines_loop (pre @ cur @ rest) (length pre) (length pre + length cur) rest \<longleftrightarrow>
     list_all short_line (split_on CHR 0x0A (cur @ rest))"
proof (induction rest arbitrary: pre cur)
  case Nil
  then show ?case using line_too_long [of pre cur "[]"] by (simp add: split_on_single)
next
  case (Cons c cs)
  show ?case
  proof (cases "c = CHR 0x0A")
    case True
    show ?thesis
      using Cons.IH [of "[]" "pre @ cur @ [c]"] Cons.prems line_too_long [of pre cur "c # cs"] True
      by (simp add: split_on_piece)
  next
    case False
    then show ?thesis using Cons.IH [of "cur @ [c]" pre] Cons.prems by simp
  qed
qed

text \<open>
  The position loop that checks the length of the content's lines accepts exactly the texts
  whose pieces between line feeds, each without a final carriage return, are within the limit.
\<close>

theorem source_lines_equivalent:
  "validate_source_content_lines content label = None \<longleftrightarrow> list_all short_line (split_on CHR 0x0A content)"
  using source_lines_split [of "[]" "[]" content] by (simp add: validate_source_content_lines_def)

subsection \<open>Reading JSON texts\<close>



















subsection \<open>Reading an envelope\<close>





















subsection \<open>One line\<close>

definition printable :: "string \<Rightarrow> bool" where
  "printable s \<longleftrightarrow> list_all (\<lambda>c. 32 \<le> byte c) s"

lemma printable_append [simp]: "printable (s @ t) \<longleftrightarrow> printable s \<and> printable t"
  by (simp add: printable_def)

lemma printable_Cons [simp]: "printable (c # s) \<longleftrightarrow> 32 \<le> byte c \<and> printable s" "printable []"
  by (simp_all add: printable_def)














end
