(* ===== verification/Task_State.thy ===== *)
theory Task_State
  imports Pending_Response Event_Log
begin

text \<open>
  The data of the task service (\<open>gateway/internal/tasks/service.go\<close>, \<open>stream.go\<close>) and its
  error values (\<open>errors.go\<close>).  The service is shared by the request handlers, the goroutine of
  every start and the goroutine of every app-server connection; its mutex makes each locked section
  one atomic function, and the theories that follow translate the sections one by one.
\<close>

subsection \<open>Sessions, bindings and tasks (service.go)\<close>

text \<open>The identity of an app-server connection (a pointer in the code).\<close>

type_synonym conn = nat

text \<open>The part of \<open>config.SessionGroup\<close> that the task service reads.\<close>

record session_group =
  sg_session_group_id :: string
  sg_workspace_id :: string
  sg_replay_max_events :: int
  sg_replay_max_bytes :: int
  sg_replay_ttl_millis :: int
  sg_max_bindings :: int
  sg_binding_ttl_millis :: int
  sg_pending_max_active :: int
  sg_pending_max_display_bytes :: int
  sg_pending_status_budget_bytes :: int
  sg_inbound_message_bytes :: int
  sg_outbound_message_bytes :: int

record session_runtime =
  sr_group :: session_group
  sr_active_task_id :: string
  sr_bindings :: "string list"   \<comment> \<open>the thread ids of the session's own binding map\<close>

record start_key =
  ik_session_group_id :: string
  ik_client_message_id :: string

datatype start_entry_state =
    StartEntryPending | StartEntrySucceeded | StartEntryFailed | StartEntryInterruptedBeforeTurn

record start_task_response =
  sp_task_id :: string
  sp_thread_id :: string
  sp_turn_id :: string
  sp_session_group_id :: string
  sp_state :: "task_state option"
  sp_last_event_id :: u64

text \<open>An error of an app-server call: the gateway's own error type, or any other.\<close>

datatype call_error = GatewayErr gateway_error | OtherErr

text \<open>The promise counts how often its channel was closed: a second close panics in Go.\<close>

record start_promise =
  pm_closes :: nat
  pm_result :: start_task_response
  pm_err :: "call_error option"

record start_entry =
  se_key :: start_key
  se_fingerprint :: string
  se_task_id :: string
  se_state :: start_entry_state
  se_promise :: start_promise
  se_result :: start_task_response
  se_err :: "call_error option"
  se_updated_at :: gtime

datatype start_phase =
    PhaseClaimed | PhaseThreadCalling | PhaseBeforeTurn | PhaseTurnCalling | PhaseStarted | PhaseTerminal

datatype task_stream_kind = AssistantDeltaStream | CommandOutputStream

record task_stream_key =
  tsk_kind :: task_stream_kind
  tsk_item_id :: string

text \<open>A subscriber: its buffered channel and whether it is closed.\<close>

record task_subscriber =
  ts_queue :: "task_event list"
  ts_closed :: bool

record task =
  tk_id :: string
  tk_session_group_id :: string
  tk_workspace_id :: string
  tk_client_message_id :: string
  tk_thread_id :: string
  tk_turn_id :: string
  tk_state :: task_state
  tk_phase :: start_phase
  tk_connection :: "conn option"
  tk_connection_cancel :: bool     \<comment> \<open>a cancel function is registered\<close>
  tk_sensitive :: registry
  tk_cancel_before_turn :: bool
  tk_interrupt_sent :: bool
  tk_pre_interrupt_state :: "task_state option"
  tk_terminal :: "task_terminal_event option"
  tk_created_at :: gtime
  tk_terminal_at :: "gtime option"
  tk_next_event_id :: u64
  tk_events :: "task_event list"
  tk_retained_event_bytes :: int
  tk_start_evicted_before :: u64
  tk_deferred_unsupported_warnings :: int
  tk_deferred_unsupported_method :: string
  tk_deferred_unsupported_multiple :: bool
  tk_deferred_unsupported_overflow :: bool
  tk_pending :: manager
  tk_item_bindings :: "string list"                  \<comment> \<open>a set\<close>
  tk_file_diffs :: "(string, file_diff_updated_event) gomap"
  tk_streams :: "(task_stream_key, stream \<times> conn option) gomap"
    \<comment> \<open>with the connection whose registry the stream's redactor captured\<close>
  tk_subscribers :: "u64 list"                       \<comment> \<open>the keys of the subscriber map\<close>
  tk_next_subscriber_id :: u64
  tk_channels :: "(u64, task_subscriber) gomap"      \<comment> \<open>every subscriber object made\<close>

record thread_binding =
  tb_thread_id :: string
  tb_session_group_id :: string
  tb_workspace_id :: string
  tb_task_id :: string
  tb_created_at :: gtime
  tb_expires_at :: gtime

record binding_tombstone =
  bt_thread_id :: string
  bt_session_group_id :: string
  bt_workspace_id :: string
  bt_created_at :: gtime
  bt_expires_at :: gtime

text \<open>
  The service.  \<open>sv_objects\<close> is the heap of the task objects ever made, by task id: a goroutine
  keeps its pointer to a task after the map \<open>s.tasks\<close> (whose keys are \<open>sv_tasks\<close>) has dropped it.
  Likewise \<open>sv_entries\<close> holds every start entry (with its promise), by the id of its task, and
  \<open>sv_idempotency\<close> is the map from keys to entries.  \<open>sv_connection_secrets\<close> is the registry of
  sensitive values that each connection carries.  The connection diagnostics are not modelled.
\<close>

record service =
  sv_sessions :: "(string, session_runtime) gomap"
  sv_objects :: "(string, task) gomap"
  sv_tasks :: "string list"
  sv_entries :: "(string, start_entry) gomap"
  sv_idempotency :: "(start_key, string) gomap"
  sv_bindings :: "(string \<times> string, thread_binding) gomap"
  sv_tombstones :: "(string \<times> string, binding_tombstone) gomap"
  sv_monitors :: "conn list"
  sv_resolved_requests :: "(conn, string list) gomap"
  sv_connection_secrets :: "(conn, registry) gomap"
  sv_next_task_seq :: u64

definition is_terminal_state :: "task_state \<Rightarrow> bool" where
  "is_terminal_state s \<longleftrightarrow> s \<in> {TaskStateCompleted, TaskStateFailed, TaskStateInterrupted}"

definition task_by_id :: "string \<Rightarrow> service \<Rightarrow> task option" where
  "task_by_id i s = (if i \<in> set (sv_tasks s) then gm_get (sv_objects s) i else None)"

definition put_task :: "task \<Rightarrow> service \<Rightarrow> service" where
  "put_task t s = s\<lparr>sv_objects := gm_put (tk_id t) t (sv_objects s)\<rparr>"

definition entry_of :: "task \<Rightarrow> service \<Rightarrow> start_entry option" where
  "entry_of t s = gm_get (sv_entries s) (tk_id t)"

definition put_entry :: "start_entry \<Rightarrow> service \<Rightarrow> service" where
  "put_entry e s = s\<lparr>sv_entries := gm_put (se_task_id e) e (sv_entries s)\<rparr>"

subsection \<open>Limits of a session (registry.go)\<close>

definition default_thread_binding_ttl :: duration where "default_thread_binding_ttl = 24 * 3600 * 10 ^ 9"
definition default_thread_binding_cap :: int where "default_thread_binding_cap = 1000"
definition default_replay_retention_ttl :: duration where "default_replay_retention_ttl = 30 * 60 * 10 ^ 9"
definition default_replay_retention_events :: int where "default_replay_retention_events = 2000"
definition default_replay_retention_bytes :: int where "default_replay_retention_bytes = 8 * 1024 * 1024"

definition binding_ttl :: "session_group \<Rightarrow> duration" where
  "binding_ttl g = (if sg_binding_ttl_millis g \<le> 0 then default_thread_binding_ttl
     else i64 (sg_binding_ttl_millis g * 1000000))"

definition binding_cap :: "session_group \<Rightarrow> int" where
  "binding_cap g = (if sg_max_bindings g \<le> 0 then default_thread_binding_cap else sg_max_bindings g)"

definition replay_retention_ttl :: "session_group \<Rightarrow> duration" where
  "replay_retention_ttl g = (if sg_replay_ttl_millis g \<le> 0 then default_replay_retention_ttl
     else i64 (sg_replay_ttl_millis g * 1000000))"

definition replay_retention_event_cap :: "session_group \<Rightarrow> int" where
  "replay_retention_event_cap g =
     (if sg_replay_max_events g \<le> 0 then default_replay_retention_events else sg_replay_max_events g)"

definition replay_retention_byte_cap :: "session_group \<Rightarrow> int" where
  "replay_retention_byte_cap g =
     (if sg_replay_max_bytes g \<le> 0 then default_replay_retention_bytes else sg_replay_max_bytes g)"

definition session_of :: "string \<Rightarrow> service \<Rightarrow> session_runtime option" where
  "session_of g s = gm_get (sv_sessions s) g"

definition replay_retention_ttl_of :: "string \<Rightarrow> service \<Rightarrow> duration" where
  "replay_retention_ttl_of g s = (case session_of g s of None \<Rightarrow> default_replay_retention_ttl
     | Some r \<Rightarrow> replay_retention_ttl (sr_group r))"

definition replay_retention_event_cap_of :: "string \<Rightarrow> service \<Rightarrow> int" where
  "replay_retention_event_cap_of g s = (case session_of g s of None \<Rightarrow> default_replay_retention_events
     | Some r \<Rightarrow> replay_retention_event_cap (sr_group r))"

definition replay_retention_byte_cap_of :: "string \<Rightarrow> service \<Rightarrow> int" where
  "replay_retention_byte_cap_of g s = (case session_of g s of None \<Rightarrow> default_replay_retention_bytes
     | Some r \<Rightarrow> replay_retention_byte_cap (sr_group r))"

definition binding_tombstone_ttl_of :: "string \<Rightarrow> service \<Rightarrow> duration" where
  "binding_tombstone_ttl_of g s = (case session_of g s of None \<Rightarrow> default_thread_binding_ttl
     | Some r \<Rightarrow> binding_ttl (sr_group r))"

lemma caps_pos: "0 < replay_retention_event_cap_of g s" "0 < replay_retention_byte_cap_of g s"
  by (simp_all add: replay_retention_event_cap_of_def replay_retention_byte_cap_of_def
      replay_retention_event_cap_def replay_retention_byte_cap_def default_replay_retention_events_def
      default_replay_retention_bytes_def split: option.split)

subsection \<open>Error values (errors.go)\<close>

definition task_error :: "gateway_error_code \<Rightarrow> gateway_error_reason \<Rightarrow> string \<Rightarrow> string \<Rightarrow> string \<Rightarrow> string \<Rightarrow> gateway_error" where
  "task_error c r msg g tid mid = \<lparr>ge_code = c, ge_details = no_details\<lparr>
     ed_reason := r, ed_display_message := msg, ed_session_group_id := g, ed_task_id := tid,
     ed_client_message_id := mid\<rparr>\<rparr>"

definition retryable :: "gateway_error \<Rightarrow> gateway_error" where
  "retryable e = e\<lparr>ge_details := (ge_details e)\<lparr>ed_retryable := True\<rparr>\<rparr>"

definition pending_error :: "gateway_error_code \<Rightarrow> gateway_error_reason \<Rightarrow> string \<Rightarrow> string \<Rightarrow> string \<Rightarrow> string \<Rightarrow> string \<Rightarrow> gateway_error" where
  "pending_error c r msg g tid pid rid = \<lparr>ge_code = c, ge_details = no_details\<lparr>
     ed_reason := r, ed_display_message := msg, ed_session_group_id := g, ed_task_id := tid,
     ed_pending_request_id := pid, ed_client_response_id := rid\<rparr>\<rparr>"

definition unknown_session :: "string \<Rightarrow> gateway_error" where
  "unknown_session g = task_error CodeNotFound ReasonUnknownSessionGroup ''unknown session group'' g [] []"

definition unknown_task :: "string \<Rightarrow> string \<Rightarrow> string \<Rightarrow> gateway_error" where
  "unknown_task g tid mid = task_error CodeNotFound ReasonUnknownTask ''unknown task'' g tid mid"

definition thread_error :: "gateway_error_code \<Rightarrow> gateway_error_reason \<Rightarrow> string \<Rightarrow> string \<Rightarrow> string \<Rightarrow> gateway_error" where
  "thread_error c r msg g th = \<lparr>ge_code = c, ge_details = no_details\<lparr>
     ed_reason := r, ed_display_message := msg, ed_session_group_id := g, ed_thread_id := th\<rparr>\<rparr>"

definition unknown_thread_binding :: "string \<Rightarrow> string \<Rightarrow> gateway_error" where
  "unknown_thread_binding g th = thread_error CodeNotFound ReasonUnknownThreadBinding ''unknown thread binding'' g th"

definition expired_thread_binding :: "string \<Rightarrow> string \<Rightarrow> gateway_error" where
  "expired_thread_binding g th = thread_error CodeNotFound ReasonThreadBindingExpired ''thread binding expired'' g th"

definition task_already_running :: "string \<Rightarrow> string \<Rightarrow> gateway_error" where
  "task_already_running g tid = task_error CodeFailedPrecondition ReasonAlreadyRunning
     ''a task is already running in this session group'' g tid []"

definition idempotency_mismatch :: "string \<Rightarrow> string \<Rightarrow> gateway_error" where
  "idempotency_mismatch g mid = task_error CodeFailedPrecondition ReasonIdempotencyFingerprintMismatch
     ''client_message_id was reused with different task input'' g [] mid"

definition workspace_mismatch :: "string \<Rightarrow> gateway_error" where
  "workspace_mismatch g = task_error CodeInvalidArgument ReasonWorkspaceMismatch
     ''workspace does not match session group'' g [] []"

definition start_interrupted_before_turn :: "task \<Rightarrow> gateway_error" where
  "start_interrupted_before_turn t = task_error CodeCanceled ReasonStartInterruptedBeforeTurn
     ''task was interrupted before turn start'' (tk_session_group_id t) (tk_id t) (tk_client_message_id t)"

definition auth_refresh_unavailable :: "task \<Rightarrow> gateway_error" where
  "auth_refresh_unavailable t = task_error CodeUnavailable ReasonAuthRefreshUnavailable
     ''auth refresh unavailable'' (tk_session_group_id t) (tk_id t) (tk_client_message_id t)"

definition protocol_mismatch :: "string \<Rightarrow> string \<Rightarrow> gateway_error" where
  "protocol_mismatch g tid = retryable (task_error CodeUnavailable ReasonDispatcherUnavailable
     ''app-server protocol mismatch'' g tid [])"

definition invalid_cursor :: "string \<Rightarrow> string \<Rightarrow> gateway_error" where
  "invalid_cursor g tid = task_error CodeInvalidArgument ReasonInvalidCursor ''invalid stream cursor'' g tid []"

definition ambiguous_locator :: "string \<Rightarrow> string \<Rightarrow> gateway_error" where
  "ambiguous_locator g th = thread_error CodeFailedPrecondition ReasonAmbiguousLocator ''task locator is ambiguous'' g th"

definition invalid_locator :: gateway_error where
  "invalid_locator = task_error CodeInvalidArgument ReasonInvalidLocator ''task locator is invalid'' [] [] []"

definition invalid_argument :: "string \<Rightarrow> string \<Rightarrow> gateway_error" where
  "invalid_argument g mid = task_error CodeInvalidArgument ReasonInvalidRequest ''start task request is invalid'' g [] mid"

definition caller_canceled :: "string \<Rightarrow> string \<Rightarrow> gateway_error" where
  "caller_canceled g mid = task_error CodeCanceled ReasonCallerCanceled ''caller canceled'' g [] mid"

definition caller_deadline :: "string \<Rightarrow> string \<Rightarrow> gateway_error" where
  "caller_deadline g mid = task_error CodeDeadlineExceeded ReasonCallerDeadlineExceeded ''caller deadline exceeded'' g [] mid"

definition invalid_context :: "string \<Rightarrow> string \<Rightarrow> string \<Rightarrow> gateway_error_reason \<Rightarrow> gateway_error" where
  "invalid_context g tid mid reason =
     task_error (if reason = ReasonRequestTooLarge then CodeResourceExhausted else CodeInvalidArgument)
       reason ''context envelope validation failed'' g tid mid"

definition unknown_pending_request :: "string \<Rightarrow> string \<Rightarrow> string \<Rightarrow> string \<Rightarrow> gateway_error" where
  "unknown_pending_request g tid pid rid =
     pending_error CodeNotFound ReasonUnknownPendingRequest ''unknown pending request'' g tid pid rid"

definition response_type_mismatch :: "string \<Rightarrow> string \<Rightarrow> string \<Rightarrow> string \<Rightarrow> gateway_error" where
  "response_type_mismatch g tid pid rid = pending_error CodeInvalidArgument ReasonResponseTypeMismatch
     ''pending response type does not match request'' g tid pid rid"

definition pending_response_fingerprint_mismatch :: "string \<Rightarrow> string \<Rightarrow> string \<Rightarrow> string \<Rightarrow> gateway_error" where
  "pending_response_fingerprint_mismatch g tid pid rid = pending_error CodeFailedPrecondition
     ReasonPendingResponseFingerprintMismatch ''pending response fingerprint mismatch'' g tid pid rid"

definition pending_request_already_resolved :: "string \<Rightarrow> string \<Rightarrow> string \<Rightarrow> string \<Rightarrow> gateway_error" where
  "pending_request_already_resolved g tid pid rid = pending_error CodeFailedPrecondition
     ReasonPendingRequestAlreadyResolved ''pending request is already resolved'' g tid pid rid"

definition invalid_pending_response :: "string \<Rightarrow> string \<Rightarrow> string \<Rightarrow> string \<Rightarrow> gateway_error" where
  "invalid_pending_response g tid pid rid = pending_error CodeInvalidArgument ReasonInvalidRequest
     ''pending response is invalid'' g tid pid rid"

definition dispatcher_unavailable :: "string \<Rightarrow> string \<Rightarrow> string \<Rightarrow> string \<Rightarrow> gateway_error" where
  "dispatcher_unavailable g tid pid rid = retryable (pending_error CodeUnavailable ReasonDispatcherUnavailable
     ''app-server call failed'' g tid pid rid)"

definition internal_error :: "string \<Rightarrow> string \<Rightarrow> string \<Rightarrow> gateway_error" where
  "internal_error g tid mid = task_error CodeInternal ReasonInternalGatewayError ''internal gateway error'' g tid mid"

definition safe_start_error :: "call_error \<Rightarrow> task option \<Rightarrow> call_error" where
  "safe_start_error err t = (case t of None \<Rightarrow> err | Some k \<Rightarrow>
     (case err of
        GatewayErr e \<Rightarrow> GatewayErr (e\<lparr>ge_details := (ge_details e)\<lparr>ed_task_id := tk_id k,
          ed_session_group_id := tk_session_group_id k, ed_client_message_id := tk_client_message_id k\<rparr>\<rparr>)
      | OtherErr \<Rightarrow> GatewayErr (retryable (task_error CodeUnavailable ReasonDispatcherUnavailable
          ''app-server call failed'' (tk_session_group_id k) (tk_id k) (tk_client_message_id k)))))"

definition safe_interrupt_error :: "call_error \<Rightarrow> string \<Rightarrow> string \<Rightarrow> gateway_error" where
  "safe_interrupt_error err g tid =
     (case err of
        GatewayErr e \<Rightarrow> e\<lparr>ge_details := (ge_details e)\<lparr>ed_task_id := tid, ed_session_group_id := g\<rparr>\<rparr>
      | OtherErr \<Rightarrow> retryable (task_error CodeUnavailable ReasonDispatcherUnavailable
          ''app-server call failed'' g tid []))"

text \<open>The new service.\<close>

definition new_session :: "session_group \<Rightarrow> session_runtime" where
  "new_session g = \<lparr>sr_group = g, sr_active_task_id = [], sr_bindings = []\<rparr>"

text \<open>\<open>NewService\<close> (the supervisor of a session is not part of the model): an empty or repeated
  group id is an error.\<close>

fun add_sessions :: "session_group list \<Rightarrow> (string, session_runtime) gomap \<Rightarrow> (string, session_runtime) gomap option" where
  "add_sessions [] m = Some m"
| "add_sessions (g # gs) m =
     (if sg_session_group_id g = [] \<or> gm_get m (sg_session_group_id g) \<noteq> None then None
      else add_sessions gs (gm_put (sg_session_group_id g) (new_session g) m))"

definition new_service :: "session_group list \<Rightarrow> service option" where
  "new_service gs = map_option (\<lambda>m. \<lparr>sv_sessions = m, sv_objects = [], sv_tasks = [], sv_entries = [],
     sv_idempotency = [], sv_bindings = [], sv_tombstones = [], sv_monitors = [],
     sv_resolved_requests = [], sv_connection_secrets = [], sv_next_task_seq = 0\<rparr>) (add_sessions gs [])"

end
