(* ===== verification/Task_Events.thy ===== *)
theory Task_Events
  imports Task_State
begin

text \<open>
  Events of a task (\<open>gateway/internal/tasks/stream.go\<close>): appending with the replay limits, replay
  from a cursor, subscribers and their publication, and the redacted streams of deltas.  The size
  of an event is the length of its JSON text, the clock readings and the regular expressions of the
  redactor are fields of the environment.
\<close>

text \<open>
  \<open>en_event_time tid n\<close> is what the clock says when event \<open>n\<close> of task \<open>tid\<close> is created,
  \<open>en_rules\<close> is what \<open>RedactString\<close> does to a text beyond the sensitive segments.
\<close>

record env =
  en_event_size :: "task_event \<Rightarrow> int"
  en_event_time :: "string \<Rightarrow> u64 \<Rightarrow> gtime"
  en_rules :: "string \<Rightarrow> string"

subsection \<open>Appending\<close>

fun enforce_replay_loop ::
  "env \<Rightarrow> int \<Rightarrow> int \<Rightarrow> task_event list \<Rightarrow> int \<Rightarrow> u64 \<Rightarrow> task_event list \<times> int \<times> u64" where
  "enforce_replay_loop e max_events max_bytes [] bytes evicted = ([], bytes, evicted)"
| "enforce_replay_loop e max_events max_bytes (ev # evs) bytes evicted =
     (if int (length (ev # evs)) > max_events \<or> length (ev # evs) > 1 \<and> bytes > max_bytes
      then enforce_replay_loop e max_events max_bytes evs
        (max 0 (i64 (bytes - en_event_size e ev))) (te_event_id ev)
      else (ev # evs, bytes, evicted))"

definition enforce_task_replay_limits :: "env \<Rightarrow> service \<Rightarrow> task \<Rightarrow> task" where
  "enforce_task_replay_limits e s t =
     (let (evs, bytes, evicted) = enforce_replay_loop e (replay_retention_event_cap_of (tk_session_group_id t) s)
          (replay_retention_byte_cap_of (tk_session_group_id t) s)
          (tk_events t) (tk_retained_event_bytes t) (tk_start_evicted_before t)
      in t\<lparr>tk_events := evs, tk_retained_event_bytes := bytes, tk_start_evicted_before := evicted\<rparr>)"

definition next_task_event :: "env \<Rightarrow> task_event_payload \<Rightarrow> task \<Rightarrow> task_event" where
  "next_task_event e payload t =
     (let n = tk_next_event_id t + 1 in
      \<lparr>te_event_id = n, te_task_id = tk_id t, te_session_group_id = tk_session_group_id t,
       te_workspace_id = tk_workspace_id t, te_thread_id = tk_thread_id t, te_turn_id = tk_turn_id t,
       te_created_at = unix_milli (en_event_time e (tk_id t) n), te_payload = payload\<rparr>)"

text \<open>The result of \<open>appendEventLocked\<close>: the event and the subscribers to send it to.\<close>

record publication =
  pb_event :: task_event
  pb_task_id :: string
  pb_subscribers :: "u64 list"
  pb_close_after :: bool

definition append_task_event :: "env \<Rightarrow> service \<Rightarrow> task_event_payload \<Rightarrow> task \<Rightarrow> publication \<times> task" where
  "append_task_event e s payload t =
     (let ev = next_task_event e payload t;
          t' = enforce_task_replay_limits e s (t\<lparr>tk_next_event_id := te_event_id ev, tk_events := tk_events t @ [ev],
                 tk_retained_event_bytes := i64 (tk_retained_event_bytes t + en_event_size e ev)\<rparr>)
      in (\<lparr>pb_event = ev, pb_task_id = tk_id t, pb_subscribers = tk_subscribers t', pb_close_after = False\<rparr>, t'))"

fun append_task_events :: "env \<Rightarrow> service \<Rightarrow> task_event_payload list \<Rightarrow> task \<Rightarrow> publication list \<times> task" where
  "append_task_events e s [] t = ([], t)"
| "append_task_events e s (p # ps) t =
     (let (pb, t) = append_task_event e s p t; (pbs, t) = append_task_events e s ps t in (pb # pbs, t))"

fun close_after_last :: "publication list \<Rightarrow> publication list" where
  "close_after_last [] = []"
| "close_after_last [p] = [p\<lparr>pb_close_after := True\<rparr>]"
| "close_after_last (p # q # ps) = p # close_after_last (q # ps)"

definition append_publications ::
  "env \<Rightarrow> service \<Rightarrow> task_event_payload list \<Rightarrow> bool \<Rightarrow> task \<Rightarrow> publication list \<times> task" where
  "append_publications e s payloads close_after t =
     (let (pbs, t) = append_task_events e s payloads t in ((if close_after then close_after_last pbs else pbs), t))"

subsection \<open>Replay\<close>

datatype stream_cursor = StreamCursorFromStart | StreamCursorAfterEventID u64 | StreamCursorUnknown

datatype replay_notice_code = ReplayNoticeStartEvicted | ReplayNoticeCursorEvicted

record replay_notice =
  rn_code :: replay_notice_code
  rn_message :: string
  rn_oldest_buffered_event_id :: u64
  rn_newest_buffered_event_id :: u64
  rn_from_start_available :: bool
  rn_start_evicted_before_event_id :: u64

datatype stream_message = StreamNotice string replay_notice | StreamEvent string task_event

definition replay_notice_message :: "replay_notice_code \<Rightarrow> string" where
  "replay_notice_message c = (case c of
     ReplayNoticeStartEvicted \<Rightarrow> ''the beginning of the task event log is no longer buffered''
   | ReplayNoticeCursorEvicted \<Rightarrow> ''the requested task event cursor is no longer buffered'')"

definition oldest_buffered_event_id :: "task_event list \<Rightarrow> u64" where
  "oldest_buffered_event_id evs = (if evs = [] then 0 else te_event_id (hd evs))"

definition newest_buffered_event_id :: "task_event list \<Rightarrow> u64" where
  "newest_buffered_event_id evs = (if evs = [] then 0 else te_event_id (last evs))"

definition replay_notice_of :: "task \<Rightarrow> replay_notice_code \<Rightarrow> stream_message" where
  "replay_notice_of t c = StreamNotice (tk_session_group_id t)
     \<lparr>rn_code = c, rn_message = replay_notice_message c,
      rn_oldest_buffered_event_id = oldest_buffered_event_id (tk_events t),
      rn_newest_buffered_event_id = newest_buffered_event_id (tk_events t),
      rn_from_start_available = (tk_start_evicted_before t = 0),
      rn_start_evicted_before_event_id = tk_start_evicted_before t\<rparr>"

definition event_messages :: "task_event list \<Rightarrow> stream_message list" where
  "event_messages evs = map (\<lambda>ev. StreamEvent (te_session_group_id ev) ev) evs"

definition replay_messages :: "task \<Rightarrow> stream_cursor \<Rightarrow> stream_message list result" where
  "replay_messages t c =
     (case c of
        StreamCursorFromStart \<Rightarrow>
          Inr ((if tk_start_evicted_before t \<noteq> 0 then [replay_notice_of t ReplayNoticeStartEvicted] else []) @
               event_messages (tk_events t))
      | StreamCursorAfterEventID n \<Rightarrow>
          if n > tk_next_event_id t then Inl (invalid_cursor (tk_session_group_id t) (tk_id t))
          else if tk_events t \<noteq> [] \<and> n < te_event_id (hd (tk_events t))
          then Inr (replay_notice_of t ReplayNoticeCursorEvicted # event_messages (tk_events t))
          else Inr (event_messages (filter (\<lambda>ev. te_event_id ev > n) (tk_events t)))
      | StreamCursorUnknown \<Rightarrow> Inl (invalid_cursor (tk_session_group_id t) (tk_id t)))"

subsection \<open>Subscribers\<close>

definition stream_subscriber_queue :: nat where "stream_subscriber_queue = 256"

definition subscribe_task :: "stream_cursor \<Rightarrow> task \<Rightarrow> (stream_message list \<times> u64 option) result \<times> task" where
  "subscribe_task c t =
     (case replay_messages t c of Inl err \<Rightarrow> (Inl err, t) | Inr messages \<Rightarrow>
      if is_terminal_state (tk_state t) then (Inr (messages, None), t)
      else let i = tk_next_subscriber_id t + 1 in
        (Inr (messages, Some i),
         t\<lparr>tk_next_subscriber_id := i, tk_subscribers := List.insert i (tk_subscribers t),
           tk_channels := gm_put i \<lparr>ts_queue = [], ts_closed = False\<rparr> (tk_channels t)\<rparr>))"

definition unsubscribe_task :: "string \<Rightarrow> u64 \<Rightarrow> service \<Rightarrow> service" where
  "unsubscribe_task tid i s =
     (if i = 0 then s else case task_by_id tid s of None \<Rightarrow> s
      | Some t \<Rightarrow> put_task (t\<lparr>tk_subscribers := removeAll i (tk_subscribers t)\<rparr>) s)"

text \<open>\<open>send\<close>: \<open>False\<close> when the subscriber is closed, or full and closed now.\<close>

definition subscriber_send :: "task_event \<Rightarrow> task_subscriber \<Rightarrow> bool \<times> task_subscriber" where
  "subscriber_send ev c =
     (if ts_closed c then (False, c)
      else if length (ts_queue c) < stream_subscriber_queue then (True, c\<lparr>ts_queue := ts_queue c @ [ev]\<rparr>)
      else (False, c\<lparr>ts_closed := True\<rparr>))"

definition subscriber_close :: "task_subscriber \<Rightarrow> task_subscriber" where
  "subscriber_close c = c\<lparr>ts_closed := True\<rparr>"

text \<open>
  One turn of the loop of \<open>publishEvent\<close>, on the task object (the subscriber's own lock makes the
  send atomic).  \<open>retained\<close> says whether the task is still in the service's map, without which the
  subscriber is not removed.
\<close>

definition publish_to :: "bool \<Rightarrow> task_event \<Rightarrow> bool \<Rightarrow> u64 \<Rightarrow> task \<Rightarrow> task" where
  "publish_to retained ev close_after i t =
     (case gm_get (tk_channels t) i of None \<Rightarrow> t | Some c \<Rightarrow>
      let (sent, c') = subscriber_send ev c in
      if \<not> sent then t\<lparr>tk_channels := gm_put i c' (tk_channels t),
             tk_subscribers := (if retained then removeAll i (tk_subscribers t) else tk_subscribers t)\<rparr>
      else t\<lparr>tk_channels := gm_put i (if close_after then subscriber_close c' else c') (tk_channels t)\<rparr>)"

definition publish_task_event :: "publication \<Rightarrow> service \<Rightarrow> service" where
  "publish_task_event p s =
     (if te_event_id (pb_event p) = 0 then s
      else case gm_get (sv_objects s) (pb_task_id p) of None \<Rightarrow> s | Some t \<Rightarrow>
        put_task (fold (publish_to (pb_task_id p \<in> set (sv_tasks s)) (pb_event p) (pb_close_after p)) (pb_subscribers p) t) s)"

text \<open>The reader of a stream: a receive from the subscriber's channel.\<close>

definition receive_task_event :: "string \<Rightarrow> u64 \<Rightarrow> service \<Rightarrow> task_event option \<times> service" where
  "receive_task_event tid i s =
     (case gm_get (sv_objects s) tid of None \<Rightarrow> (None, s) | Some t \<Rightarrow>
      case gm_get (tk_channels t) i of None \<Rightarrow> (None, s) | Some c \<Rightarrow>
      case ts_queue c of [] \<Rightarrow> (None, s)
      | ev # evs \<Rightarrow> (Some ev, put_task (t\<lparr>tk_channels := gm_put i (c\<lparr>ts_queue := evs\<rparr>) (tk_channels t)\<rparr>) s))"

subsection \<open>Redacted streams\<close>

definition max_outbound_assistant_text_bytes :: int where "max_outbound_assistant_text_bytes = 32 * 1024"
definition max_outbound_command_output_delta_bytes :: int where "max_outbound_command_output_delta_bytes = 32 * 1024"

definition connection_secrets :: "conn \<Rightarrow> service \<Rightarrow> registry" where
  "connection_secrets c s = (case gm_get (sv_connection_secrets s) c of None \<Rightarrow> new_registry | Some r \<Rightarrow> r)"

text \<open>The redactor that a stream captured: the task's registry and that of the connection.\<close>

definition scoped_redactor :: "service \<Rightarrow> task \<Rightarrow> conn option \<Rightarrow> redactor" where
  "scoped_redactor s t c =
     \<lparr>rd_task = Some (tk_sensitive t), rd_connection = map_option (\<lambda>c. connection_secrets c s) c\<rparr>"

text \<open>
  \<open>publicTextWithTruncationAndRedactor\<close> with the redactor of the task: the text is redacted,
  then cut to \<open>max_bytes\<close> at the end of a character.
\<close>

definition task_redactor :: "service \<Rightarrow> task \<Rightarrow> redactor" where
  "task_redactor s t = scoped_redactor s t (tk_connection t)"

definition redact_string :: "env \<Rightarrow> redactor \<Rightarrow> string \<Rightarrow> string" where
  "redact_string e r text =
     (if text = [] then [] else en_rules e (redact_segments_longest_first text (sensitive_segments r)))"

definition public_text_truncated :: "env \<Rightarrow> redactor \<Rightarrow> string \<Rightarrow> int \<Rightarrow> string \<times> bool" where
  "public_text_truncated e r v max_bytes = truncate_utf8_bytes (redact_string e r v) max_bytes"

definition public_text :: "env \<Rightarrow> redactor \<Rightarrow> string \<Rightarrow> int \<Rightarrow> string \<Rightarrow> string" where
  "public_text e r v max_bytes fallback =
     (let text = fst (public_text_truncated e r v max_bytes) in if text = [] then fallback else text)"

definition write_stream_delta :: "env \<Rightarrow> service \<Rightarrow> task_stream_key \<Rightarrow> string \<Rightarrow> int \<Rightarrow> task \<Rightarrow> (string \<times> bool) \<times> task" where
  "write_stream_delta e s key v max_bytes t =
     (if v = [] then (([], False), t)
      else let (st, c) = (case gm_get (tk_streams t) key of None \<Rightarrow> (new_stream, tk_connection t) | Some x \<Rightarrow> x);
          r = scoped_redactor s t c;
          (out, st') = stream_write (sensitive_segments r) (longest_sensitive_segment_bytes r) v st
        in (truncate_utf8_bytes (render (en_rules e) out) max_bytes,
            t\<lparr>tk_streams := gm_put key (st', c) (tk_streams t)\<rparr>))"

definition flush_stream_payload :: "env \<Rightarrow> service \<Rightarrow> task \<Rightarrow> task_stream_key \<Rightarrow> stream \<times> conn option \<Rightarrow> task_event_payload list" where
  "flush_stream_payload e s t key x =
     (let delta = render (en_rules e) (fst (stream_flush (sensitive_segments (scoped_redactor s t (snd x))) (fst x))) in
      if delta = [] then []
      else case tsk_kind key of
          AssistantDeltaStream \<Rightarrow>
            let (text, truncated) = truncate_utf8_bytes delta max_outbound_assistant_text_bytes in
            if text = [] then [] else [AssistantDelta \<lparr>ad_text_delta = text, ad_truncated = truncated\<rparr>]
        | CommandOutputStream \<Rightarrow>
            let (text, truncated) = truncate_utf8_bytes delta max_outbound_command_output_delta_bytes in
            if text = [] then []
            else [CommandOutputDelta \<lparr>co_item_id = tsk_item_id key, co_delta = text, co_truncated = truncated\<rparr>])"

definition stream_kind_rank :: "task_stream_kind \<Rightarrow> nat" where
  "stream_kind_rank k = (case k of AssistantDeltaStream \<Rightarrow> 0 | CommandOutputStream \<Rightarrow> 1)"

definition sorted_streams :: "(task_stream_key, stream \<times> conn option) gomap \<Rightarrow> (task_stream_key, stream \<times> conn option) gomap" where
  "sorted_streams m = sort_key (\<lambda>kv. (tsk_item_id (fst kv), stream_kind_rank (tsk_kind (fst kv)))) m"

definition flush_item_streams :: "env \<Rightarrow> service \<Rightarrow> string \<Rightarrow> task \<Rightarrow> task_event_payload list \<times> task" where
  "flush_item_streams e s item t =
     (concat (map (\<lambda>(k, x). flush_stream_payload e s t k x)
        (filter (\<lambda>kv. tsk_item_id (fst kv) = item) (sorted_streams (tk_streams t)))),
      t\<lparr>tk_streams := filter (\<lambda>kv. tsk_item_id (fst kv) \<noteq> item) (tk_streams t)\<rparr>)"

definition flush_task_streams :: "env \<Rightarrow> service \<Rightarrow> task \<Rightarrow> task_event_payload list \<times> task" where
  "flush_task_streams e s t =
     (concat (map (\<lambda>(k, x). flush_stream_payload e s t k x) (sorted_streams (tk_streams t))),
      t\<lparr>tk_streams := []\<rparr>)"

end
