(* ===== verification/Task_Service.thy ===== *)
theory Task_Service
  imports Task_Events
begin

text \<open>
  The operations of the task service (\<open>gateway/internal/tasks/service.go\<close>, \<open>registry.go\<close> and
  \<open>interrupt.go\<close>).  A locked section is a function on the service; the events it appended are
  returned as publications, which the code sends to the subscribers after it released the lock
  (\<open>publish_task_event\<close>).  Clock readings are arguments, in the order of the calls; \<open>tc k\<close> is
  the k-th of a loop.
\<close>

subsection \<open>Bindings of threads\<close>

definition set_session :: "string \<Rightarrow> session_runtime \<Rightarrow> service \<Rightarrow> service" where
  "set_session g r s = s\<lparr>sv_sessions := gm_put g r (sv_sessions s)\<rparr>"

definition tombstone_count :: "string \<Rightarrow> (string \<times> string, binding_tombstone) gomap \<Rightarrow> nat" where
  "tombstone_count g m = length (filter (\<lambda>kv. bt_session_group_id (snd kv) = g) m)"

text \<open>The oldest by a strict comparison: the first of the least ones, in iteration order.\<close>

fun oldest_by :: "('a \<Rightarrow> int) \<Rightarrow> 'a list \<Rightarrow> 'a option" where
  "oldest_by f [] = None"
| "oldest_by f (x # xs) = (case oldest_by f xs of None \<Rightarrow> Some x
     | Some y \<Rightarrow> if f y < f x then Some y else Some x)"

lemma oldest_by_in: "oldest_by f xs = Some x \<Longrightarrow> x \<in> set xs"
  by (induction xs arbitrary: x) (auto split: option.splits if_splits)

lemma oldest_by_None [simp]: "oldest_by f xs = None \<longleftrightarrow> xs = []"
  by (cases xs) (auto split: option.split)

definition oldest_tombstone :: "string \<Rightarrow> (string \<times> string, binding_tombstone) gomap \<Rightarrow> (string \<times> string) option" where
  "oldest_tombstone g m = map_option fst (oldest_by (\<lambda>kv. bt_created_at (snd kv))
     (filter (\<lambda>kv. bt_session_group_id (snd kv) = g) m))"

lemma gm_del_shorter: "k \<in> fst ` set m \<Longrightarrow> length (gm_del k m) < length m"
  by (induction m) (auto intro: le_imp_less_Suc length_gm_del_le split: if_splits)

lemma oldest_tombstone_shorter: "oldest_tombstone g m = Some k \<Longrightarrow> length (gm_del k m) < length m"
  by (rule gm_del_shorter) (force simp: oldest_tombstone_def dest!: oldest_by_in)

function enforce_tombstone_cap :: "string \<Rightarrow> int \<Rightarrow> (string \<times> string, binding_tombstone) gomap \<Rightarrow>
    (string \<times> string, binding_tombstone) gomap" where
  "enforce_tombstone_cap g cap m =
     (if int (tombstone_count g m) > cap
      then case oldest_tombstone g m of None \<Rightarrow> m | Some k \<Rightarrow> enforce_tombstone_cap g cap (gm_del k m)
      else m)"
  by pat_completeness auto

termination
  by (relation "measure (\<lambda>(g, cap, m). length m)") (auto intro: oldest_tombstone_shorter)

declare enforce_tombstone_cap.simps [simp del]

definition tombstone_cap :: "string \<Rightarrow> service \<Rightarrow> int" where
  "tombstone_cap g s = (case session_of g s of None \<Rightarrow> default_thread_binding_cap | Some r \<Rightarrow> binding_cap (sr_group r))"

definition cleanup_binding_tombstones :: "gtime \<Rightarrow> service \<Rightarrow> service" where
  "cleanup_binding_tombstones now s =
     (let m = filter (\<lambda>kv. \<not> now > bt_expires_at (snd kv)) (sv_tombstones s) in
      s\<lparr>sv_tombstones := fold (\<lambda>g. enforce_tombstone_cap g (tombstone_cap g s)) (map fst (sv_sessions s)) m\<rparr>)"

definition tombstone_binding :: "gtime \<Rightarrow> gtime \<Rightarrow> thread_binding \<Rightarrow> service \<Rightarrow> service" where
  "tombstone_binding t1 t2 b s =
     cleanup_binding_tombstones t2 (s\<lparr>sv_tombstones := gm_put (tb_session_group_id b, tb_thread_id b)
       \<lparr>bt_thread_id = tb_thread_id b, bt_session_group_id = tb_session_group_id b,
        bt_workspace_id = tb_workspace_id b, bt_created_at = t1,
        bt_expires_at = t1 + binding_tombstone_ttl_of (tb_session_group_id b) s\<rparr> (sv_tombstones s)\<rparr>)"

definition remove_binding :: "gtime \<Rightarrow> gtime \<Rightarrow> thread_binding \<Rightarrow> service \<Rightarrow> service" where
  "remove_binding t1 t2 b s =
     (let s = tombstone_binding t1 t2 b s;
          s = s\<lparr>sv_bindings := gm_del (tb_session_group_id b, tb_thread_id b) (sv_bindings s)\<rparr> in
      case session_of (tb_session_group_id b) s of None \<Rightarrow> s
      | Some r \<Rightarrow> set_session (tb_session_group_id b)
          (r\<lparr>sr_bindings := removeAll (tb_thread_id b) (sr_bindings r)\<rparr>) s)"

definition binding_tombstone_matches :: "gtime \<Rightarrow> string \<Rightarrow> string \<Rightarrow> string \<Rightarrow> service \<Rightarrow> bool \<times> service" where
  "binding_tombstone_matches now g w th s =
     (case gm_get (sv_tombstones s) (g, th) of None \<Rightarrow> (False, s) | Some b \<Rightarrow>
      if bt_session_group_id b \<noteq> g \<or> bt_workspace_id b \<noteq> w then (False, s)
      else if now > bt_expires_at b then (False, s\<lparr>sv_tombstones := gm_del (g, th) (sv_tombstones s)\<rparr>)
      else (True, s))"

definition binding_is_active :: "thread_binding \<Rightarrow> service \<Rightarrow> bool" where
  "binding_is_active b s =
     (case session_of (tb_session_group_id b) s of None \<Rightarrow> False | Some r \<Rightarrow>
      sr_active_task_id r \<noteq> [] \<and>
      (case task_by_id (sr_active_task_id r) s of None \<Rightarrow> False
       | Some t \<Rightarrow> tk_thread_id t = tb_thread_id b \<and> \<not> is_terminal_state (tk_state t)))"

text \<open>The bindings of a session: its thread ids looked up in the service's map (the same objects).\<close>

definition session_bindings :: "string \<Rightarrow> service \<Rightarrow> thread_binding list" where
  "session_bindings g s = (case session_of g s of None \<Rightarrow> []
     | Some r \<Rightarrow> List.map_filter (\<lambda>th. gm_get (sv_bindings s) (g, th)) (sr_bindings r))"

definition oldest_inactive_binding :: "string \<Rightarrow> service \<Rightarrow> thread_binding option" where
  "oldest_inactive_binding g s =
     oldest_by tb_created_at (filter (\<lambda>b. \<not> binding_is_active b s) (session_bindings g s))"

text \<open>
  The loop of \<open>enforceBindingCapLocked\<close>; a turn removes a binding, so as many turns as there are
  bindings at the start are enough.
\<close>

fun enforce_binding_cap_loop :: "nat \<Rightarrow> (nat \<Rightarrow> gtime) \<Rightarrow> string \<Rightarrow> service \<Rightarrow> service" where
  "enforce_binding_cap_loop 0 tc g s = s"
| "enforce_binding_cap_loop (Suc n) tc g s =
     (case session_of g s of None \<Rightarrow> s | Some r \<Rightarrow>
      if int (length (sr_bindings r)) > binding_cap (sr_group r)
      then case oldest_inactive_binding g s of None \<Rightarrow> s
        | Some b \<Rightarrow> enforce_binding_cap_loop n (\<lambda>k. tc (k + 2)) g (remove_binding (tc 0) (tc 1) b s)
      else s)"

definition enforce_binding_cap :: "(nat \<Rightarrow> gtime) \<Rightarrow> string \<Rightarrow> service \<Rightarrow> service" where
  "enforce_binding_cap tc g s = (case session_of g s of None \<Rightarrow> s
     | Some r \<Rightarrow> enforce_binding_cap_loop (length (sr_bindings r)) tc g s)"

definition upsert_thread_binding :: "gtime \<Rightarrow> (nat \<Rightarrow> gtime) \<Rightarrow> string \<Rightarrow> string \<Rightarrow> string \<Rightarrow> service \<Rightarrow> bool \<times> service" where
  "upsert_thread_binding now tc g th tid s =
     (case session_of g s of None \<Rightarrow> (False, s) | Some r \<Rightarrow>
      let key = (g, th); ttl = binding_ttl (sr_group r); created = (gm_get (sv_bindings s) key = None);
          b = (case gm_get (sv_bindings s) key of Some b \<Rightarrow> b
               | None \<Rightarrow> \<lparr>tb_thread_id = th, tb_session_group_id = g, tb_workspace_id = sg_workspace_id (sr_group r),
                   tb_task_id = [], tb_created_at = now, tb_expires_at = 0\<rparr>);
          s = (if created
               then (set_session g (r\<lparr>sr_bindings := List.insert th (sr_bindings r)\<rparr>) s)
                      \<lparr>sv_tombstones := gm_del key (sv_tombstones s)\<rparr>
               else s);
          s = s\<lparr>sv_bindings := gm_put key (b\<lparr>tb_task_id := tid, tb_expires_at := now + ttl\<rparr>) (sv_bindings s)\<rparr>
      in (created, enforce_binding_cap tc g s))"

definition remove_thread_binding_if_created ::
  "gtime \<Rightarrow> gtime \<Rightarrow> string \<Rightarrow> string \<Rightarrow> bool \<Rightarrow> service \<Rightarrow> service" where
  "remove_thread_binding_if_created t1 t2 tid th created s =
     (if \<not> created \<or> th = [] then s else case task_by_id tid s of None \<Rightarrow> s | Some t \<Rightarrow>
      case gm_get (sv_bindings s) (tk_session_group_id t, th) of None \<Rightarrow> s | Some b \<Rightarrow>
      if tb_task_id b = tid then remove_binding t1 t2 b s else s)"

subsection \<open>Retention\<close>

definition task_retained_at :: "task \<Rightarrow> gtime" where
  "task_retained_at t = (case tk_terminal_at t of None \<Rightarrow> tk_created_at t | Some x \<Rightarrow> x)"

definition task_expired :: "gtime \<Rightarrow> service \<Rightarrow> string \<Rightarrow> bool" where
  "task_expired now s tid = (case gm_get (sv_objects s) tid of None \<Rightarrow> False | Some t \<Rightarrow>
     is_terminal_state (tk_state t) \<and>
     now > task_retained_at t + replay_retention_ttl_of (tk_session_group_id t) s)"

definition entry_expired :: "gtime \<Rightarrow> service \<Rightarrow> start_key \<Rightarrow> string \<Rightarrow> bool" where
  "entry_expired now s k tid = (case gm_get (sv_entries s) tid of None \<Rightarrow> False | Some en \<Rightarrow>
     se_state en \<noteq> StartEntryPending \<and> se_task_id en \<notin> set (sv_tasks s) \<and>
     now > se_updated_at en + replay_retention_ttl_of (ik_session_group_id k) s)"

definition drop_expired_tasks :: "gtime \<Rightarrow> service \<Rightarrow> service" where
  "drop_expired_tasks now s =
     (let dropped = filter (task_expired now s) (sv_tasks s);
          keys = List.map_filter (\<lambda>tid. map_option se_key (gm_get (sv_entries s) tid)) dropped in
      s\<lparr>sv_tasks := filter (\<lambda>tid. \<not> task_expired now s tid) (sv_tasks s),
        sv_idempotency := filter (\<lambda>kv. fst kv \<notin> set keys) (sv_idempotency s)\<rparr>)"

definition drop_expired_entries :: "gtime \<Rightarrow> service \<Rightarrow> service" where
  "drop_expired_entries now s =
     s\<lparr>sv_idempotency := filter (\<lambda>kv. \<not> entry_expired now s (fst kv) (snd kv)) (sv_idempotency s)\<rparr>"

definition cleanup_retained :: "gtime \<Rightarrow> gtime \<Rightarrow> service \<Rightarrow> service" where
  "cleanup_retained t1 t2 s = cleanup_binding_tombstones t2 (drop_expired_entries t1 (drop_expired_tasks t1 s))"

definition verify_thread_binding ::
  "gtime \<Rightarrow> gtime \<Rightarrow> gtime \<Rightarrow> gtime \<Rightarrow> gtime \<Rightarrow> string \<Rightarrow> string \<Rightarrow> string \<Rightarrow> service \<Rightarrow> unit result \<times> service" where
  "verify_thread_binding t1 t2 t3 t4 t5 g w th s =
     (let s = cleanup_retained t1 t2 s in
      case gm_get (sv_bindings s) (g, th) of
        None \<Rightarrow> (let (m, s) = binding_tombstone_matches t3 g w th s in
          (Inl (if m then expired_thread_binding g th else unknown_thread_binding g th), s))
      | Some b \<Rightarrow>
          if tb_session_group_id b \<noteq> g \<or> tb_workspace_id b \<noteq> w then (Inl (unknown_thread_binding g th), s)
          else if t3 > tb_expires_at b then (Inl (expired_thread_binding g th), remove_binding t4 t5 b s)
          else (Inr (), s))"

subsection \<open>Starting a task\<close>

record start_task_command =
  stc_session_group_id :: string
  stc_workspace_id :: string
  stc_client_message_id :: string
  stc_thread_id :: string
  stc_prompt :: string
  stc_context_blocks :: "context_block list"

text \<open>\<open>envelope\<close> is \<open>contextpack.BuildEnvelope\<close>: the text, or the reason of its validation error.\<close>

definition prepare_start ::
  "(string \<Rightarrow> context_block list \<Rightarrow> gateway_error_reason + string) \<Rightarrow> start_task_command \<Rightarrow> service \<Rightarrow>
    (start_task_command \<times> string) result" where
  "prepare_start envelope c s =
     (case session_of (stc_session_group_id c) s of None \<Rightarrow> Inl (unknown_session (stc_session_group_id c))
      | Some r \<Rightarrow>
          if stc_workspace_id c \<noteq> [] \<and> stc_workspace_id c \<noteq> sg_workspace_id (sr_group r)
          then Inl (workspace_mismatch (stc_session_group_id c))
          else case envelope (stc_prompt c) (stc_context_blocks c) of
              Inl reason \<Rightarrow> Inl (invalid_context (stc_session_group_id c) [] (stc_client_message_id c) reason)
            | Inr text \<Rightarrow> Inr (c\<lparr>stc_workspace_id := sg_workspace_id (sr_group r)\<rparr>, text))"

definition next_task_id :: "service \<Rightarrow> string \<times> service" where
  "next_task_id s = (''task-'' @ strconv_uint (sv_next_task_seq s + 1), s\<lparr>sv_next_task_seq := sv_next_task_seq s + 1\<rparr>)"

definition no_start_response :: start_task_response where
  "no_start_response = \<lparr>sp_task_id = [], sp_thread_id = [], sp_turn_id = [], sp_session_group_id = [],
     sp_state = None, sp_last_event_id = 0\<rparr>"

definition command_key :: "start_task_command \<Rightarrow> start_key" where
  "command_key c = \<lparr>ik_session_group_id = stc_session_group_id c, ik_client_message_id = stc_client_message_id c\<rparr>"

definition new_start_entry :: "gtime \<Rightarrow> string \<Rightarrow> start_task_command \<Rightarrow> string \<Rightarrow> start_entry" where
  "new_start_entry now fp c tid = \<lparr>se_key = command_key c, se_fingerprint = fp, se_task_id = tid,
     se_state = StartEntryPending, se_promise = \<lparr>pm_closes = 0, pm_result = no_start_response, pm_err = None\<rparr>,
     se_result = no_start_response, se_err = None, se_updated_at = now\<rparr>"

definition new_task :: "gtime \<Rightarrow> start_task_command \<Rightarrow> string \<Rightarrow> task" where
  "new_task now c tid = \<lparr>tk_id = tid, tk_session_group_id = stc_session_group_id c,
     tk_workspace_id = stc_workspace_id c, tk_client_message_id = stc_client_message_id c,
     tk_thread_id = [], tk_turn_id = [], tk_state = TaskStateStarting, tk_phase = PhaseClaimed,
     tk_connection = None, tk_connection_cancel = False, tk_sensitive = new_registry,
     tk_cancel_before_turn = False, tk_interrupt_sent = False, tk_pre_interrupt_state = None,
     tk_terminal = None, tk_created_at = now, tk_terminal_at = None, tk_next_event_id = 0, tk_events = [],
     tk_retained_event_bytes = 0, tk_start_evicted_before = 0,
     tk_deferred_unsupported_warnings = 0, tk_deferred_unsupported_method = [],
     tk_deferred_unsupported_multiple = False, tk_deferred_unsupported_overflow = False,
     tk_pending = new_manager, tk_item_bindings = [], tk_file_diffs = [], tk_streams = [],
     tk_subscribers = [], tk_next_subscriber_id = 0, tk_channels = []\<rparr>"

abbreviation lifecycle :: "task_lifecycle_event_type \<Rightarrow> task_state \<Rightarrow> string \<Rightarrow> task_event_payload" where
  "lifecycle l st reason \<equiv> TaskLifecycle \<lparr>tl_lifecycle_event = l, tl_state = st, tl_reason_code = reason, tl_display_message = []\<rparr>"

text \<open>The result: the task id of the promise to wait for, and whether this call claimed the start.\<close>

definition claim_start ::
  "env \<Rightarrow> gtime \<Rightarrow> gtime \<Rightarrow> gtime \<Rightarrow> start_task_command \<Rightarrow> string \<Rightarrow> service \<Rightarrow> (string \<times> bool) result \<times> service" where
  "claim_start e t1 t2 t3 c fp s =
     (let g = stc_session_group_id c in
      case session_of g s of None \<Rightarrow> (Inl (unknown_session g), s) | Some r \<Rightarrow>
      let s = cleanup_retained t1 t2 s; key = command_key c in
      case gm_get (sv_idempotency s) key of
        Some tid \<Rightarrow>
          (case gm_get (sv_entries s) tid of None \<Rightarrow> (Inl (internal_error g tid (stc_client_message_id c)), s)
           | Some en \<Rightarrow>
              if se_fingerprint en \<noteq> fp then (Inl (idempotency_mismatch g (stc_client_message_id c)), s)
              else (Inr (tid, False), s))
      | None \<Rightarrow>
          if sr_active_task_id r \<noteq> [] then (Inl (task_already_running g (sr_active_task_id r)), s)
          else let (tid, s) = next_task_id s;
              (pb, t) = append_task_event e s (lifecycle LifecycleTaskStarted TaskStateStarting []) (new_task t3 c tid);
              s = put_entry (new_start_entry t3 fp c tid) (put_task t s);
              s = s\<lparr>sv_tasks := List.insert tid (sv_tasks s), sv_idempotency := gm_put key tid (sv_idempotency s)\<rparr>;
              s = set_session g (r\<lparr>sr_active_task_id := tid\<rparr>) s
            in (Inr (tid, True), s))"


definition start_snapshot :: "start_task_command \<Rightarrow> service \<Rightarrow> string result" where
  "start_snapshot c s =
     (let g = stc_session_group_id c in
      case session_of g s of None \<Rightarrow> Inl (unknown_session g) | Some r \<Rightarrow>
      case gm_get (sv_idempotency s) (command_key c) of None \<Rightarrow> Inl (internal_error g [] []) | Some tid \<Rightarrow>
      case task_by_id tid s of None \<Rightarrow> Inl (internal_error g tid (stc_client_message_id c)) | Some t \<Rightarrow> Inr tid)"

text \<open>A change of a task that the map \<open>s.tasks\<close> still holds.\<close>

definition on_task :: "string \<Rightarrow> (task \<Rightarrow> task) \<Rightarrow> service \<Rightarrow> service" where
  "on_task tid f s = (case task_by_id tid s of None \<Rightarrow> s | Some t \<Rightarrow> put_task (f t) s)"

definition set_task_connection :: "string \<Rightarrow> conn \<Rightarrow> service \<Rightarrow> service" where
  "set_task_connection tid c = on_task tid (\<lambda>t. t\<lparr>tk_connection := Some c\<rparr>)"

definition set_task_phase :: "string \<Rightarrow> start_phase \<Rightarrow> service \<Rightarrow> service" where
  "set_task_phase tid p = on_task tid (\<lambda>t. if is_terminal_state (tk_state t) then t else t\<lparr>tk_phase := p\<rparr>)"

definition cancel_requested_before_thread :: "string \<Rightarrow> service \<Rightarrow> bool" where
  "cancel_requested_before_thread tid s = (case task_by_id tid s of None \<Rightarrow> False
     | Some t \<Rightarrow> tk_cancel_before_turn t \<and> tk_thread_id t = [])"

definition register_connection_cancel :: "string \<Rightarrow> service \<Rightarrow> bool \<times> service" where
  "register_connection_cancel tid s =
     (if task_by_id tid s = None then (False, s)
      else if cancel_requested_before_thread tid s then (True, s)
      else (False, on_task tid (\<lambda>t. t\<lparr>tk_connection_cancel := True\<rparr>) s))"

definition clear_connection_cancel :: "string \<Rightarrow> service \<Rightarrow> service" where
  "clear_connection_cancel tid = on_task tid (\<lambda>t. t\<lparr>tk_connection_cancel := False\<rparr>)"

definition cancel_requested_before_turn :: "string \<Rightarrow> service \<Rightarrow> bool \<times> service" where
  "cancel_requested_before_turn tid s = (case task_by_id tid s of None \<Rightarrow> (False, s)
     | Some t \<Rightarrow> (tk_cancel_before_turn t, on_task tid (\<lambda>t. t\<lparr>tk_phase := PhaseBeforeTurn\<rparr>) s))"

definition confirm_thread_started :: "env \<Rightarrow> string \<Rightarrow> string \<Rightarrow> service \<Rightarrow> publication list \<times> service" where
  "confirm_thread_started e tid th s =
     (case task_by_id tid s of None \<Rightarrow> ([], s) | Some t \<Rightarrow>
      if tk_thread_id t = [] \<and> \<not> is_terminal_state (tk_state t)
      then let (pb, t) = append_task_event e s (lifecycle LifecycleThreadStarted (tk_state t) []) (t\<lparr>tk_thread_id := th\<rparr>)
        in ([pb], put_task t s)
      else ([], s))"

definition status_start_response :: "task \<Rightarrow> start_task_response" where
  "status_start_response t = \<lparr>sp_task_id = tk_id t, sp_thread_id = tk_thread_id t, sp_turn_id = tk_turn_id t,
     sp_session_group_id = tk_session_group_id t, sp_state = Some (tk_state t), sp_last_event_id = tk_next_event_id t\<rparr>"

text \<open>The result: the response, and whether to send an interrupt now, on which connection.\<close>

definition confirm_turn_started_once ::
  "env \<Rightarrow> string \<Rightarrow> string \<Rightarrow> service \<Rightarrow> (start_task_response \<times> bool \<times> conn option) \<times> publication list \<times> service" where
  "confirm_turn_started_once e tid turn s =
     (case task_by_id tid s of None \<Rightarrow> ((no_start_response, False, None), [], s) | Some t \<Rightarrow>
      if tk_turn_id t \<noteq> []
      then (if tk_turn_id t \<noteq> turn then ((no_start_response, False, None), [], s)
            else ((status_start_response t, False, None), [], s))
      else let t = t\<lparr>tk_turn_id := turn\<rparr> in
      if tk_cancel_before_turn t
      then let t = t\<lparr>tk_pre_interrupt_state := Some TaskStateRunning, tk_state := TaskStateInterrupting,
                    tk_phase := PhaseStarted\<rparr> in
        if \<not> tk_interrupt_sent t
        then let (pb, t) = append_task_event e s
                (lifecycle LifecycleStateChanged TaskStateInterrupting ''start_interrupted_before_turn'')
                (t\<lparr>tk_interrupt_sent := True\<rparr>)
          in ((status_start_response t, True, tk_connection t), [pb], put_task t s)
        else ((status_start_response t, False, tk_connection t), [], put_task t s)
      else let (pb, t) = append_task_event e s (lifecycle LifecycleTurnStarted TaskStateRunning [])
              (t\<lparr>tk_state := TaskStateRunning, tk_phase := PhaseStarted\<rparr>)
        in ((status_start_response t, False, None), [pb], put_task t s))"

subsection \<open>Ending a start\<close>

definition clear_active :: "task \<Rightarrow> service \<Rightarrow> service" where
  "clear_active t s = (case session_of (tk_session_group_id t) s of None \<Rightarrow> s | Some r \<Rightarrow>
     if sr_active_task_id r = tk_id t then set_session (tk_session_group_id t) (r\<lparr>sr_active_task_id := []\<rparr>) s else s)"

text \<open>Closing the promise with a result or an error; the first is nil on the error path.\<close>

definition settle_promise :: "start_task_response option \<Rightarrow> call_error option \<Rightarrow> start_promise \<Rightarrow> start_promise" where
  "settle_promise res err p = p\<lparr>pm_closes := Suc (pm_closes p),
     pm_result := (case res of None \<Rightarrow> pm_result p | Some r \<Rightarrow> r), pm_err := err\<rparr>"

definition settle_entry ::
  "start_entry_state \<Rightarrow> start_task_response option \<Rightarrow> call_error option \<Rightarrow> gtime \<Rightarrow> start_entry \<Rightarrow> start_entry" where
  "settle_entry st res err now en = en\<lparr>se_state := st,
     se_result := (case res of None \<Rightarrow> se_result en | Some r \<Rightarrow> r), se_err := err, se_updated_at := now,
     se_promise := settle_promise res err (se_promise en)\<rparr>"

definition on_entry :: "string \<Rightarrow> (start_entry \<Rightarrow> start_entry) \<Rightarrow> service \<Rightarrow> service" where
  "on_entry tid f s = (case gm_get (sv_entries s) tid of None \<Rightarrow> s | Some en \<Rightarrow> put_entry (f en) s)"

definition entry_pending :: "string \<Rightarrow> service \<Rightarrow> bool" where
  "entry_pending tid s = (case gm_get (sv_entries s) tid of None \<Rightarrow> False | Some en \<Rightarrow> se_state en = StartEntryPending)"

definition unsupported_server_request_warning_text :: "string \<Rightarrow> int \<Rightarrow> bool \<Rightarrow> bool \<Rightarrow> string" where
  "unsupported_server_request_warning_text meth count overflow multiple =
     (let message = ''app-server sent an unsupported request'' @ (if meth \<noteq> [] then '': '' @ meth else []) in
      if count > 1 \<or> overflow
      then message @ '' ('' @ strconv_uint (of_int count) @
        (if overflow then '' or more total while task start was pending'' else '' total while task start was pending'') @
        (if multiple then '', multiple methods'' else []) @ '')''
      else message)"

definition gateway_warning :: "string \<Rightarrow> string \<Rightarrow> task_event_payload" where
  "gateway_warning code message = GatewayWarning \<lparr>gw_code = code, gw_message = message, gw_request_type = [],
     gw_auto_resolution = [], gw_limit_reason = []\<rparr>"

definition append_deferred_warnings :: "env \<Rightarrow> service \<Rightarrow> task \<Rightarrow> publication list \<times> task" where
  "append_deferred_warnings e s t =
     (if tk_deferred_unsupported_warnings t = 0 then ([], t)
      else let text = unsupported_server_request_warning_text (tk_deferred_unsupported_method t)
            (tk_deferred_unsupported_warnings t) (tk_deferred_unsupported_overflow t) (tk_deferred_unsupported_multiple t);
          (pb, t) = append_task_event e s (gateway_warning ''unsupported_server_request'' text)
            (t\<lparr>tk_deferred_unsupported_warnings := 0, tk_deferred_unsupported_method := [],
              tk_deferred_unsupported_multiple := False, tk_deferred_unsupported_overflow := False\<rparr>)
        in ([pb], t))"

text \<open>\<open>tid\<close> names the task and the promise that \<open>runStart\<close> holds.\<close>

definition complete_start_success :: "env \<Rightarrow> gtime \<Rightarrow> string \<Rightarrow> start_task_response \<Rightarrow> service \<Rightarrow> publication list \<times> service" where
  "complete_start_success e now tid res s =
     (case task_by_id tid s of
        None \<Rightarrow> ([], on_entry tid (\<lambda>en. en\<lparr>se_promise := settle_promise (Some res) None (se_promise en)\<rparr>) s)
      | Some t \<Rightarrow>
          if \<not> entry_pending tid s then ([], s)
          else let s = on_entry tid (settle_entry StartEntrySucceeded (Some res) None now) s;
              (pbs, t) = append_deferred_warnings e s t
            in (pbs, put_task t s))"

definition clear_pending :: "pending_resolution \<Rightarrow> task \<Rightarrow> task_event_payload list \<times> task" where
  "clear_pending resolution t =
     (let active = active_pending (tk_pending t) in
      (map (\<lambda>p. PendingRequestResolved (pr_pending_request_id p) (pr_pending_type p) resolution []) active,
       t\<lparr>tk_pending := fold (\<lambda>p. mark_resolved (pr_pending_request_id p)) active (tk_pending t),
         tk_state := (if tk_state t = TaskStateWaitingForPendingRequest then TaskStateRunning else tk_state t)\<rparr>))"

definition no_terminal :: task_terminal_event where
  "no_terminal = \<lparr>tt_terminal_state = TerminalStateFailed, tt_result_summary = [], tt_error_message = []\<rparr>"

text \<open>
  What every end of a task does: the terminal state is set, the session is released, the streams
  are flushed, the pending requests are cleared and the terminal event comes last.  \<open>extra\<close> stands
  between the streams and the pending requests.
\<close>

definition finish_task ::
  "env \<Rightarrow> gtime \<Rightarrow> task_state \<Rightarrow> task_terminal_event \<Rightarrow> task_event_payload list \<Rightarrow> pending_resolution \<Rightarrow> task \<Rightarrow> service \<Rightarrow>
    publication list \<times> service" where
  "finish_task e now st terminal extra resolution t s =
     (let t = t\<lparr>tk_phase := PhaseTerminal, tk_state := st, tk_terminal := Some terminal, tk_terminal_at := Some now\<rparr>;
          s = clear_active t s;
          (flushed, t) = flush_task_streams e s t;
          (cleared, t) = clear_pending resolution t;
          (pbs, t) = append_publications e s (flushed @ extra @ cleared @ [TaskTerminal terminal]) True t
      in (pbs, put_task t s))"

definition failed_terminal :: "string \<Rightarrow> task_terminal_event" where
  "failed_terminal msg = no_terminal\<lparr>tt_error_message := msg\<rparr>"

definition complete_pre_turn_interrupt_of :: "env \<Rightarrow> gtime \<Rightarrow> gtime \<Rightarrow> task \<Rightarrow> service \<Rightarrow> publication list \<times> service" where
  "complete_pre_turn_interrupt_of e t1 t2 t s =
     (let terminal = no_terminal\<lparr>tt_terminal_state := TerminalStateInterrupted,
            tt_result_summary := ''task was interrupted before turn start''\<rparr>;
          t = t\<lparr>tk_phase := PhaseTerminal, tk_state := TaskStateInterrupted, tk_connection_cancel := False,
                tk_terminal := Some terminal, tk_terminal_at := Some t1\<rparr>;
          s = clear_active t s;
          (pb, t) = append_task_event e s (TaskTerminal terminal) t;
          err = Some (GatewayErr (start_interrupted_before_turn t));
          s = on_entry (tk_id t) (settle_entry StartEntryInterruptedBeforeTurn None err t2) s
      in ([pb\<lparr>pb_close_after := True\<rparr>], put_task t s))"

definition complete_pre_turn_interrupt :: "env \<Rightarrow> gtime \<Rightarrow> gtime \<Rightarrow> string \<Rightarrow> service \<Rightarrow> publication list \<times> service" where
  "complete_pre_turn_interrupt e t1 t2 tid s =
     (case task_by_id tid s of
        None \<Rightarrow> ([], on_entry tid (\<lambda>en. en\<lparr>se_promise :=
            settle_promise None (Some (GatewayErr (internal_error [] tid []))) (se_promise en)\<rparr>) s)
      | Some t \<Rightarrow> if \<not> entry_pending tid s then ([], s) else complete_pre_turn_interrupt_of e t1 t2 t s)"

definition complete_start_promise_for_terminal_task :: "gtime \<Rightarrow> task \<Rightarrow> call_error \<Rightarrow> service \<Rightarrow> service" where
  "complete_start_promise_for_terminal_task now t err s =
     (if tk_thread_id t \<noteq> [] \<and> tk_turn_id t \<noteq> []
      then on_entry (tk_id t) (settle_entry StartEntrySucceeded (Some (status_start_response t)) None now) s
      else on_entry (tk_id t) (settle_entry StartEntryFailed None (Some (safe_start_error err (Some t))) now) s)"

text \<open>
  \<open>completeStartFailure\<close> with the task pointer of \<open>runStart\<close> (its snapshot), which stays valid after
  the task was dropped; without one (a snapshot that failed) the promise alone is settled.
\<close>

definition complete_start_failure ::
  "env \<Rightarrow> gtime \<Rightarrow> gtime \<Rightarrow> string \<Rightarrow> call_error \<Rightarrow> service \<Rightarrow> publication list \<times> service" where
  "complete_start_failure e t1 t2 tid err s =
     (case gm_get (sv_objects s) tid of None \<Rightarrow> ([], s) | Some t \<Rightarrow>
      if \<not> entry_pending tid s then ([], s)
      else if is_terminal_state (tk_state t) then ([], complete_start_promise_for_terminal_task t1 t err s)
      else if tk_cancel_before_turn t \<and> tk_turn_id t = [] then complete_pre_turn_interrupt_of e t1 t2 t s
      else let (pbs, s) = finish_task e t1 TaskStateFailed (failed_terminal ''task start failed'') []
                PendingResolutionFailed t s
        in (pbs, on_entry tid (settle_entry StartEntryFailed None (Some err) t2) s))"

definition complete_start_failure_unknown :: "string \<Rightarrow> call_error \<Rightarrow> service \<Rightarrow> service" where
  "complete_start_failure_unknown tid err s =
     on_entry tid (\<lambda>en. en\<lparr>se_promise := settle_promise None (Some err) (se_promise en)\<rparr>) s"


subsection \<open>Locators and status\<close>

datatype task_locator =
    LocatorByTaskID string
  | LocatorByClientMessage string string     \<comment> \<open>SessionGroupID, ClientMessageID\<close>
  | LocatorByThread string string            \<comment> \<open>SessionGroupID, ThreadID\<close>
  | LocatorUnknown

definition tasks_of :: "service \<Rightarrow> task list" where
  "tasks_of s = List.map_filter (\<lambda>tid. gm_get (sv_objects s) tid) (sv_tasks s)"

text \<open>The newest by a strict comparison: the first of the greatest ones, in iteration order.\<close>

definition newest_by :: "('a \<Rightarrow> int) \<Rightarrow> 'a list \<Rightarrow> 'a option" where
  "newest_by f xs = oldest_by (\<lambda>x. - f x) xs"

definition task_for_locator :: "task_locator \<Rightarrow> service \<Rightarrow> task result" where
  "task_for_locator l s =
     (case l of
        LocatorByTaskID tid \<Rightarrow>
          (case task_by_id tid s of None \<Rightarrow> Inl (unknown_task [] tid []) | Some t \<Rightarrow> Inr t)
      | LocatorByClientMessage g mid \<Rightarrow>
          (case gm_get (sv_idempotency s) \<lparr>ik_session_group_id = g, ik_client_message_id = mid\<rparr> of
             None \<Rightarrow> Inl (unknown_task g [] mid)
           | Some tid \<Rightarrow> (case task_by_id tid s of None \<Rightarrow> Inl (unknown_task g tid mid) | Some t \<Rightarrow> Inr t))
      | LocatorByThread g th \<Rightarrow>
          (let ts = filter (\<lambda>t. tk_session_group_id t = g \<and> tk_thread_id t = th) (tasks_of s);
               running = filter (\<lambda>t. \<not> is_terminal_state (tk_state t)) ts in
           case running of
             t # u # _ \<Rightarrow> Inl (ambiguous_locator g th)
           | [t] \<Rightarrow> Inr t
           | [] \<Rightarrow> (case newest_by task_retained_at (filter (\<lambda>t. is_terminal_state (tk_state t)) ts) of
                None \<Rightarrow> Inl (unknown_task g [] []) | Some t \<Rightarrow> Inr t))
      | LocatorUnknown \<Rightarrow> Inl invalid_locator)"

record task_status =
  gs_task_id :: string
  gs_state :: task_state
  gs_session_group_id :: string
  gs_workspace_id :: string
  gs_thread_id :: string
  gs_turn_id :: string
  gs_last_event_id :: u64
  gs_oldest_buffered_event_id :: u64
  gs_newest_buffered_event_id :: u64
  gs_from_start_available :: bool
  gs_start_evicted_before_event_id :: u64
  gs_terminal :: "task_terminal_event option"
  gs_active_pending_requests :: "pending_request list"

definition status_from_task :: "task \<Rightarrow> task_status" where
  "status_from_task t = \<lparr>gs_task_id = tk_id t, gs_state = tk_state t, gs_session_group_id = tk_session_group_id t,
     gs_workspace_id = tk_workspace_id t, gs_thread_id = tk_thread_id t, gs_turn_id = tk_turn_id t,
     gs_last_event_id = tk_next_event_id t,
     gs_oldest_buffered_event_id = oldest_buffered_event_id (tk_events t),
     gs_newest_buffered_event_id = newest_buffered_event_id (tk_events t),
     gs_from_start_available = (tk_start_evicted_before t = 0),
     gs_start_evicted_before_event_id = tk_start_evicted_before t,
     gs_terminal = tk_terminal t, gs_active_pending_requests = active_pending (tk_pending t)\<rparr>"

definition get_task_status :: "gtime \<Rightarrow> gtime \<Rightarrow> task_locator \<Rightarrow> service \<Rightarrow> task_status result \<times> service" where
  "get_task_status t1 t2 l s =
     (let s = cleanup_retained t1 t2 s in (map_sum id status_from_task (task_for_locator l s), s))"

definition stream_task ::
  "gtime \<Rightarrow> gtime \<Rightarrow> string \<Rightarrow> stream_cursor \<Rightarrow> service \<Rightarrow> (stream_message list \<times> u64 option) result \<times> service" where
  "stream_task t1 t2 tid c s =
     (let s = cleanup_retained t1 t2 s in
      case task_by_id tid s of None \<Rightarrow> (Inl (unknown_task [] tid []), s)
      | Some t \<Rightarrow> (let (res, t) = subscribe_task c t in (res, put_task t s)))"

subsection \<open>Interrupts (interrupt.go)\<close>

record interrupt_task_response =
  ir_task_id :: string
  ir_session_group_id :: string
  ir_thread_id :: string
  ir_turn_id :: string
  ir_state :: task_state
  ir_interrupt_sent :: bool
  ir_already_terminal :: bool
  ir_already_interrupting :: bool
  ir_pre_turn_cancel_recorded :: bool
  ir_last_event_id :: u64

definition interrupt_response :: "task \<Rightarrow> interrupt_task_response" where
  "interrupt_response t = \<lparr>ir_task_id = tk_id t, ir_session_group_id = tk_session_group_id t,
     ir_thread_id = tk_thread_id t, ir_turn_id = tk_turn_id t, ir_state = tk_state t, ir_interrupt_sent = False,
     ir_already_terminal = False, ir_already_interrupting = False, ir_pre_turn_cancel_recorded = False,
     ir_last_event_id = tk_next_event_id t\<rparr>"

text \<open>What the caller does next: answer at once, or send the interrupt on the connection.\<close>

datatype interrupt_outcome =
    InterruptAnswered interrupt_task_response
  | InterruptSend string string string conn     \<comment> \<open>task, thread, turn, connection\<close>

definition interrupt_target ::
  "env \<Rightarrow> gtime \<Rightarrow> gtime \<Rightarrow> task_locator \<Rightarrow> service \<Rightarrow> interrupt_outcome result \<times> publication list \<times> service" where
  "interrupt_target e t1 t2 l s =
     (let s = cleanup_retained t1 t2 s in
      case task_for_locator l s of Inl err \<Rightarrow> (Inl err, [], s) | Inr t \<Rightarrow>
      if is_terminal_state (tk_state t)
      then (Inr (InterruptAnswered ((interrupt_response t)\<lparr>ir_already_terminal := True\<rparr>)), [], s)
      else if tk_state t = TaskStateInterrupting
      then (Inr (InterruptAnswered ((interrupt_response t)\<lparr>ir_already_interrupting := True\<rparr>)), [], s)
      else if tk_turn_id t = []
      then (Inr (InterruptAnswered ((interrupt_response t)\<lparr>ir_pre_turn_cancel_recorded := True\<rparr>)), [],
            put_task (t\<lparr>tk_cancel_before_turn := True\<rparr>) s)
      else case tk_connection t of
          None \<Rightarrow> (Inl (internal_error (tk_session_group_id t) (tk_id t) (tk_client_message_id t)), [], s)
        | Some c \<Rightarrow>
            if tk_thread_id t = []
            then (Inl (internal_error (tk_session_group_id t) (tk_id t) (tk_client_message_id t)), [], s)
            else let (pb, t) = append_task_event e s (lifecycle LifecycleStateChanged TaskStateInterrupting [])
                    (t\<lparr>tk_interrupt_sent := True, tk_pre_interrupt_state := Some (tk_state t),
                      tk_state := TaskStateInterrupting\<rparr>)
              in (Inr (InterruptSend (tk_id t) (tk_thread_id t) (tk_turn_id t) c), [pb], put_task t s))"

definition interrupt_accepted :: "string \<Rightarrow> service \<Rightarrow> interrupt_task_response option" where
  "interrupt_accepted tid s = (case task_by_id tid s of None \<Rightarrow> None
     | Some t \<Rightarrow> Some ((interrupt_response t)\<lparr>ir_interrupt_sent := True\<rparr>))"

definition rollback_state :: "task_state option \<Rightarrow> task_state" where
  "rollback_state st = (case st of None \<Rightarrow> TaskStateRunning
     | Some x \<Rightarrow> if x = TaskStateInterrupting then TaskStateRunning else x)"

definition rollback_interrupt :: "env \<Rightarrow> string \<Rightarrow> service \<Rightarrow> publication list \<times> service" where
  "rollback_interrupt e tid s =
     (case task_by_id tid s of None \<Rightarrow> ([], s) | Some t \<Rightarrow>
      if is_terminal_state (tk_state t) then ([], s)
      else let (pb, t) = append_task_event e s
              (gateway_warning ''interrupt_rejected'' ''interrupt request was rejected; task is still running'')
              (t\<lparr>tk_interrupt_sent := False, tk_state := rollback_state (tk_pre_interrupt_state t),
                tk_pre_interrupt_state := None\<rparr>)
        in ([pb], put_task t s))"

end
