(* ===== verification/Task_Requests.thy ===== *)
theory Task_Requests
  imports Task_Service
begin

text \<open>
  What a connection to the app-server sends (\<open>gateway/internal/tasks/notifications.go\<close>): lifecycle
  notifications, failures of the connection, and server requests, which become pending requests of
  a task and are resolved by a client's response, by the server or by the end of the task
  (\<open>pending_requests.go\<close>).  A notification carries the ids that the app-server package parsed
  from its parameters.
\<close>

record notification =
  nf_task_id :: string
  nf_session_group_id :: string
  nf_thread_id :: string           \<comment> \<open>\<open>ParseThreadID\<close> of the parameters\<close>
  nf_turn_id :: string             \<comment> \<open>\<open>ParseTurnID\<close> of the parameters\<close>

subsection \<open>The task a notification is about\<close>

definition notification_matches_session :: "task \<Rightarrow> notification \<Rightarrow> bool" where
  "notification_matches_session t n \<longleftrightarrow>
     nf_session_group_id n = [] \<or> tk_session_group_id t = nf_session_group_id n"

definition notification_matches_thread :: "task \<Rightarrow> string \<Rightarrow> bool" where
  "notification_matches_thread t th \<longleftrightarrow> th = [] \<or> tk_thread_id t = th"

definition notification_matches_task :: "task \<Rightarrow> notification \<Rightarrow> string \<Rightarrow> bool" where
  "notification_matches_task t n th \<longleftrightarrow> notification_matches_session t n \<and> notification_matches_thread t th"

definition notification_task_matches_turn :: "task \<Rightarrow> notification \<Rightarrow> string \<Rightarrow> string \<Rightarrow> bool" where
  "notification_task_matches_turn t n th turn \<longleftrightarrow>
     notification_matches_task t n th \<and> (turn = [] \<or> tk_turn_id t = turn)"

definition task_for_notification_task_id :: "notification \<Rightarrow> conn \<Rightarrow> service \<Rightarrow> task option" where
  "task_for_notification_task_id n c s =
     (if nf_task_id n = [] then None
      else case task_by_id (nf_task_id n) s of None \<Rightarrow> None | Some t \<Rightarrow>
        if tk_connection t = Some c \<and> notification_matches_session t n then Some t else None)"

definition task_for_verified_lifecycle_notification :: "notification \<Rightarrow> conn \<Rightarrow> service \<Rightarrow> task option" where
  "task_for_verified_lifecycle_notification n c s =
     (if nf_task_id n = [] \<or> nf_session_group_id n = [] then None
      else case task_by_id (nf_task_id n) s of None \<Rightarrow> None | Some t \<Rightarrow>
        if tk_connection t = Some c \<and> tk_session_group_id t = nf_session_group_id n then Some t else None)"

text \<open>The loops over all tasks that give up when two match.\<close>

fun the_only :: "'a list \<Rightarrow> 'a option" where
  "the_only [x] = Some x"
| "the_only _ = None"

definition running_on :: "conn \<Rightarrow> service \<Rightarrow> task list" where
  "running_on c s = filter (\<lambda>t. tk_connection t = Some c \<and> \<not> is_terminal_state (tk_state t)) (tasks_of s)"

definition task_for_turn_completed_notification :: "notification \<Rightarrow> conn \<Rightarrow> service \<Rightarrow> task option" where
  "task_for_turn_completed_notification n c s =
     (if nf_task_id n \<noteq> []
      then (case task_for_notification_task_id n c s of None \<Rightarrow> None | Some t \<Rightarrow>
              if notification_matches_task t n (nf_thread_id n) then Some t else None)
      else if nf_turn_id n = [] then None
      else the_only (filter (\<lambda>t. tk_turn_id t = nf_turn_id n \<and> notification_matches_task t n (nf_thread_id n))
             (running_on c s)))"

definition task_for_exact_turn_notification :: "notification \<Rightarrow> conn \<Rightarrow> service \<Rightarrow> task option" where
  "task_for_exact_turn_notification n c s =
     (if nf_thread_id n = [] \<or> nf_turn_id n = [] then None
      else the_only (filter (\<lambda>t. tk_thread_id t = nf_thread_id n \<and> tk_turn_id t = nf_turn_id n \<and>
             notification_matches_session t n) (running_on c s)))"

definition task_for_thread_notification :: "notification \<Rightarrow> conn \<Rightarrow> service \<Rightarrow> task option" where
  "task_for_thread_notification n c s =
     (if nf_thread_id n = [] then None
      else the_only (filter (\<lambda>t. tk_thread_id t = nf_thread_id n \<and> notification_matches_session t n) (running_on c s)))"

definition active_task_for_connection :: "conn \<Rightarrow> service \<Rightarrow> task option" where
  "active_task_for_connection c s = the_only (running_on c s)"

definition task_for_registered_item :: "conn \<Rightarrow> string \<Rightarrow> service \<Rightarrow> task option" where
  "task_for_registered_item c item s =
     (if item = [] then None
      else the_only (filter (\<lambda>t. tk_turn_id t \<noteq> [] \<and> item \<in> set (tk_item_bindings t)) (running_on c s)))"

definition bind_item :: "string \<Rightarrow> task \<Rightarrow> task" where
  "bind_item item t = (if item = [] then t else t\<lparr>tk_item_bindings := List.insert item (tk_item_bindings t)\<rparr>)"

subsection \<open>Lifecycle notifications\<close>

definition ensure_monitor :: "conn \<Rightarrow> service \<Rightarrow> bool \<times> service" where
  "ensure_monitor c s = (if c \<in> set (sv_monitors s) then (False, s) else (True, s\<lparr>sv_monitors := c # sv_monitors s\<rparr>))"

definition handle_thread_started :: "env \<Rightarrow> notification \<Rightarrow> conn \<Rightarrow> service \<Rightarrow> publication list \<times> service" where
  "handle_thread_started e n c s =
     (if nf_thread_id n = [] then ([], s)
      else case task_for_verified_lifecycle_notification n c s of None \<Rightarrow> ([], s) | Some t \<Rightarrow>
        if tk_thread_id t \<noteq> [] \<or> is_terminal_state (tk_state t) then ([], s)
        else let (pb, t) = append_task_event e s (lifecycle LifecycleThreadStarted (tk_state t) [])
                (t\<lparr>tk_thread_id := nf_thread_id n\<rparr>)
          in ([pb], put_task t s))"

definition verified_lifecycle_task_id :: "notification \<Rightarrow> conn \<Rightarrow> service \<Rightarrow> string option" where
  "verified_lifecycle_task_id n c s =
     (case task_for_verified_lifecycle_notification n c s of None \<Rightarrow> None | Some t \<Rightarrow>
      if is_terminal_state (tk_state t) then None
      else if nf_thread_id n \<noteq> [] \<and> tk_thread_id t \<noteq> [] \<and> tk_thread_id t \<noteq> nf_thread_id n then None
      else if nf_turn_id n \<noteq> [] \<and> tk_turn_id t \<noteq> [] then None
      else Some (tk_id t))"

definition terminal_for_turn_status :: "string \<Rightarrow> task_terminal_event \<times> bool" where
  "terminal_for_turn_status st =
     (if st \<in> {''completed'', ''succeeded'', ''success''}
      then (no_terminal\<lparr>tt_terminal_state := TerminalStateCompleted\<rparr>, True)
      else if st \<in> {''interrupted'', ''cancelled'', ''canceled''}
      then (no_terminal\<lparr>tt_terminal_state := TerminalStateInterrupted\<rparr>, True)
      else (failed_terminal ''turn failed'', st = ''failed''))"

definition state_for_terminal :: "terminal_state \<Rightarrow> task_state" where
  "state_for_terminal t = (case t of TerminalStateCompleted \<Rightarrow> TaskStateCompleted
     | TerminalStateInterrupted \<Rightarrow> TaskStateInterrupted | TerminalStateFailed \<Rightarrow> TaskStateFailed)"

definition handle_turn_completed ::
  "env \<Rightarrow> gtime \<Rightarrow> notification \<Rightarrow> string \<Rightarrow> conn \<Rightarrow> service \<Rightarrow> publication list \<times> service" where
  "handle_turn_completed e now n status c s =
     (if nf_turn_id n = [] then ([], s)
      else case task_for_turn_completed_notification n c s of None \<Rightarrow> ([], s) | Some t \<Rightarrow>
        if tk_turn_id t \<noteq> nf_turn_id n \<or> is_terminal_state (tk_state t) then ([], s)
        else let (terminal, known) = terminal_for_turn_status status in
          finish_task e now (state_for_terminal (tt_terminal_state terminal)) terminal
            (if known then [] else [gateway_warning ''unknown_turn_status''
               ''turn/completed reported an unknown status; task failed closed''])
            PendingResolutionCleared t s)"

text \<open>\<open>reason\<close> is the failure's reason, or \<open>auth_refresh_unavailable\<close> when it has none.\<close>

definition handle_auth_refresh_failure ::
  "env \<Rightarrow> gtime \<Rightarrow> gtime \<Rightarrow> string \<Rightarrow> string \<Rightarrow> string \<Rightarrow> service \<Rightarrow> publication list \<times> service" where
  "handle_auth_refresh_failure e t1 t2 tid g reason s =
     (let reason = (if reason = [] then ''auth_refresh_unavailable'' else reason) in
      if tid = [] then ([], s)
      else case task_by_id tid s of None \<Rightarrow> ([], s) | Some t \<Rightarrow>
        if tk_session_group_id t \<noteq> g \<or> is_terminal_state (tk_state t) then ([], s)
        else let pending = entry_pending tid s;
            (pbs, s) = finish_task e t1 TaskStateFailed (failed_terminal reason) [] PendingResolutionFailed t s
          in (pbs, if pending then on_entry tid (settle_entry StartEntryFailed None
                (Some (GatewayErr (auth_refresh_unavailable t))) t2) s else s))"

definition max_deferred_unsupported_warnings :: int where "max_deferred_unsupported_warnings = 64"

definition defer_unsupported_server_request :: "string \<Rightarrow> task \<Rightarrow> task" where
  "defer_unsupported_server_request meth t =
     (let t = (if tk_deferred_unsupported_warnings t < max_deferred_unsupported_warnings
               then t\<lparr>tk_deferred_unsupported_warnings := tk_deferred_unsupported_warnings t + 1\<rparr>
               else t\<lparr>tk_deferred_unsupported_overflow := True\<rparr>) in
      if tk_deferred_unsupported_method t = [] then t\<lparr>tk_deferred_unsupported_method := meth\<rparr>
      else if meth \<noteq> [] \<and> meth \<noteq> tk_deferred_unsupported_method t
      then t\<lparr>tk_deferred_unsupported_multiple := True\<rparr> else t)"

definition handle_unsupported_server_request ::
  "env \<Rightarrow> notification \<Rightarrow> string \<Rightarrow> conn \<Rightarrow> service \<Rightarrow> publication list \<times> service" where
  "handle_unsupported_server_request e n meth c s =
     (if nf_task_id n = [] \<and> (nf_thread_id n = [] \<or> nf_turn_id n = []) then ([], s)
      else case (if nf_task_id n \<noteq> []
                 then (case task_for_notification_task_id n c s of None \<Rightarrow> None
                   | Some t \<Rightarrow> if notification_task_matches_turn t n (nf_thread_id n) (nf_turn_id n) then Some t else None)
                 else task_for_exact_turn_notification n c s) of
          None \<Rightarrow> ([], s)
        | Some t \<Rightarrow>
            (case session_of (nf_session_group_id n) s of None \<Rightarrow> ([], s) | Some r \<Rightarrow>
             if sr_active_task_id r \<noteq> tk_id t \<or> is_terminal_state (tk_state t) then ([], s)
             else if entry_pending (tk_id t) s then ([], put_task (defer_unsupported_server_request meth t) s)
             else let (pb, t) = append_task_event e s (gateway_warning ''unsupported_server_request''
                     (unsupported_server_request_warning_text meth 1 False False)) t
               in ([pb], put_task t s)))"

text \<open>One turn of the loop of \<open>failTasksForClosedConnection\<close>; the time stamps are those of the task.\<close>

definition fail_task_for_closed_connection ::
  "env \<Rightarrow> (string \<Rightarrow> gtime) \<Rightarrow> (string \<Rightarrow> gtime) \<Rightarrow> conn \<Rightarrow> string \<Rightarrow> service \<Rightarrow> publication list \<times> service" where
  "fail_task_for_closed_connection e t1 t2 c tid s =
     (case task_by_id tid s of None \<Rightarrow> ([], s) | Some t \<Rightarrow>
      if tk_connection t \<noteq> Some c \<or> is_terminal_state (tk_state t) then ([], s)
      else let (warned, t) = append_deferred_warnings e s t in
        if tk_cancel_before_turn t \<and> tk_turn_id t = [] \<and> entry_pending tid s
        then let (pbs, s) = complete_pre_turn_interrupt_of e (t1 tid) (t2 tid) t s in (warned @ pbs, s)
        else let pending = entry_pending tid s;
            (pbs, s) = finish_task e (t1 tid) TaskStateFailed (failed_terminal ''app-server connection closed'') []
              PendingResolutionFailed t s
          in (warned @ pbs, if pending then on_entry tid (settle_entry StartEntryFailed None
                (Some (safe_start_error OtherErr (Some t))) (t2 tid)) s else s))"

fun fail_tasks_loop ::
  "env \<Rightarrow> (string \<Rightarrow> gtime) \<Rightarrow> (string \<Rightarrow> gtime) \<Rightarrow> conn \<Rightarrow> string list \<Rightarrow> service \<Rightarrow> publication list \<times> service" where
  "fail_tasks_loop e t1 t2 c [] s = ([], s)"
| "fail_tasks_loop e t1 t2 c (tid # tids) s =
     (let (pbs, s) = fail_task_for_closed_connection e t1 t2 c tid s; (pbs', s) = fail_tasks_loop e t1 t2 c tids s
      in (pbs @ pbs', s))"

definition fail_tasks_for_closed_connection ::
  "env \<Rightarrow> (string \<Rightarrow> gtime) \<Rightarrow> (string \<Rightarrow> gtime) \<Rightarrow> conn \<Rightarrow> service \<Rightarrow> publication list \<times> service" where
  "fail_tasks_for_closed_connection e t1 t2 c s =
     (let (pbs, s) = fail_tasks_loop e t1 t2 c (sv_tasks s) s
      in (pbs, s\<lparr>sv_monitors := removeAll c (sv_monitors s), sv_resolved_requests := gm_del c (sv_resolved_requests s)\<rparr>))"

subsection \<open>Server requests\<close>

text \<open>\<open>js\<close> decodes a JSON text into a string; NUL separates the raw id from the logical one.\<close>

definition resolved_backlog_limit :: nat where "resolved_backlog_limit = 256"

definition backlog_nul :: char where "backlog_nul = CHR 0x00"

definition resolved_server_request_backlog_key :: "(string \<Rightarrow> string option) \<Rightarrow> string \<Rightarrow> string" where
  "resolved_server_request_backlog_key js raw =
     request_id_key raw @ [backlog_nul] @ normalize_server_request_id js [] raw"

definition split_backlog_key :: "string \<Rightarrow> string \<times> string" where
  "split_backlog_key key =
     (if backlog_nul \<in> set key
      then (takeWhile (\<lambda>x. x \<noteq> backlog_nul) key, tl (dropWhile (\<lambda>x. x \<noteq> backlog_nul) key))
      else (key, key))"

definition mark_resolved_server_request :: "(string \<Rightarrow> string option) \<Rightarrow> conn \<Rightarrow> string \<Rightarrow> service \<Rightarrow> service" where
  "mark_resolved_server_request js c raw s =
     (if request_id_key raw = [] then s
      else let ids = (case gm_get (sv_resolved_requests s) c of None \<Rightarrow> [] | Some ids \<Rightarrow> ids) in
        s\<lparr>sv_resolved_requests := gm_put c
          (if length ids \<ge> resolved_backlog_limit then ids
           else List.insert (resolved_server_request_backlog_key js raw) ids) (sv_resolved_requests s)\<rparr>)"

definition logical_server_request_id :: "(string \<Rightarrow> string option) \<Rightarrow> pending_entry \<Rightarrow> string" where
  "logical_server_request_id js r =
     (if pe_app_server_request_id r \<noteq> [] then pe_app_server_request_id r
      else normalize_server_request_id js [] (pe_jsonrpc_id r))"

definition exact_backlog_match :: "string list \<Rightarrow> string \<Rightarrow> string option" where
  "exact_backlog_match ids raw =
     (let k = request_id_key raw in
      if k = [] then None else List.find (\<lambda>key. fst (split_backlog_key key) = k) ids)"

definition logical_backlog_match :: "(string \<Rightarrow> string option) \<Rightarrow> string list \<Rightarrow> pending_entry \<Rightarrow> string option" where
  "logical_backlog_match js ids r =
     (let sid = logical_server_request_id js r; jid = normalize_server_request_id js [] (pe_jsonrpc_id r) in
      if sid = [] then None
      else List.find (\<lambda>key. snd (split_backlog_key key) = sid \<and> snd (split_backlog_key key) \<noteq> jid) ids)"

definition consume_resolved_server_request ::
  "(string \<Rightarrow> string option) \<Rightarrow> conn \<Rightarrow> pending_entry \<Rightarrow> service \<Rightarrow> bool \<times> service" where
  "consume_resolved_server_request js c r s =
     (case gm_get (sv_resolved_requests s) c of None \<Rightarrow> (False, s) | Some ids \<Rightarrow>
      case (case exact_backlog_match ids (pe_jsonrpc_id r) of Some k \<Rightarrow> Some k | None \<Rightarrow> logical_backlog_match js ids r) of
        None \<Rightarrow> (False, s)
      | Some k \<Rightarrow> (let ids' = removeAll k ids in
          (True, s\<lparr>sv_resolved_requests := (if ids' = [] then gm_del c (sv_resolved_requests s)
                     else gm_put c ids' (sv_resolved_requests s))\<rparr>)))"

text \<open>
  \<open>pendingAdmissionLimitReasonLocked\<close>; \<open>display_bytes\<close> is the length of a display's JSON text.  The
  result is the limit that refuses the request, if any.
\<close>

definition pending_admission_limit_reason ::
  "(pending_request_display \<Rightarrow> int) \<Rightarrow> task \<Rightarrow> pending_entry \<Rightarrow> service \<Rightarrow> string option" where
  "pending_admission_limit_reason display_bytes t r s =
     (case session_of (tk_session_group_id t) s of None \<Rightarrow> Some ''status_budget_exceeded'' | Some rt \<Rightarrow>
      let g = sr_group rt;
          max_active = (if sg_pending_max_active g \<le> 0 then 64 else sg_pending_max_active g);
          max_display = (if sg_pending_max_display_bytes g \<le> 0 then 64 * 1024 else sg_pending_max_display_bytes g);
          budget = (if sg_pending_status_budget_bytes g \<le> 0 then 64 * 1024 else sg_pending_status_budget_bytes g);
          outbound = (if sg_outbound_message_bytes g \<le> 0 then 4 * 1024 * 1024 else sg_outbound_message_bytes g);
          this = display_bytes (pr_display (pe_pending r));
          total = foldl (\<lambda>a p. i64 (a + display_bytes (pr_display p))) this (active_pending (tk_pending t))
      in if active_count (tk_pending t) \<ge> max_active then Some ''status_budget_exceeded''
         else if this > max_display then Some ''display_payload_too_large''
         else if i64 (total + budget) > outbound then Some ''status_budget_exceeded''
         else None)"

text \<open>
  \<open>taskForServerRequestLocked\<close>: the task a server request is about; a lookup by item also records
  the item.  \<open>rid\<close> is the task id that the dispatcher knows (the session is not compared here),
  \<open>item\<close> and \<open>fallback\<close> are \<open>pendingItemID\<close> and the \<open>taskId\<close> field of the parameters.
\<close>

definition server_request_notification :: "string \<Rightarrow> string \<Rightarrow> string \<Rightarrow> notification" where
  "server_request_notification rid th turn =
     \<lparr>nf_task_id = rid, nf_session_group_id = [], nf_thread_id = th, nf_turn_id = turn\<rparr>"

definition bind_found :: "string \<Rightarrow> task option \<Rightarrow> service \<Rightarrow> task option \<times> service" where
  "bind_found item found s = (case found of None \<Rightarrow> (None, s)
     | Some t \<Rightarrow> (Some (bind_item item t), put_task (bind_item item t) s))"

definition task_for_request_task_id ::
  "conn \<Rightarrow> string \<Rightarrow> string \<Rightarrow> string \<Rightarrow> string \<Rightarrow> service \<Rightarrow> task option \<times> service" where
  "task_for_request_task_id c rid th turn item s =
     (let n = server_request_notification rid th turn in
      case task_for_notification_task_id n c s of None \<Rightarrow> (None, s)
      | Some t \<Rightarrow> if notification_task_matches_turn t n th turn then bind_found item (Some t) s else (None, s))"

definition task_for_server_request ::
  "conn \<Rightarrow> string \<Rightarrow> string \<Rightarrow> string \<Rightarrow> string \<Rightarrow> string \<Rightarrow> service \<Rightarrow> task option \<times> service" where
  "task_for_server_request c rid th turn item fallback s =
     (if rid \<noteq> [] then task_for_request_task_id c rid th turn item s
      else if th \<noteq> [] \<and> turn \<noteq> []
      then bind_found item (task_for_exact_turn_notification (server_request_notification rid th turn) c s) s
      else if item \<noteq> [] then (task_for_registered_item c item s, s)
      else if fallback \<noteq> [] then task_for_request_task_id c fallback th turn item s
      else (None, s))"

text \<open>
  \<open>tryCreatePendingRequest\<close> from the admission on, for the task \<open>t\<close> and the record \<open>r\<close> that
  \<open>pending.Build\<close> made.  The result is the publications, or the limit for the automatic answer.
\<close>

definition admit_pending_request ::
  "env \<Rightarrow> (string \<Rightarrow> string option) \<Rightarrow> (pending_request_display \<Rightarrow> int) \<Rightarrow> conn \<Rightarrow> task \<Rightarrow> pending_entry \<Rightarrow> service \<Rightarrow>
    (string + publication list) \<times> service" where
  "admit_pending_request e js display_bytes c t r s =
     (case pending_admission_limit_reason display_bytes t r s of Some limit \<Rightarrow> (Inl limit, s) | None \<Rightarrow>
      let (pid, m) = manager_add r (tk_pending t);
          (pb, t) = append_task_event e s
            (PendingRequestCreated pid (pr_pending_type (pe_pending r)) (pr_display (pe_pending r)))
            (t\<lparr>tk_pending := m, tk_state := TaskStateWaitingForPendingRequest\<rparr>);
          (resolved, s) = consume_resolved_server_request js c r s
      in if resolved
         then let t = t\<lparr>tk_pending := mark_resolved pid (tk_pending t)\<rparr>;
                  t = (if active_count (tk_pending t) = 0 then t\<lparr>tk_state := TaskStateRunning\<rparr> else t);
                  (pb', t) = append_task_event e s
                    (PendingRequestResolved pid (pr_pending_type (pe_pending r)) PendingResolutionCleared []) t
           in (Inr [pb\<lparr>pb_subscribers := pb_subscribers pb'\<rparr>, pb'], put_task t s)
         else (Inr [pb], put_task t s))"

text \<open>
  The whole locked section; \<open>build\<close> gives what \<open>pending.Build\<close> makes for the task: a record, or
  the limit that it exceeds.
\<close>

definition try_create_pending_request ::
  "env \<Rightarrow> (string \<Rightarrow> string option) \<Rightarrow> (pending_request_display \<Rightarrow> int) \<Rightarrow> (task \<Rightarrow> string + pending_entry) \<Rightarrow>
    conn \<Rightarrow> string \<Rightarrow> string \<Rightarrow> string \<Rightarrow> string \<Rightarrow> string \<Rightarrow> service \<Rightarrow> (string + publication list) \<times> service" where
  "try_create_pending_request e js display_bytes build c rid th turn item fallback s =
     (let (found, s) = task_for_server_request c rid th turn item fallback s in
      case found of None \<Rightarrow> (Inl ''status_budget_exceeded'', s) | Some t \<Rightarrow>
      if is_terminal_state (tk_state t) \<or> tk_state t = TaskStateInterrupting
      then (Inl ''status_budget_exceeded'', s)
      else case build t of Inl limit \<Rightarrow> (Inl limit, s)
        | Inr r \<Rightarrow> admit_pending_request e js display_bytes c t r s)"

text \<open>A pending request of a task becomes resolved, with its event.\<close>

definition resolve_task_request :: "env \<Rightarrow> service \<Rightarrow> string \<Rightarrow> pending_type \<Rightarrow> pending_resolution \<Rightarrow> task \<Rightarrow> publication \<times> task" where
  "resolve_task_request e s pid ty resolution t =
     (let t = t\<lparr>tk_pending := mark_resolved pid (tk_pending t)\<rparr>;
          t = (if tk_state t = TaskStateWaitingForPendingRequest \<and> active_count (tk_pending t) = 0
               then t\<lparr>tk_state := TaskStateRunning\<rparr> else t)
      in append_task_event e s (PendingRequestResolved pid ty resolution []) t)"

subsection \<open>Responses of clients\<close>

record respond_pending_command =
  rc_task_id :: string
  rc_pending_request_id :: string
  rc_client_response_id :: string
  rc_response :: pending_response

datatype response_claim =
    ClaimWait response_entry
  | ClaimSend "conn option" string string response_payload pending_resolution
      \<comment> \<open>connection, JSON-RPC id and method of the request, payload, resolution\<close>

definition on_response :: "string \<Rightarrow> string \<Rightarrow> (response_entry \<Rightarrow> response_entry) \<Rightarrow> manager \<Rightarrow> manager" where
  "on_response pid rid f = update_entry pid (\<lambda>r. r\<lparr>pe_responses :=
     (case gm_get (pe_responses r) rid of None \<Rightarrow> pe_responses r | Some en \<Rightarrow> gm_put rid (f en) (pe_responses r))\<rparr>)"

definition new_response_entry :: "string \<Rightarrow> string \<Rightarrow> response_entry" where
  "new_response_entry rid fp = \<lparr>rn_client_response_id = rid, rn_fingerprint = fp,
     rn_state = ResponseStateResponding, rn_done = False,
     rn_response = \<lparr>rq_task_id = [], rq_session_group_id = [], rq_pending_request_id = [], rq_client_response_id = [],
       rq_accepted = False, rq_already_applied = False, rq_resolved_event_id = 0\<rparr>, rn_err = None\<rparr>"

text \<open>\<open>fingerprint\<close> is the hash of the canonical JSON of the response, \<open>None\<close> when there is none.\<close>

definition claim_pending_response ::
  "(string \<Rightarrow> json option) \<Rightarrow> (string \<Rightarrow> string) \<Rightarrow> (pending_type \<Rightarrow> respond_pending_command \<Rightarrow> string option) \<Rightarrow>
    respond_pending_command \<Rightarrow> service \<Rightarrow> response_claim result \<times> service" where
  "claim_pending_response decode lower fingerprint c s =
     (let tid = rc_task_id c; pid = rc_pending_request_id c; rid = rc_client_response_id c in
      case task_by_id tid s of None \<Rightarrow> (Inl (unknown_task [] tid []), s) | Some t \<Rightarrow>
      let g = tk_session_group_id t in
      case manager_get pid (tk_pending t) of None \<Rightarrow> (Inl (unknown_pending_request g tid pid rid), s) | Some r \<Rightarrow>
      let ty = pr_pending_type (pe_pending r) in
      if \<not> response_matches_type ty (rc_response c) then (Inl (response_type_mismatch g tid pid rid), s)
      else case fingerprint ty c of None \<Rightarrow> (Inl (invalid_pending_response g tid pid rid), s) | Some fp \<Rightarrow>
      case gm_get (pe_responses r) rid of
        Some en \<Rightarrow>
          if rn_fingerprint en \<noteq> fp then (Inl (pending_response_fingerprint_mismatch g tid pid rid), s)
          else if rn_state en = ResponseStateResponding then (Inr (ClaimWait en), s)
          else (case rn_err en of Some err \<Rightarrow> (Inl err, s) | None \<Rightarrow> (Inr (ClaimWait en), s))
      | None \<Rightarrow>
          if \<not> pe_active r \<or> pe_in_flight_client_response_id r \<noteq> []
          then (Inl (pending_request_already_resolved g tid pid rid), s)
          else case validate_response decode lower r (rc_response c) (Some (tk_sensitive t)) of
              (Inl msg, reg) \<Rightarrow> (Inl (invalid_pending_response g tid pid rid),
                 put_task (t\<lparr>tk_sensitive := the reg\<rparr>) s)
            | (Inr v, reg) \<Rightarrow>
                (Inr (ClaimSend (tk_connection t) (pe_jsonrpc_id r) (pe_method r) (vr_payload v) (vr_resolution v)),
                 put_task (t\<lparr>tk_sensitive := the reg, tk_pending := update_entry pid (\<lambda>r. r\<lparr>
                   pe_responses := gm_put rid (new_response_entry rid fp) (pe_responses r),
                   pe_in_flight_client_response_id := rid\<rparr>) (tk_pending t)\<rparr>) s))"

definition resolved_event_id :: "task \<Rightarrow> string \<Rightarrow> u64" where
  "resolved_event_id t pid =
     (case List.find (\<lambda>ev. case te_payload ev of PendingRequestResolved p _ _ _ \<Rightarrow> p = pid | _ \<Rightarrow> False)
        (rev (tk_events t)) of None \<Rightarrow> 0 | Some ev \<Rightarrow> te_event_id ev)"

definition pending_response_of :: "task \<Rightarrow> string \<Rightarrow> string \<Rightarrow> bool \<Rightarrow> u64 \<Rightarrow> respond_pending_response" where
  "pending_response_of t pid rid applied ev = \<lparr>rq_task_id = tk_id t, rq_session_group_id = tk_session_group_id t,
     rq_pending_request_id = pid, rq_client_response_id = rid, rq_accepted = True, rq_already_applied = applied,
     rq_resolved_event_id = ev\<rparr>"

definition accept_response :: "respond_pending_response \<Rightarrow> response_entry \<Rightarrow> response_entry" where
  "accept_response res en = en\<lparr>rn_state := ResponseStateAccepted, rn_response := res, rn_done := True\<rparr>"

definition fail_response :: "gateway_error \<Rightarrow> response_entry \<Rightarrow> response_entry" where
  "fail_response err en = en\<lparr>rn_state := ResponseStateFailed, rn_err := Some err, rn_done := True\<rparr>"

definition clear_in_flight :: "string \<Rightarrow> manager \<Rightarrow> manager" where
  "clear_in_flight pid = update_entry pid (\<lambda>r. r\<lparr>pe_in_flight_client_response_id := []\<rparr>)"

text \<open>
  The entry the responder holds is the one in the record's map under its own id, which is never
  replaced; \<open>failed\<close> says that the write to the connection failed.
\<close>

definition complete_pending_response ::
  "env \<Rightarrow> string \<Rightarrow> string \<Rightarrow> string \<Rightarrow> pending_resolution \<Rightarrow> bool \<Rightarrow> service \<Rightarrow>
    respond_pending_response result \<times> publication list \<times> service" where
  "complete_pending_response e tid pid rid resolution failed s =
     (case task_by_id tid s of None \<Rightarrow> (Inl (unknown_task [] tid []), [], s) | Some t \<Rightarrow>
      let g = tk_session_group_id t in
      case manager_get pid (tk_pending t) of None \<Rightarrow> (Inl (unknown_pending_request g tid pid rid), [], s) | Some r \<Rightarrow>
      case gm_get (pe_responses r) rid of None \<Rightarrow> (Inl (internal_error g tid []), [], s) | Some en \<Rightarrow>
      case rn_state en of
        ResponseStateAccepted \<Rightarrow>
          let res = rn_response en in
          if \<not> pe_active r \<and> rq_resolved_event_id res = 0
          then let res = res\<lparr>rq_resolved_event_id := resolved_event_id t pid\<rparr> in
            (Inr res, [], put_task (t\<lparr>tk_pending := on_response pid rid (\<lambda>en. en\<lparr>rn_response := res\<rparr>) (tk_pending t)\<rparr>) s)
          else (Inr res, [], s)
      | ResponseStateFailed \<Rightarrow>
          ((case rn_err en of None \<Rightarrow> Inr (rn_response en) | Some err \<Rightarrow> Inl err), [], s)
      | ResponseStateResponding \<Rightarrow>
          if \<not> pe_active r
          then let res = pending_response_of t pid rid True (resolved_event_id t pid) in
            (Inr res, [], put_task (t\<lparr>tk_pending :=
               on_response pid rid (accept_response res) (clear_in_flight pid (tk_pending t))\<rparr>) s)
          else let ty = pr_pending_type (pe_pending r);
              t = t\<lparr>tk_pending := clear_in_flight pid (tk_pending t)\<rparr> in
            if failed
            then let err = dispatcher_unavailable g tid pid rid;
                (pb, t) = resolve_task_request e s pid ty PendingResolutionFailed t;
                t = t\<lparr>tk_pending := on_response pid rid (fail_response err) (tk_pending t)\<rparr>
              in (Inl err, [pb], put_task t s)
            else let (pb, t) = resolve_task_request e s pid ty resolution t;
                res = pending_response_of t pid rid False (te_event_id (pb_event pb));
                t = t\<lparr>tk_pending := on_response pid rid (accept_response res) (tk_pending t)\<rparr>
              in (Inr res, [pb], put_task t s))"

text \<open>
  \<open>handleServerRequestResolved\<close> for a request id; \<open>checked\<close> and \<open>matched\<close> are the flags of the
  dispatcher.
\<close>

definition resolve_by_server :: "env \<Rightarrow> pending_entry \<Rightarrow> task \<Rightarrow> service \<Rightarrow> publication \<times> service" where
  "resolve_by_server e r t s =
     (let pid = pr_pending_request_id (pe_pending r); rid = pe_in_flight_client_response_id r;
          (pb, t) = resolve_task_request e s pid (pr_pending_type (pe_pending r)) PendingResolutionCleared t;
          t = (if rid = [] then t
               else t\<lparr>tk_pending := clear_in_flight pid (on_response pid rid (\<lambda>en.
                 if rn_state en = ResponseStateResponding
                 then accept_response (pending_response_of t pid rid True (te_event_id (pb_event pb))) en
                 else en) (tk_pending t))\<rparr>)
      in (pb, put_task t s))"

definition handle_server_request_resolved ::
  "env \<Rightarrow> (string \<Rightarrow> string option) \<Rightarrow> string \<Rightarrow> bool \<Rightarrow> bool \<Rightarrow> conn \<Rightarrow> service \<Rightarrow> publication list \<times> service" where
  "handle_server_request_resolved e js raw checked matched c s =
     (if raw = [] \<or> checked \<and> \<not> matched then ([], s)
      else case List.find (\<lambda>t. tk_connection t = Some c \<and>
          active_by_resolved_server_request_id js raw (tk_pending t) \<noteq> None) (tasks_of s) of
          None \<Rightarrow> ([], mark_resolved_server_request js c raw s)
        | Some t \<Rightarrow> (let (pb, s) = resolve_by_server e
              (the (active_by_resolved_server_request_id js raw (tk_pending t))) t s in ([pb], s)))"

definition max_source_label_bytes :: int where "max_source_label_bytes = 256"
definition max_outbound_error_display_message_bytes :: int where "max_outbound_error_display_message_bytes = 2 * 1024"

text \<open>\<open>redactPayloadLocked\<close> for a warning.\<close>

definition redact_warning :: "env \<Rightarrow> redactor \<Rightarrow> gateway_warning_event \<Rightarrow> gateway_warning_event" where
  "redact_warning e r w = w\<lparr>
     gw_message := public_text e r (gw_message w) max_outbound_error_display_message_bytes [],
     gw_request_type := public_text e r (gw_request_type w) max_source_label_bytes [],
     gw_auto_resolution := public_text e r (gw_auto_resolution w) max_source_label_bytes [],
     gw_limit_reason := public_text e r (gw_limit_reason w) max_source_label_bytes []\<rparr>"

definition publish_pending_warning :: "env \<Rightarrow> string \<Rightarrow> gateway_warning_event \<Rightarrow> service \<Rightarrow> publication list \<times> service" where
  "publish_pending_warning e tid w s =
     (case task_by_id tid s of None \<Rightarrow> ([], s) | Some t \<Rightarrow>
      if is_terminal_state (tk_state t) then ([], s)
      else let (pb, t) = append_task_event e s (GatewayWarning (redact_warning e (task_redactor s t) w)) t
        in ([pb], put_task t s))"

end
