(* ===== verification/Task_Log.thy ===== *)
theory Task_Log
  imports Task_Requests
begin

text \<open>
  The event log of one task.  The ids of the buffered events are the last ones given, without a
  gap; whatever the service does to a task, its log only grows at the end and loses events only at
  the front (\<open>log_le\<close>).  What a task and its pending requests never lose is collected in
  \<open>task_le\<close>, the order in which a task object moves.
\<close>

named_theorems task_simps \<open>what the helpers do to the fields of a task\<close>

subsection \<open>Ids without a gap\<close>

text \<open>The ids of \<open>evs\<close> are consecutive and end with \<open>n\<close>; the arithmetic is that of \<open>uint64\<close>.\<close>

fun ids_upto :: "u64 \<Rightarrow> task_event list \<Rightarrow> bool" where
  "ids_upto n [] = True"
| "ids_upto n (ev # evs) \<longleftrightarrow> te_event_id ev = n - of_nat (length evs) \<and> ids_upto n evs"

lemma ids_upto_append:
  "ids_upto n (xs @ ys) \<longleftrightarrow> ids_upto (n - of_nat (length ys)) xs \<and> ids_upto n ys"
  by (induction xs) (auto simp: algebra_simps)

lemma ids_upto_drop: "ids_upto n evs \<Longrightarrow> ids_upto n (drop k evs)"
  by (metis append_take_drop_id ids_upto_append)

lemma ids_upto_nth: "ids_upto n evs \<Longrightarrow> i < length evs \<Longrightarrow> te_event_id (evs ! i) = n - of_nat (length evs - Suc i)"
  by (induction evs arbitrary: i) (auto simp: nth_Cons split: nat.split)

lemma ids_upto_last: "ids_upto n evs \<Longrightarrow> evs \<noteq> [] \<Longrightarrow> te_event_id (last evs) = n"
  by (simp add: last_conv_nth ids_upto_nth)

subsection \<open>Eviction\<close>

lemma enforce_replay_loop_drop:
  assumes "enforce_replay_loop e m b evs bytes ev0 = (evs', bytes', ev')"
  shows "\<exists>k \<le> length evs. evs' = drop k evs \<and> ev' = (if k = 0 then ev0 else te_event_id (evs ! (k - 1)))"
  using assms
proof (induction e m b evs bytes ev0 arbitrary: evs' bytes' ev' rule: enforce_replay_loop.induct)
  case (2 e m b ev evs bytes ev0)
  show ?case
  proof (cases "int (length (ev # evs)) > m \<or> length (ev # evs) > 1 \<and> bytes > b")
    case True
    with 2 obtain k where "k \<le> length evs" "evs' = drop k evs"
        "ev' = (if k = 0 then te_event_id ev else te_event_id (evs ! (k - 1)))"
      by (metis enforce_replay_loop.simps(2))
    then show ?thesis by (intro exI [of _ "Suc k"]) (auto simp: nth_Cons split: nat.split)
  next
    case False
    with 2(2) have "evs' = ev # evs" "ev' = ev0" by (auto split: if_splits)
    then show ?thesis by (intro exI [of _ 0]) simp
  qed
qed auto

lemma enforce_replay_loop_caps:
  assumes "enforce_replay_loop e m b evs bytes ev0 = (evs', bytes', ev')" "0 < m" "evs \<noteq> []"
  shows "evs' \<noteq> [] \<and> int (length evs') \<le> m \<and> (length evs' = 1 \<or> bytes' \<le> b)"
  using assms
proof (induction e m b evs bytes ev0 arbitrary: evs' bytes' ev' rule: enforce_replay_loop.induct)
  case (2 e m b ev evs bytes ev0)
  show ?case
  proof (cases "int (length (ev # evs)) > m \<or> length (ev # evs) > 1 \<and> bytes > b")
    case True
    then have ne: "evs \<noteq> []" using 2(3) by auto
    from True 2(2) have "enforce_replay_loop e m b evs (max 0 (i64 (bytes - en_event_size e ev))) (te_event_id ev)
        = (evs', bytes', ev')" by (simp only: enforce_replay_loop.simps if_True)
    from 2(1) [OF True this 2(3) ne] show ?thesis .
  next
    case False
    with 2(2) have "evs' = ev # evs" "bytes' = bytes" by (auto split: if_splits)
    with False show ?thesis by (cases evs) auto
  qed
qed simp

subsection \<open>Well-formed logs\<close>

definition log_wf :: "task \<Rightarrow> bool" where
  "log_wf t \<longleftrightarrow> ids_upto (tk_next_event_id t) (tk_events t) \<and>
     tk_start_evicted_before t = tk_next_event_id t - of_nat (length (tk_events t)) \<and>
     (\<forall>ev\<in>set (tk_events t). te_task_id ev = tk_id t)"

definition log_ok :: "service \<Rightarrow> task \<Rightarrow> bool" where
  "log_ok s t \<longleftrightarrow> log_wf t \<and> tk_events t \<noteq> [] \<and>
     int (length (tk_events t)) \<le> replay_retention_event_cap_of (tk_session_group_id t) s \<and>
     (length (tk_events t) = 1 \<or> tk_retained_event_bytes t \<le> replay_retention_byte_cap_of (tk_session_group_id t) s)"

text \<open>The log of \<open>t'\<close> continues the log of \<open>t\<close> by the events \<open>new\<close>.\<close>

definition log_extends :: "task \<Rightarrow> task_event list \<Rightarrow> task \<Rightarrow> bool" where
  "log_extends t new t' \<longleftrightarrow> (\<exists>k \<le> length (tk_events t @ new). tk_events t' = drop k (tk_events t @ new)) \<and>
     tk_next_event_id t' = tk_next_event_id t + of_nat (length new) \<and> ids_upto (tk_next_event_id t') new"

definition log_le :: "task \<Rightarrow> task \<Rightarrow> bool" where
  "log_le t t' \<longleftrightarrow> (\<exists>new. log_extends t new t')"

lemma log_le_same: "tk_events t' = tk_events t \<Longrightarrow> tk_next_event_id t' = tk_next_event_id t \<Longrightarrow> log_le t t'"
  unfolding log_le_def log_extends_def by (intro exI [of _ "[]"]) (auto intro: exI [of _ 0])

lemma log_extends_trans:
  assumes "log_extends t xs u" "log_extends u ys v"
  shows "log_extends t (xs @ ys) v"
proof -
  from assms(1) obtain k where k: "k \<le> length (tk_events t @ xs)" "tk_events u = drop k (tk_events t @ xs)"
    "tk_next_event_id u = tk_next_event_id t + of_nat (length xs)" "ids_upto (tk_next_event_id u) xs"
    by (auto simp: log_extends_def)
  from assms(2) obtain l where l: "l \<le> length (tk_events u @ ys)" "tk_events v = drop l (tk_events u @ ys)"
    "tk_next_event_id v = tk_next_event_id u + of_nat (length ys)" "ids_upto (tk_next_event_id v) ys"
    by (auto simp: log_extends_def)
  define zs where "zs = tk_events t @ xs @ ys"
  have "tk_events u @ ys = drop k zs" using k(1,2) by (simp add: zs_def)
  then have "tk_events v = drop l (drop k zs)" using l(2) by (simp only:)
  then have "tk_events v = drop (k + l) zs" by (simp only: drop_drop add.commute)
  then have "tk_events v = drop (k + l) (tk_events t @ xs @ ys)" by (simp only: zs_def)
  moreover have "k + l \<le> length (tk_events t @ xs @ ys)" using l(1) k(1,2) by simp
  ultimately show ?thesis using k(3,4) l(3,4) unfolding log_extends_def
    by (auto simp: ids_upto_append algebra_simps)
qed

lemma log_le_trans: "log_le t u \<Longrightarrow> log_le u v \<Longrightarrow> log_le t v"
  unfolding log_le_def using log_extends_trans by blast

subsection \<open>Appending\<close>

text \<open>An append changes the log alone.\<close>

lemma enforce_fields [task_simps]:
  "tk_id (enforce_task_replay_limits e s t) = tk_id t"
  "tk_session_group_id (enforce_task_replay_limits e s t) = tk_session_group_id t"
  "tk_workspace_id (enforce_task_replay_limits e s t) = tk_workspace_id t"
  "tk_client_message_id (enforce_task_replay_limits e s t) = tk_client_message_id t"
  "tk_created_at (enforce_task_replay_limits e s t) = tk_created_at t"
  "tk_thread_id (enforce_task_replay_limits e s t) = tk_thread_id t"
  "tk_turn_id (enforce_task_replay_limits e s t) = tk_turn_id t"
  "tk_state (enforce_task_replay_limits e s t) = tk_state t"
  "tk_terminal (enforce_task_replay_limits e s t) = tk_terminal t"
  "tk_pending (enforce_task_replay_limits e s t) = tk_pending t"
  "tk_connection (enforce_task_replay_limits e s t) = tk_connection t"
  "tk_phase (enforce_task_replay_limits e s t) = tk_phase t"
  "tk_next_event_id (enforce_task_replay_limits e s t) = tk_next_event_id t"
  "tk_cancel_before_turn (enforce_task_replay_limits e s t) = tk_cancel_before_turn t"
  "tk_streams (enforce_task_replay_limits e s t) = tk_streams t"
  "tk_sensitive (enforce_task_replay_limits e s t) = tk_sensitive t"
  "tk_pre_interrupt_state (enforce_task_replay_limits e s t) = tk_pre_interrupt_state t"
  by (simp_all add: enforce_task_replay_limits_def split: prod.split)

lemma append_task_event_fields [task_simps]:
  "tk_id (snd (append_task_event e s p t)) = tk_id t"
  "tk_session_group_id (snd (append_task_event e s p t)) = tk_session_group_id t"
  "tk_workspace_id (snd (append_task_event e s p t)) = tk_workspace_id t"
  "tk_client_message_id (snd (append_task_event e s p t)) = tk_client_message_id t"
  "tk_created_at (snd (append_task_event e s p t)) = tk_created_at t"
  "tk_thread_id (snd (append_task_event e s p t)) = tk_thread_id t"
  "tk_turn_id (snd (append_task_event e s p t)) = tk_turn_id t"
  "tk_state (snd (append_task_event e s p t)) = tk_state t"
  "tk_terminal (snd (append_task_event e s p t)) = tk_terminal t"
  "tk_pending (snd (append_task_event e s p t)) = tk_pending t"
  "tk_connection (snd (append_task_event e s p t)) = tk_connection t"
  "tk_phase (snd (append_task_event e s p t)) = tk_phase t"
  "tk_next_event_id (snd (append_task_event e s p t)) = tk_next_event_id t + 1"
  "tk_cancel_before_turn (snd (append_task_event e s p t)) = tk_cancel_before_turn t"
  "tk_streams (snd (append_task_event e s p t)) = tk_streams t"
  "tk_sensitive (snd (append_task_event e s p t)) = tk_sensitive t"
  "tk_pre_interrupt_state (snd (append_task_event e s p t)) = tk_pre_interrupt_state t"
  by (simp_all add: append_task_event_def Let_def next_task_event_def task_simps)

lemma append_task_event_pb [simp]:
  "pb_event (fst (append_task_event e s p t)) = next_task_event e p t"
  "pb_task_id (fst (append_task_event e s p t)) = tk_id t"
  by (simp_all add: append_task_event_def Let_def)

lemma append_task_event_events:
  "\<exists>k \<le> length (tk_events t). tk_events (snd (append_task_event e s p t)) = drop k (tk_events t) @ [next_task_event e p t] \<and>
     tk_start_evicted_before (snd (append_task_event e s p t)) =
       (if k = 0 then tk_start_evicted_before t else te_event_id (tk_events t ! (k - 1))) \<and>
     int (length (drop k (tk_events t) @ [next_task_event e p t])) \<le> replay_retention_event_cap_of (tk_session_group_id t) s \<and>
     (length (drop k (tk_events t) @ [next_task_event e p t]) = 1 \<or>
      tk_retained_event_bytes (snd (append_task_event e s p t)) \<le> replay_retention_byte_cap_of (tk_session_group_id t) s)"
proof -
  let ?ev = "next_task_event e p t"
  let ?m = "replay_retention_event_cap_of (tk_session_group_id t) s"
    and ?b = "replay_retention_byte_cap_of (tk_session_group_id t) s"
  obtain evs bytes ev0 where l: "enforce_replay_loop e ?m ?b (tk_events t @ [?ev])
      (i64 (tk_retained_event_bytes t + en_event_size e ?ev)) (tk_start_evicted_before t) = (evs, bytes, ev0)"
    by (metis prod_cases3)
  have r: "tk_events (snd (append_task_event e s p t)) = evs" "tk_start_evicted_before (snd (append_task_event e s p t)) = ev0"
    "tk_retained_event_bytes (snd (append_task_event e s p t)) = bytes"
    using l by (simp_all add: append_task_event_def enforce_task_replay_limits_def Let_def)
  from enforce_replay_loop_drop [OF l] obtain k where k: "k \<le> length (tk_events t @ [?ev])"
    "evs = drop k (tk_events t @ [?ev])" "ev0 = (if k = 0 then tk_start_evicted_before t else te_event_id ((tk_events t @ [?ev]) ! (k - 1)))"
    by blast
  from enforce_replay_loop_caps [OF l caps_pos(1)] have c: "evs \<noteq> []" "int (length evs) \<le> ?m" "length evs = 1 \<or> bytes \<le> ?b"
    by auto
  from c(1) k(1,2) have "k \<le> length (tk_events t)" by auto
  with k c r show ?thesis by (intro exI [of _ k]) (auto simp: nth_append)
qed

lemma append_log_extends:
  "log_extends t [next_task_event e p t] (snd (append_task_event e s p t))"
proof -
  obtain k where "k \<le> length (tk_events t)"
    "tk_events (snd (append_task_event e s p t)) = drop k (tk_events t) @ [next_task_event e p t]"
    using append_task_event_events [of t e s p] by blast
  then show ?thesis unfolding log_extends_def
    by (auto simp: task_simps next_task_event_def Let_def intro!: exI [of _ k])
qed

lemma append_log_le: "log_le t (snd (append_task_event e s p t))"
  unfolding log_le_def using append_log_extends by blast

lemma append_log_ok:
  assumes "log_wf t"
  shows "log_ok s (snd (append_task_event e s p t))"
proof -
  let ?t = "snd (append_task_event e s p t)" and ?ev = "next_task_event e p t"
  obtain k where k: "k \<le> length (tk_events t)" "tk_events ?t = drop k (tk_events t) @ [?ev]"
    "tk_start_evicted_before ?t = (if k = 0 then tk_start_evicted_before t else te_event_id (tk_events t ! (k - 1)))"
    "int (length (drop k (tk_events t) @ [?ev])) \<le> replay_retention_event_cap_of (tk_session_group_id t) s"
    "length (drop k (tk_events t) @ [?ev]) = 1 \<or> tk_retained_event_bytes ?t \<le> replay_retention_byte_cap_of (tk_session_group_id t) s"
    using append_task_event_events [of t e s p] by blast
  have ids: "ids_upto (tk_next_event_id t) (tk_events t)" using assms by (simp add: log_wf_def)
  have "ids_upto (tk_next_event_id ?t) (tk_events ?t)"
    using ids_upto_drop [OF ids] by (simp add: k(2) ids_upto_append task_simps next_task_event_def Let_def)
  moreover have "tk_start_evicted_before ?t = tk_next_event_id ?t - of_nat (length (tk_events ?t))"
  proof (cases "k = 0")
    case True
    with assms show ?thesis by (simp add: k(2,3) log_wf_def task_simps)
  next
    case False
    then have "te_event_id (tk_events t ! (k - 1)) = tk_next_event_id t - of_nat (length (tk_events t) - k)"
      using ids_upto_nth [OF ids, of "k - 1"] k(1) by simp
    with False show ?thesis by (simp add: k(2,3) task_simps)
  qed
  moreover have "te_task_id ev = tk_id t" if "ev \<in> set (tk_events ?t)" for ev
    using that assms in_set_dropD [of ev k "tk_events t"]
    by (auto simp: k(2) log_wf_def next_task_event_def Let_def)
  ultimately show ?thesis using k(2,4,5) by (simp add: log_ok_def log_wf_def task_simps)
qed

lemma log_ok_wf: "log_ok s t \<Longrightarrow> log_wf t"
  by (simp add: log_ok_def)

lemma append_task_events_snd [simp]:
  "snd (append_task_events e s [] t) = t"
  "snd (append_task_events e s (p # ps) t) = snd (append_task_events e s ps (snd (append_task_event e s p t)))"
  by (simp_all split: prod.split)

lemma append_task_events_fields [task_simps]:
  "tk_id (snd (append_task_events e s ps t)) = tk_id t"
  "tk_session_group_id (snd (append_task_events e s ps t)) = tk_session_group_id t"
  "tk_workspace_id (snd (append_task_events e s ps t)) = tk_workspace_id t"
  "tk_client_message_id (snd (append_task_events e s ps t)) = tk_client_message_id t"
  "tk_created_at (snd (append_task_events e s ps t)) = tk_created_at t"
  "tk_thread_id (snd (append_task_events e s ps t)) = tk_thread_id t"
  "tk_turn_id (snd (append_task_events e s ps t)) = tk_turn_id t"
  "tk_state (snd (append_task_events e s ps t)) = tk_state t"
  "tk_terminal (snd (append_task_events e s ps t)) = tk_terminal t"
  "tk_pending (snd (append_task_events e s ps t)) = tk_pending t"
  "tk_streams (snd (append_task_events e s ps t)) = tk_streams t"
  "tk_sensitive (snd (append_task_events e s ps t)) = tk_sensitive t"
  "tk_pre_interrupt_state (snd (append_task_events e s ps t)) = tk_pre_interrupt_state t"
  "tk_connection (snd (append_task_events e s ps t)) = tk_connection t"
  by (induction ps arbitrary: t) (simp_all only: append_task_events_snd task_simps)

lemma append_task_events_log_le: "log_le t (snd (append_task_events e s ps t))"
  by (induction ps arbitrary: t) (simp_all only: append_task_events_snd log_le_same, metis append_log_le log_le_trans)

lemma append_task_events_log_ok:
  "log_ok s t \<Longrightarrow> log_ok s (snd (append_task_events e s ps t))"
  by (induction ps arbitrary: t) (simp_all only: append_task_events_snd append_log_ok log_ok_wf)

end
