(* ===== verification/Task_Order.thy ===== *)
theory Task_Order
  imports Task_Log
begin

text \<open>
  The order in which the state of the task service moves, and the invariant it keeps.  A pending
  request, a task and the service never lose what they have promised (\<open>entry_le\<close>,
  \<open>mgr_le\<close>, \<open>task_le\<close>, \<open>service_le\<close>); \<open>evolves\<close> joins the order with the invariant
  \<open>service_inv\<close>, and is proved here for the elementary changes from which every operation is made.
\<close>

subsection \<open>Pending requests\<close>

definition response_le :: "response_entry \<Rightarrow> response_entry \<Rightarrow> bool" where
  "response_le a b \<longleftrightarrow> rn_fingerprint b = rn_fingerprint a \<and>
     (rn_state a \<noteq> ResponseStateResponding \<longrightarrow> rn_state b = rn_state a)"

definition entry_le :: "pending_entry \<Rightarrow> pending_entry \<Rightarrow> bool" where
  "entry_le r r' \<longleftrightarrow> pe_pending r' = pe_pending r \<and> (pe_active r' \<longrightarrow> pe_active r) \<and>
     (pe_active r' \<and> pe_in_flight_client_response_id r \<noteq> [] \<longrightarrow>
        pe_in_flight_client_response_id r' = pe_in_flight_client_response_id r) \<and>
     (\<forall>rid a. gm_get (pe_responses r) rid = Some a \<longrightarrow> (\<exists>b. gm_get (pe_responses r') rid = Some b \<and> response_le a b))"

definition mgr_le :: "manager \<Rightarrow> manager \<Rightarrow> bool" where
  "mgr_le m m' \<longleftrightarrow> (\<forall>pid r. manager_get pid m = Some r \<longrightarrow> (\<exists>r'. manager_get pid m' = Some r' \<and> entry_le r r'))"

lemma response_le_refl [simp]: "response_le a a"
  by (simp add: response_le_def)

lemma response_le_trans: "response_le a b \<Longrightarrow> response_le b c \<Longrightarrow> response_le a c"
  by (simp add: response_le_def)

lemma entry_le_refl [simp]: "entry_le r r"
  by (simp add: entry_le_def)

lemma entry_le_response:
  "entry_le r r' \<Longrightarrow> gm_get (pe_responses r) rid = Some a \<Longrightarrow> \<exists>b. gm_get (pe_responses r') rid = Some b \<and> response_le a b"
  by (simp add: entry_le_def)

lemma entry_le_trans:
  assumes "entry_le a b" "entry_le b c"
  shows "entry_le a c"
proof -
  have "\<exists>z. gm_get (pe_responses c) rid = Some z \<and> response_le x z" if "gm_get (pe_responses a) rid = Some x" for rid x
    using entry_le_response [OF assms(1) that] entry_le_response [OF assms(2)] response_le_trans by blast
  with assms show ?thesis by (simp add: entry_le_def)
qed

lemma mgr_le_refl [simp]: "mgr_le m m"
  by (simp add: mgr_le_def)

lemma mgr_le_trans: "mgr_le a b \<Longrightarrow> mgr_le b c \<Longrightarrow> mgr_le a c"
  unfolding mgr_le_def using entry_le_trans by blast

lemma manager_get_mark [simp]: "manager_get q (mark_resolved pid m) =
    (if q = pid then map_option (\<lambda>r. r\<lparr>pe_active := False\<rparr>) (manager_get pid m) else manager_get q m)"
  by (simp add: manager_get_def mark_resolved_def split: option.split)

lemma manager_get_update [simp]: "manager_get q (update_entry pid f m) =
    (if q = pid then map_option f (manager_get pid m) else manager_get q m)"
  by (simp add: manager_get_def update_entry_def split: option.split)

lemma entry_le_inactive:
  "pe_pending r' = pe_pending r \<Longrightarrow> \<not> pe_active r' \<Longrightarrow>
    (\<And>rid a. gm_get (pe_responses r) rid = Some a \<Longrightarrow> \<exists>b. gm_get (pe_responses r') rid = Some b \<and> response_le a b) \<Longrightarrow>
    entry_le r r'"
  by (simp add: entry_le_def)

lemma mgr_le_mark [simp]: "mgr_le m (mark_resolved pid m)"
  by (auto simp: mgr_le_def intro: entry_le_inactive)

lemma mgr_le_update: "(\<And>r. manager_get pid m = Some r \<Longrightarrow> entry_le r (f r)) \<Longrightarrow> mgr_le m (update_entry pid f m)"
  by (auto simp: mgr_le_def)

lemma mgr_le_add:
  assumes "manager_ok m" "mg_next_seq m \<noteq> - 1"
  shows "mgr_le m (snd (manager_add r m))"
  using fresh_pending_id [OF assms] by (auto simp: mgr_le_def manager_get_def manager_add_def Let_def)

lemma mgr_le_fold_mark: "mgr_le m (fold (\<lambda>p. mark_resolved (f p)) ps m)"
  by (induction ps arbitrary: m) (simp_all, blast intro: mgr_le_trans mgr_le_mark)

lemma manager_ok_fold_mark: "manager_ok m \<Longrightarrow> manager_ok (fold (\<lambda>p. mark_resolved (f p)) ps m)"
  by (induction ps arbitrary: m) (auto intro: mark_resolved_ok)

text \<open>An update that keeps the ids and the activity of an entry keeps the indexes.\<close>

definition keeps_keys :: "(pending_entry \<Rightarrow> pending_entry) \<Rightarrow> bool" where
  "keeps_keys f \<longleftrightarrow> (\<forall>r. pe_pending (f r) = pe_pending r \<and> pe_active (f r) = pe_active r \<and>
     pe_app_server_request_id (f r) = pe_app_server_request_id r \<and> pe_jsonrpc_id (f r) = pe_jsonrpc_id r)"

lemma update_entry_ok:
  assumes "manager_ok m" "keeps_keys f"
  shows "manager_ok (update_entry pid f m)"
proof (cases "gm_get (mg_requests m) pid")
  case None
  then show ?thesis using assms(1) by (simp add: update_entry_def)
next
  case (Some r)
  have same: "(\<exists>x. (if q = pid then Some (f r) else gm_get (mg_requests m) q) = Some x \<and> pe_active x \<and> P x) \<longleftrightarrow>
      (\<exists>x. gm_get (mg_requests m) q = Some x \<and> pe_active x \<and> P x)"
    if "P (f r) = P r" for q P
    using that assms(2) Some by (auto simp: keeps_keys_def)
  from assms(1) have m: "gm_wf (mg_requests m)"
    "index_ok pe_app_server_request_id (mg_active_by_server_id m) m"
    "index_ok (\<lambda>r. request_id_key (pe_jsonrpc_id r)) (mg_active_by_jsonrpc_id m) m"
    "\<And>q x. gm_get (mg_requests m) q = Some x \<Longrightarrow>
       pr_pending_request_id (pe_pending x) = q \<and> (\<exists>n. 0 < n \<and> n \<le> mg_next_seq m \<and> q = pending_id n)"
    unfolding manager_ok_def by blast+
  let ?m = "m\<lparr>mg_requests := gm_put pid (f r) (mg_requests m)\<rparr>"
  have "index_ok pe_app_server_request_id (mg_active_by_server_id ?m) ?m"
    "index_ok (\<lambda>r. request_id_key (pe_jsonrpc_id r)) (mg_active_by_jsonrpc_id ?m) ?m"
    using m(2,3) assms(2) by (simp_all add: index_ok_def same keeps_keys_def)
  moreover have "pr_pending_request_id (pe_pending x) = q \<and> (\<exists>n. 0 < n \<and> n \<le> mg_next_seq m \<and> q = pending_id n)"
    if "(if q = pid then Some (f r) else gm_get (mg_requests m) q) = Some x" for q x
    using that m(4) [of q x] m(4) [OF Some] assms(2) by (auto simp: keeps_keys_def split: if_splits)
  ultimately show ?thesis using m(1) by (simp add: update_entry_def Some manager_ok_def del: fun_upd_apply)
qed

lemma keeps_keys_on_response: "keeps_keys (\<lambda>r. r\<lparr>pe_responses := g r\<rparr>)"
  "keeps_keys (\<lambda>r. r\<lparr>pe_in_flight_client_response_id := h r\<rparr>)"
  "keeps_keys (\<lambda>r. r\<lparr>pe_responses := g r, pe_in_flight_client_response_id := h r\<rparr>)"
  by (simp_all add: keeps_keys_def)

lemma on_response_ok [simp]: "manager_ok m \<Longrightarrow> manager_ok (on_response pid rid f m)"
  unfolding on_response_def by (rule update_entry_ok) (simp_all add: keeps_keys_on_response)

lemma clear_in_flight_ok [simp]: "manager_ok m \<Longrightarrow> manager_ok (clear_in_flight pid m)"
  unfolding clear_in_flight_def by (rule update_entry_ok) (simp_all add: keeps_keys_on_response)

lemma mgr_le_on_response:
  assumes "\<And>r a. manager_get pid m = Some r \<Longrightarrow> gm_get (pe_responses r) rid = Some a \<Longrightarrow> response_le a (f a)"
  shows "mgr_le m (on_response pid rid f m)"
  unfolding on_response_def using assms by (intro mgr_le_update) (fastforce simp: entry_le_def split: option.split)

lemma mgr_le_clear_in_flight:
  assumes "\<And>r. manager_get pid m = Some r \<Longrightarrow> \<not> pe_active r"
  shows "mgr_le m (clear_in_flight pid m)"
  unfolding clear_in_flight_def using assms by (intro mgr_le_update entry_le_inactive) auto

lemma mgr_le_clear_mark: "mgr_le m (mark_resolved pid (clear_in_flight pid m))"
  by (auto simp: mgr_le_def clear_in_flight_def intro: entry_le_inactive)

subsection \<open>Tasks\<close>

definition set_once :: "string \<Rightarrow> string \<Rightarrow> bool" where
  "set_once a b \<longleftrightarrow> a = [] \<or> b = a"

definition task_le :: "task \<Rightarrow> task \<Rightarrow> bool" where
  "task_le t t' \<longleftrightarrow> tk_id t' = tk_id t \<and> tk_session_group_id t' = tk_session_group_id t \<and>
     tk_workspace_id t' = tk_workspace_id t \<and> tk_client_message_id t' = tk_client_message_id t \<and>
     tk_created_at t' = tk_created_at t \<and> log_le t t' \<and> mgr_le (tk_pending t) (tk_pending t') \<and>
     set_once (tk_thread_id t) (tk_thread_id t') \<and> set_once (tk_turn_id t) (tk_turn_id t') \<and>
     (tk_terminal t \<noteq> None \<longrightarrow> tk_terminal t' \<noteq> None)"

lemma set_once_refl [simp]: "set_once a a" "set_once [] a"
  by (simp_all add: set_once_def)

lemma task_le_refl [simp]: "task_le t t"
  by (simp add: task_le_def log_le_same)

lemma task_le_trans: "task_le a b \<Longrightarrow> task_le b c \<Longrightarrow> task_le a c"
  unfolding task_le_def set_once_def by (auto intro: log_le_trans mgr_le_trans)

text \<open>The state to return to after a refused interrupt is not a terminal one.\<close>

definition pre_ok :: "task \<Rightarrow> bool" where
  "pre_ok t \<longleftrightarrow> (case tk_pre_interrupt_state t of None \<Rightarrow> True | Some st \<Rightarrow> \<not> is_terminal_state st)"

definition task_ok :: "service \<Rightarrow> task \<Rightarrow> bool" where
  "task_ok s t \<longleftrightarrow> log_ok s t \<and> manager_ok (tk_pending t) \<and> pre_ok t \<and>
     (tk_terminal t = None \<longrightarrow> \<not> is_terminal_state (tk_state t))"

text \<open>A change of a task that neither ends it nor breaks it.\<close>

definition soft :: "service \<Rightarrow> task \<Rightarrow> task \<Rightarrow> bool" where
  "soft s t t' \<longleftrightarrow> task_le t t' \<and> tk_terminal t' = tk_terminal t \<and> (task_ok s t \<longrightarrow> task_ok s t')"

lemma soft_refl [simp]: "soft s t t"
  by (simp add: soft_def)

lemma soft_trans: "soft s a b \<Longrightarrow> soft s b c \<Longrightarrow> soft s a c"
  unfolding soft_def using task_le_trans by auto

lemma soft_id: "soft s t t' \<Longrightarrow> tk_id t' = tk_id t" "soft s t t' \<Longrightarrow> tk_session_group_id t' = tk_session_group_id t"
  "soft s t t' \<Longrightarrow> tk_client_message_id t' = tk_client_message_id t"
  by (simp_all add: soft_def task_le_def)

lemma soft_append: "soft s t (snd (append_task_event e s p t))"
  using append_log_le [of t e s p] append_log_ok [of t s e p]
  by (auto simp: soft_def task_le_def task_ok_def pre_ok_def task_simps log_ok_wf)

lemma soft_appends: "soft s t (snd (append_task_events e s ps t))"
  using append_task_events_log_le [of t e s ps] append_task_events_log_ok [of s t e ps]
  by (auto simp: soft_def task_le_def task_ok_def pre_ok_def task_simps)

lemma log_ok_cong:
  "tk_id t' = tk_id t \<Longrightarrow> tk_session_group_id t' = tk_session_group_id t \<Longrightarrow> tk_events t' = tk_events t \<Longrightarrow>
    tk_next_event_id t' = tk_next_event_id t \<Longrightarrow> tk_start_evicted_before t' = tk_start_evicted_before t \<Longrightarrow>
    tk_retained_event_bytes t' = tk_retained_event_bytes t \<Longrightarrow> log_ok s t' = log_ok s t"
  by (simp add: log_ok_def log_wf_def)

text \<open>A change of the other fields; the state may move, but not into a terminal one.\<close>

lemma soft_update:
  assumes "tk_id t' = tk_id t" "tk_session_group_id t' = tk_session_group_id t"
    "tk_workspace_id t' = tk_workspace_id t" "tk_client_message_id t' = tk_client_message_id t"
    "tk_created_at t' = tk_created_at t" "tk_events t' = tk_events t" "tk_next_event_id t' = tk_next_event_id t"
    "tk_start_evicted_before t' = tk_start_evicted_before t" "tk_retained_event_bytes t' = tk_retained_event_bytes t"
    "tk_terminal t' = tk_terminal t"
    "set_once (tk_thread_id t) (tk_thread_id t')" "set_once (tk_turn_id t) (tk_turn_id t')"
    "mgr_le (tk_pending t) (tk_pending t')" "manager_ok (tk_pending t) \<Longrightarrow> manager_ok (tk_pending t')"
    "is_terminal_state (tk_state t') \<Longrightarrow> is_terminal_state (tk_state t)" "pre_ok t \<Longrightarrow> pre_ok t'"
  shows "soft s t t'"
  unfolding soft_def task_le_def task_ok_def
  using assms log_ok_cong [OF assms(1,2,6,7,8,9)] log_le_same [OF assms(6,7)] by auto

subsection \<open>The service\<close>

definition task_name :: "u64 \<Rightarrow> string" where
  "task_name n = ''task-'' @ strconv_uint n"

lemma task_name_inj: "task_name m = task_name n \<longleftrightarrow> m = n"
  by (simp add: task_name_def strconv_uint_inj)

lemma task_name_nonempty [simp]: "task_name n \<noteq> []"
  by (simp add: task_name_def)

definition active_of :: "string \<Rightarrow> service \<Rightarrow> string" where
  "active_of g s = (case session_of g s of None \<Rightarrow> [] | Some r \<Rightarrow> sr_active_task_id r)"

definition group_of :: "string \<Rightarrow> service \<Rightarrow> session_group option" where
  "group_of g s = map_option sr_group (session_of g s)"

abbreviation obj :: "service \<Rightarrow> string \<Rightarrow> task option" where
  "obj s k \<equiv> gm_get (sv_objects s) k"

abbreviation ent :: "service \<Rightarrow> string \<Rightarrow> start_entry option" where
  "ent s k \<equiv> gm_get (sv_entries s) k"

definition entry_ok :: "service \<Rightarrow> string \<Rightarrow> start_entry \<Rightarrow> bool" where
  "entry_ok s k en \<longleftrightarrow> se_task_id en = k \<and>
     (se_state en \<noteq> StartEntryPending \<longrightarrow> 1 \<le> pm_closes (se_promise en)) \<and>
     (k \<in> set (sv_tasks s) \<longrightarrow> pm_closes (se_promise en) = (if se_state en = StartEntryPending then 0 else 1) \<and>
        gm_get (sv_idempotency s) (se_key en) = Some k)"

definition key_of :: "task \<Rightarrow> start_key" where
  "key_of t = \<lparr>ik_session_group_id = tk_session_group_id t, ik_client_message_id = tk_client_message_id t\<rparr>"

definition service_inv :: "service \<Rightarrow> bool" where
  "service_inv s \<longleftrightarrow> gm_wf (sv_idempotency s) \<and>
     (\<forall>k \<in> set (sv_tasks s). obj s k \<noteq> None) \<and>
     (\<forall>k t. obj s k = Some t \<longrightarrow> tk_id t = k \<and> (\<exists>n. 0 < n \<and> n \<le> sv_next_task_seq s \<and> k = task_name n) \<and>
        task_ok s t \<and> (\<exists>en. ent s k = Some en \<and> se_key en = key_of t)) \<and>
     (\<forall>k en. ent s k = Some en \<longrightarrow> obj s k \<noteq> None \<and> entry_ok s k en) \<and>
     (\<forall>key k. gm_get (sv_idempotency s) key = Some k \<longrightarrow> (\<exists>en. ent s k = Some en \<and> se_key en = key)) \<and>
     (\<forall>g. active_of g s \<noteq> [] \<longrightarrow> active_of g s \<in> set (sv_tasks s) \<and>
        (\<exists>t. obj s (active_of g s) = Some t \<and> tk_session_group_id t = g \<and> tk_terminal t = None)) \<and>
     (\<forall>k t. obj s k = Some t \<and> tk_terminal t = None \<longrightarrow> k \<in> set (sv_tasks s) \<and> active_of (tk_session_group_id t) s = k)"

text \<open>
  What a session promises, as an abstract lock: its holder is the task that has not ended, and a
  task that released the lock never holds it again.
\<close>

type_synonym lock = "string option \<times> string set"

inductive lock_step :: "lock \<Rightarrow> lock \<Rightarrow> bool" where
  LockAcquire: "k \<notin> past \<Longrightarrow> lock_step (None, past) (Some k, past)"
| LockRelease: "lock_step (Some k, past) (None, insert k past)"

definition session_lock :: "string \<Rightarrow> service \<Rightarrow> lock" where
  "session_lock g s = (if active_of g s = [] then None else Some (active_of g s),
     {k. \<exists>t. obj s k = Some t \<and> tk_session_group_id t = g \<and> tk_terminal t \<noteq> None})"

definition start_entry_le :: "start_entry \<Rightarrow> start_entry \<Rightarrow> bool" where
  "start_entry_le a b \<longleftrightarrow> se_key b = se_key a \<and> se_fingerprint b = se_fingerprint a \<and> se_task_id b = se_task_id a \<and>
     pm_closes (se_promise a) \<le> pm_closes (se_promise b) \<and>
     (se_state a \<noteq> StartEntryPending \<longrightarrow> se_state b = se_state a \<and> se_result b = se_result a \<and> se_err b = se_err a)"

definition service_le :: "service \<Rightarrow> service \<Rightarrow> bool" where
  "service_le s s' \<longleftrightarrow>
     (\<forall>k t. obj s k = Some t \<longrightarrow> (\<exists>t'. obj s' k = Some t' \<and> task_le t t')) \<and>
     (\<forall>k a. ent s k = Some a \<longrightarrow> (\<exists>b. ent s' k = Some b \<and> start_entry_le a b)) \<and>
     (\<forall>g. group_of g s' = group_of g s) \<and>
     (\<forall>k. obj s k \<noteq> None \<and> k \<notin> set (sv_tasks s) \<longrightarrow> k \<notin> set (sv_tasks s')) \<and>
     (\<forall>g. lock_step\<^sup>*\<^sup>* (session_lock g s) (session_lock g s'))"

definition evolves :: "service \<Rightarrow> service \<Rightarrow> bool" where
  "evolves s s' \<longleftrightarrow> (service_inv s \<longrightarrow> service_inv s' \<and> service_le s s')"

lemma start_entry_le_refl [simp]: "start_entry_le a a"
  by (simp add: start_entry_le_def)

lemma start_entry_le_trans: "start_entry_le a b \<Longrightarrow> start_entry_le b c \<Longrightarrow> start_entry_le a c"
  by (auto simp: start_entry_le_def)

lemma service_le_refl [simp]: "service_le s s"
  by (simp add: service_le_def)

lemma service_leD:
  assumes "service_le s s'"
  shows "obj s k = Some t \<Longrightarrow> \<exists>t'. obj s' k = Some t' \<and> task_le t t'"
    and "ent s k = Some a \<Longrightarrow> \<exists>b. ent s' k = Some b \<and> start_entry_le a b"
    and "group_of g s' = group_of g s"
    and "obj s k = Some t \<Longrightarrow> k \<notin> set (sv_tasks s) \<Longrightarrow> k \<notin> set (sv_tasks s')"
    and "lock_step\<^sup>*\<^sup>* (session_lock g s) (session_lock g s')"
  using assms by (simp_all add: service_le_def)

lemma service_le_trans:
  assumes "service_le a b" "service_le b c"
  shows "service_le a c"
proof -
  note ab = service_leD [OF assms(1)] and bc = service_leD [OF assms(2)]
  have "\<exists>t'. obj c k = Some t' \<and> task_le t t'" if "obj a k = Some t" for k t
    using ab(1) [OF that] bc(1) task_le_trans by blast
  moreover have "\<exists>z. ent c k = Some z \<and> start_entry_le x z" if "ent a k = Some x" for k x
    using ab(2) [OF that] bc(2) start_entry_le_trans by blast
  moreover have "k \<notin> set (sv_tasks c)" if "obj a k = Some t" "k \<notin> set (sv_tasks a)" for k t
    using ab(1) [OF that(1)] ab(4) [OF that] bc(4) by blast
  moreover have "lock_step\<^sup>*\<^sup>* (session_lock g a) (session_lock g c)" for g
    using ab(5) bc(5) rtranclp_trans by metis
  ultimately show ?thesis using ab(3) bc(3) by (auto simp: service_le_def)
qed

lemma evolves_refl [simp]: "evolves s s"
  by (simp add: evolves_def)

lemma evolves_trans: "evolves a b \<Longrightarrow> evolves b c \<Longrightarrow> evolves a c"
  unfolding evolves_def using service_le_trans by blast

lemma evolvesI: "(service_inv s \<Longrightarrow> evolves s s') \<Longrightarrow> evolves s s'"
  by (simp add: evolves_def)

text \<open>The parts of the invariant, for the proofs that use it.\<close>

lemma service_invD:
  assumes "service_inv s"
  shows "k \<in> set (sv_tasks s) \<Longrightarrow> \<exists>t. obj s k = Some t"
    and "obj s k = Some t \<Longrightarrow> tk_id t = k"
    and "obj s k = Some t \<Longrightarrow> task_ok s t"
    and "obj s k = Some t \<Longrightarrow> \<exists>en. ent s k = Some en \<and> se_key en = key_of t"
    and "ent s k = Some en \<Longrightarrow> entry_ok s k en"
    and "ent s k = Some en \<Longrightarrow> \<exists>t. obj s k = Some t"
    and "gm_get (sv_idempotency s) key = Some k \<Longrightarrow> \<exists>en. ent s k = Some en \<and> se_key en = key"
    and "active_of g s \<noteq> [] \<Longrightarrow> active_of g s \<in> set (sv_tasks s) \<and>
        (\<exists>t. obj s (active_of g s) = Some t \<and> tk_session_group_id t = g \<and> tk_terminal t = None)"
    and "obj s k = Some t \<Longrightarrow> tk_terminal t = None \<Longrightarrow> k \<in> set (sv_tasks s) \<and> active_of (tk_session_group_id t) s = k"
    and "obj s k = Some t \<Longrightarrow> \<exists>n. 0 < n \<and> n \<le> sv_next_task_seq s \<and> k = task_name n"
    and "gm_wf (sv_idempotency s)"
proof -
  note h = assms [unfolded service_inv_def]
  have 1: "\<forall>k \<in> set (sv_tasks s). obj s k \<noteq> None" using h by (elim conjE)
  have 2: "\<forall>k t. obj s k = Some t \<longrightarrow> tk_id t = k \<and> (\<exists>n. 0 < n \<and> n \<le> sv_next_task_seq s \<and> k = task_name n) \<and>
        task_ok s t \<and> (\<exists>en. ent s k = Some en \<and> se_key en = key_of t)" using h by (elim conjE)
  have 3: "\<forall>k en. ent s k = Some en \<longrightarrow> obj s k \<noteq> None \<and> entry_ok s k en" using h by (elim conjE)
  have 4: "\<forall>key k. gm_get (sv_idempotency s) key = Some k \<longrightarrow> (\<exists>en. ent s k = Some en \<and> se_key en = key)" using h by (elim conjE)
  have 5: "\<forall>g. active_of g s \<noteq> [] \<longrightarrow> active_of g s \<in> set (sv_tasks s) \<and>
        (\<exists>t. obj s (active_of g s) = Some t \<and> tk_session_group_id t = g \<and> tk_terminal t = None)" using h by (elim conjE)
  have 6: "\<forall>k t. obj s k = Some t \<and> tk_terminal t = None \<longrightarrow> k \<in> set (sv_tasks s) \<and> active_of (tk_session_group_id t) s = k" using h by (elim conjE)
  have 7: "gm_wf (sv_idempotency s)" using h by (elim conjE)
  show "k \<in> set (sv_tasks s) \<Longrightarrow> \<exists>t. obj s k = Some t" using 1 by blast
  show "obj s k = Some t \<Longrightarrow> tk_id t = k" "obj s k = Some t \<Longrightarrow> task_ok s t"
    "obj s k = Some t \<Longrightarrow> \<exists>en. ent s k = Some en \<and> se_key en = key_of t"
    "obj s k = Some t \<Longrightarrow> \<exists>n. 0 < n \<and> n \<le> sv_next_task_seq s \<and> k = task_name n" using 2 by blast+
  show "ent s k = Some en \<Longrightarrow> entry_ok s k en" "ent s k = Some en \<Longrightarrow> \<exists>t. obj s k = Some t" using 3 by blast+
  show "gm_get (sv_idempotency s) key = Some k \<Longrightarrow> \<exists>en. ent s k = Some en \<and> se_key en = key" using 4 by blast
  show "active_of g s \<noteq> [] \<Longrightarrow> active_of g s \<in> set (sv_tasks s) \<and>
        (\<exists>t. obj s (active_of g s) = Some t \<and> tk_session_group_id t = g \<and> tk_terminal t = None)" using 5 by blast
  show "obj s k = Some t \<Longrightarrow> tk_terminal t = None \<Longrightarrow> k \<in> set (sv_tasks s) \<and> active_of (tk_session_group_id t) s = k"
    using 6 by blast
  show "gm_wf (sv_idempotency s)" by (rule 7)
qed

lemma task_by_id_obj: "task_by_id k s = Some t \<Longrightarrow> obj s k = Some t \<and> k \<in> set (sv_tasks s)"
  by (simp add: task_by_id_def split: if_splits)

text \<open>The limits of a session depend on its group only.\<close>

lemma caps_group:
  "replay_retention_event_cap_of g s = (case group_of g s of None \<Rightarrow> default_replay_retention_events | Some r \<Rightarrow> replay_retention_event_cap r)"
  "replay_retention_byte_cap_of g s = (case group_of g s of None \<Rightarrow> default_replay_retention_bytes | Some r \<Rightarrow> replay_retention_byte_cap r)"
  by (simp_all add: replay_retention_event_cap_of_def replay_retention_byte_cap_of_def group_of_def split: option.split)

lemma task_ok_cong: "(\<And>g. group_of g s' = group_of g s) \<Longrightarrow> task_ok s' t = task_ok s t"
  by (simp add: task_ok_def log_ok_def caps_group)

end
