(* ===== verification/Task_Effects.thy ===== *)
theory Task_Effects
  imports Task_Order
begin

text \<open>
  The elementary changes of the service: a frame that the invariant does not read, a task object, a
  start entry, a new task, and the removal of expired tasks and entries.  Each of them evolves the
  service.
\<close>

named_theorems frame \<open>what an operation leaves alone\<close>

lemma service_invI:
  assumes "gm_wf (sv_idempotency s)"
    "\<And>k. k \<in> set (sv_tasks s) \<Longrightarrow> \<exists>t. obj s k = Some t"
    "\<And>k t. obj s k = Some t \<Longrightarrow> tk_id t = k \<and> (\<exists>n. 0 < n \<and> n \<le> sv_next_task_seq s \<and> k = task_name n) \<and>
        task_ok s t \<and> (\<exists>en. ent s k = Some en \<and> se_key en = key_of t)"
    "\<And>k en. ent s k = Some en \<Longrightarrow> (\<exists>t. obj s k = Some t) \<and> entry_ok s k en"
    "\<And>key k. gm_get (sv_idempotency s) key = Some k \<Longrightarrow> \<exists>en. ent s k = Some en \<and> se_key en = key"
    "\<And>g. active_of g s \<noteq> [] \<Longrightarrow> active_of g s \<in> set (sv_tasks s) \<and>
        (\<exists>t. obj s (active_of g s) = Some t \<and> tk_session_group_id t = g \<and> tk_terminal t = None)"
    "\<And>k t. obj s k = Some t \<Longrightarrow> tk_terminal t = None \<Longrightarrow> k \<in> set (sv_tasks s) \<and> active_of (tk_session_group_id t) s = k"
  shows "service_inv s"
  unfolding service_inv_def
  apply (intro conjI)
  subgoal by (rule assms(1))
  subgoal using assms(2) by blast
  subgoal using assms(3) by blast
  subgoal using assms(4) by blast
  subgoal using assms(5) by blast
  subgoal using assms(6) by blast
  subgoal using assms(7) by blast
  done

lemma service_leI:
  assumes "\<And>k t. obj s k = Some t \<Longrightarrow> \<exists>t'. obj s' k = Some t' \<and> task_le t t'"
    "\<And>k a. ent s k = Some a \<Longrightarrow> \<exists>b. ent s' k = Some b \<and> start_entry_le a b"
    "\<And>g. group_of g s' = group_of g s"
    "\<And>k t. obj s k = Some t \<Longrightarrow> k \<notin> set (sv_tasks s) \<Longrightarrow> k \<notin> set (sv_tasks s')"
    "\<And>g. lock_step\<^sup>*\<^sup>* (session_lock g s) (session_lock g s')"
  shows "service_le s s'"
  unfolding service_le_def using assms by auto

lemma entry_ok_cong: "sv_tasks s' = sv_tasks s \<Longrightarrow> sv_idempotency s' = sv_idempotency s \<Longrightarrow> entry_ok s' k en = entry_ok s k en"
  by (simp add: entry_ok_def)

subsection \<open>Frames\<close>

definition same_core :: "service \<Rightarrow> service \<Rightarrow> bool" where
  "same_core s s' \<longleftrightarrow> sv_objects s' = sv_objects s \<and> sv_tasks s' = sv_tasks s \<and> sv_entries s' = sv_entries s \<and>
     sv_idempotency s' = sv_idempotency s \<and> sv_next_task_seq s' = sv_next_task_seq s \<and>
     (\<forall>g. active_of g s' = active_of g s \<and> group_of g s' = group_of g s)"

lemma same_core_refl [simp]: "same_core s s"
  by (simp add: same_core_def)

lemma same_core_trans: "same_core a b \<Longrightarrow> same_core b c \<Longrightarrow> same_core a c"
  by (simp add: same_core_def)

lemma evolves_frame:
  assumes "same_core s s'"
  shows "evolves s s'"
proof -
  have c: "sv_objects s' = sv_objects s" "sv_tasks s' = sv_tasks s" "sv_entries s' = sv_entries s"
    "sv_idempotency s' = sv_idempotency s" "sv_next_task_seq s' = sv_next_task_seq s"
    "\<And>g. active_of g s' = active_of g s" "\<And>g. group_of g s' = group_of g s"
    using assms by (simp_all add: same_core_def)
  have "service_inv s' = service_inv s"
    unfolding service_inv_def c task_ok_cong [of s' s, OF c(7)] entry_ok_cong [OF c(2,4)] ..
  moreover have "session_lock g s' = session_lock g s" for g unfolding session_lock_def c ..
  then have "service_le s s'"
    by (intro service_leI) (use c in auto)
  ultimately show ?thesis by (simp add: evolves_def)
qed

lemma same_core_fields [frame]:
  "same_core s (s\<lparr>sv_bindings := b\<rparr>)" "same_core s (s\<lparr>sv_tombstones := b'\<rparr>)"
  "same_core s (s\<lparr>sv_monitors := m\<rparr>)" "same_core s (s\<lparr>sv_resolved_requests := rr\<rparr>)"
  "same_core s (s\<lparr>sv_connection_secrets := cs\<rparr>)"
  by (simp_all add: same_core_def active_of_def group_of_def session_of_def)

lemma same_core_set_session [frame]:
  "session_of g s = Some r \<Longrightarrow> sr_active_task_id r' = sr_active_task_id r \<Longrightarrow> sr_group r' = sr_group r \<Longrightarrow>
    same_core s (set_session g r' s)"
  by (simp add: same_core_def active_of_def group_of_def session_of_def set_session_def)

subsection \<open>One task object\<close>

lemma evolves_object:
  assumes t: "obj s k = Some t" and le: "task_le t t'" and ok: "task_ok s t \<Longrightarrow> task_ok s t'"
    and s': "sv_objects s' = gm_put k t' (sv_objects s)" "sv_tasks s' = sv_tasks s" "sv_entries s' = sv_entries s"
    "sv_idempotency s' = sv_idempotency s" "sv_next_task_seq s' = sv_next_task_seq s"
    "\<And>g. group_of g s' = group_of g s"
    and act: "\<And>g. active_of g s' = (if tk_terminal t' \<noteq> None \<and> active_of g s = k then [] else active_of g s)"
  shows "evolves s s'"
  unfolding evolves_def
proof (intro impI conjI)
  assume inv: "service_inv s"
  note D = service_invD [OF inv]
  have obj': "obj s' q = (if q = k then Some t' else obj s q)" for q by (simp add: s'(1))
  have task_ok': "task_ok s' x = task_ok s x" for x by (rule task_ok_cong [OF s'(6)])
  have entry_ok': "entry_ok s' q x = entry_ok s q x" for q x by (rule entry_ok_cong [OF s'(2,4)])
  have static: "tk_id t' = k" "tk_session_group_id t' = tk_session_group_id t" "key_of t' = key_of t"
    "tk_terminal t' = None \<Longrightarrow> tk_terminal t = None"
    using le D(2) [OF t] by (auto simp: task_le_def key_of_def)
  show "service_inv s'"
  proof (rule service_invI)
    show "gm_wf (sv_idempotency s')" using D(11) by (simp add: s'(4))
    show "\<exists>t. obj s' q = Some t" if "q \<in> set (sv_tasks s')" for q
      using D(1) [of q] that by (simp add: obj' s'(2))
    show "tk_id x = q \<and> (\<exists>n. 0 < n \<and> n \<le> sv_next_task_seq s' \<and> q = task_name n) \<and> task_ok s' x \<and>
        (\<exists>en. ent s' q = Some en \<and> se_key en = key_of x)" if "obj s' q = Some x" for q x
    proof (cases "q = k")
      case True
      with that have "x = t'" by (simp add: obj')
      with True D(3,4,10) [OF t] ok static(1,3) show ?thesis by (simp add: task_ok' s'(3,5))
    next
      case False
      with that have "obj s q = Some x" by (simp add: obj')
      from D(2-4,10) [OF this] show ?thesis by (simp add: task_ok' s'(3,5))
    qed
    show "(\<exists>t. obj s' q = Some t) \<and> entry_ok s' q en" if "ent s' q = Some en" for q en
      using that D(5,6) [of q en] by (auto simp: obj' entry_ok' s'(3))
    show "\<exists>en. ent s' q = Some en \<and> se_key en = key" if "gm_get (sv_idempotency s') key = Some q" for key q
      using that D(7) [of key q] by (simp add: s'(3,4))
    show "active_of g s' \<in> set (sv_tasks s') \<and>
        (\<exists>x. obj s' (active_of g s') = Some x \<and> tk_session_group_id x = g \<and> tk_terminal x = None)"
      if "active_of g s' \<noteq> []" for g
    proof (cases "active_of g s = k")
      case False
      with D(8) [of g] that show ?thesis by (auto simp: act obj' s'(2) split: if_splits)
    next
      case True
      with that have "tk_terminal t' = None" "k \<noteq> []" by (auto simp: act split: if_splits)
      with D(8) [of g] True t show ?thesis by (simp add: act obj' s'(2) static(2))
    qed
    show "q \<in> set (sv_tasks s') \<and> active_of (tk_session_group_id x) s' = q"
      if "obj s' q = Some x" "tk_terminal x = None" for q x
    proof (cases "q = k")
      case True
      with that have x: "x = t'" by (simp add: obj')
      with that True D(9) [OF t] static(2,4) show ?thesis by (simp add: act s'(2))
    next
      case False
      with that D(9) [of q x] show ?thesis by (simp add: obj' act s'(2))
    qed
  qed
  have "lock_step\<^sup>*\<^sup>* (session_lock g s) (session_lock g s')" for g
  proof (cases "tk_terminal t = None \<and> tk_terminal t' \<noteq> None \<and> g = tk_session_group_id t")
    case True
    have "\<exists>n. k = task_name n" using D(10) [OF t] by blast
    then have a: "active_of g s = k" "k \<noteq> []" using D(9) [OF t] True by auto
    have "session_lock g s = (Some k, {q. \<exists>x. obj s q = Some x \<and> tk_session_group_id x = g \<and> tk_terminal x \<noteq> None})"
      using a by (simp add: session_lock_def)
    moreover have "session_lock g s' = (None, insert k {q. \<exists>x. obj s q = Some x \<and> tk_session_group_id x = g \<and> tk_terminal x \<noteq> None})"
      using a True static(2) t by (auto simp: session_lock_def act obj')
    ultimately have "lock_step (session_lock g s) (session_lock g s')" by (simp only: LockRelease)
    then show ?thesis by (rule r_into_rtranclp)
  next
    case False
    have "active_of g s' = active_of g s"
    proof (cases "active_of g s = k \<and> k \<noteq> []")
      case True
      then have "g = tk_session_group_id t" "tk_terminal t = None" using D(8) [of g] t by auto
      with False show ?thesis by (simp add: act)
    qed (auto simp: act)
    moreover have "{q. \<exists>x. obj s' q = Some x \<and> tk_session_group_id x = g \<and> tk_terminal x \<noteq> None} =
        {q. \<exists>x. obj s q = Some x \<and> tk_session_group_id x = g \<and> tk_terminal x \<noteq> None}"
      using False static(2,4) t le by (auto simp: obj' task_le_def split: if_splits)
    ultimately have "session_lock g s' = session_lock g s" by (simp add: session_lock_def)
    then show ?thesis by simp
  qed
  then show "service_le s s'"
    by (intro service_leI) (use le t s' in \<open>auto simp: obj'\<close>)
qed

lemma put_task_objects: "sv_objects (put_task t s) = gm_put (tk_id t) t (sv_objects s)"
  by (simp add: put_task_def)

lemma put_task_fields [simp]:
  "sv_tasks (put_task t s) = sv_tasks s" "sv_entries (put_task t s) = sv_entries s"
  "sv_idempotency (put_task t s) = sv_idempotency s" "sv_next_task_seq (put_task t s) = sv_next_task_seq s"
  "sv_sessions (put_task t s) = sv_sessions s" "sv_bindings (put_task t s) = sv_bindings s"
  "session_of g (put_task t s) = session_of g s"
  "group_of g (put_task t s) = group_of g s" "active_of g (put_task t s) = active_of g s"
  "obj (put_task t s) k = (if k = tk_id t then Some t else obj s k)"
  by (simp_all add: put_task_def group_of_def active_of_def session_of_def)

lemma task_by_id_put [simp]:
  "task_by_id k (put_task t s) = (if k = tk_id t then if k \<in> set (sv_tasks s) then Some t else None else task_by_id k s)"
  by (simp add: task_by_id_def)

text \<open>A task that goes on.\<close>

lemma evolves_put:
  assumes t: "obj s (tk_id t) = Some t0" and soft: "soft s t0 t"
  shows "evolves s (put_task t s)"
proof (rule evolvesI)
  assume inv: "service_inv s"
  have "active_of g s \<noteq> tk_id t" if "tk_terminal t0 \<noteq> None" "active_of g s \<noteq> []" for g
    using service_invD(8) [OF inv that(2)] t that(1) by auto
  then have act: "active_of g (put_task t s) = (if tk_terminal t \<noteq> None \<and> active_of g s = tk_id t then [] else active_of g s)" for g
    using soft by (cases "active_of g s = []") (auto simp: soft_def)
  show ?thesis
    by (rule evolves_object [OF t, of t]) (use soft act in \<open>auto simp: soft_def put_task_objects\<close>)
qed

text \<open>A task that ends releases its session.\<close>

lemma active_of_clear:
  "active_of g (clear_active t s) = (if g = tk_session_group_id t \<and> active_of g s = tk_id t then [] else active_of g s)"
  by (auto simp: clear_active_def active_of_def session_of_def set_session_def split: option.split)

lemma clear_active_fields [simp]:
  "sv_tasks (clear_active t s) = sv_tasks s" "sv_entries (clear_active t s) = sv_entries s"
  "sv_idempotency (clear_active t s) = sv_idempotency s" "sv_next_task_seq (clear_active t s) = sv_next_task_seq s"
  "sv_objects (clear_active t s) = sv_objects s" "group_of g (clear_active t s) = group_of g s"
  "sv_connection_secrets (clear_active t s) = sv_connection_secrets s"
  by (auto simp: clear_active_def set_session_def group_of_def session_of_def split: option.split)

lemma evolves_end:
  assumes t: "obj s (tk_id t) = Some t0" and le: "task_le t0 t" and ok: "task_ok s t0 \<Longrightarrow> task_ok s t"
    and ended: "tk_terminal t \<noteq> None"
  shows "evolves s (put_task t (clear_active t s))"
proof (rule evolvesI)
  assume inv: "service_inv s"
  have g: "tk_session_group_id t = tk_session_group_id t0" using le by (simp add: task_le_def)
  have own: "g = tk_session_group_id t0" if "active_of g s = tk_id t" "active_of g s \<noteq> []" for g
    using service_invD(8) [OF inv that(2)] t that(1) by auto
  have act: "active_of g (put_task t (clear_active t s)) = (if tk_terminal t \<noteq> None \<and> active_of g s = tk_id t then [] else active_of g s)" for g
    using ended own [of g] g by (auto simp: active_of_clear)
  show ?thesis
    by (rule evolves_object [OF t le ok]) (use act in \<open>auto simp: put_task_objects\<close>)
qed


subsection \<open>One start entry\<close>

lemma on_entry_fields [simp]:
  "sv_objects (on_entry k f s) = sv_objects s" "sv_tasks (on_entry k f s) = sv_tasks s"
  "sv_idempotency (on_entry k f s) = sv_idempotency s" "sv_next_task_seq (on_entry k f s) = sv_next_task_seq s"
  "session_of g (on_entry k f s) = session_of g s" "group_of g (on_entry k f s) = group_of g s"
  "active_of g (on_entry k f s) = active_of g s" "task_by_id q (on_entry k f s) = task_by_id q s"
  "sv_connection_secrets (on_entry k f s) = sv_connection_secrets s"
  by (simp_all add: on_entry_def put_entry_def group_of_def active_of_def session_of_def task_by_id_def split: option.split)

lemma evolves_entry:
  assumes f: "\<And>en. ent s k = Some en \<Longrightarrow> se_task_id (f en) = k \<and> start_entry_le en (f en) \<and> (entry_ok s k en \<longrightarrow> entry_ok s k (f en))"
  shows "evolves s (on_entry k f s)"
proof (cases "ent s k")
  case None
  then show ?thesis by (simp add: on_entry_def)
next
  case (Some en)
  let ?s = "on_entry k f s"
  from f [OF Some] have en: "se_task_id (f en) = k" "start_entry_le en (f en)" "entry_ok s k en \<Longrightarrow> entry_ok s k (f en)"
    by auto
  have ent': "ent ?s q = (if q = k then Some (f en) else ent s q)" for q
    using Some en(1) by (simp add: on_entry_def put_entry_def)
  have task_ok': "task_ok ?s x = task_ok s x" for x by (rule task_ok_cong) simp
  have entry_ok': "entry_ok ?s q x = entry_ok s q x" for q x by (rule entry_ok_cong) simp_all
  have key: "se_key (f en) = se_key en" using en(2) by (simp add: start_entry_le_def)
  show ?thesis
    unfolding evolves_def
  proof (intro impI conjI)
    assume inv: "service_inv s"
    note D = service_invD [OF inv]
    have okk: "entry_ok s k (f en)" using D(5) [OF Some] en(3) by blast
    show "service_inv ?s"
    proof (rule service_invI)
      show "tk_id x = q \<and> (\<exists>n. 0 < n \<and> n \<le> sv_next_task_seq ?s \<and> q = task_name n) \<and> task_ok ?s x \<and>
        (\<exists>en. ent ?s q = Some en \<and> se_key en = key_of x)" if "obj ?s q = Some x" for q x
      proof -
        from that have x: "obj s q = Some x" by simp
        have "\<exists>en. ent ?s q = Some en \<and> se_key en = key_of x"
          using D(4) [OF x] Some by (auto simp: ent' key)
        with D(2,3,10) [OF x] show ?thesis by (simp add: task_ok')
      qed
      show "(\<exists>t. obj ?s q = Some t) \<and> entry_ok ?s q x" if "ent ?s q = Some x" for q x
        using that D(5,6) [of q x] D(6) [OF Some] okk by (cases "q = k") (simp_all add: ent' entry_ok')
      show "\<exists>x. ent ?s q = Some x \<and> se_key x = key'" if "gm_get (sv_idempotency ?s) key' = Some q" for key' q
        using that D(7) [of key' q] Some by (auto simp: ent' key)
    qed (use D in simp_all)
    have "session_lock g ?s = session_lock g s" for g by (simp add: session_lock_def)
    then show "service_le s ?s"
      by (intro service_leI) (use Some en(2) in \<open>auto simp: ent'\<close>)
  qed
qed

text \<open>Settling an entry that is pending, or the promise of a task that was dropped.\<close>

lemma evolves_settle:
  assumes "entry_pending k s" "st \<noteq> StartEntryPending"
  shows "evolves s (on_entry k (settle_entry st res err now) s)"
proof (rule evolvesI)
  assume inv: "service_inv s"
  show ?thesis
  proof (rule evolves_entry)
    fix en assume en: "ent s k = Some en"
    with assms(1) have p: "se_state en = StartEntryPending" by (simp add: entry_pending_def)
    have "se_task_id en = k" using service_invD(5) [OF inv en] by (simp add: entry_ok_def)
    then show "se_task_id (settle_entry st res err now en) = k \<and> start_entry_le en (settle_entry st res err now en) \<and>
        (entry_ok s k en \<longrightarrow> entry_ok s k (settle_entry st res err now en))"
      using p assms(2) by (simp add: settle_entry_def start_entry_le_def entry_ok_def settle_promise_def)
  qed
qed

lemma evolves_promise:
  assumes "k \<notin> set (sv_tasks s)"
  shows "evolves s (on_entry k (\<lambda>en. en\<lparr>se_promise := settle_promise res err (se_promise en)\<rparr>) s)"
proof (rule evolvesI)
  assume inv: "service_inv s"
  show ?thesis
  proof (rule evolves_entry)
    fix en assume en: "ent s k = Some en"
    show "se_task_id (en\<lparr>se_promise := settle_promise res err (se_promise en)\<rparr>) = k \<and>
        start_entry_le en (en\<lparr>se_promise := settle_promise res err (se_promise en)\<rparr>) \<and>
        (entry_ok s k en \<longrightarrow> entry_ok s k (en\<lparr>se_promise := settle_promise res err (se_promise en)\<rparr>))"
      using service_invD(5) [OF inv en] assms
      by (simp add: start_entry_le_def entry_ok_def settle_promise_def)
  qed
qed

lemma put_task_on_entry: "put_task t (on_entry k f s) = on_entry k f (put_task t s)"
  by (simp add: put_task_def on_entry_def put_entry_def split: option.split)

lemma clear_active_on_entry: "clear_active t (on_entry k f s) = on_entry k f (clear_active t s)"
  by (simp add: clear_active_def on_entry_def put_entry_def session_of_def set_session_def split: option.split)

lemma entry_pending_put [simp]: "entry_pending k (put_task t s) = entry_pending k s"
  "entry_pending k (clear_active t s) = entry_pending k s"
  by (simp_all add: entry_pending_def)


subsection \<open>Retention\<close>

lemma gm_get_filter: "gm_wf m \<Longrightarrow> gm_get (filter P m) k = (case gm_get m k of None \<Rightarrow> None | Some v \<Rightarrow> if P (k, v) then Some v else None)"
  by (induction m) (auto simp: map_of_eq_None_iff split: option.split)

lemma gm_wf_filter: "gm_wf m \<Longrightarrow> gm_wf (filter P m)"
  by (rule distinct_map_filter)

text \<open>Entries and tasks leave their maps; the objects stay for who still holds them.\<close>

lemma evolves_drop:
  assumes gone: "\<And>k t. k \<in> set (sv_tasks s) \<Longrightarrow> k \<notin> set (sv_tasks s') \<Longrightarrow> obj s k = Some t \<Longrightarrow> is_terminal_state (tk_state t)"
    and sub: "set (sv_tasks s') \<subseteq> set (sv_tasks s)"
    and idem: "gm_wf (sv_idempotency s) \<Longrightarrow> gm_wf (sv_idempotency s')"
      "\<And>key k. gm_wf (sv_idempotency s) \<Longrightarrow> gm_get (sv_idempotency s') key = Some k \<Longrightarrow> gm_get (sv_idempotency s) key = Some k"
      "\<And>key k en. service_inv s \<Longrightarrow> k \<in> set (sv_tasks s') \<Longrightarrow> ent s k = Some en \<Longrightarrow>
         gm_get (sv_idempotency s) (se_key en) = Some k \<Longrightarrow> gm_get (sv_idempotency s') (se_key en) = Some k"
    and same: "sv_objects s' = sv_objects s" "sv_entries s' = sv_entries s" "sv_next_task_seq s' = sv_next_task_seq s"
      "sv_sessions s' = sv_sessions s"
  shows "evolves s s'"
  unfolding evolves_def
proof (intro impI conjI)
  assume inv: "service_inv s"
  note D = service_invD [OF inv]
  have g: "group_of g s' = group_of g s" and a: "active_of g s' = active_of g s" for g
    by (simp_all add: group_of_def active_of_def session_of_def same(4))
  have task_ok': "task_ok s' x = task_ok s x" for x by (rule task_ok_cong [OF g])
  have stays: "k \<in> set (sv_tasks s')" if "obj s k = Some t" "tk_terminal t = None" for k t
    using gone [of k t] D(3) [OF that(1)] D(9) [OF that] that by (auto simp: task_ok_def)
  show "service_inv s'"
  proof (rule service_invI)
    show "(\<exists>t. obj s' k = Some t) \<and> entry_ok s' k en" if "ent s' k = Some en" for k en
      using that D(5,6) [of k en] sub idem(3) [OF inv, of k en] by (auto simp: same entry_ok_def)
    show "active_of g s' \<in> set (sv_tasks s') \<and>
        (\<exists>t. obj s' (active_of g s') = Some t \<and> tk_session_group_id t = g \<and> tk_terminal t = None)"
      if "active_of g s' \<noteq> []" for g
      using that D(8) [of g] stays by (auto simp: a same)
  qed (use D sub stays idem(1,2) in \<open>auto simp: same task_ok' a\<close>)
  have "session_lock g s' = session_lock g s" for g by (simp add: session_lock_def a same)
  then show "service_le s s'"
    by (intro service_leI) (use sub g in \<open>auto simp: same\<close>)
qed

lemma evolves_drop_tasks: "evolves s (drop_expired_tasks now s)"
proof (rule evolves_drop)
  show "gm_get (sv_idempotency (drop_expired_tasks now s)) (se_key en) = Some k"
    if inv: "service_inv s" and k: "k \<in> set (sv_tasks (drop_expired_tasks now s))" and en: "ent s k = Some en"
      and i: "gm_get (sv_idempotency s) (se_key en) = Some k" for k en
  proof -
    have "se_key x \<noteq> se_key en" if q: "q \<in> set (sv_tasks s)" "task_expired now s q" and x: "ent s q = Some x" for q x
    proof
      assume "se_key x = se_key en"
      with service_invD(5) [OF inv x] q(1) i have "q = k" by (simp add: entry_ok_def)
      with q(2) k show False by (simp add: drop_expired_tasks_def Let_def)
    qed
    then have "\<forall>x \<in> set (List.map_filter (ent s) (filter (task_expired now s) (sv_tasks s))). se_key x \<noteq> se_key en"
      by (auto simp: List.map_filter_def)
    then have "se_key en \<notin> set (List.map_filter (\<lambda>tid. map_option se_key (ent s tid)) (filter (task_expired now s) (sv_tasks s)))"
      by (force simp: List.map_filter_def)
    then show ?thesis using i service_invD(11) [OF inv] by (simp add: drop_expired_tasks_def Let_def gm_get_filter)
  qed
qed (auto simp: drop_expired_tasks_def Let_def task_expired_def gm_get_filter gm_wf_filter split: option.splits if_splits)

lemma evolves_drop_entries: "evolves s (drop_expired_entries now s)"
proof (rule evolves_drop)
  show "gm_get (sv_idempotency (drop_expired_entries now s)) (se_key en) = Some k"
    if inv: "service_inv s" and k: "k \<in> set (sv_tasks (drop_expired_entries now s))" and en: "ent s k = Some en"
      and i: "gm_get (sv_idempotency s) (se_key en) = Some k" for k en
    using i k en service_invD(11) [OF inv] service_invD(5) [OF inv en]
    by (simp add: drop_expired_entries_def gm_get_filter entry_expired_def entry_ok_def)
qed (auto simp: drop_expired_entries_def gm_get_filter gm_wf_filter split: option.splits if_splits)

lemma same_core_tombstones [frame]: "same_core s (cleanup_binding_tombstones now s)"
  by (simp add: cleanup_binding_tombstones_def Let_def frame)

lemma evolves_cleanup: "evolves s (cleanup_retained t1 t2 s)"
  unfolding cleanup_retained_def
  by (rule evolves_trans [OF evolves_trans [OF evolves_drop_tasks evolves_drop_entries] evolves_frame [OF same_core_tombstones]])

lemma cleanup_retained_fields [simp]:
  "sv_sessions (cleanup_retained t1 t2 s) = sv_sessions s" "sv_objects (cleanup_retained t1 t2 s) = sv_objects s"
  "sv_entries (cleanup_retained t1 t2 s) = sv_entries s" "sv_next_task_seq (cleanup_retained t1 t2 s) = sv_next_task_seq s"
  "session_of g (cleanup_retained t1 t2 s) = session_of g s"
  by (simp_all add: cleanup_retained_def cleanup_binding_tombstones_def drop_expired_entries_def
      drop_expired_tasks_def Let_def session_of_def)

subsection \<open>A new task\<close>

lemma fresh_task_name:
  assumes "service_inv s" "sv_next_task_seq s \<noteq> - 1"
  shows "obj s (task_name (sv_next_task_seq s + 1)) = None"
proof (rule ccontr)
  assume "obj s (task_name (sv_next_task_seq s + 1)) \<noteq> None"
  then obtain n where "n \<le> sv_next_task_seq s" "task_name (sv_next_task_seq s + 1) = task_name n"
    using service_invD(10) [OF assms(1)] by blast
  then have "sv_next_task_seq s + 1 \<le> sv_next_task_seq s" by (simp add: task_name_inj)
  with u64_less_Suc [OF assms(2)] show False by simp
qed

lemma evolves_new_task:
  assumes s': "sv_objects s' = gm_put k t (sv_objects s)" "sv_tasks s' = List.insert k (sv_tasks s)"
    "sv_entries s' = gm_put k en (sv_entries s)" "sv_idempotency s' = gm_put (key_of t) k (sv_idempotency s)"
    "sv_next_task_seq s' = sv_next_task_seq s + 1"
    "\<And>g. group_of g s' = group_of g s"
    "\<And>g. active_of g s' = (if g = tk_session_group_id t then k else active_of g s)"
    and k: "k = task_name (sv_next_task_seq s + 1)" "sv_next_task_seq s \<noteq> - 1"
    and t: "tk_id t = k" "task_ok s t" "tk_terminal t = None"
    and en: "se_task_id en = k" "se_key en = key_of t" "se_state en = StartEntryPending" "pm_closes (se_promise en) = 0"
    and free: "active_of (tk_session_group_id t) s = []" "gm_get (sv_idempotency s) (key_of t) = None"
  shows "evolves s s'"
  unfolding evolves_def
proof (intro impI conjI)
  assume inv: "service_inv s"
  note D = service_invD [OF inv]
  have fresh: "obj s k = None" using fresh_task_name [OF inv k(2)] by (simp add: k(1))
  then have fresh': "ent s k = None" "k \<notin> set (sv_tasks s)" using D(6) [of k] D(1) [of k] by (cases "ent s k", auto)
  have task_ok': "task_ok s' x = task_ok s x" for x by (rule task_ok_cong [OF s'(6)])
  have name: "0 < sv_next_task_seq s + 1" "sv_next_task_seq s < sv_next_task_seq s + 1"
    using u64_less_Suc [OF k(2)] by (metis word_gt_0 word_not_simps(1), simp)
  show "service_inv s'"
  proof (rule service_invI)
    show "gm_wf (sv_idempotency s')" using D(11) by (simp add: s'(4))
    show "\<exists>t. obj s' q = Some t" if "q \<in> set (sv_tasks s')" for q
      using that D(1) [of q] by (auto simp: s'(1,2))
    show "tk_id x = q \<and> (\<exists>n. 0 < n \<and> n \<le> sv_next_task_seq s' \<and> q = task_name n) \<and> task_ok s' x \<and>
        (\<exists>en. ent s' q = Some en \<and> se_key en = key_of x)" if "obj s' q = Some x" for q x
    proof (cases "q = k")
      case True
      with that have "x = t" by (simp add: s'(1))
      with True t en(2) k(1) name show ?thesis by (auto simp: task_ok' s'(3,5))
    next
      case False
      with that have x: "obj s q = Some x" by (simp add: s'(1))
      from D(10) [OF x] obtain n where "0 < n" "n \<le> sv_next_task_seq s" "q = task_name n" by blast
      then have "\<exists>n. 0 < n \<and> n \<le> sv_next_task_seq s' \<and> q = task_name n"
        using name(2) by (intro exI [of _ n]) (auto simp: s'(5))
      with False D(2-4) [OF x] show ?thesis by (simp add: task_ok' s'(3))
    qed
    show "(\<exists>t. obj s' q = Some t) \<and> entry_ok s' q x" if "ent s' q = Some x" for q x
    proof (cases "q = k")
      case True
      with that have "x = en" by (simp add: s'(3))
      with True en show ?thesis by (simp add: s'(1,2,4) entry_ok_def)
    next
      case False
      with that have x: "ent s q = Some x" by (simp add: s'(3))
      with False D(5,6) [OF x] free(2) show ?thesis by (auto simp: s'(1,2,4) entry_ok_def)
    qed
    show "\<exists>x. ent s' q = Some x \<and> se_key x = key" if "gm_get (sv_idempotency s') key = Some q" for key q
      using that D(7) [of key q] fresh'(1) en(2) by (auto simp: s'(3,4) split: if_splits)
    show "active_of g s' \<in> set (sv_tasks s') \<and>
        (\<exists>x. obj s' (active_of g s') = Some x \<and> tk_session_group_id x = g \<and> tk_terminal x = None)"
      if "active_of g s' \<noteq> []" for g
      using that D(8) [of g] fresh t(3) by (auto simp: s'(1,2,7) split: if_splits)
    show "q \<in> set (sv_tasks s') \<and> active_of (tk_session_group_id x) s' = q"
      if x: "obj s' q = Some x" "tk_terminal x = None" for q x
    proof (cases "q = k")
      case True
      with x show ?thesis by (simp add: s'(1,2,7))
    next
      case False
      with x have q: "obj s q = Some x" by (simp add: s'(1))
      have "q \<noteq> []" using D(10) [OF q] by auto
      with D(9) [OF q x(2)] free(1) have "tk_session_group_id x \<noteq> tk_session_group_id t" by auto
      with D(9) [OF q x(2)] show ?thesis by (simp add: s'(2,7))
    qed
  qed
  have "lock_step\<^sup>*\<^sup>* (session_lock g s) (session_lock g s')" for g
  proof -
    let ?P = "{q. \<exists>x. obj s q = Some x \<and> tk_session_group_id x = g \<and> tk_terminal x \<noteq> None}"
    have past: "{q. \<exists>x. obj s' q = Some x \<and> tk_session_group_id x = g \<and> tk_terminal x \<noteq> None} = ?P"
      using t(3) fresh by (auto simp: s'(1) split: if_splits)
    show ?thesis
    proof (cases "g = tk_session_group_id t")
      case True
      have "k \<notin> ?P" using fresh by simp
      then have "lock_step (None, ?P) (Some k, ?P)" by (rule LockAcquire)
      moreover have "session_lock g s = (None, ?P)" using True free(1) by (simp add: session_lock_def)
      moreover have "session_lock g s' = (Some k, ?P)"
        using True by (simp add: session_lock_def s'(7) k(1)) (use past True in simp)
      ultimately show ?thesis by simp
    next
      case False
      then have "session_lock g s' = session_lock g s" by (simp only: session_lock_def past s'(7) if_False)
      then show ?thesis by simp
    qed
  qed
  then show "service_le s s'"
    by (intro service_leI) (use fresh fresh' s'(6) in \<open>auto simp: s'\<close>)
qed

end
