(* ===== verification/Task_Steps.thy ===== *)
theory Task_Steps
  imports Task_Effects
begin

text \<open>
  Every operation of the task service evolves it: one lemma per locked section, from the elementary
  changes.  They are the cases of the step relation at the end.
\<close>

named_theorems evolve \<open>an operation evolves the service\<close>

lemma evolves_put_obj: "obj s k = Some t \<Longrightarrow> soft s t t' \<Longrightarrow> evolves s (put_task t' s)"
  using evolves_put [of s t' t] service_invD(2) [of s k t] by (auto simp: soft_id evolves_def)

lemma evolves_put_id: "task_by_id k s = Some t \<Longrightarrow> soft s t t' \<Longrightarrow> evolves s (put_task t' s)"
  using evolves_put_obj task_by_id_obj by blast

lemma evolves_on_task: "(\<And>t. soft s t (f t)) \<Longrightarrow> evolves s (on_task k f s)"
  by (cases "task_by_id k s") (simp_all add: on_task_def evolves_put_id)

text \<open>An event after a change of other fields.\<close>

lemma soft_update_append: "soft s t t' \<Longrightarrow> soft s t (snd (append_task_event e s p t'))"
  by (rule soft_trans [OF _ soft_append])

subsection \<open>Bindings of threads\<close>

lemma same_core_remove_binding [frame]: "same_core s (remove_binding t1 t2 b s)"
proof -
  let ?s1 = "tombstone_binding t1 t2 b s"
  let ?s2 = "?s1\<lparr>sv_bindings := gm_del (tb_session_group_id b, tb_thread_id b) (sv_bindings ?s1)\<rparr>"
  have 1: "same_core s ?s1"
    unfolding tombstone_binding_def by (rule same_core_trans [OF same_core_fields(2) same_core_tombstones])
  have 2: "same_core s ?s2" by (rule same_core_trans [OF 1 same_core_fields(1)])
  show ?thesis
  proof (cases "session_of (tb_session_group_id b) ?s2")
    case None
    with 2 show ?thesis by (simp add: remove_binding_def Let_def)
  next
    case (Some r)
    from same_core_trans [OF 2 same_core_set_session [OF Some]] Some show ?thesis by (simp add: remove_binding_def Let_def)
  qed
qed

lemma same_core_cap_loop: "same_core s (enforce_binding_cap_loop n tc g s)"
proof (induction n arbitrary: tc s)
  case (Suc n)
  have "same_core s (enforce_binding_cap_loop n (\<lambda>k. tc (k + 2)) g (remove_binding (tc 0) (tc 1) b s))" for b
    by (rule same_core_trans [OF same_core_remove_binding Suc.IH])
  then show ?case by (auto split: option.split)
qed simp

lemma same_core_cap [frame]: "same_core s (enforce_binding_cap tc g s)"
  by (auto simp: enforce_binding_cap_def same_core_cap_loop split: option.split)

lemma evolves_upsert [evolve]: "evolves s (snd (upsert_thread_binding now tc g th tid s))"
proof (cases "session_of g s")
  case (Some r)
  define b where "b = (case gm_get (sv_bindings s) (g, th) of Some b \<Rightarrow> b
     | None \<Rightarrow> \<lparr>tb_thread_id = th, tb_session_group_id = g, tb_workspace_id = sg_workspace_id (sr_group r),
         tb_task_id = [], tb_created_at = now, tb_expires_at = 0\<rparr>)"
  define s1 where "s1 = (if gm_get (sv_bindings s) (g, th) = None
     then (set_session g (r\<lparr>sr_bindings := List.insert th (sr_bindings r)\<rparr>) s)
       \<lparr>sv_tombstones := gm_del (g, th) (sv_tombstones s)\<rparr> else s)"
  define s2 where "s2 = s1\<lparr>sv_bindings := gm_put (g, th) (b\<lparr>tb_task_id := tid, tb_expires_at := now + binding_ttl (sr_group r)\<rparr>) (sv_bindings s1)\<rparr>"
  have "same_core s s1"
    unfolding s1_def using same_core_trans [OF same_core_set_session [OF Some] same_core_fields(2)] by simp
  then have "same_core s (enforce_binding_cap tc g s2)"
    unfolding s2_def using same_core_trans [OF same_core_trans [OF _ same_core_fields(1)] same_core_cap] by blast
  moreover have "snd (upsert_thread_binding now tc g th tid s) = enforce_binding_cap tc g s2"
    by (simp add: upsert_thread_binding_def Some Let_def s2_def s1_def b_def)
  ultimately show ?thesis by (simp add: evolves_frame)
qed (simp add: upsert_thread_binding_def)

lemma evolves_remove_created [evolve]: "evolves s (remove_thread_binding_if_created t1 t2 tid th created s)"
  by (auto simp: remove_thread_binding_if_created_def evolves_frame frame split: option.split)

lemma evolves_verify [evolve]: "evolves s (snd (verify_thread_binding t1 t2 t3 t4 t5 g w th s))"
proof -
  let ?s = "cleanup_retained t1 t2 s"
  have "same_core ?s (snd (verify_thread_binding t1 t2 t3 t4 t5 g w th s))"
    by (auto simp: verify_thread_binding_def Let_def binding_tombstone_matches_def frame split: option.split)
  from evolves_trans [OF evolves_cleanup evolves_frame [OF this]] show ?thesis .
qed

subsection \<open>Ends of tasks\<close>

lemma clear_active_cong:
  "tk_id t' = tk_id t \<Longrightarrow> tk_session_group_id t' = tk_session_group_id t \<Longrightarrow> clear_active t' s = clear_active t s"
  by (simp add: clear_active_def cong: option.case_cong if_cong)

lemma append_publications_snd [simp]: "snd (append_publications e s ps b t) = snd (append_task_events e s ps t)"
  by (simp add: append_publications_def split: prod.split)

lemma clear_pending_fields [task_simps]:
  "tk_id (snd (clear_pending r t)) = tk_id t"
  "tk_session_group_id (snd (clear_pending r t)) = tk_session_group_id t"
  "tk_workspace_id (snd (clear_pending r t)) = tk_workspace_id t"
  "tk_client_message_id (snd (clear_pending r t)) = tk_client_message_id t"
  "tk_created_at (snd (clear_pending r t)) = tk_created_at t"
  "tk_thread_id (snd (clear_pending r t)) = tk_thread_id t"
  "tk_turn_id (snd (clear_pending r t)) = tk_turn_id t"
  "tk_terminal (snd (clear_pending r t)) = tk_terminal t"
  "tk_pre_interrupt_state (snd (clear_pending r t)) = tk_pre_interrupt_state t"
  "tk_events (snd (clear_pending r t)) = tk_events t"
  "tk_next_event_id (snd (clear_pending r t)) = tk_next_event_id t"
  "tk_start_evicted_before (snd (clear_pending r t)) = tk_start_evicted_before t"
  "tk_retained_event_bytes (snd (clear_pending r t)) = tk_retained_event_bytes t"
  by (simp_all add: clear_pending_def Let_def)

lemma clear_pending_mgr:
  "mgr_le (tk_pending t) (tk_pending (snd (clear_pending r t)))"
  "manager_ok (tk_pending t) \<Longrightarrow> manager_ok (tk_pending (snd (clear_pending r t)))"
  by (simp_all add: clear_pending_def Let_def mgr_le_fold_mark manager_ok_fold_mark)

text \<open>The parts of \<open>finish_task\<close>: the task before the events, the payloads, and the result.\<close>

definition ending_task :: "gtime \<Rightarrow> task_state \<Rightarrow> task_terminal_event \<Rightarrow> pending_resolution \<Rightarrow> task \<Rightarrow> task" where
  "ending_task now st terminal resolution t =
     snd (clear_pending resolution (t\<lparr>tk_phase := PhaseTerminal, tk_state := st, tk_terminal := Some terminal,
       tk_terminal_at := Some now, tk_streams := []\<rparr>))"

definition ending_payloads ::
  "env \<Rightarrow> gtime \<Rightarrow> task_state \<Rightarrow> task_terminal_event \<Rightarrow> task_event_payload list \<Rightarrow> pending_resolution \<Rightarrow> task \<Rightarrow> service \<Rightarrow>
    task_event_payload list" where
  "ending_payloads e now st terminal extra resolution t s =
     fst (flush_task_streams e (clear_active t s) (t\<lparr>tk_phase := PhaseTerminal, tk_state := st, tk_terminal := Some terminal,
       tk_terminal_at := Some now\<rparr>)) @ extra @ fst (clear_pending resolution t) @ [TaskTerminal terminal]"

lemma clear_pending_payloads: "tk_pending t' = tk_pending t \<Longrightarrow> fst (clear_pending r t') = fst (clear_pending r t)"
  by (simp add: clear_pending_def Let_def)

lemma finish_task_eq:
  "finish_task e now st terminal extra resolution t s =
    (close_after_last (fst (append_task_events e (clear_active t s)
        (ending_payloads e now st terminal extra resolution t s) (ending_task now st terminal resolution t))),
     put_task (snd (append_task_events e (clear_active t s)
        (ending_payloads e now st terminal extra resolution t s) (ending_task now st terminal resolution t)))
       (clear_active t s))"
proof -
  let ?t1 = "t\<lparr>tk_phase := PhaseTerminal, tk_state := st, tk_terminal := Some terminal, tk_terminal_at := Some now\<rparr>"
  have c: "clear_active ?t1 s = clear_active t s" by (rule clear_active_cong) simp_all
  have f: "snd (flush_task_streams e s' ?t1) = t\<lparr>tk_phase := PhaseTerminal, tk_state := st, tk_terminal := Some terminal,
       tk_terminal_at := Some now, tk_streams := []\<rparr>" for s'
    by (simp add: flush_task_streams_def)
  have p: "fst (clear_pending resolution (t\<lparr>tk_phase := PhaseTerminal, tk_state := st, tk_terminal := Some terminal,
       tk_terminal_at := Some now, tk_streams := []\<rparr>)) = fst (clear_pending resolution t)"
    by (rule clear_pending_payloads) simp
  show ?thesis
    by (simp add: finish_task_def Let_def split_def c f p append_publications_def ending_payloads_def ending_task_def)
qed

lemma ending_task_fields [task_simps]:
  "tk_id (ending_task now st x r t) = tk_id t"
  "tk_session_group_id (ending_task now st x r t) = tk_session_group_id t"
  "tk_terminal (ending_task now st x r t) = Some x"
  by (simp_all add: ending_task_def task_simps)

lemma ending_task_le: "task_le t (ending_task now st x r t)"
proof -
  let ?t = "t\<lparr>tk_phase := PhaseTerminal, tk_state := st, tk_terminal := Some x, tk_terminal_at := Some now, tk_streams := []\<rparr>"
  have "log_le t (ending_task now st x r t)" by (rule log_le_same) (simp_all add: ending_task_def task_simps)
  then show ?thesis
    using clear_pending_mgr(1) [of ?t r] by (simp add: task_le_def ending_task_def task_simps)
qed

lemma ending_task_ok: "task_ok s t \<Longrightarrow> task_ok s (ending_task now st x r t)"
  using clear_pending_mgr(2) [of "t\<lparr>tk_phase := PhaseTerminal, tk_state := st, tk_terminal := Some x, tk_terminal_at := Some now, tk_streams := []\<rparr>" r]
    log_ok_cong [of "ending_task now st x r t" t s]
  by (simp add: task_ok_def pre_ok_def ending_task_def task_simps)

lemma evolves_finish [evolve]:
  assumes t: "obj s (tk_id t) = Some t0" and soft: "soft s t0 t"
  shows "evolves s (snd (finish_task e now st x extra r t s))"
proof -
  let ?u = "ending_task now st x r t" and ?s = "clear_active t s"
  let ?v = "snd (append_task_events e ?s (ending_payloads e now st x extra r t s) ?u)"
  have c: "clear_active ?v s = ?s" by (rule clear_active_cong) (simp_all add: task_simps)
  have a: "soft ?s ?u ?v" by (rule soft_appends)
  have ok: "task_ok ?s z = task_ok s z" for z by (rule task_ok_cong) simp
  have "evolves s (put_task ?v (clear_active ?v s))"
  proof (rule evolves_end)
    show "obj s (tk_id ?v) = Some t0" using t by (simp add: task_simps)
    show "task_le t0 ?v" using soft a task_le_trans ending_task_le unfolding soft_def by blast
    show "task_ok s ?v" if "task_ok s t0"
      using that soft a ending_task_ok unfolding soft_def ok by blast
    show "tk_terminal ?v \<noteq> None" by (simp add: task_simps)
  qed
  then show ?thesis by (simp add: finish_task_eq c)
qed

lemma append_deferred_soft: "soft s t (snd (append_deferred_warnings e s t))"
proof (cases "tk_deferred_unsupported_warnings t = 0")
  case False
  then show ?thesis
    by (auto simp: append_deferred_warnings_def Let_def split_def pre_ok_def intro!: soft_update_append soft_update)
qed (simp add: append_deferred_warnings_def)

lemma finish_entry_pending [simp]: "entry_pending k (snd (finish_task e now st x extra r t s)) = entry_pending k s"
  by (simp add: finish_task_eq)

end
