(* ===== verification/Task_Operations.thy ===== *)
theory Task_Operations
  imports Task_Steps
begin

text \<open>The operations one by one.\<close>

lemma is_terminal_simps [simp]:
  "\<not> is_terminal_state TaskStateStarting" "\<not> is_terminal_state TaskStateRunning"
  "\<not> is_terminal_state TaskStateWaitingForPendingRequest" "\<not> is_terminal_state TaskStateInterrupting"
  by (simp_all add: is_terminal_state_def)

subsection \<open>Starting (registry.go, service.go)\<close>

lemma log_wf_new_task: "log_wf (new_task now c tid)"
  by (simp add: log_wf_def new_task_def)

lemma evolves_claim [evolve]:
  assumes seq: "sv_next_task_seq s \<noteq> - 1"
  shows "evolves s (snd (claim_start e t1 t2 t3 c fp s))"
proof (cases "session_of (stc_session_group_id c) s")
  case None
  then show ?thesis by (simp add: claim_start_def)
next
  case (Some r)
  let ?g = "stc_session_group_id c" and ?s1 = "cleanup_retained t1 t2 s"
  have ev: "evolves s ?s1" by (rule evolves_cleanup)
  show ?thesis
  proof (cases "gm_get (sv_idempotency ?s1) (command_key c) = None \<and> sr_active_task_id r = []")
    case False
    then have "snd (claim_start e t1 t2 t3 c fp s) = ?s1"
      by (auto simp: claim_start_def Some Let_def split: option.split)
    with ev show ?thesis by simp
  next
    case True
    let ?tid = "task_name (sv_next_task_seq s + 1)"
    let ?s2 = "?s1\<lparr>sv_next_task_seq := sv_next_task_seq s + 1\<rparr>"
    let ?t = "snd (append_task_event e ?s2 (lifecycle LifecycleTaskStarted TaskStateStarting []) (new_task t3 c ?tid))"
    let ?s3 = "(put_entry (new_start_entry t3 fp c ?tid) (put_task ?t ?s2))
      \<lparr>sv_tasks := List.insert ?tid (sv_tasks ?s1), sv_idempotency := gm_put (command_key c) ?tid (sv_idempotency ?s1)\<rparr>"
    let ?s4 = "set_session ?g (r\<lparr>sr_active_task_id := ?tid\<rparr>) ?s3"
    have eq: "snd (claim_start e t1 t2 t3 c fp s) = ?s4"
      using True by (simp add: claim_start_def Some Let_def split_def next_task_id_def task_name_def put_entry_def put_task_def)
    have tk: "tk_id ?t = ?tid" "tk_session_group_id ?t = ?g" "tk_terminal ?t = None" "key_of ?t = command_key c"
      "tk_state ?t = TaskStateStarting" "tk_pending ?t = new_manager" "tk_pre_interrupt_state ?t = None"
      by (simp_all add: task_simps new_task_def key_of_def command_key_def)
    have g: "group_of h ?s2 = group_of h ?s1" for h by (simp add: group_of_def session_of_def)
    have "log_ok ?s2 ?t" by (rule append_log_ok [OF log_wf_new_task])
    then have "log_ok ?s1 ?t" unfolding log_ok_def caps_group g .
    then have ok: "task_ok ?s1 ?t"
      unfolding task_ok_def pre_ok_def tk by (simp add: manager_ok_new is_terminal_state_def)
    have "evolves ?s1 ?s4"
    proof (rule evolves_new_task [of _ ?tid ?t _ "new_start_entry t3 fp c ?tid"])
      show "task_ok ?s1 ?t" by (rule ok)
      show "active_of (tk_session_group_id ?t) ?s1 = []" unfolding tk using True Some by (simp add: active_of_def)
      show "group_of h ?s4 = group_of h ?s1" for h
        using Some by (simp add: group_of_def session_of_def set_session_def put_entry_def put_task_def)
      show "active_of h ?s4 = (if h = tk_session_group_id ?t then ?tid else active_of h ?s1)" for h
        unfolding tk by (simp add: active_of_def session_of_def set_session_def put_entry_def put_task_def)
    qed (use seq True in \<open>simp_all only: tk, simp_all add: set_session_def put_entry_def put_task_objects new_start_entry_def tk\<close>)
    from evolves_trans [OF ev this] show ?thesis by (simp only: eq)
  qed
qed

lemma soft_setters [simp]:
  "soft s t (t\<lparr>tk_connection := x1\<rparr>)" "soft s t (t\<lparr>tk_phase := x2\<rparr>)" "soft s t (t\<lparr>tk_connection_cancel := x3\<rparr>)"
  "soft s t (t\<lparr>tk_cancel_before_turn := x4\<rparr>)" "soft s t (t\<lparr>tk_subscribers := x5\<rparr>)"
  "soft s t (t\<lparr>tk_item_bindings := x6\<rparr>)" "soft s t (t\<lparr>tk_sensitive := x7\<rparr>)"
  "soft s t (t\<lparr>tk_channels := x8\<rparr>)" "soft s t (t\<lparr>tk_channels := x8, tk_subscribers := x5\<rparr>)"
  "soft s t (t\<lparr>tk_deferred_unsupported_warnings := y1\<rparr>)" "soft s t (t\<lparr>tk_deferred_unsupported_overflow := y2\<rparr>)"
  "soft s t (t\<lparr>tk_deferred_unsupported_method := y3\<rparr>)" "soft s t (t\<lparr>tk_deferred_unsupported_multiple := y4\<rparr>)"
  "soft s t (t\<lparr>tk_next_subscriber_id := x9, tk_subscribers := x5, tk_channels := x8\<rparr>)"
  by (rule soft_update; simp add: pre_ok_def)+

lemma evolves_setters [evolve]:
  "evolves s (set_task_connection tid c s)" "evolves s (set_task_phase tid p s)"
  "evolves s (snd (register_connection_cancel tid s))" "evolves s (clear_connection_cancel tid s)"
  "evolves s (snd (cancel_requested_before_turn tid s))"
  by (auto simp: set_task_connection_def set_task_phase_def register_connection_cancel_def
      clear_connection_cancel_def cancel_requested_before_turn_def intro!: evolves_on_task split: option.split)

lemma evolves_confirm_thread [evolve]: "evolves s (snd (confirm_thread_started e tid th s))"
proof (cases "task_by_id tid s")
  case (Some t)
  have "soft s t (snd (append_task_event e s p (t\<lparr>tk_thread_id := th\<rparr>)))" if "tk_thread_id t = []" for p
    by (rule soft_update_append, rule soft_update) (simp_all add: that pre_ok_def)
  then show ?thesis
    using evolves_put_id [OF Some] by (simp add: confirm_thread_started_def Some Let_def split_def)
qed (simp add: confirm_thread_started_def)

lemma evolves_confirm_turn [evolve]: "evolves s (snd (snd (confirm_turn_started_once e tid turn s)))"
proof (cases "task_by_id tid s")
  case (Some t)
  show ?thesis
  proof (cases "tk_turn_id t = []")
    case True
    have 1: "soft s t (t\<lparr>tk_turn_id := turn, tk_pre_interrupt_state := Some TaskStateRunning, tk_state := TaskStateInterrupting, tk_phase := b\<rparr>)" for b
      by (rule soft_update) (simp_all add: True pre_ok_def)
    have 2: "soft s t (t\<lparr>tk_turn_id := turn, tk_pre_interrupt_state := Some TaskStateRunning, tk_state := TaskStateInterrupting, tk_phase := b, tk_interrupt_sent := True\<rparr>)" for b
      by (rule soft_update) (simp_all add: True pre_ok_def)
    have 3: "soft s t (t\<lparr>tk_turn_id := turn, tk_state := TaskStateRunning, tk_phase := b\<rparr>)" for b
      by (rule soft_update) (simp_all add: True pre_ok_def)
    note ev = evolves_put_id [OF Some 1] evolves_put_id [OF Some soft_update_append [OF 2]]
      evolves_put_id [OF Some soft_update_append [OF 3]]
    show ?thesis
    proof (cases "tk_cancel_before_turn t")
      case False
      then show ?thesis using True by (simp add: confirm_turn_started_once_def Some Let_def split_def ev(3))
    next
      case c: True
      show ?thesis
        using True c by (cases "tk_interrupt_sent t")
          (simp_all add: confirm_turn_started_once_def Some Let_def split_def ev(1,2))
    qed
  qed (simp add: confirm_turn_started_once_def Some)
qed (simp add: confirm_turn_started_once_def)

lemma task_by_id_None: "service_inv s \<Longrightarrow> task_by_id k s = None \<Longrightarrow> k \<notin> set (sv_tasks s)"
  using service_invD(1) by (fastforce simp: task_by_id_def)

lemma evolves_success [evolve]: "evolves s (snd (complete_start_success e now tid res s))"
proof (cases "task_by_id tid s")
  case None
  show ?thesis
  proof (rule evolvesI)
    assume "service_inv s"
    then have "tid \<notin> set (sv_tasks s)" using None by (rule task_by_id_None)
    then show ?thesis by (simp add: complete_start_success_def None evolves_promise)
  qed
next
  case (Some t)
  show ?thesis
  proof (cases "entry_pending tid s")
    case True
    let ?s = "on_entry tid (settle_entry StartEntrySucceeded (Some res) None now) s"
    have "evolves s ?s" using True by (rule evolves_settle) simp
    moreover have "evolves ?s (put_task (snd (append_deferred_warnings e ?s t)) ?s)"
      by (rule evolves_put_id [of tid, OF _ append_deferred_soft]) (simp add: Some)
    ultimately have "evolves s (put_task (snd (append_deferred_warnings e ?s t)) ?s)" by (rule evolves_trans)
    then show ?thesis by (simp add: complete_start_success_def Some True Let_def split_def)
  qed (simp add: complete_start_success_def Some)
qed

lemma evolves_interrupt_of [evolve]:
  assumes t: "obj s (tk_id t) = Some t0" and soft: "soft s t0 t" and pending: "entry_pending (tk_id t) s"
  shows "evolves s (snd (complete_pre_turn_interrupt_of e t1 t2 t s))"
proof -
  let ?x = "no_terminal\<lparr>tt_terminal_state := TerminalStateInterrupted,
            tt_result_summary := ''task was interrupted before turn start''\<rparr>"
  let ?u = "t\<lparr>tk_phase := PhaseTerminal, tk_state := TaskStateInterrupted, tk_connection_cancel := False,
                tk_terminal := Some ?x, tk_terminal_at := Some t1\<rparr>"
  let ?s = "clear_active ?u s"
  let ?v = "snd (append_task_event e ?s (TaskTerminal ?x) ?u)"
  let ?f = "settle_entry StartEntryInterruptedBeforeTurn None (Some (GatewayErr (start_interrupted_before_turn ?v))) t2"
  have c: "clear_active ?v s = ?s" by (rule clear_active_cong) (simp_all add: task_simps)
  have ok: "task_ok ?s z = task_ok s z" for z by (rule task_ok_cong) simp
  have u: "task_le t ?u" "task_ok s t \<Longrightarrow> task_ok s ?u"
    by (simp_all add: task_le_def log_le_same task_ok_def pre_ok_def log_ok_cong [of ?u t])
  have a: "soft ?s ?u ?v" by (rule soft_append)
  have "evolves s (put_task ?v (clear_active ?v s))"
  proof (rule evolves_end)
    show "obj s (tk_id ?v) = Some t0" using t by (simp add: task_simps)
    show "task_le t0 ?v" using soft a task_le_trans u(1) unfolding soft_def by blast
    show "task_ok s ?v" if "task_ok s t0" using that soft a u(2) unfolding soft_def ok by blast
    show "tk_terminal ?v \<noteq> None" by (simp add: task_simps)
  qed
  then have "evolves s (put_task ?v ?s)" by (simp only: c)
  moreover have "evolves (put_task ?v ?s) (on_entry (tk_id t) ?f (put_task ?v ?s))"
    using pending by (intro evolves_settle) simp_all
  moreover have "snd (complete_pre_turn_interrupt_of e t1 t2 t s) = on_entry (tk_id t) ?f (put_task ?v ?s)"
    by (simp add: complete_pre_turn_interrupt_of_def Let_def split_def task_simps put_task_on_entry)
  ultimately show ?thesis using evolves_trans [of s "put_task ?v ?s"] by (simp only:)
qed

lemma task_by_id_id: "service_inv s \<Longrightarrow> task_by_id k s = Some t \<Longrightarrow> tk_id t = k \<and> obj s (tk_id t) = Some t"
  using service_invD(2) task_by_id_obj by blast

lemma evolves_pre_turn [evolve]: "evolves s (snd (complete_pre_turn_interrupt e t1 t2 tid s))"
proof (cases "task_by_id tid s")
  case None
  show ?thesis
  proof (rule evolvesI)
    assume "service_inv s"
    then have "tid \<notin> set (sv_tasks s)" using None by (rule task_by_id_None)
    then show ?thesis by (simp add: complete_pre_turn_interrupt_def None evolves_promise)
  qed
next
  case (Some t)
  show ?thesis
  proof (rule evolvesI)
    assume inv: "service_inv s"
    note t = task_by_id_id [OF inv Some]
    have "evolves s (snd (complete_pre_turn_interrupt_of e t1 t2 t s))" if "entry_pending tid s"
      by (rule evolves_interrupt_of) (use t that in auto)
    then show ?thesis by (simp add: complete_pre_turn_interrupt_def Some)
  qed
qed

lemma evolves_failure [evolve]: "evolves s (snd (complete_start_failure e t1 t2 tid err s))"
proof (cases "gm_get (sv_objects s) tid")
  case (Some t)
  show ?thesis
  proof (rule evolvesI)
    assume inv: "service_inv s"
    have id: "tk_id t = tid" "obj s (tk_id t) = Some t" using service_invD(2) [OF inv Some] Some by simp_all
    show ?thesis
    proof (cases "entry_pending tid s")
      case False
      then show ?thesis by (simp add: complete_start_failure_def Some)
    next
      case True
      have 1: "evolves s (complete_start_promise_for_terminal_task t1 t err s)"
        using True by (simp add: complete_start_promise_for_terminal_task_def id(1) evolves_settle)
      have 2: "evolves s (snd (complete_pre_turn_interrupt_of e t1 t2 t s))"
        by (rule evolves_interrupt_of [OF id(2)]) (simp_all add: True id(1))
      have 3: "evolves s (on_entry tid (settle_entry StartEntryFailed None (Some err) t2)
          (snd (finish_task e t1 st x extra r t s)))" for st x extra r
        by (rule evolves_trans [OF evolves_finish [OF id(2) soft_refl] evolves_settle]) (simp_all add: True)
      show ?thesis
        using 1 2 3 True by (simp add: complete_start_failure_def Some Let_def split_def)
    qed
  qed
qed (simp add: complete_start_failure_def)

lemma evolves_failure_unknown [evolve]:
  "tid \<notin> set (sv_tasks s) \<Longrightarrow> evolves s (complete_start_failure_unknown tid err s)"
  by (simp add: complete_start_failure_unknown_def evolves_promise)

subsection \<open>Status, streams and interrupts\<close>

lemma evolves_status [evolve]: "evolves s (snd (get_task_status t1 t2 l s))"
  by (simp add: get_task_status_def Let_def evolves_cleanup)

lemma subscribe_soft: "soft s t (snd (subscribe_task c t))"
  by (cases "replay_messages t c") (simp_all add: subscribe_task_def Let_def)

lemma evolves_stream [evolve]: "evolves s (snd (stream_task t1 t2 tid c s))"
proof -
  let ?s = "cleanup_retained t1 t2 s"
  have "evolves ?s (snd (stream_task t1 t2 tid c s))"
    by (cases "task_by_id tid ?s")
      (simp_all add: stream_task_def Let_def split_def evolves_put_id [OF _ subscribe_soft])
  from evolves_trans [OF evolves_cleanup this] show ?thesis .
qed

lemma evolves_unsubscribe [evolve]: "evolves s (unsubscribe_task tid i s)"
  by (auto simp: unsubscribe_task_def intro: evolves_put_id split: option.split)

lemma publish_to_soft: "soft s t (publish_to retained ev b i t)"
  by (cases "gm_get (tk_channels t) i") (simp_all add: publish_to_def Let_def split_def)

lemma publish_fold_soft: "soft s t (fold (publish_to retained ev b) ids t)"
  by (induction ids arbitrary: t) (simp_all, blast intro: soft_trans publish_to_soft)

lemma evolves_publish [evolve]: "evolves s (publish_task_event p s)"
  by (auto simp: publish_task_event_def intro: evolves_put_obj publish_fold_soft split: option.split)

lemma evolves_receive [evolve]: "evolves s (snd (receive_task_event tid i s))"
  by (auto simp: receive_task_event_def intro!: evolves_put_obj split: option.split list.split)

lemma tasks_of_obj: "t \<in> set (tasks_of s) \<Longrightarrow> \<exists>k \<in> set (sv_tasks s). obj s k = Some t"
  by (auto simp: tasks_of_def List.map_filter_def)

lemma tasks_of_id: "service_inv s \<Longrightarrow> t \<in> set (tasks_of s) \<Longrightarrow> tk_id t \<in> set (sv_tasks s) \<and> obj s (tk_id t) = Some t"
  using tasks_of_obj service_invD(2) by fastforce

lemma locator_found: "task_for_locator l s = Inr t \<Longrightarrow> \<exists>k \<in> set (sv_tasks s). obj s k = Some t"
proof (cases l)
  case (LocatorByThread g th)
  let ?ts = "filter (\<lambda>t. tk_session_group_id t = g \<and> tk_thread_id t = th) (tasks_of s)"
  assume "task_for_locator l s = Inr t"
  with LocatorByThread have "t \<in> set ?ts"
    by (auto simp: task_for_locator_def Let_def newest_by_def filter_eq_Cons_iff split: list.splits option.splits dest!: oldest_by_in)
  then show ?thesis using tasks_of_obj by simp
qed (auto simp: task_for_locator_def dest!: task_by_id_obj split: option.splits)

lemma evolves_interrupt_target [evolve]: "evolves s (snd (snd (interrupt_target e t1 t2 l s)))"
proof -
  let ?s = "cleanup_retained t1 t2 s"
  have "evolves ?s (snd (snd (interrupt_target e t1 t2 l s)))"
  proof (cases "task_for_locator l ?s")
    case (Inr t)
    then obtain k where k: "obj ?s k = Some t" using locator_found by blast
    have 1: "soft ?s t (snd (append_task_event e ?s p (t\<lparr>tk_interrupt_sent := True, tk_pre_interrupt_state := Some (tk_state t),
        tk_state := TaskStateInterrupting\<rparr>)))" if "\<not> is_terminal_state (tk_state t)" for p
      by (rule soft_update_append, rule soft_update) (simp_all add: that pre_ok_def)
    note ev = evolves_put_obj [OF k 1] evolves_put_obj [OF k soft_setters(4)]
    show ?thesis
      by (cases "is_terminal_state (tk_state t)"; cases "tk_connection t")
        (simp_all add: interrupt_target_def Let_def split_def Inr ev)
  qed (simp add: interrupt_target_def Let_def)
  from evolves_trans [OF evolves_cleanup this] show ?thesis .
qed

lemma evolves_rollback [evolve]: "evolves s (snd (rollback_interrupt e tid s))"
proof (cases "task_by_id tid s")
  case (Some t)
  let ?t = "t\<lparr>tk_interrupt_sent := False, tk_state := rollback_state (tk_pre_interrupt_state t), tk_pre_interrupt_state := None\<rparr>"
  show ?thesis
  proof (rule evolvesI)
    assume inv: "service_inv s"
    have "pre_ok t" using service_invD(3) [OF inv] task_by_id_obj [OF Some] by (auto simp: task_ok_def)
    then have "soft s t ?t"
      by (intro soft_update) (auto simp: pre_ok_def rollback_state_def split: option.splits if_splits)
    then show ?thesis
      using evolves_put_id [OF Some soft_update_append] by (simp add: rollback_interrupt_def Some Let_def split_def)
  qed
qed (simp add: rollback_interrupt_def)

end
