(* ===== verification/Task_Reach.thy ===== *)
theory Task_Reach
  imports Task_Operations
begin

text \<open>
  The operations on notifications and pending requests, and the step relation of the service: any
  operation, at any time, with any arguments.
\<close>

subsection \<open>Notifications (notifications.go)\<close>

lemma the_only_in: "the_only xs = Some x \<Longrightarrow> x \<in> set xs"
  by (induction xs rule: the_only.induct) auto

lemma verified_found: "task_for_verified_lifecycle_notification n c s = Some t \<Longrightarrow> task_by_id (nf_task_id n) s = Some t"
  by (auto simp: task_for_verified_lifecycle_notification_def split: if_splits option.splits)

lemma notification_found: "task_for_notification_task_id n c s = Some t \<Longrightarrow> task_by_id (nf_task_id n) s = Some t"
  by (auto simp: task_for_notification_task_id_def split: if_splits option.splits)

lemma running_on_obj: "t \<in> set (running_on c s) \<Longrightarrow> \<exists>k. obj s k = Some t"
  using tasks_of_obj by (fastforce simp: running_on_def)

lemma exact_turn_found: "task_for_exact_turn_notification n c s = Some t \<Longrightarrow> \<exists>k. obj s k = Some t"
  by (auto simp: task_for_exact_turn_notification_def dest!: the_only_in intro: running_on_obj split: if_splits)

lemma thread_found: "task_for_thread_notification n c s = Some t \<Longrightarrow> \<exists>k. obj s k = Some t"
  by (auto simp: task_for_thread_notification_def dest!: the_only_in intro: running_on_obj split: if_splits)

lemma item_found: "task_for_registered_item c item s = Some t \<Longrightarrow> \<exists>k. obj s k = Some t"
  by (auto simp: task_for_registered_item_def dest!: the_only_in intro: running_on_obj split: if_splits)

lemma turn_completed_found: "task_for_turn_completed_notification n c s = Some t \<Longrightarrow> \<exists>k. obj s k = Some t"
  by (auto simp: task_for_turn_completed_notification_def dest!: the_only_in notification_found task_by_id_obj
      intro: running_on_obj split: if_splits option.splits)

lemma evolves_finish_obj:
  assumes "obj s k = Some t"
  shows "evolves s (snd (finish_task e now st x extra r t s))"
proof (rule evolvesI)
  assume "service_inv s"
  then have "obj s (tk_id t) = Some t" using service_invD(2) assms by simp
  from evolves_finish [OF this soft_refl] show "evolves s (snd (finish_task e now st x extra r t s))" .
qed

lemma evolves_thread_started [evolve]: "evolves s (snd (handle_thread_started e n c s))"
proof (cases "task_for_verified_lifecycle_notification n c s")
  case (Some t)
  note t = verified_found [OF Some]
  have "soft s t (snd (append_task_event e s p (t\<lparr>tk_thread_id := th\<rparr>)))" if "tk_thread_id t = []" for p th
    by (rule soft_update_append, rule soft_update) (simp_all add: that pre_ok_def)
  then show ?thesis
    using evolves_put_id [OF t] by (simp add: handle_thread_started_def Some Let_def split_def)
qed (simp add: handle_thread_started_def)

lemma evolves_turn_completed [evolve]: "evolves s (snd (handle_turn_completed e now n st c s))"
proof (cases "task_for_turn_completed_notification n c s")
  case (Some t)
  then obtain k where k: "obj s k = Some t" using turn_completed_found by blast
  show ?thesis by (simp add: handle_turn_completed_def Some Let_def split_def evolves_finish_obj [OF k])
qed (simp add: handle_turn_completed_def)

lemma finish_then_settle:
  assumes "obj s k = Some t" "entry_pending tid s" "st' \<noteq> StartEntryPending"
  shows "evolves s (on_entry tid (settle_entry st' res err t2) (snd (finish_task e t1 st x extra r t s)))"
  by (rule evolves_trans [OF evolves_finish_obj [OF assms(1)] evolves_settle]) (simp_all add: assms(2,3))

lemma evolves_auth [evolve]: "evolves s (snd (handle_auth_refresh_failure e t1 t2 tid g reason s))"
proof (cases "task_by_id tid s")
  case (Some t)
  then have k: "obj s tid = Some t" by (simp add: task_by_id_obj)
  show ?thesis
    by (simp add: handle_auth_refresh_failure_def Some Let_def split_def evolves_finish_obj [OF k] finish_then_settle [OF k])
qed (simp add: handle_auth_refresh_failure_def Let_def)

lemma defer_soft: "soft s t (defer_unsupported_server_request meth t)"
proof -
  define u where "u = (if tk_deferred_unsupported_warnings t < max_deferred_unsupported_warnings
    then t\<lparr>tk_deferred_unsupported_warnings := tk_deferred_unsupported_warnings t + 1\<rparr>
    else t\<lparr>tk_deferred_unsupported_overflow := True\<rparr>)"
  have "soft s t u" by (simp add: u_def)
  moreover have "soft s u (defer_unsupported_server_request meth t)"
    unfolding defer_unsupported_server_request_def Let_def u_def [symmetric] by simp
  ultimately show ?thesis by (rule soft_trans)
qed

lemma unsupported_found:
  "(if nf_task_id n \<noteq> [] then (case task_for_notification_task_id n c s of None \<Rightarrow> None
      | Some t \<Rightarrow> if notification_task_matches_turn t n th turn then Some t else None)
    else task_for_exact_turn_notification n c s) = Some t \<Longrightarrow> \<exists>k. obj s k = Some t"
  by (auto dest!: notification_found task_by_id_obj intro: exact_turn_found split: if_splits option.splits)

lemma evolves_warning:
  "obj s k = Some t \<Longrightarrow> evolves s (put_task (snd (append_task_event e s p t)) s)"
  by (rule evolves_put_obj [OF _ soft_append])

lemma evolves_fail_task [evolve]: "evolves s (snd (fail_task_for_closed_connection e t1 t2 c tid s))"
proof (cases "task_by_id tid s")
  case (Some t)
  show ?thesis
  proof (rule evolvesI)
    assume inv: "service_inv s"
    let ?t = "snd (append_deferred_warnings e s t)"
    have soft: "soft s t ?t" by (rule append_deferred_soft)
    have id: "tk_id ?t = tid" "tk_id t = tid" and o: "obj s (tk_id ?t) = Some t"
      using task_by_id_id [OF inv Some] soft_id(1) [OF soft] by auto
    have 1: "evolves s (snd (complete_pre_turn_interrupt_of e a b ?t s))" if "entry_pending tid s" for a b
      by (rule evolves_interrupt_of [OF o soft]) (simp add: id that)
    have 2: "evolves s (snd (finish_task e a st x extra r ?t s))" for a st x extra r
      by (rule evolves_finish [OF o soft])
    have 3: "evolves s (on_entry tid (settle_entry st' res err b) (snd (finish_task e a st x extra r ?t s)))"
      if "entry_pending tid s" "st' \<noteq> StartEntryPending" for a b st x extra r st' res err
      by (rule evolves_trans [OF 2 evolves_settle]) (simp_all add: that)
    show ?thesis
      by (simp add: fail_task_for_closed_connection_def Some Let_def split_def 1 2 3)
  qed
qed (simp add: fail_task_for_closed_connection_def)

lemma evolves_fail_loop: "evolves s (snd (fail_tasks_loop e t1 t2 c tids s))"
proof (induction tids arbitrary: s)
  case (Cons tid tids)
  from evolves_trans [OF evolves_fail_task Cons] show ?case by (simp add: split_def Let_def)
qed simp

lemma evolves_closed [evolve]: "evolves s (snd (fail_tasks_for_closed_connection e t1 t2 c s))"
proof -
  let ?s = "snd (fail_tasks_loop e t1 t2 c (sv_tasks s) s)"
  have "same_core ?s (?s\<lparr>sv_monitors := removeAll c (sv_monitors ?s), sv_resolved_requests := gm_del c (sv_resolved_requests ?s)\<rparr>)"
    using same_core_trans [OF same_core_fields(3) same_core_fields(4)] by simp
  from evolves_trans [OF evolves_fail_loop evolves_frame [OF this]] show ?thesis
    by (simp add: fail_tasks_for_closed_connection_def split_def Let_def)
qed

lemma evolves_monitor [evolve]: "evolves s (snd (ensure_monitor c s))"
  by (auto simp: ensure_monitor_def intro: evolves_frame frame)

subsection \<open>Pending requests (pending_requests.go)\<close>

lemma evolves_mark_resolved [evolve]: "evolves s (mark_resolved_server_request js c raw s)"
  by (auto simp: mark_resolved_server_request_def Let_def intro: evolves_frame frame)

lemma bind_item_soft: "soft s t (bind_item item t)"
  by (simp add: bind_item_def)

lemma bind_found_evolves: "(\<And>t. found = Some t \<Longrightarrow> \<exists>k. obj s k = Some t) \<Longrightarrow> evolves s (snd (bind_found item found s))"
  by (cases found) (auto simp: bind_found_def intro: evolves_put_obj bind_item_soft)

lemma request_task_id_evolves: "evolves s (snd (task_for_request_task_id c rid th turn item s))"
  by (auto simp: task_for_request_task_id_def Let_def intro!: bind_found_evolves dest!: notification_found task_by_id_obj
      split: option.split)

lemma evolves_server_request [evolve]: "evolves s (snd (task_for_server_request c rid th turn item fb s))"
  by (auto simp: task_for_server_request_def request_task_id_evolves intro!: bind_found_evolves dest: exact_turn_found)

lemma resolve_pending [task_simps]:
  "tk_pending (snd (resolve_task_request e s pid ty res t)) = mark_resolved pid (tk_pending t)"
  by (simp add: resolve_task_request_def Let_def task_simps)

lemma resolve_soft: "soft s t (snd (resolve_task_request e s pid ty res t))"
proof -
  let ?t = "t\<lparr>tk_pending := mark_resolved pid (tk_pending t)\<rparr>"
  have 1: "soft s t ?t" by (rule soft_update) (simp_all add: mark_resolved_ok pre_ok_def)
  have 2: "soft s t (?t\<lparr>tk_state := TaskStateRunning\<rparr>)" by (rule soft_update) (simp_all add: mark_resolved_ok pre_ok_def)
  show ?thesis using 1 2 by (auto simp: resolve_task_request_def Let_def intro!: soft_update_append)
qed

lemma resolve_clear_soft:
  "soft s t (snd (resolve_task_request e s pid ty res (t\<lparr>tk_pending := clear_in_flight pid (tk_pending t)\<rparr>)))"
proof -
  let ?t = "t\<lparr>tk_pending := mark_resolved pid (clear_in_flight pid (tk_pending t))\<rparr>"
  have 1: "soft s t ?t" by (rule soft_update) (simp_all add: mark_resolved_ok mgr_le_clear_mark pre_ok_def)
  have 2: "soft s t (?t\<lparr>tk_state := TaskStateRunning\<rparr>)"
    by (rule soft_update) (simp_all add: mark_resolved_ok mgr_le_clear_mark pre_ok_def)
  show ?thesis using 1 2 by (auto simp: resolve_task_request_def Let_def intro!: soft_update_append)
qed

lemma pending_soft:
  "mgr_le (tk_pending t) m \<Longrightarrow> (manager_ok (tk_pending t) \<Longrightarrow> manager_ok m) \<Longrightarrow> soft s t (t\<lparr>tk_pending := m\<rparr>)"
  by (rule soft_update) (simp_all add: pre_ok_def)

lemma pending_sensitive_soft:
  "mgr_le (tk_pending t) m \<Longrightarrow> (manager_ok (tk_pending t) \<Longrightarrow> manager_ok m) \<Longrightarrow> soft s t (t\<lparr>tk_sensitive := r, tk_pending := m\<rparr>)"
  by (rule soft_update) (simp_all add: pre_ok_def)

definition counters_ok :: "service \<Rightarrow> bool" where
  "counters_ok s \<longleftrightarrow> sv_next_task_seq s \<noteq> - 1 \<and> (\<forall>k t. obj s k = Some t \<longrightarrow> mg_next_seq (tk_pending t) \<noteq> - 1)"

lemma consume_frame: "same_core s (snd (consume_resolved_server_request js c r s))"
  by (auto simp: consume_resolved_server_request_def Let_def frame split: option.split)

lemma same_core_put: "same_core s s' \<Longrightarrow> same_core (put_task t s) (put_task t s')"
  by (simp add: same_core_def put_task_objects)

lemma evolves_put_frame:
  assumes "obj s k = Some t" "soft s t t'" "same_core s s'"
  shows "evolves s (put_task t' s')"
  by (rule evolves_trans [OF evolves_put_obj [OF assms(1,2)] evolves_frame [OF same_core_put [OF assms(3)]]])

lemma append_core: "same_core s s' \<Longrightarrow> append_task_event e s' p t = append_task_event e s p t"
proof -
  assume c: "same_core s s'"
  have "enforce_task_replay_limits e s' x = enforce_task_replay_limits e s x" for x
    unfolding enforce_task_replay_limits_def caps_group using c by (simp add: same_core_def)
  then show ?thesis by (simp add: append_task_event_def)
qed

lemma evolves_admit:
  assumes t: "obj s k = Some t" and seq: "mg_next_seq (tk_pending t) \<noteq> - 1" and live: "\<not> is_terminal_state (tk_state t)"
  shows "evolves s (snd (admit_pending_request e js db c t r s))"
proof (cases "pending_admission_limit_reason db t r s")
  case None
  let ?pid = "fst (manager_add r (tk_pending t))" and ?m = "snd (manager_add r (tk_pending t))"
  let ?p = "PendingRequestCreated ?pid (pr_pending_type (pe_pending r)) (pr_display (pe_pending r))"
  let ?t1 = "t\<lparr>tk_pending := ?m, tk_state := TaskStateWaitingForPendingRequest\<rparr>"
  let ?t2 = "snd (append_task_event e s ?p ?t1)"
  let ?s = "snd (consume_resolved_server_request js c r s)"
  let ?t3 = "?t2\<lparr>tk_pending := mark_resolved ?pid (tk_pending ?t2)\<rparr>"
  let ?t4 = "if active_count (tk_pending ?t3) = 0 then ?t3\<lparr>tk_state := TaskStateRunning\<rparr> else ?t3"
  let ?q = "PendingRequestResolved ?pid (pr_pending_type (pe_pending r)) PendingResolutionCleared []"
  have core: "same_core s ?s" by (rule consume_frame)
  show ?thesis
  proof (rule evolvesI)
    assume inv: "service_inv s"
    have mok: "manager_ok (tk_pending t)" using service_invD(3) [OF inv t] by (simp add: task_ok_def)
    have "soft s t ?t1"
      by (rule soft_update) (use mgr_le_add [OF mok seq] manager_add_ok [OF mok seq] in \<open>simp_all add: pre_ok_def\<close>)
    then have 2: "soft s t ?t2" by (rule soft_update_append)
    have "soft s ?t2 ?t3" by (rule pending_soft) (simp_all add: mark_resolved_ok)
    moreover have "soft s ?t2 (?t3\<lparr>tk_state := TaskStateRunning\<rparr>)"
      by (rule soft_update) (simp_all add: mark_resolved_ok pre_ok_def)
    ultimately have "soft s ?t2 ?t4" by simp
    then have 4: "soft s t (snd (append_task_event e s ?q ?t4))" using 2 soft_trans soft_update_append by blast
    show ?thesis
      using evolves_put_frame [OF t 2 core] evolves_put_frame [OF t 4 core]
      unfolding admit_pending_request_def None by (simp add: Let_def split_def append_core [OF core])
  qed
qed (simp add: admit_pending_request_def)

lemma bound_object:
  assumes "service_inv s" "fst (task_for_server_request c rid th turn item fb s) = Some t"
  shows "\<exists>k t0. obj (snd (task_for_server_request c rid th turn item fb s)) k = Some t \<and> obj s k = Some t0 \<and>
    tk_pending t = tk_pending t0"
proof -
  have bind: "\<exists>k t0. obj (snd (bind_found item found s)) k = Some t \<and> obj s k = Some t0 \<and> tk_pending t = tk_pending t0"
    if f: "fst (bind_found item found s) = Some t" "\<And>t. found = Some t \<Longrightarrow> \<exists>k. obj s k = Some t" for found
  proof -
    from f(1) obtain t0 where t0: "found = Some t0" "t = bind_item item t0" by (auto simp: bind_found_def split: option.splits)
    from f(2) [OF t0(1)] obtain k where k: "obj s k = Some t0" by blast
    then have "tk_id t0 = k" by (rule service_invD(2) [OF assms(1)])
    with t0 k show ?thesis by (intro exI [of _ k] exI [of _ t0]) (simp add: bind_found_def bind_item_def)
  qed
  have req: "\<exists>k t0. obj (snd (task_for_request_task_id c rid' th turn item s)) k = Some t \<and> obj s k = Some t0 \<and>
      tk_pending t = tk_pending t0"
    if "fst (task_for_request_task_id c rid' th turn item s) = Some t" for rid'
  proof -
    let ?n = "server_request_notification rid' th turn"
    from that obtain t1 where t1: "task_for_notification_task_id ?n c s = Some t1" "notification_task_matches_turn t1 ?n th turn"
      by (auto simp: task_for_request_task_id_def Let_def split: option.splits if_splits)
    then have "\<exists>k. obj s k = Some t1" using notification_found task_by_id_obj by blast
    with that t1 bind [of "Some t1"] show ?thesis by (simp add: task_for_request_task_id_def)
  qed
  have item: "\<exists>k t0. obj s k = Some t \<and> obj s k = Some t0 \<and> tk_pending t = tk_pending t0"
    if "task_for_registered_item c item s = Some t"
    using item_found [OF that] by blast
  show ?thesis
  proof (cases "rid = []")
    case False
    with assms(2) req [of rid] show ?thesis by (simp add: task_for_server_request_def)
  next
    case True
    show ?thesis
    proof (cases "th \<noteq> [] \<and> turn \<noteq> []")
      case exact: True
      with assms(2) True bind [OF _ exact_turn_found] show ?thesis by (simp add: task_for_server_request_def)
    next
      case False
      with assms(2) True item req [of fb] show ?thesis by (auto simp: task_for_server_request_def split: if_splits)
    qed
  qed
qed

lemma evolves_try_create [evolve]:
  assumes "counters_ok s"
  shows "evolves s (snd (try_create_pending_request e js db build c rid th turn item fb s))"
proof (rule evolvesI)
  assume inv: "service_inv s"
  let ?f = "fst (task_for_server_request c rid th turn item fb s)" and ?s = "snd (task_for_server_request c rid th turn item fb s)"
  have ev: "evolves s ?s" by (rule evolves_server_request)
  show "evolves s (snd (try_create_pending_request e js db build c rid th turn item fb s))"
  proof (cases ?f)
    case None
    with ev show ?thesis by (simp add: try_create_pending_request_def split_def Let_def)
  next
    case (Some t)
    from bound_object [OF inv Some] obtain k t0 where k: "obj ?s k = Some t" "obj s k = Some t0" "tk_pending t = tk_pending t0"
      by blast
    then have seq: "mg_next_seq (tk_pending t) \<noteq> - 1" using assms by (simp add: counters_ok_def)
    have "evolves s (snd (admit_pending_request e js db c t r ?s))" if "\<not> is_terminal_state (tk_state t)" for r
      by (rule evolves_trans [OF ev evolves_admit [OF k(1) seq that]])
    with ev show ?thesis
      by (cases "build t") (simp_all add: try_create_pending_request_def split_def Let_def Some)
  qed
qed


lemma evolves_unsupported [evolve]: "evolves s (snd (handle_unsupported_server_request e n meth c s))"
proof -
  let ?f = "if nf_task_id n \<noteq> [] then (case task_for_notification_task_id n c s of None \<Rightarrow> None
      | Some t \<Rightarrow> if notification_task_matches_turn t n (nf_thread_id n) (nf_turn_id n) then Some t else None)
    else task_for_exact_turn_notification n c s"
  show ?thesis
  proof (cases ?f)
    case None
    then show ?thesis by (simp only: handle_unsupported_server_request_def None) simp
  next
    case (Some t)
    from unsupported_found [OF Some] obtain k where k: "obj s k = Some t" by blast
    note ev = evolves_put_obj [OF k defer_soft] evolves_warning [OF k]
    show ?thesis
      by (simp only: handle_unsupported_server_request_def Some) (simp add: ev Let_def split_def split: option.split)
  qed
qed

lemma evolves_claim_response [evolve]: "evolves s (snd (claim_pending_response decode lower fp c s))"
proof (cases "task_by_id (rc_task_id c) s")
  case (Some t)
  let ?pid = "rc_pending_request_id c" and ?rid = "rc_client_response_id c"
  show ?thesis
  proof (cases "manager_get ?pid (tk_pending t)")
    case r: (Some r)
    have 1: "evolves s (put_task (t\<lparr>tk_sensitive := reg\<rparr>) s)" for reg
      by (rule evolves_put_id [OF Some]) simp
    have 2: "evolves s (put_task (t\<lparr>tk_sensitive := reg, tk_pending := update_entry ?pid (\<lambda>r. r\<lparr>
        pe_responses := gm_put ?rid (new_response_entry ?rid x) (pe_responses r),
        pe_in_flight_client_response_id := ?rid\<rparr>) (tk_pending t)\<rparr>) s)"
      if "pe_in_flight_client_response_id r = []" "gm_get (pe_responses r) ?rid = None" for reg x
    proof (rule evolves_put_id [OF Some], rule pending_sensitive_soft)
      show "mgr_le (tk_pending t) (update_entry ?pid (\<lambda>r. r\<lparr>
          pe_responses := gm_put ?rid (new_response_entry ?rid x) (pe_responses r),
          pe_in_flight_client_response_id := ?rid\<rparr>) (tk_pending t))"
        by (rule mgr_le_update) (use that r in \<open>auto simp: entry_le_def\<close>)
    qed (simp add: update_entry_ok keeps_keys_on_response)
    show ?thesis
      using 1 2
      by (auto simp: claim_pending_response_def Some r Let_def split: option.split sum.split prod.split)
  qed (simp add: claim_pending_response_def Some)
qed (simp add: claim_pending_response_def)

lemma soft_put_pending:
  assumes "soft s t u" "mgr_le (tk_pending u) m" "manager_ok (tk_pending u) \<Longrightarrow> manager_ok m"
  shows "soft s t (u\<lparr>tk_pending := m\<rparr>)"
  by (rule soft_trans [OF assms(1) pending_soft [OF assms(2,3)]])

lemma settle_response_le:
  assumes "manager_get pid m = Some r" "gm_get (pe_responses r) rid = Some en" "rn_state en = ResponseStateResponding"
    "\<And>a. rn_fingerprint (f a) = rn_fingerprint a"
  shows "mgr_le m (on_response pid rid f m)"
  by (rule mgr_le_on_response) (use assms in \<open>auto simp: response_le_def\<close>)

lemma accept_fingerprint [simp]: "rn_fingerprint (accept_response res a) = rn_fingerprint a"
  "rn_fingerprint (fail_response err a) = rn_fingerprint a"
  by (simp_all add: accept_response_def fail_response_def)

lemma evolves_complete_response [evolve]:
  "evolves s (snd (snd (complete_pending_response e tid pid rid resolution failed s)))"
proof (cases "task_by_id tid s")
  case (Some t)
  show ?thesis
  proof (cases "manager_get pid (tk_pending t)")
    case r: (Some r)
    show ?thesis
    proof (cases "gm_get (pe_responses r) rid")
      case en: (Some en)
      show ?thesis
      proof (cases "rn_state en")
        case ResponseStateAccepted
        have "evolves s (put_task (t\<lparr>tk_pending := on_response pid rid (\<lambda>en. en\<lparr>rn_response := res\<rparr>) (tk_pending t)\<rparr>) s)" for res
          by (rule evolves_put_id [OF Some pending_soft]) (simp_all add: mgr_le_on_response response_le_def)
        then show ?thesis by (simp add: complete_pending_response_def Some r en ResponseStateAccepted Let_def)
      next
        case ResponseStateFailed
        then show ?thesis by (simp add: complete_pending_response_def Some r en)
      next
        case ResponseStateResponding
        note en' = ResponseStateResponding
        let ?m = "tk_pending t"
        let ?c = "clear_in_flight pid ?m"
        have get_c: "manager_get pid ?c = Some (r\<lparr>pe_in_flight_client_response_id := []\<rparr>)"
          by (simp add: clear_in_flight_def r)
        have 1: "evolves s (put_task (t\<lparr>tk_pending := on_response pid rid (accept_response res) ?c\<rparr>) s)" if "\<not> pe_active r" for res
        proof (rule evolves_put_id [OF Some pending_soft])
          show "mgr_le ?m (on_response pid rid (accept_response res) ?c)"
            by (rule mgr_le_trans [OF mgr_le_clear_in_flight settle_response_le [OF get_c]]) (use r en en' that in simp_all)
        qed simp
        let ?u = "\<lambda>x. snd (resolve_task_request e s pid (pr_pending_type (pe_pending r)) x (t\<lparr>tk_pending := ?c\<rparr>))"
        have get_u: "manager_get pid (tk_pending (?u x)) = Some (r\<lparr>pe_in_flight_client_response_id := [], pe_active := False\<rparr>)" for x
          by (simp add: task_simps get_c)
        have 2: "evolves s (put_task (?u x\<lparr>tk_pending := on_response pid rid f (tk_pending (?u x))\<rparr>) s)"
          if "\<And>a. rn_fingerprint (f a) = rn_fingerprint a" for x f
        proof (rule evolves_put_id [OF Some soft_put_pending [OF resolve_clear_soft]])
          show "mgr_le (tk_pending (?u x)) (on_response pid rid f (tk_pending (?u x)))"
            by (rule settle_response_le [OF get_u]) (use en en' that in simp_all)
        qed simp
        show ?thesis
          by (simp add: complete_pending_response_def Some r en en' Let_def split_def 1 2)
      qed
    qed (simp add: complete_pending_response_def Some r Let_def)
  qed (simp add: complete_pending_response_def Some Let_def)
qed (simp add: complete_pending_response_def)

lemma evolves_resolve_by_server:
  assumes "obj s k = Some t"
  shows "evolves s (snd (resolve_by_server e r t s))"
proof -
  let ?pid = "pr_pending_request_id (pe_pending r)" and ?rid = "pe_in_flight_client_response_id r"
  let ?u = "snd (resolve_task_request e s ?pid (pr_pending_type (pe_pending r)) PendingResolutionCleared t)"
  have "evolves s (put_task (?u\<lparr>tk_pending := clear_in_flight ?pid (on_response ?pid ?rid (\<lambda>en.
      if rn_state en = ResponseStateResponding then accept_response (f en) en else en) (tk_pending ?u))\<rparr>) s)" for f
  proof (rule evolves_put_obj [OF assms soft_put_pending [OF resolve_soft]])
    let ?o = "on_response ?pid ?rid (\<lambda>en. if rn_state en = ResponseStateResponding then accept_response (f en) en else en) (tk_pending ?u)"
    have "mgr_le (tk_pending ?u) ?o" by (rule mgr_le_on_response) (simp add: response_le_def)
    moreover have "mgr_le ?o (clear_in_flight ?pid ?o)"
      by (rule mgr_le_clear_in_flight) (auto simp: on_response_def task_simps)
    ultimately show "mgr_le (tk_pending ?u) (clear_in_flight ?pid ?o)" by (rule mgr_le_trans)
  qed simp
  then show ?thesis
    using evolves_put_obj [OF assms resolve_soft] by (simp add: resolve_by_server_def Let_def split_def)
qed

lemma evolves_resolved [evolve]: "evolves s (snd (handle_server_request_resolved e js raw checked matched c s))"
proof (cases "List.find (\<lambda>t. tk_connection t = Some c \<and> active_by_resolved_server_request_id js raw (tk_pending t) \<noteq> None) (tasks_of s)")
  case (Some t)
  then have "t \<in> set (tasks_of s)" by (auto simp: find_Some_iff)
  then obtain k where k: "obj s k = Some t" using tasks_of_obj by blast
  show ?thesis
    by (simp only: handle_server_request_resolved_def Some) (simp add: Let_def split_def evolves_resolve_by_server [OF k])
qed (simp only: handle_server_request_resolved_def, simp add: evolves_mark_resolved)

lemma evolves_publish_warning [evolve]: "evolves s (snd (publish_pending_warning e tid w s))"
proof (cases "task_by_id tid s")
  case (Some t)
  then have k: "obj s tid = Some t" by (simp add: task_by_id_obj)
  show ?thesis by (simp add: publish_pending_warning_def Some Let_def split_def evolves_warning [OF k])
qed (simp add: publish_pending_warning_def)

end
