(* ===== verification/Task_Notifications.thy ===== *)
theory Task_Notifications
  imports Task_Requests Pending_Forms
begin

text \<open>
  The events that a task makes of the app-server's notifications
  (\<open>gateway/internal/tasks/notification_mapping.go\<close>), the diagnostics of what belongs to no task
  (\<open>connection_diagnostics.go\<close>), and how a server request is built and admitted for a task
  (\<open>pending_requests.go\<close>).  \<open>root\<close> is the decoded object of the parameters and \<open>san\<close> the path sanitizer
  of a task (\<open>None\<close> when it has none).
\<close>

subsection \<open>Reading the parameters\<close>

text \<open>\<open>firstString\<close>; unlike that of the pending requests it prints arrays and objects.\<close>

fun first_text :: "json_object \<Rightarrow> string list \<Rightarrow> string" where
  "first_text root [] = []"
| "first_text root (p # ps) = (case first_value root [p] of
     Some (JString v) \<Rightarrow> if v \<noteq> [] then v else first_text root ps
   | Some (JNumber n) \<Rightarrow> n
   | Some (JBool b) \<Rightarrow> (if b then ''true'' else ''false'')
   | Some v \<Rightarrow> json_marshal v
   | None \<Rightarrow> first_text root ps)"

declare first_text.simps [simp del]

definition item_type :: "json_object \<Rightarrow> string" where
  "item_type root = first_text root [''item.type'', ''type'', ''itemType'']"

definition notification_item_id :: "json_object \<Rightarrow> string" where
  "notification_item_id root = first_text root [''itemId'', ''itemID'', ''item.id'', ''id'']"

definition raw_message_or_fallback :: "json_object \<Rightarrow> string \<Rightarrow> string list \<Rightarrow> string" where
  "raw_message_or_fallback root fallback paths =
     (let message = first_text root paths in if message \<noteq> [] then message else fallback)"

definition tool_state_of :: "json_object \<Rightarrow> tool_state \<Rightarrow> tool_state" where
  "tool_state_of root other =
     (let st = to_lower (first_text root [''status'', ''item.status'', ''state'']) in
      if st \<in> {''failed'', ''failure'', ''error'', ''cancelled'', ''canceled''} then ToolStateFailed
      else if st \<in> {''running'', ''in_progress'', ''progress''} then ToolStateRunning
      else if st \<in> {''completed'', ''complete'', ''succeeded'', ''success''} then ToolStateCompleted
      else other)"

subsection \<open>Payloads\<close>

definition max_plan_steps :: nat where "max_plan_steps = 100"
definition max_command_display_bytes :: int where "max_command_display_bytes = 8 * 1024"
definition max_diff_display_bytes :: int where "max_diff_display_bytes = 64 * 1024"

definition notification_tool_name :: "env \<Rightarrow> redactor \<Rightarrow> json_object \<Rightarrow> string \<Rightarrow> string" where
  "notification_tool_name e r root fallback =
     (let name = first_text root [''toolName'', ''name'', ''serverName'', ''item.toolName'', ''item.name''] in
      public_text e r (if name = [] then fallback else name) max_source_label_bytes ''tool'')"

definition notification_path_label ::
  "env \<Rightarrow> (string \<Rightarrow> string) option \<Rightarrow> redactor \<Rightarrow> string \<Rightarrow> string \<Rightarrow> string" where
  "notification_path_label e san r label fallback =
     (let label = trim_space label in
      if label = [] then fallback
      else public_text e r (case san of Some f \<Rightarrow> f label | None \<Rightarrow> redacted_path) max_source_label_bytes fallback)"

fun first_change_label :: "json list \<Rightarrow> string" where
  "first_change_label [] = []"
| "first_change_label (v # vs) = (case v of
     JObject kvs \<Rightarrow> (let label = first_text kvs [''fileLabel'', ''path'', ''filePath''] in
       if label \<noteq> [] then label else first_change_label vs)
   | _ \<Rightarrow> first_change_label vs)"

definition notification_file_label :: "env \<Rightarrow> (string \<Rightarrow> string) option \<Rightarrow> redactor \<Rightarrow> json_object \<Rightarrow> string" where
  "notification_file_label e san r root =
     (let label = first_text root [''fileLabel'', ''path'', ''filePath'', ''change.path'', ''item.path''] in
      if label \<noteq> [] then notification_path_label e san r label redacted_path
      else let label = first_change_label (array_value (first_value root [''changes''])) in
        if label \<noteq> [] then notification_path_label e san r label redacted_path else ''file'')"

definition notification_command_display :: "env \<Rightarrow> redactor \<Rightarrow> json_object \<Rightarrow> string" where
  "notification_command_display e r root =
     (let display = first_text root [''commandDisplay'', ''item.commandDisplay''] in
      if display \<noteq> [] then public_text e r display max_command_display_bytes ''command''
      else case first_value root [''command'', ''item.command''] of
          Some v \<Rightarrow> public_text e r (command_value_display (Some v)) max_command_display_bytes ''command''
        | None \<Rightarrow> ''command'')"

definition file_diff_of :: "env \<Rightarrow> (string \<Rightarrow> string) option \<Rightarrow> redactor \<Rightarrow> json_object \<Rightarrow> string \<Rightarrow> file_diff_updated_event" where
  "file_diff_of e san r root item =
     (let (summary, trunc) = public_text_truncated e r
            (first_text root [''diffSummary'', ''summary'', ''diff.summary'']) max_diff_display_bytes;
          (unified, trunc') = public_text_truncated e r
            (first_text root [''diffUnified'', ''unifiedDiff'', ''patch'', ''diff.unified'', ''diff'']) max_diff_display_bytes
      in \<lparr>fu_item_id = item, fu_file_label = notification_file_label e san r root,
          fu_change_kind = public_text e r (first_text root [''changeKind'', ''action'', ''change.kind'']) max_source_label_bytes [],
          fu_diff_summary = summary, fu_diff_unified = unified, fu_truncated = (trunc \<or> trunc')\<rparr>)"

definition unsupported_item :: "env \<Rightarrow> redactor \<Rightarrow> json_object \<Rightarrow> task_event_payload" where
  "unsupported_item e r root = gateway_warning ''unsupported_item''
     (public_text e r (''unsupported item type: '' @ item_type root) max_outbound_error_display_message_bytes ''unsupported item'')"

definition item_started_payload ::
  "env \<Rightarrow> (string \<Rightarrow> string) option \<Rightarrow> redactor \<Rightarrow> json_object \<Rightarrow> string \<Rightarrow> task_event_payload" where
  "item_started_payload e san r root item =
     (let ty = item_type root in
      if ty = ''commandExecution''
      then CommandStarted \<lparr>cs_item_id = item, cs_command_display = notification_command_display e r root,
        cs_workspace_label = notification_path_label e san r (first_text root [''workspaceLabel'', ''cwd'', ''workdir'']) []\<rparr>
      else if ty = ''fileChange'' then FileDiffUpdated (file_diff_of e san r root item)
      else if ty = ''mcpToolCall'' \<or> ty = ''collabToolCall''
      then ToolProgress \<lparr>tp_item_id = item, tp_tool_name = notification_tool_name e r root ty, tp_state = ToolStateStarted,
        tp_summary = public_text e r (first_text root [''summary'', ''message'']) max_outbound_error_display_message_bytes []\<rparr>
      else unsupported_item e r root)"

definition item_completed_payload ::
  "env \<Rightarrow> (string \<Rightarrow> string) option \<Rightarrow> redactor \<Rightarrow> json_object \<Rightarrow> string \<Rightarrow> task_event_payload" where
  "item_completed_payload e san r root item =
     (let ty = item_type root in
      if ty = ''agentMessage''
      then (let (message, trunc) = public_text_truncated e r
          (first_text root [''message'', ''text'', ''content'', ''item.message'', ''item.text'', ''item.content''])
          max_outbound_assistant_text_bytes in AssistantMessageCompleted \<lparr>am_message = message, am_truncated = trunc\<rparr>)
      else if ty = ''commandExecution'' \<or> ty = ''mcpToolCall'' \<or> ty = ''collabToolCall''
      then ToolProgress \<lparr>tp_item_id = item, tp_tool_name = notification_tool_name e r root ty,
        tp_state = tool_state_of root ToolStateCompleted,
        tp_summary = public_text e r (first_text root [''summary'', ''message'', ''result'']) max_outbound_error_display_message_bytes []\<rparr>
      else if ty = ''fileChange'' then FileDiffUpdated (file_diff_of e san r root item)
      else unsupported_item e r root)"

text \<open>The steps of a plan, at most a hundred; what is neither a step nor a status is left out.\<close>

fun plan_steps_loop :: "json list \<Rightarrow> (string \<times> string) list \<Rightarrow> (string \<times> string) list" where
  "plan_steps_loop [] steps = steps"
| "plan_steps_loop (v # vs) steps =
     (if length steps \<ge> max_plan_steps then steps
      else case v of
          JObject kvs \<Rightarrow>
            (let st = first_text kvs [''step'', ''text'', ''message'']; status = first_text kvs [''status''] in
             plan_steps_loop vs (if st \<noteq> [] \<or> status \<noteq> [] then steps @ [(st, status)] else steps))
        | _ \<Rightarrow> plan_steps_loop vs steps)"

definition plan_updated_event :: "json_object \<Rightarrow> task_event_payload" where
  "plan_updated_event root = PlanUpdated (first_text root [''explanation'', ''message''])
     (plan_steps_loop (array_value (first_value root [''plan'', ''steps''])) [])"

definition turn_diff_updated_event :: "json_object \<Rightarrow> task_event_payload" where
  "turn_diff_updated_event root = TurnDiffUpdated (first_text root [''diffSummary'', ''summary'', ''diff.summary''])
     (first_text root [''diffUnified'', ''unifiedDiff'', ''diff.unified'', ''diff'']) False"

definition redact_payload :: "env \<Rightarrow> redactor \<Rightarrow> task_event_payload \<Rightarrow> task_event_payload" where
  "redact_payload e r p =
     (case p of
        PlanUpdated explanation steps \<Rightarrow>
          PlanUpdated (public_text e r explanation max_outbound_error_display_message_bytes [])
            (map (\<lambda>(st, status). (public_text e r st max_outbound_error_display_message_bytes [],
               public_text e r status max_source_label_bytes [])) steps)
      | TurnDiffUpdated summary unified trunc \<Rightarrow>
          (let (summary, trunc) = public_text_truncated e r summary max_diff_display_bytes;
               (unified, trunc') = public_text_truncated e r unified max_diff_display_bytes
           in TurnDiffUpdated summary unified (trunc \<or> trunc'))
      | GatewayWarning w \<Rightarrow> GatewayWarning (redact_warning e r w)
      | _ \<Rightarrow> p)"

definition keep_file_diff :: "string \<Rightarrow> task_event_payload \<Rightarrow> task \<Rightarrow> task" where
  "keep_file_diff item p t = (case p of
     FileDiffUpdated d \<Rightarrow> if item \<noteq> [] then t\<lparr>tk_file_diffs := gm_put item d (tk_file_diffs t)\<rparr> else t | _ \<Rightarrow> t)"

text \<open>\<open>itemNotificationPayloadsLocked\<close>: the payloads, and the task with its streams and file diffs.\<close>

definition item_notification_payloads ::
  "env \<Rightarrow> (string \<Rightarrow> string) option \<Rightarrow> service \<Rightarrow> string \<Rightarrow> json_object \<Rightarrow> string \<Rightarrow> task \<Rightarrow> task_event_payload list \<times> task" where
  "item_notification_payloads e san s meth root item t =
     (let r = task_redactor s t in
      if meth = ''item/started''
      then (let p = item_started_payload e san r root item in ([p], keep_file_diff item p t))
      else if meth = ''item/completed''
      then (let (ps, t) = flush_item_streams e s item t in (ps @ [item_completed_payload e san r root item], t))
      else if meth = ''item/agentMessage/delta''
      then (let ((delta, trunc), t) = write_stream_delta e s \<lparr>tsk_kind = AssistantDeltaStream, tsk_item_id = item\<rparr>
              (first_text root [''delta'', ''textDelta'', ''message.delta'']) max_outbound_assistant_text_bytes t
            in (if delta = [] then [] else [AssistantDelta \<lparr>ad_text_delta = delta, ad_truncated = trunc\<rparr>], t))
      else if meth = ''item/plan/delta''
      then ([gateway_warning ''plan_delta'' (public_text e r (first_text root [''delta'', ''textDelta''])
              max_outbound_error_display_message_bytes ''plan updated'')], t)
      else if meth = ''item/commandExecution/outputDelta''
      then (let ((delta, trunc), t) = write_stream_delta e s \<lparr>tsk_kind = CommandOutputStream, tsk_item_id = item\<rparr>
              (first_text root [''delta'', ''output'', ''chunk'']) max_outbound_command_output_delta_bytes t
            in (if delta = [] then [] else [CommandOutputDelta \<lparr>co_item_id = item, co_delta = delta, co_truncated = trunc\<rparr>], t))
      else if meth = ''item/fileChange/patchUpdated''
      then (let p = FileDiffUpdated (file_diff_of e san r root item) in ([p], keep_file_diff item p t))
      else if meth = ''item/mcpToolCall/progress''
      then ([ToolProgress \<lparr>tp_item_id = item, tp_tool_name = notification_tool_name e r root ''mcpToolCall'',
              tp_state = ToolStateRunning, tp_summary = public_text e r (first_text root [''progress'', ''message'', ''summary''])
                max_outbound_error_display_message_bytes ''tool progress''\<rparr>], t)
      else ([], t))"

subsection \<open>Diagnostics of a connection (connection_diagnostics.go)\<close>

record connection_diagnostic =
  dg_created_at_ms :: int
  dg_session_group_id :: string
  dg_task_id :: string
  dg_code :: string
  dg_method :: string
  dg_request_type :: string
  dg_auto_resolution :: string
  dg_limit_reason :: string

definition connection_diagnostics_limit :: nat where "connection_diagnostics_limit = 256"

definition sanitize_connection_diagnostic :: "env \<Rightarrow> redactor \<Rightarrow> connection_diagnostic \<Rightarrow> connection_diagnostic" where
  "sanitize_connection_diagnostic e r d = d\<lparr>
     dg_session_group_id := public_text e r (dg_session_group_id d) (int max_public_id_bytes) [],
     dg_task_id := public_text e r (dg_task_id d) (int max_public_id_bytes) [],
     dg_code := public_text e r (dg_code d) max_source_label_bytes ''diagnostic'',
     dg_method := public_text e r (dg_method d) max_source_label_bytes [],
     dg_request_type := public_text e r (dg_request_type d) max_source_label_bytes [],
     dg_auto_resolution := public_text e r (dg_auto_resolution d) max_source_label_bytes [],
     dg_limit_reason := public_text e r (dg_limit_reason d) max_source_label_bytes []\<rparr>"

text \<open>The list of the diagnostics of a service: a full list loses its oldest element.\<close>

definition record_connection_diagnostic ::
  "env \<Rightarrow> int \<Rightarrow> redactor \<Rightarrow> connection_diagnostic \<Rightarrow> connection_diagnostic list \<Rightarrow> connection_diagnostic list" where
  "record_connection_diagnostic e now_ms r d ds =
     (let d = (if dg_created_at_ms d = 0 then d\<lparr>dg_created_at_ms := now_ms\<rparr> else d);
          d = sanitize_connection_diagnostic e r d in
      if length ds \<ge> connection_diagnostics_limit then tl ds @ [d] else ds @ [d])"

definition connection_diagnostic_redactor :: "service \<Rightarrow> conn \<Rightarrow> redactor" where
  "connection_diagnostic_redactor s c = \<lparr>rd_task = None, rd_connection = Some (connection_secrets c s)\<rparr>"

definition notification_diagnostic :: "string \<Rightarrow> notification \<Rightarrow> string \<Rightarrow> string \<Rightarrow> connection_diagnostic" where
  "notification_diagnostic sgroup n code meth =
     \<lparr>dg_created_at_ms = 0, dg_session_group_id = (if nf_session_group_id n = [] then sgroup else nf_session_group_id n),
      dg_task_id = nf_task_id n, dg_code = code, dg_method = meth, dg_request_type = [], dg_auto_resolution = [],
      dg_limit_reason = []\<rparr>"

subsection \<open>The task of a notification\<close>

datatype warning_correlation_policy = WarningCorrelationConnectionDiagnostic | WarningCorrelationExactTurn

definition task_for_item_notification ::
  "notification \<Rightarrow> conn \<Rightarrow> string \<Rightarrow> service \<Rightarrow> task option \<times> service" where
  "task_for_item_notification n c item s =
     (if nf_task_id n \<noteq> []
      then (case task_for_notification_task_id n c s of None \<Rightarrow> (None, s)
        | Some t \<Rightarrow> if notification_task_matches_turn t n (nf_thread_id n) (nf_turn_id n) \<and> tk_turn_id t \<noteq> []
            then bind_found item (Some t) s else (None, s))
      else if nf_thread_id n \<noteq> [] \<and> nf_turn_id n \<noteq> []
      then bind_found item (task_for_exact_turn_notification n c s) s
      else (task_for_registered_item c item s, s))"

definition matching_task :: "notification \<Rightarrow> conn \<Rightarrow> service \<Rightarrow> task option" where
  "matching_task n c s = (case task_for_notification_task_id n c s of None \<Rightarrow> None
     | Some t \<Rightarrow> if notification_task_matches_turn t n (nf_thread_id n) (nf_turn_id n) then Some t else None)"

definition task_for_unknown_notification :: "notification \<Rightarrow> conn \<Rightarrow> string \<Rightarrow> service \<Rightarrow> task option" where
  "task_for_unknown_notification n c item s =
     (if nf_task_id n \<noteq> [] then matching_task n c s
      else if nf_thread_id n \<noteq> [] \<and> nf_turn_id n \<noteq> [] then task_for_exact_turn_notification n c s
      else task_for_registered_item c item s)"

definition task_for_exact_warning_notification :: "notification \<Rightarrow> conn \<Rightarrow> service \<Rightarrow> task option" where
  "task_for_exact_warning_notification n c s =
     (if nf_task_id n \<noteq> []
      then (case task_for_notification_task_id n c s of None \<Rightarrow> None
        | Some t \<Rightarrow> if nf_turn_id n = [] \<or> tk_turn_id t \<noteq> nf_turn_id n then None
            else if \<not> notification_matches_task t n (nf_thread_id n) then None else Some t)
      else if nf_thread_id n \<noteq> [] \<and> nf_turn_id n \<noteq> [] then task_for_exact_turn_notification n c s
      else None)"

definition task_for_warning_notification ::
  "notification \<Rightarrow> conn \<Rightarrow> warning_correlation_policy \<Rightarrow> service \<Rightarrow> task option" where
  "task_for_warning_notification n c policy s =
     (if policy = WarningCorrelationExactTurn then task_for_exact_warning_notification n c s
      else if nf_task_id n \<noteq> [] then matching_task n c s
      else if nf_thread_id n \<noteq> [] \<and> nf_turn_id n \<noteq> [] then task_for_exact_turn_notification n c s
      else if nf_thread_id n \<noteq> [] then task_for_thread_notification n c s
      else active_task_for_connection c s)"

subsection \<open>Publishing\<close>

text \<open>Every handler answers with its publications, and with a diagnostic for what belongs to no task.\<close>

type_synonym notified = "(publication list \<times> connection_diagnostic list) \<times> service"

definition handle_item_notification ::
  "env \<Rightarrow> (task \<Rightarrow> (string \<Rightarrow> string) option) \<Rightarrow> notification \<Rightarrow> string \<Rightarrow> json_object \<Rightarrow> conn \<Rightarrow> service \<Rightarrow> notified" where
  "handle_item_notification e san n meth root c s =
     (let item = notification_item_id root; (found, s) = task_for_item_notification n c item s in
      case found of None \<Rightarrow> (([], []), s) | Some t \<Rightarrow>
      if is_terminal_state (tk_state t) then (([], []), s)
      else let (ps, t) = item_notification_payloads e (san t) s meth root item t in
        if ps = [] then (([], []), put_task t s)
        else let (pbs, t) = append_publications e s ps False t in ((pbs, []), put_task t s))"

definition publish_turn_notification ::
  "env \<Rightarrow> notification \<Rightarrow> task_event_payload \<Rightarrow> conn \<Rightarrow> service \<Rightarrow> notified" where
  "publish_turn_notification e n p c s =
     (case task_for_exact_turn_notification n c s of None \<Rightarrow> (([], []), s) | Some t \<Rightarrow>
      if is_terminal_state (tk_state t) then (([], []), s)
      else let (pb, t) = append_task_event e s (redact_payload e (task_redactor s t) p) t in (([pb], []), put_task t s))"

definition warning_event :: "string \<Rightarrow> string \<Rightarrow> gateway_warning_event" where
  "warning_event code message = \<lparr>gw_code = code, gw_message = message, gw_request_type = [],
     gw_auto_resolution = [], gw_limit_reason = []\<rparr>"

definition publish_warning_notification ::
  "env \<Rightarrow> string \<Rightarrow> notification \<Rightarrow> string \<Rightarrow> warning_correlation_policy \<Rightarrow> gateway_warning_event \<Rightarrow> conn \<Rightarrow> service \<Rightarrow> notified" where
  "publish_warning_notification e sgroup n meth policy w c s =
     (if gw_message w = [] then (([], []), s)
      else case task_for_warning_notification n c policy s of
        None \<Rightarrow> (([], [notification_diagnostic sgroup n (gw_code w) meth]), s)
      | Some t \<Rightarrow>
          if is_terminal_state (tk_state t) then (([], [notification_diagnostic sgroup n (gw_code w) meth]), s)
          else let (pb, t) = append_task_event e s (GatewayWarning (redact_warning e (task_redactor s t) w)) t
            in (([pb], []), put_task t s))"

definition publish_unknown_notification ::
  "env \<Rightarrow> string \<Rightarrow> notification \<Rightarrow> string \<Rightarrow> json_object \<Rightarrow> conn \<Rightarrow> service \<Rightarrow> notified" where
  "publish_unknown_notification e sgroup n meth root c s =
     (case task_for_unknown_notification n c (notification_item_id root) s of
        None \<Rightarrow> (([], [notification_diagnostic sgroup n ''unknown_notification'' meth]), s)
      | Some t \<Rightarrow>
          if is_terminal_state (tk_state t) then (([], [notification_diagnostic sgroup n ''unknown_notification'' meth]), s)
          else let (pb, t) = append_task_event e s (GatewayWarning
                 \<lparr>gw_code = ''unknown_notification'',
                  gw_message = ''app-server sent an unsupported notification; payload was suppressed'',
                  gw_request_type = public_text e (task_redactor s t) meth max_source_label_bytes ''unknown'',
                  gw_auto_resolution = ''ignored'', gw_limit_reason = ''payload_suppressed''\<rparr>) t
            in (([pb], []), put_task t s))"

subsection \<open>All notifications\<close>

definition empty_redactor :: redactor where
  "empty_redactor = \<lparr>rd_task = None, rd_connection = None\<rparr>"

definition world_writable_warning_message :: "env \<Rightarrow> json_object \<Rightarrow> string" where
  "world_writable_warning_message e root =
     (let extra = first_text root [''extraCount'']; failed = first_text root [''failedScan''];
          plain = ''world-writable path warning'' in
      if extra \<noteq> [] \<and> failed \<noteq> []
      then public_text e empty_redactor (plain @ ''; extra paths: '' @ extra @ ''; failed scan: '' @ failed)
        max_outbound_error_display_message_bytes plain
      else if extra \<noteq> []
      then public_text e empty_redactor (plain @ ''; extra paths: '' @ extra) max_outbound_error_display_message_bytes plain
      else plain)"

definition structured_drop :: "string \<Rightarrow> bool" where
  "structured_drop meth \<longleftrightarrow> meth \<in> {''account/updated'', ''account/rateLimits/updated'', ''account/login/completed'',
     ''account/chatgptAuthTokens/refresh''}"

definition diagnostic_only_notification :: "string \<Rightarrow> bool" where
  "diagnostic_only_notification meth \<longleftrightarrow> meth \<in> set [''thread/status/changed'', ''thread/archived'',
     ''thread/unarchived'', ''thread/closed'', ''skills/changed'', ''thread/name/updated'', ''thread/goal/updated'',
     ''thread/goal/cleared'', ''thread/settings/updated'', ''thread/tokenUsage/updated'', ''hook/started'',
     ''hook/completed'', ''item/autoApprovalReview/started'', ''item/autoApprovalReview/completed'',
     ''rawResponseItem/completed'', ''command/exec/outputDelta'', ''process/outputDelta'', ''process/exited'',
     ''item/commandExecution/terminalInteraction'', ''item/fileChange/outputDelta'',
     ''mcpServer/oauthLogin/completed'', ''mcpServer/startupStatus/updated'', ''app/list/updated'',
     ''remoteControl/status/changed'', ''externalAgentConfig/import/completed'', ''item/reasoning/summaryTextDelta'',
     ''item/reasoning/summaryPartAdded'', ''item/reasoning/textDelta'', ''thread/compacted'', ''guardianWarning'',
     ''deprecationNotice'', ''fuzzyFileSearch/sessionUpdated'', ''fuzzyFileSearch/sessionCompleted'',
     ''thread/realtime/started'', ''thread/realtime/itemAdded'', ''thread/realtime/transcript/delta'',
     ''thread/realtime/transcript/done'', ''thread/realtime/outputAudio/delta'', ''thread/realtime/sdp'',
     ''thread/realtime/error'', ''thread/realtime/closed'', ''windowsSandbox/setupCompleted'',
     ''serverRequest/resolved'']"

text \<open>What a mapped method does: its handler with the arguments that the method fixes.\<close>

datatype mapped_action =
    ItemAction
  | TurnAction task_event_payload
  | WarningAction warning_correlation_policy gateway_warning_event
  | DiagnosticAction string
  | UnknownAction

definition notification_action :: "env \<Rightarrow> string \<Rightarrow> json_object \<Rightarrow> mapped_action" where
  "notification_action e meth root =
     (if meth = ''turn/plan/updated'' then TurnAction (plan_updated_event root)
      else if meth = ''turn/diff/updated'' then TurnAction (turn_diff_updated_event root)
      else if meth \<in> {''item/started'', ''item/completed'', ''item/agentMessage/delta'', ''item/plan/delta'',
         ''item/commandExecution/outputDelta'', ''item/fileChange/patchUpdated'', ''item/mcpToolCall/progress''} then ItemAction
      else if meth = ''error'' then WarningAction WarningCorrelationConnectionDiagnostic (warning_event ''app_server_error''
        (raw_message_or_fallback root ''app-server error'' [''error.message'', ''message'']))
      else if meth = ''warning'' then WarningAction WarningCorrelationConnectionDiagnostic (warning_event ''app_server_warning''
        (raw_message_or_fallback root ''app-server warning'' [''message'', ''warning.message'']))
      else if meth = ''configWarning'' then WarningAction WarningCorrelationConnectionDiagnostic (warning_event ''config_warning''
        (raw_message_or_fallback root ''configuration warning'' [''summary'', ''message'', ''details'']))
      else if meth = ''model/rerouted'' then WarningAction WarningCorrelationExactTurn (warning_event ''model_rerouted''
        (raw_message_or_fallback root ''model request was rerouted'' [''message'', ''summary'', ''reason'']))
      else if meth = ''model/verification'' then WarningAction WarningCorrelationExactTurn (warning_event ''model_verification''
        (raw_message_or_fallback root ''model verification update'' [''message'', ''summary'', ''status'']))
      else if meth = ''windows/worldWritableWarning''
      then WarningAction WarningCorrelationConnectionDiagnostic
        (warning_event ''world_writable_warning'' (world_writable_warning_message e root))
      else if meth \<in> {''account/updated'', ''account/rateLimits/updated'', ''account/login/completed''}
      then DiagnosticAction ''structured_drop''
      else if meth = ''fs/changed'' then DiagnosticAction ''filesystem_changed''
      else if structured_drop meth then DiagnosticAction ''structured_drop''
      else if diagnostic_only_notification meth then DiagnosticAction ''diagnostic_only_notification''
      else UnknownAction)"

text \<open>\<open>sgroup\<close> is the session group of the connection.\<close>

definition handle_mapped_notification ::
  "env \<Rightarrow> (task \<Rightarrow> (string \<Rightarrow> string) option) \<Rightarrow> string \<Rightarrow> notification \<Rightarrow> string \<Rightarrow> json_object \<Rightarrow> conn \<Rightarrow> service \<Rightarrow> notified" where
  "handle_mapped_notification e san sgroup n meth root c s =
     (case notification_action e meth root of
        ItemAction \<Rightarrow> handle_item_notification e san n meth root c s
      | TurnAction p \<Rightarrow> publish_turn_notification e n p c s
      | WarningAction policy w \<Rightarrow> publish_warning_notification e sgroup n meth policy w c s
      | DiagnosticAction code \<Rightarrow> (([], [notification_diagnostic sgroup n code meth]), s)
      | UnknownAction \<Rightarrow> publish_unknown_notification e sgroup n meth root c s)"

subsection \<open>Building a server request for a task (pending_requests.go)\<close>

definition pending_path_label :: "(string \<Rightarrow> string) option \<Rightarrow> string \<Rightarrow> string \<times> bool" where
  "pending_path_label san path = (case san of None \<Rightarrow> (redacted_path, False)
     | Some f \<Rightarrow> (f path, f path \<noteq> [] \<and> f path \<noteq> redacted_path))"

definition cached_file_diff :: "task \<Rightarrow> string \<Rightarrow> file_diff_updated_event option" where
  "cached_file_diff t item = (if item = [] then None else gm_get (tk_file_diffs t) item)"

definition task_build_input ::
  "env \<Rightarrow> (string \<Rightarrow> string) option \<Rightarrow> int \<Rightarrow> service \<Rightarrow> json_object \<Rightarrow> task \<Rightarrow> build_input" where
  "task_build_input e san now_ms s root t =
     \<lparr>bi_task_id = tk_id t, bi_thread_id = tk_thread_id t, bi_turn_id = tk_turn_id t, bi_created_at = now_ms,
      bi_redact = Some (public_text e (task_redactor s t)), bi_plain = redact_string e empty_redactor,
      bi_sanitize = Some (pending_path_label san), bi_cached_file_diff = cached_file_diff t (notification_item_id root)\<rparr>"

definition build_task_request ::
  "env \<Rightarrow> (string \<Rightarrow> string option) \<Rightarrow> (string \<Rightarrow> string) \<Rightarrow> (task \<Rightarrow> (string \<Rightarrow> string) option) \<Rightarrow> int \<Rightarrow> service \<Rightarrow>
    string \<Rightarrow> json_object \<Rightarrow> string \<Rightarrow> task \<Rightarrow> string + pending_entry" where
  "build_task_request e js lower san now_ms s meth root jsonrpc t =
     (case build_pending js lower meth root jsonrpc (task_build_input e (san t) now_ms s root t) of
        Inl (BuildOverLimit limit) \<Rightarrow> Inl limit | Inl BuildUnsupported \<Rightarrow> Inl limit_controls | Inr r \<Rightarrow> Inr r)"

definition create_task_request ::
  "env \<Rightarrow> (string \<Rightarrow> string option) \<Rightarrow> (string \<Rightarrow> string) \<Rightarrow> (pending_request_display \<Rightarrow> int) \<Rightarrow>
    (task \<Rightarrow> (string \<Rightarrow> string) option) \<Rightarrow> int \<Rightarrow> conn \<Rightarrow> string \<Rightarrow> string \<Rightarrow> string \<Rightarrow> string \<Rightarrow> string \<Rightarrow> json_object \<Rightarrow>
    service \<Rightarrow> (string + publication list) \<times> service" where
  "create_task_request e js lower display_bytes san now_ms c rid th turn meth jsonrpc root s =
     try_create_pending_request e js display_bytes (build_task_request e js lower san now_ms s meth root jsonrpc)
       c rid th turn (notification_item_id root) (first_text root [''taskId'']) s"

text \<open>The warning for a request that a limit refused, published after its automatic answer was sent.\<close>

definition over_limit_warning :: "pending_type \<Rightarrow> string \<Rightarrow> gateway_warning_event" where
  "over_limit_warning ty limit = \<lparr>gw_code = ''pending_request_over_limit'',
     gw_message = ''pending request exceeded gateway safety limits and was auto-resolved'',
     gw_request_type = request_type_for_pending_type ty, gw_auto_resolution = auto_resolution_for_pending_type ty,
     gw_limit_reason = (if limit = [] then ''status_budget_exceeded'' else limit)\<rparr>"

text \<open>
  A request of a method that is not supported: the id of its task before the error is sent, and the
  warning that is published afterwards.
\<close>

definition forwarded_unsupported_request ::
  "conn \<Rightarrow> string \<Rightarrow> string \<Rightarrow> string \<Rightarrow> json_object \<Rightarrow> service \<Rightarrow> string \<times> service" where
  "forwarded_unsupported_request c rid th turn root s =
     (let (found, s) = task_for_server_request c rid th turn (notification_item_id root) (first_text root [''taskId'']) s in
      (case found of None \<Rightarrow> [] | Some t \<Rightarrow> if is_terminal_state (tk_state t) then [] else tk_id t, s))"

definition unsupported_request_warning :: "string \<Rightarrow> gateway_warning_event" where
  "unsupported_request_warning meth =
     warning_event ''unsupported_server_request'' (''app-server sent unsupported request: '' @ meth)"

end
