(* ===== verification/Task_Mapped.thy ===== *)
theory Task_Mapped
  imports Task_Reach Task_Notifications
begin

text \<open>The mapped notifications and the built server requests as operations of the service.\<close>

lemma soft_streams: "soft s t (t\<lparr>tk_streams := x\<rparr>)" "soft s t (t\<lparr>tk_file_diffs := y\<rparr>)"
  by (rule soft_update; simp add: pre_ok_def)+

lemma keep_file_diff_soft: "soft s t (keep_file_diff item p t)"
  by (simp add: keep_file_diff_def soft_streams split: task_event_payload.split)

lemma write_stream_soft: "soft s' t (snd (write_stream_delta e s key v m t))"
  by (simp add: write_stream_delta_def Let_def split_def soft_streams)

lemma flush_item_soft: "soft s' t (snd (flush_item_streams e s item t))"
  by (simp add: flush_item_streams_def soft_streams)

lemma item_payloads_soft: "soft s t (snd (item_notification_payloads e san s meth root item t))"
  by (simp add: item_notification_payloads_def Let_def split_def keep_file_diff_soft write_stream_soft flush_item_soft)

text \<open>The task that a notification binds its item to.\<close>

lemma bind_found_obj:
  assumes "service_inv s" "fst (bind_found item found s) = Some t" "\<And>t. found = Some t \<Longrightarrow> \<exists>k. obj s k = Some t"
  shows "\<exists>k. obj (snd (bind_found item found s)) k = Some t"
proof -
  from assms(2) obtain t0 where t0: "found = Some t0" "t = bind_item item t0" by (auto simp: bind_found_def split: option.splits)
  from assms(3) [OF t0(1)] obtain k where k: "obj s k = Some t0" by blast
  then have "tk_id t0 = k" by (rule service_invD(2) [OF assms(1)])
  with t0 k show ?thesis by (intro exI [of _ k]) (simp add: bind_found_def bind_item_def)
qed

lemma notification_obj: "task_for_notification_task_id n c s = Some t \<Longrightarrow> \<exists>k. obj s k = Some t"
  using notification_found task_by_id_obj by blast

lemma item_notification_found:
  assumes "service_inv s" "fst (task_for_item_notification n c item s) = Some t"
  shows "\<exists>k. obj (snd (task_for_item_notification n c item s)) k = Some t"
proof -
  consider "nf_task_id n \<noteq> []" | "nf_task_id n = []" "nf_thread_id n \<noteq> [] \<and> nf_turn_id n \<noteq> []"
    | "nf_task_id n = []" "\<not> (nf_thread_id n \<noteq> [] \<and> nf_turn_id n \<noteq> [])" by blast
  then show ?thesis
  proof cases
    case 1
    with assms(2) obtain u where u: "task_for_notification_task_id n c s = Some u"
      "notification_task_matches_turn u n (nf_thread_id n) (nf_turn_id n) \<and> tk_turn_id u \<noteq> []"
      by (auto simp: task_for_item_notification_def split: option.splits if_splits)
    with assms(2) 1 have "fst (bind_found item (Some u) s) = Some t" by (simp add: task_for_item_notification_def)
    from bind_found_obj [OF assms(1) this] notification_obj [OF u(1)] u 1 show ?thesis
      by (simp add: task_for_item_notification_def)
  next
    case 2
    with assms(2) have "fst (bind_found item (task_for_exact_turn_notification n c s) s) = Some t"
      by (simp add: task_for_item_notification_def)
    from bind_found_obj [OF assms(1) this exact_turn_found] 2 show ?thesis by (simp add: task_for_item_notification_def)
  next
    case 3
    with assms(2) item_found [of c item s t] show ?thesis by (auto simp: task_for_item_notification_def)
  qed
qed

lemma evolves_item_task: "evolves s (snd (task_for_item_notification n c item s))"
  by (auto simp: task_for_item_notification_def intro!: bind_found_evolves dest: notification_obj exact_turn_found
      split: option.split)

lemma evolves_item_notification [evolve]: "evolves s (snd (handle_item_notification e san n meth root c s))"
proof (rule evolvesI)
  assume inv: "service_inv s"
  let ?i = "notification_item_id root"
  let ?s = "snd (task_for_item_notification n c ?i s)"
  show "evolves s (snd (handle_item_notification e san n meth root c s))"
  proof (cases "fst (task_for_item_notification n c ?i s)")
    case None
    then show ?thesis by (simp add: handle_item_notification_def Let_def split_def evolves_item_task)
  next
    case (Some t)
    from item_notification_found [OF inv Some] obtain k where k: "obj ?s k = Some t" by blast
    let ?p = "item_notification_payloads e (san t) ?s meth root ?i t"
    have "evolves ?s (put_task (snd ?p) ?s)" "evolves ?s (put_task (snd (append_publications e ?s ps False (snd ?p))) ?s)" for ps
      using k by (auto intro!: evolves_put_obj item_payloads_soft soft_trans [OF item_payloads_soft soft_appends])
    from this [THEN evolves_trans [OF evolves_item_task]] show ?thesis
      by (simp add: handle_item_notification_def Some Let_def split_def evolves_item_task)
  qed
qed

lemma evolves_turn_notification [evolve]: "evolves s (snd (publish_turn_notification e n p c s))"
  by (auto simp: publish_turn_notification_def Let_def split_def dest!: exact_turn_found intro: evolves_warning split: option.split)

lemma matching_obj: "matching_task n c s = Some t \<Longrightarrow> \<exists>k. obj s k = Some t"
  by (auto simp: matching_task_def dest: notification_obj split: option.splits if_splits)

lemma connection_obj: "active_task_for_connection c s = Some t \<Longrightarrow> \<exists>k. obj s k = Some t"
  by (auto simp: active_task_for_connection_def dest!: the_only_in intro: running_on_obj)

lemma warning_obj: "task_for_warning_notification n c policy s = Some t \<Longrightarrow> \<exists>k. obj s k = Some t"
  by (auto simp: task_for_warning_notification_def task_for_exact_warning_notification_def
      intro: matching_obj connection_obj exact_turn_found thread_found notification_obj split: if_splits option.splits)

lemma unknown_obj: "task_for_unknown_notification n c item s = Some t \<Longrightarrow> \<exists>k. obj s k = Some t"
  by (auto simp: task_for_unknown_notification_def intro: matching_obj exact_turn_found item_found split: if_splits)

lemma evolves_warning_notification [evolve]:
  "evolves s (snd (publish_warning_notification e g n meth policy w c s))"
  by (auto simp: publish_warning_notification_def Let_def split_def dest!: warning_obj intro: evolves_warning split: option.split)

lemma evolves_unknown_notification [evolve]:
  "evolves s (snd (publish_unknown_notification e g n meth root c s))"
  by (auto simp: publish_unknown_notification_def Let_def split_def dest!: unknown_obj intro: evolves_warning split: option.split)

lemma evolves_mapped [evolve]: "evolves s (snd (handle_mapped_notification e san g n meth root c s))"
  by (auto simp: handle_mapped_notification_def intro: evolve split: mapped_action.split)

lemma evolves_create_request [evolve]:
  "counters_ok s \<Longrightarrow> evolves s (snd (create_task_request e js lower db san now c rid th turn meth jid root s))"
  unfolding create_task_request_def by (rule evolves_try_create)

lemma evolves_forwarded [evolve]: "evolves s (snd (forwarded_unsupported_request c rid th turn root s))"
  by (simp add: forwarded_unsupported_request_def Let_def split_def evolve)

end
