(* ===== verification/Task_Runs.thy ===== *)
theory Task_Runs
  imports Task_Mapped
begin

text \<open>
  The runs of the task service: steps of the request handlers, of the goroutines of starts and of
  the goroutines of connections, interleaved in any order, one locked section at a time.
\<close>

subsection \<open>Guarded runs of a transition system\<close>

text \<open>A run whose steps all start in states that satisfy a guard.\<close>

inductive guarded_run :: "('s \<Rightarrow> 's \<Rightarrow> bool) \<Rightarrow> ('s \<Rightarrow> bool) \<Rightarrow> 's \<Rightarrow> 's \<Rightarrow> bool"
  for step :: "'s \<Rightarrow> 's \<Rightarrow> bool" and guard :: "'s \<Rightarrow> bool" where
  run_refl: "guarded_run step guard s s"
| run_step: "guarded_run step guard s t \<Longrightarrow> guard t \<Longrightarrow> step t u \<Longrightarrow> guarded_run step guard s u"

lemma guarded_run_trans: "guarded_run step guard t u \<Longrightarrow> guarded_run step guard s t \<Longrightarrow> guarded_run step guard s u"
  by (induction rule: guarded_run.induct) (auto intro: run_step)

text \<open>
  The contract of a component whose state moves in an order and keeps an invariant: then every run
  does.
\<close>

locale evolving_system =
  fixes step :: "'s \<Rightarrow> 's \<Rightarrow> bool" and guard :: "'s \<Rightarrow> bool" and inv :: "'s \<Rightarrow> bool" and le :: "'s \<Rightarrow> 's \<Rightarrow> bool"
  assumes le_refl: "le s s"
    and le_trans: "le s t \<Longrightarrow> le t u \<Longrightarrow> le s u"
    and step_ok: "inv s \<Longrightarrow> guard s \<Longrightarrow> step s t \<Longrightarrow> inv t \<and> le s t"
begin

lemma run_ok: "guarded_run step guard s t \<Longrightarrow> inv s \<Longrightarrow> inv t \<and> le s t"
proof (induction rule: guarded_run.induct)
  case (run_step s t u)
  then show ?case using step_ok le_trans by blast
qed (simp add: le_refl)

lemma run_inv: "guarded_run step guard s t \<Longrightarrow> inv s \<Longrightarrow> inv t"
  using run_ok by blast

lemma run_le: "guarded_run step guard s t \<Longrightarrow> inv s \<Longrightarrow> le s t"
  using run_ok by blast

end

subsection \<open>The steps of the task service\<close>

inductive task_step :: "env \<Rightarrow> service \<Rightarrow> service \<Rightarrow> bool" for e :: env where
  StepClaimStart: "task_step e s (snd (claim_start e t1 t2 t3 c fp s))"
| StepVerifyBinding: "task_step e s (snd (verify_thread_binding t1 t2 t3 t4 t5 g w th s))"
| StepRegisterCancel: "task_step e s (snd (register_connection_cancel tid s))"
| StepClearCancel: "task_step e s (clear_connection_cancel tid s)"
| StepSetConnection: "task_step e s (set_task_connection tid conn s)"
| StepSetPhase: "task_step e s (set_task_phase tid phase s)"
| StepUpsertBinding: "task_step e s (snd (upsert_thread_binding now tc g th tid s))"
| StepRemoveBinding: "task_step e s (remove_thread_binding_if_created t1 t2 tid th created s)"
| StepBeforeTurn: "task_step e s (snd (cancel_requested_before_turn tid s))"
| StepConfirmThread: "task_step e s (snd (confirm_thread_started e tid th s))"
| StepConfirmTurn: "task_step e s (snd (snd (confirm_turn_started_once e tid turn s)))"
| StepSuccess: "task_step e s (snd (complete_start_success e now tid res s))"
| StepFailure: "task_step e s (snd (complete_start_failure e t1 t2 tid err s))"
| StepFailureUnknown: "tid \<notin> set (sv_tasks s) \<Longrightarrow> task_step e s (complete_start_failure_unknown tid err s)"
| StepPreTurn: "task_step e s (snd (complete_pre_turn_interrupt e t1 t2 tid s))"
| StepStatus: "task_step e s (snd (get_task_status t1 t2 l s))"
| StepStream: "task_step e s (snd (stream_task t1 t2 tid cursor s))"
| StepUnsubscribe: "task_step e s (unsubscribe_task tid i s)"
| StepReceive: "task_step e s (snd (receive_task_event tid i s))"
| StepPublish: "task_step e s (publish_task_event p s)"
| StepInterrupt: "task_step e s (snd (snd (interrupt_target e t1 t2 l s)))"
| StepRollback: "task_step e s (snd (rollback_interrupt e tid s))"
| StepMonitor: "task_step e s (snd (ensure_monitor conn s))"
| StepThreadStarted: "task_step e s (snd (handle_thread_started e n conn s))"
| StepTurnCompleted: "task_step e s (snd (handle_turn_completed e now n status conn s))"
| StepAuthFailure: "task_step e s (snd (handle_auth_refresh_failure e t1 t2 tid g reason s))"
| StepUnsupported: "task_step e s (snd (handle_unsupported_server_request e n meth conn s))"
| StepClosed: "task_step e s (snd (fail_tasks_for_closed_connection e t1f t2f conn s))"
| StepServerRequest: "task_step e s (snd (try_create_pending_request e js db build conn rid th turn item fb s))"
| StepFindRequestTask: "task_step e s (snd (task_for_server_request conn rid th turn item fb s))"
| StepClaimResponse: "task_step e s (snd (claim_pending_response decode lower fingerprint rc s))"
| StepCompleteResponse: "task_step e s (snd (snd (complete_pending_response e tid pid rid resolution failed s)))"
| StepResolved: "task_step e s (snd (handle_server_request_resolved e js raw checked matched conn s))"
| StepCreateRequest: "task_step e s (snd (create_task_request e js lower db san now_ms conn rid th turn meth jid root s))"
| StepForwarded: "task_step e s (snd (forwarded_unsupported_request conn rid th turn root s))"
| StepNotification: "task_step e s (snd (handle_mapped_notification e san sg n meth root conn s))"
| StepWarning: "task_step e s (snd (publish_pending_warning e tid w s))"
| StepSecrets: "task_step e s (s\<lparr>sv_connection_secrets := secrets\<rparr>)"

inductive_cases task_stepE: "task_step e s s'"

lemma step_evolves: "task_step e s s' \<Longrightarrow> counters_ok s \<Longrightarrow> evolves s s'"
  by (induction rule: task_step.induct) (simp_all add: evolve counters_ok_def evolves_frame frame)

abbreviation task_run :: "env \<Rightarrow> service \<Rightarrow> service \<Rightarrow> bool" where
  "task_run e \<equiv> guarded_run (task_step e) counters_ok"

interpretation tasks: evolving_system "task_step e" counters_ok service_inv service_le for e
  by unfold_locales (use step_evolves service_le_trans in \<open>auto simp: evolves_def\<close>)

text \<open>A new service.\<close>

lemma add_sessions_active: "(\<And>g r. gm_get m g = Some r \<Longrightarrow> sr_active_task_id r = []) \<Longrightarrow> add_sessions gs m = Some m' \<Longrightarrow>
    gm_get m' g = Some r \<Longrightarrow> sr_active_task_id r = []"
proof (induction gs arbitrary: m)
  case (Cons a gs)
  let ?m = "gm_put (sg_session_group_id a) (new_session a) m"
  have "add_sessions gs ?m = Some m'" using Cons.prems(2) by (simp split: if_splits)
  moreover have "sr_active_task_id r = []" if "gm_get ?m g = Some r" for g r
    using that Cons.prems(1) by (auto simp: new_session_def split: if_splits)
  ultimately show ?case using Cons.IH Cons.prems(3) by blast
qed auto

lemma new_service_inv: "new_service gs = Some s \<Longrightarrow> service_inv s"
proof -
  assume "new_service gs = Some s"
  then obtain m where m: "add_sessions gs [] = Some m" "s = \<lparr>sv_sessions = m, sv_objects = [], sv_tasks = [],
     sv_entries = [], sv_idempotency = [], sv_bindings = [], sv_tombstones = [], sv_monitors = [],
     sv_resolved_requests = [], sv_connection_secrets = [], sv_next_task_seq = 0\<rparr>"
    by (auto simp: new_service_def)
  have "active_of g s = []" for g
    using add_sessions_active [OF _ m(1)] by (auto simp: m(2) active_of_def session_of_def split: option.split)
  then show ?thesis by (intro service_invI) (simp_all add: m(2))
qed

end
