(* ===== verification/Task_Start.thy ===== *)
theory Task_Start
  imports Task_Runs
begin

text \<open>
  The goroutine of a start (\<open>runStart\<close> of \<open>gateway/internal/tasks/service.go\<close>) as a program
  counter: every call that takes the lock of the service, and every call to the app-server, is one
  step, and the other goroutines run between the steps.  Its promise is settled on every path.
\<close>

text \<open>
  What the world answers to one step: clock readings, the supervisor's connection (with the flag
  that its context was canceled), the thread and turn ids parsed from the app-server's results (an
  error of the turn call says whether it is a protocol mismatch), and whether an interrupt was
  refused in a way that rolls it back.
\<close>

record start_input =
  si_clock :: "nat \<Rightarrow> gtime"
  si_connection :: "call_error + conn"
  si_connection_canceled :: bool
  si_thread :: "call_error + string"
  si_turn :: "(call_error \<times> bool) + string"
  si_interrupt_rejected :: bool

datatype start_pc =
    RunSnapshot | RunVerify | RunEarlyCheck | RunRegister | RunConnect
  | RunClearCancel "call_error + conn" bool
  | RunConnectFailed call_error bool
  | RunMonitor conn | RunSetConnection conn | RunLateCheck
  | RunThreadPhase | RunThreadCall
  | RunUpsert string
  | RunConfirmThread string bool | RunTurnCheck string bool | RunTurnPhase string bool | RunTurnCall string bool
  | RunConfirmTurn string bool string
  | RunInterrupt string string start_task_response "conn option"
  | RunRefresh start_task_response
  | RunSuccess start_task_response
  | RunUnbind string bool call_error
  | RunFail call_error
  | RunFailUnknown call_error
  | RunPreTurn
  | RunDone
  | RunLost   \<comment> \<open>the key was claimed again before the first step: not followed further\<close>

text \<open>\<open>startOrResumeThread\<close> after the call: the thread id, or the error.\<close>

definition thread_result :: "start_task_command \<Rightarrow> string \<Rightarrow> task option \<Rightarrow> (call_error + string) \<Rightarrow> call_error + string" where
  "thread_result c tid t r =
     (case r of Inl err \<Rightarrow> Inl (safe_start_error err t)
      | Inr th \<Rightarrow>
          if th = [] then Inl (GatewayErr (protocol_mismatch (stc_session_group_id c) tid))
          else if stc_thread_id c \<noteq> [] \<and> th \<noteq> stc_thread_id c
          then Inl (GatewayErr (protocol_mismatch (stc_session_group_id c) tid))
          else Inr th)"

text \<open>\<open>sendInterruptAfterTurnStart\<close>: the call itself is outside, its refusal rolls back.\<close>

definition send_interrupt_after_turn_start ::
  "env \<Rightarrow> bool \<Rightarrow> conn option \<Rightarrow> string \<Rightarrow> string \<Rightarrow> string \<Rightarrow> service \<Rightarrow> publication list \<times> service" where
  "send_interrupt_after_turn_start e rejected c tid th turn s =
     (if c = None \<or> th = [] \<or> turn = [] then ([], s)
      else if rejected then rollback_interrupt e tid s else ([], s))"

fun run_start_step ::
  "env \<Rightarrow> start_task_command \<Rightarrow> string \<Rightarrow> start_input \<Rightarrow> start_pc \<Rightarrow> service \<Rightarrow> start_pc \<times> service" where
  "run_start_step e c p i RunSnapshot s =
     (case start_snapshot c s of Inl err \<Rightarrow> (RunFailUnknown (GatewayErr err), s)
      | Inr tid \<Rightarrow> if tid \<noteq> p then (RunLost, s)
          else (if stc_thread_id c \<noteq> [] then RunVerify else RunEarlyCheck, s))"
| "run_start_step e c p i RunVerify s =
     (let (r, s) = verify_thread_binding (si_clock i 0) (si_clock i 1) (si_clock i 2) (si_clock i 3) (si_clock i 4)
        (stc_session_group_id c) (stc_workspace_id c) (stc_thread_id c) s
      in (case r of Inl err \<Rightarrow> RunFail (GatewayErr err) | Inr _ \<Rightarrow> RunEarlyCheck, s))"
| "run_start_step e c p i RunEarlyCheck s = (if cancel_requested_before_thread p s then RunPreTurn else RunRegister, s)"
| "run_start_step e c p i RunRegister s =
     (let (won, s) = register_connection_cancel p s in (if won then RunPreTurn else RunConnect, s))"
| "run_start_step e c p i RunConnect s = (RunClearCancel (si_connection i) (si_connection_canceled i), s)"
| "run_start_step e c p i (RunClearCancel r canceled) s =
     (case r of Inl err \<Rightarrow> RunConnectFailed err canceled | Inr conn \<Rightarrow> RunMonitor conn, clear_connection_cancel p s)"
| "run_start_step e c p i (RunConnectFailed err canceled) s =
     (if canceled \<and> cancel_requested_before_thread p s then RunPreTurn
      else RunFail (safe_start_error err (gm_get (sv_objects s) p)), s)"
| "run_start_step e c p i (RunMonitor conn) s = (RunSetConnection conn, snd (ensure_monitor conn s))"
| "run_start_step e c p i (RunSetConnection conn) s = (RunLateCheck, set_task_connection p conn s)"
| "run_start_step e c p i RunLateCheck s = (if cancel_requested_before_thread p s then RunPreTurn else RunThreadPhase, s)"
| "run_start_step e c p i RunThreadPhase s = (RunThreadCall, set_task_phase p PhaseThreadCalling s)"
| "run_start_step e c p i RunThreadCall s =
     (case thread_result c p (task_by_id p s) (si_thread i) of Inl err \<Rightarrow> RunFail err | Inr th \<Rightarrow> RunUpsert th, s)"
| "run_start_step e c p i (RunUpsert th) s =
     (let (created, s) = upsert_thread_binding (si_clock i 0) (\<lambda>k. si_clock i (Suc k)) (stc_session_group_id c) th p s
      in (RunConfirmThread th created, s))"
| "run_start_step e c p i (RunConfirmThread th created) s = (RunTurnCheck th created, snd (confirm_thread_started e p th s))"
| "run_start_step e c p i (RunTurnCheck th created) s =
     (let (canceled, s) = cancel_requested_before_turn p s in (if canceled then RunPreTurn else RunTurnPhase th created, s))"
| "run_start_step e c p i (RunTurnPhase th created) s = (RunTurnCall th created, set_task_phase p PhaseTurnCalling s)"
| "run_start_step e c p i (RunTurnCall th created) s =
     (case si_turn i of
        Inl (err, mismatch) \<Rightarrow>
          let err = safe_start_error err (gm_get (sv_objects s) p) in
          if mismatch then RunUnbind th created err else RunFail err
      | Inr turn \<Rightarrow>
          if turn = [] then RunUnbind th created (GatewayErr (protocol_mismatch (stc_session_group_id c) p))
          else RunConfirmTurn th created turn, s)"
| "run_start_step e c p i (RunConfirmTurn th created turn) s =
     (let ((res, interrupt, conn), pbs, s) = confirm_turn_started_once e p turn s in
      (if sp_task_id res = [] then RunUnbind th created (GatewayErr (protocol_mismatch (stc_session_group_id c) p))
       else if interrupt then RunInterrupt th turn res conn
       else RunSuccess res, s))"
| "run_start_step e c p i (RunInterrupt th turn res conn) s =
     (RunRefresh res, snd (send_interrupt_after_turn_start e (si_interrupt_rejected i) conn p th turn s))"
| "run_start_step e c p i (RunRefresh res) s =
     (RunSuccess (case task_by_id p s of None \<Rightarrow> res | Some t \<Rightarrow> status_start_response t), s)"
| "run_start_step e c p i (RunSuccess res) s = (RunDone, snd (complete_start_success e (si_clock i 0) p res s))"
| "run_start_step e c p i (RunUnbind th created err) s =
     (RunFail err, remove_thread_binding_if_created (si_clock i 0) (si_clock i 1) p th created s)"
| "run_start_step e c p i (RunFail err) s = (RunDone, snd (complete_start_failure e (si_clock i 0) (si_clock i 1) p err s))"
| "run_start_step e c p i (RunFailUnknown err) s = (RunDone, complete_start_failure_unknown p err s)"
| "run_start_step e c p i RunPreTurn s = (RunDone, snd (complete_pre_turn_interrupt e (si_clock i 0) (si_clock i 1) p s))"
| "run_start_step e c p i RunDone s = (RunDone, s)"
| "run_start_step e c p i RunLost s = (RunLost, s)"

text \<open>
  The goroutine among the others: \<open>n\<close> counts its own steps, which the world answers in any way,
  and between them the service runs.
\<close>

inductive start_goroutine :: "env \<Rightarrow> start_task_command \<Rightarrow> string \<Rightarrow> service \<Rightarrow> nat \<Rightarrow> start_pc \<Rightarrow> service \<Rightarrow> bool"
  for e :: env and c :: start_task_command and p :: string and s0 :: service where
  StartBegin: "start_goroutine e c p s0 0 RunSnapshot s0"
| StartOther: "start_goroutine e c p s0 n pc s \<Longrightarrow> task_run e s s' \<Longrightarrow> start_goroutine e c p s0 n pc s'"
| StartOwn: "start_goroutine e c p s0 n pc s \<Longrightarrow> run_start_step e c p i pc s = (pc', s') \<Longrightarrow> start_goroutine e c p s0 (Suc n) pc' s'"

subsection \<open>A bound for the goroutine's own steps\<close>

fun start_rank :: "start_pc \<Rightarrow> nat" where
  "start_rank RunSnapshot = 20" | "start_rank RunVerify = 19" | "start_rank RunEarlyCheck = 18"
| "start_rank RunRegister = 17" | "start_rank RunConnect = 16" | "start_rank (RunClearCancel r b) = 15"
| "start_rank (RunConnectFailed x b) = 2" | "start_rank (RunMonitor k) = 14" | "start_rank (RunSetConnection k) = 13"
| "start_rank RunLateCheck = 12" | "start_rank RunThreadPhase = 11" | "start_rank RunThreadCall = 10"
| "start_rank (RunUpsert th) = 9" | "start_rank (RunConfirmThread th b) = 8" | "start_rank (RunTurnCheck th b) = 7"
| "start_rank (RunTurnPhase th b) = 6" | "start_rank (RunTurnCall th b) = 5" | "start_rank (RunConfirmTurn th b tn) = 4"
| "start_rank (RunInterrupt th tn r k) = 3" | "start_rank (RunRefresh r) = 2" | "start_rank (RunSuccess r) = 1"
| "start_rank (RunUnbind th b x) = 2" | "start_rank (RunFail x) = 1" | "start_rank (RunFailUnknown x) = 1"
| "start_rank RunPreTurn = 1" | "start_rank RunDone = 0" | "start_rank RunLost = 0"

lemma start_rank_step: "run_start_step e c p i pc s = (pc', s') \<Longrightarrow> start_rank pc' \<le> start_rank pc - 1"
  by (cases pc) (auto simp: Let_def split: sum.splits prod.splits if_splits)

lemma start_rank_run: "start_goroutine e c p s0 n pc s \<Longrightarrow> start_rank pc \<le> 20 - n"
  by (induction rule: start_goroutine.induct) (auto dest!: start_rank_step)

lemma start_rank_0: "start_rank pc = 0 \<longleftrightarrow> pc = RunDone \<or> pc = RunLost"
  by (cases pc) auto

subsection \<open>Every step evolves the service\<close>

lemma evolves_start_step:
  assumes "case pc of RunFailUnknown err \<Rightarrow> p \<notin> set (sv_tasks s) | _ \<Rightarrow> True"
  shows "evolves s (snd (run_start_step e c p i pc s))"
  using assms
  by (cases pc) (simp_all add: evolve Let_def split_def send_interrupt_after_turn_start_def
      split: sum.split)

lemma settled_closes:
  assumes "service_inv s" "ent s p = Some en" "\<not> entry_pending p s"
  shows "1 \<le> pm_closes (se_promise en)"
  using service_invD(5) [OF assms(1,2)] assms(2,3) by (auto simp: entry_ok_def entry_pending_def)

definition promise_settled :: "string \<Rightarrow> service \<Rightarrow> bool" where
  "promise_settled p s \<longleftrightarrow> (case ent s p of None \<Rightarrow> False | Some en \<Rightarrow> 1 \<le> pm_closes (se_promise en))"

lemma not_pending_settled:
  "service_inv s \<Longrightarrow> ent s p \<noteq> None \<Longrightarrow> \<not> entry_pending p s \<Longrightarrow> promise_settled p s"
  using settled_closes by (auto simp: promise_settled_def)

lemma settle_not_pending [simp]:
  "st \<noteq> StartEntryPending \<Longrightarrow> service_inv s \<Longrightarrow> \<not> entry_pending p (on_entry p (settle_entry st res err now) s)"
  by (cases "ent s p") (simp_all add: entry_pending_def on_entry_def put_entry_def settle_entry_def gm_get_put
      service_invD(5) [unfolded entry_ok_def])


lemma on_entry_settles:
  assumes "service_inv s" "ent s p \<noteq> None" "st \<noteq> StartEntryPending"
  shows "promise_settled p (on_entry p (settle_entry st res err now) s)"
proof -
  from assms(2) obtain en where en: "ent s p = Some en" by blast
  have "se_task_id en = p" using service_invD(5) [OF assms(1) en] by (simp add: entry_ok_def)
  then show ?thesis
    using en by (simp add: promise_settled_def on_entry_def put_entry_def settle_entry_def settle_promise_def)
qed

lemma on_entry_promise_settles:
  assumes "service_inv s" "ent s p \<noteq> None"
  shows "promise_settled p (on_entry p (\<lambda>en. en\<lparr>se_promise := settle_promise res err (se_promise en)\<rparr>) s)"
proof -
  from assms(2) obtain en where en: "ent s p = Some en" by blast
  have "se_task_id en = p" using service_invD(5) [OF assms(1) en] by (simp add: entry_ok_def)
  then show ?thesis
    using en by (simp add: promise_settled_def on_entry_def put_entry_def settle_promise_def)
qed

lemma promise_settled_put [simp]: "promise_settled p (put_task t s) = promise_settled p s"
  "promise_settled p (clear_active t s) = promise_settled p s"
  by (simp_all add: promise_settled_def)

lemma success_settles:
  assumes inv: "service_inv s" and en: "ent s p \<noteq> None"
  shows "promise_settled p (snd (complete_start_success e now p res s))"
proof (cases "task_by_id p s")
  case None
  then show ?thesis by (simp add: complete_start_success_def on_entry_promise_settles [OF inv en])
next
  case (Some t)
  show ?thesis
  proof (cases "entry_pending p s")
    case True
    then show ?thesis
      by (simp add: complete_start_success_def Some Let_def split_def on_entry_settles [OF inv en])
  next
    case False
    then show ?thesis by (simp add: complete_start_success_def Some not_pending_settled [OF inv en])
  qed
qed

lemma interrupt_of_settles:
  assumes inv: "service_inv s" and en: "ent s p \<noteq> None" and t: "tk_id t = p" "obj s p = Some t" "entry_pending p s"
  shows "promise_settled p (snd (complete_pre_turn_interrupt_of e t1 t2 t s))"
proof -
  have "service_inv (snd (complete_pre_turn_interrupt_of e t1 t2 t s))"
    "ent (snd (complete_pre_turn_interrupt_of e t1 t2 t s)) p \<noteq> None"
    using evolves_interrupt_of [of s t t e t1 t2] t inv en unfolding evolves_def by (auto dest: service_leD(2))
  moreover have "\<not> entry_pending p (snd (complete_pre_turn_interrupt_of e t1 t2 t s))"
    using en t(1) service_invD(5) [OF inv]
    by (auto simp: complete_pre_turn_interrupt_of_def Let_def split_def entry_pending_def on_entry_def put_entry_def
        settle_entry_def put_task_def entry_ok_def task_simps)
  ultimately show ?thesis by (rule not_pending_settled)
qed

lemma pre_turn_settles:
  assumes inv: "service_inv s" and en: "ent s p \<noteq> None"
  shows "promise_settled p (snd (complete_pre_turn_interrupt e t1 t2 p s))"
proof (cases "task_by_id p s")
  case None
  then show ?thesis by (simp add: complete_pre_turn_interrupt_def on_entry_promise_settles [OF inv en])
next
  case (Some t)
  have t: "tk_id t = p" "obj s p = Some t" using task_by_id_id [OF inv Some] by auto
  show ?thesis
    using not_pending_settled [OF inv en] interrupt_of_settles [OF inv en t]
    by (cases "entry_pending p s") (simp_all add: complete_pre_turn_interrupt_def Some)
qed

lemma failure_settles:
  assumes inv: "service_inv s" and en: "ent s p \<noteq> None"
  shows "promise_settled p (snd (complete_start_failure e t1 t2 p err s))"
proof -
  from en obtain x where x: "ent s p = Some x" by blast
  from service_invD(6) [OF inv x] obtain t where t: "obj s p = Some t" by blast
  have id: "tk_id t = p" by (rule service_invD(2) [OF inv t])
  show ?thesis
  proof (cases "entry_pending p s")
    case False
    then show ?thesis by (simp add: complete_start_failure_def t not_pending_settled [OF inv en])
  next
    case True
    have 1: "promise_settled p (complete_start_promise_for_terminal_task t1 t err s)"
      by (simp add: complete_start_promise_for_terminal_task_def id on_entry_settles [OF inv en])
    have 2: "promise_settled p (snd (complete_pre_turn_interrupt_of e t1 t2 t s))"
      by (rule interrupt_of_settles [OF inv en id t True])
    have 3: "promise_settled p (on_entry p (settle_entry StartEntryFailed None (Some err) t2)
        (snd (finish_task e t1 st y extra r t s)))" for st y extra r
    proof -
      have "service_inv (snd (finish_task e t1 st y extra r t s))" "ent (snd (finish_task e t1 st y extra r t s)) p \<noteq> None"
        using evolves_finish_obj [OF t, of e t1 st y extra r] inv en unfolding evolves_def by (auto dest: service_leD(2))
      then show ?thesis by (rule on_entry_settles) simp
    qed
    show ?thesis using True by (simp add: complete_start_failure_def t Let_def split_def 1 2 3)
  qed
qed

subsection \<open>The invariant of the goroutine\<close>

text \<open>What a claim leaves behind for the goroutine it starts.\<close>

definition claimed :: "start_task_command \<Rightarrow> string \<Rightarrow> service \<Rightarrow> bool" where
  "claimed c p s \<longleftrightarrow> (\<exists>en. ent s p = Some en \<and> se_key en = command_key c) \<and> group_of (stc_session_group_id c) s \<noteq> None"

definition start_ok :: "start_task_command \<Rightarrow> string \<Rightarrow> start_pc \<Rightarrow> service \<Rightarrow> bool" where
  "start_ok c p pc s \<longleftrightarrow> service_inv s \<and> claimed c p s \<and>
     (case pc of RunFailUnknown err \<Rightarrow> p \<notin> set (sv_tasks s) | RunDone \<Rightarrow> promise_settled p s | _ \<Rightarrow> True)"

lemma claimed_le: "service_le s s' \<Longrightarrow> claimed c p s \<Longrightarrow> claimed c p s'"
  unfolding claimed_def using service_leD by (fastforce simp: start_entry_le_def)

lemma settled_le: "service_le s s' \<Longrightarrow> promise_settled p s \<Longrightarrow> promise_settled p s'"
  unfolding promise_settled_def by (auto simp: start_entry_le_def dest: service_leD(2) split: option.splits)

lemma start_ok_le:
  assumes "start_ok c p pc s" "service_le s s'" "service_inv s'"
  shows "start_ok c p pc s'"
proof -
  have c: "claimed c p s" "service_inv s" using assms(1) by (simp_all add: start_ok_def)
  obtain en where "ent s p = Some en" using c(1) by (auto simp: claimed_def)
  then obtain t where "obj s p = Some t" using service_invD(6) [OF c(2)] by blast
  with assms claimed_le [OF assms(2) c(1)] service_leD(4) [OF assms(2)] settled_le [OF assms(2)]
  show ?thesis by (auto simp: start_ok_def split: start_pc.splits)
qed

lemma snapshot_retained:
  assumes inv: "service_inv s" and c: "claimed c p s" and p: "p \<in> set (sv_tasks s)"
  shows "start_snapshot c s = Inr p"
proof -
  obtain en where en: "ent s p = Some en" "se_key en = command_key c" using c by (auto simp: claimed_def)
  have "gm_get (sv_idempotency s) (command_key c) = Some p"
    using service_invD(5) [OF inv en(1)] p en(2) by (simp add: entry_ok_def)
  moreover obtain t where "obj s p = Some t" using service_invD(1) [OF inv p] by blast
  moreover obtain r where "session_of (stc_session_group_id c) s = Some r" using c by (auto simp: claimed_def group_of_def)
  ultimately show ?thesis using p by (simp add: start_snapshot_def Let_def task_by_id_def)
qed

lemma start_ok_step:
  assumes ok: "start_ok c p pc s" and step: "run_start_step e c p i pc s = (pc', s')"
  shows "start_ok c p pc' s'"
proof -
  have inv: "service_inv s" and c: "claimed c p s" using ok by (simp_all add: start_ok_def)
  then have en: "ent s p \<noteq> None" by (auto simp: claimed_def)
  have "evolves s s'"
    using evolves_start_step [where pc = pc and p = p and s = s and e = e and c = c and i = i] ok step by (simp add: start_ok_def split: start_pc.splits)
  then have s': "service_inv s'" "claimed c p s'"
    using inv claimed_le [OF _ c] unfolding evolves_def by blast+
  have "p \<notin> set (sv_tasks s')" if "pc' = RunFailUnknown err" for err
  proof -
    have "pc = RunSnapshot" using that step
      by (cases pc) (auto simp: Let_def split: sum.splits prod.splits if_splits)
    with that step snapshot_retained [OF inv c] show ?thesis by (auto split: sum.splits if_splits)
  qed
  moreover have "promise_settled p s'" if "pc' = RunDone"
  proof (cases "pc = RunDone")
    case True
    with ok step that show ?thesis by (simp add: start_ok_def)
  next
    case False
    with step that success_settles [OF inv en] failure_settles [OF inv en] pre_turn_settles [OF inv en]
      on_entry_promise_settles [OF inv en]
    show ?thesis
      by (cases pc) (auto simp: Let_def complete_start_failure_unknown_def split: sum.splits prod.splits if_splits)
  qed
  ultimately show ?thesis using s' by (auto simp: start_ok_def split: start_pc.splits)
qed

lemma start_ok_run:
  assumes "start_goroutine e c p s0 n pc s" "service_inv s0" "claimed c p s0"
  shows "start_ok c p pc s"
  using assms
proof (induction rule: start_goroutine.induct)
  case (StartOther n pc s s')
  then have ok: "start_ok c p pc s" by blast
  then have "service_inv s" by (simp add: start_ok_def)
  with tasks.run_ok [OF StartOther(2)] start_ok_le [OF ok] show ?case by blast
next
  case (StartOwn n pc s i pc' s')
  then show ?case using start_ok_step by blast
qed (simp add: start_ok_def)

text \<open>What a successful claim gives.\<close>

lemma claim_claimed:
  assumes "claim_start e t1 t2 t3 c fp s = (Inr (p, True), s0)"
  shows "claimed c p s0" "\<exists>en. ent s0 p = Some en \<and> se_fingerprint en = fp \<and> se_state en = StartEntryPending"
    "p \<in> set (sv_tasks s0)" "sr_active_task_id (the (session_of (stc_session_group_id c) s0)) = p"
proof -
  from assms obtain r where r: "session_of (stc_session_group_id c) s = Some r"
    by (cases "session_of (stc_session_group_id c) s") (auto simp: claim_start_def Let_def)
  have g: "gm_get (sv_idempotency (cleanup_retained t1 t2 s)) (command_key c) = None"
    using assms r by (auto simp: claim_start_def Let_def split: option.splits if_splits)
  have "sr_active_task_id r = []"
    using assms r g by (auto simp: claim_start_def Let_def split: if_splits)
  with assms r g have p: "p = task_name (sv_next_task_seq s + 1)" and
    s0: "sv_entries s0 = gm_put p (new_start_entry t3 fp c p) (sv_entries s)"
      "sv_tasks s0 = List.insert p (sv_tasks (cleanup_retained t1 t2 s))"
      "sv_sessions s0 = gm_put (stc_session_group_id c) (r\<lparr>sr_active_task_id := p\<rparr>) (sv_sessions s)"
    by (auto simp: claim_start_def Let_def next_task_id_def task_name_def put_entry_def put_task_def set_session_def
        new_start_entry_def split: prod.splits)
  show "claimed c p s0" "\<exists>en. ent s0 p = Some en \<and> se_fingerprint en = fp \<and> se_state en = StartEntryPending"
    "p \<in> set (sv_tasks s0)" "sr_active_task_id (the (session_of (stc_session_group_id c) s0)) = p"
    by (simp_all add: s0 claimed_def new_start_entry_def group_of_def session_of_def)
qed

end
