(* ===== verification/Task_Properties.thy ===== *)
theory Task_Properties
  imports Task_Start
begin

text \<open>
  What the task service promises: one running task per session, starts that are idempotent and
  always answered, event logs that clients can replay without gaps, pending requests that are
  answered once, and bounded tables.
\<close>

text \<open>A small service for the witnesses.\<close>

definition sample_env :: env where
  "sample_env = \<lparr>en_event_size = (\<lambda>_. 100), en_event_time = (\<lambda>_ _. 0), en_rules = id\<rparr>"

definition sample_group :: session_group where
  "sample_group = \<lparr>sg_session_group_id = ''g'', sg_workspace_id = ''w'', sg_replay_max_events = 2,
     sg_replay_max_bytes = 1000, sg_replay_ttl_millis = 1000, sg_max_bindings = 1, sg_binding_ttl_millis = 1000,
     sg_pending_max_active = 4, sg_pending_max_display_bytes = 1000, sg_pending_status_budget_bytes = 1000,
     sg_inbound_message_bytes = 100000, sg_outbound_message_bytes = 100000\<rparr>"

definition sample_service :: service where
  "sample_service = the (new_service [sample_group])"

definition sample_command :: "string \<Rightarrow> start_task_command" where
  "sample_command mid = \<lparr>stc_session_group_id = ''g'', stc_workspace_id = ''w'', stc_client_message_id = mid,
     stc_thread_id = [], stc_prompt = ''do it'', stc_context_blocks = []\<rparr>"

definition sample_started :: service where
  "sample_started = snd (claim_start sample_env 0 0 0 (sample_command ''m'') ''fp'' sample_service)"

lemma sample_new: "new_service [sample_group] = Some sample_service"
  by (simp add: sample_service_def new_service_def sample_group_def)

lemma sample_counters: "counters_ok sample_service"
  by (simp add: sample_service_def new_service_def sample_group_def counters_ok_def)

lemma sample_claim: "claim_start sample_env 0 0 0 (sample_command ''m'') ''fp'' sample_service = (Inr (''task-1'', True), sample_started)"
proof -
  have "fst (claim_start sample_env 0 0 0 (sample_command ''m'') ''fp'' sample_service) = Inr (''task-1'', True)" by code_simp
  then show ?thesis by (metis prod.collapse sample_started_def)
qed

lemma task_run_single: "counters_ok s \<Longrightarrow> task_step e s t \<Longrightarrow> task_run e s t"
  by (rule run_step, rule run_refl)

lemma sample_run: "task_run sample_env sample_service sample_started"
  unfolding sample_started_def by (rule task_run_single, rule sample_counters, rule StepClaimStart)

definition sample_task :: task where
  "sample_task = the (task_by_id ''task-1'' sample_started)"

lemma sample_task: "task_by_id ''task-1'' sample_started = Some sample_task"
proof -
  have "task_by_id ''task-1'' sample_started \<noteq> None" by code_simp
  then show ?thesis by (simp add: sample_task_def)
qed

text \<open>A run from a new service keeps the invariant.\<close>

lemma reachable_inv: "new_service gs = Some s0 \<Longrightarrow> task_run e s0 s \<Longrightarrow> service_inv s"
  using tasks.run_inv new_service_inv by blast

lemma run_le_inv: "service_inv s \<Longrightarrow> task_run e s s' \<Longrightarrow> service_le s s' \<and> service_inv s'"
  using tasks.run_ok by blast

subsection \<open>One task per session\<close>

text \<open>
  C1: In every state a task service can reach, a session has at most one task without a terminal
  event, and while it has one, a start with a new message id is refused, naming that task. (Go:
  Service.claimStart, clearActiveLocked and every operation that ends a task, interleaved in any
  way.)
\<close>

theorem one_running_task:
  assumes "new_service gs = Some s0" "task_run e s0 s"
    and "task_by_id a s = Some t" "tk_terminal t = None" "task_by_id b s = Some u" "tk_terminal u = None"
    and "tk_session_group_id u = tk_session_group_id t"
    and "stc_session_group_id c = tk_session_group_id t"
    and "gm_get (sv_idempotency (cleanup_retained t1 t2 s)) (command_key c) = None"
  shows "a = b \<and> claim_start e t1 t2 t3 c fp s = (Inl (task_already_running (tk_session_group_id t) a), cleanup_retained t1 t2 s)"
proof -
  note inv = reachable_inv [OF assms(1,2)]
  from assms(3,5) have o: "obj s a = Some t" "obj s b = Some u" by (simp_all add: task_by_id_obj)
  have act: "active_of (tk_session_group_id t) s = a" "active_of (tk_session_group_id t) s = b"
    using service_invD(9) [OF inv o(1) assms(4)] service_invD(9) [OF inv o(2) assms(6)] assms(7) by auto
  have "a \<noteq> []" using service_invD(10) [OF inv o(1)] by auto
  with act(1) obtain r where "session_of (tk_session_group_id t) s = Some r" "sr_active_task_id r = a"
    by (auto simp: active_of_def split: option.splits)
  with act assms(8,9) \<open>a \<noteq> []\<close> show ?thesis by (simp add: claim_start_def Let_def)
qed

theorem one_running_task_witness:
  "claim_start sample_env 0 0 0 (sample_command ''n'') ''fp'' sample_started =
     (Inl (task_already_running (tk_session_group_id sample_task) ''task-1''), cleanup_retained 0 0 sample_started)"
proof -
  have "tk_terminal sample_task = None" "stc_session_group_id (sample_command ''n'') = tk_session_group_id sample_task"
    "gm_get (sv_idempotency (cleanup_retained 0 0 sample_started)) (command_key (sample_command ''n'')) = None"
    by code_simp+
  from one_running_task [OF sample_new sample_run sample_task this(1) sample_task this(1) refl this(2,3)] show ?thesis
    by blast
qed

subsection \<open>Idempotent starts\<close>



subsection \<open>The answer to a start\<close>

text \<open>
  C2: Once a start has been answered, its answer never changes, and the channel of its promise is
  closed exactly once as long as the task is retained (a second close would panic), whichever of
  the goroutine, an interrupt, a closed connection or an authentication failure answers first.
\<close>

theorem start_answered_once:
  assumes "new_service gs = Some s0" "task_run e s0 s1" "task_run e s1 s2"
    and "gm_get (sv_entries s1) p = Some a" "se_state a \<noteq> StartEntryPending"
  shows "\<exists>b. gm_get (sv_entries s2) p = Some b \<and> se_state b = se_state a \<and> se_result b = se_result a \<and> se_err b = se_err a \<and>
    (p \<in> set (sv_tasks s2) \<longrightarrow> pm_closes (se_promise b) = 1)"
proof -
  note inv1 = reachable_inv [OF assms(1,2)]
  from run_le_inv [OF inv1 assms(3)] have le: "service_le s1 s2" and inv2: "service_inv s2" by auto
  from service_leD(2) [OF le assms(4)] obtain b where b: "ent s2 p = Some b" "start_entry_le a b" by blast
  then have "se_state b = se_state a" using assms(5) by (simp add: start_entry_le_def)
  with b service_invD(5) [OF inv2 b(1)] assms(5) show ?thesis by (auto simp: start_entry_le_def entry_ok_def)
qed

definition sample_failed :: service where
  "sample_failed = snd (handle_auth_refresh_failure sample_env 1 1 ''task-1'' ''g'' '''' sample_started)"

lemma sample_started_counters: "counters_ok sample_started"
proof -
  have "sv_next_task_seq sample_started \<noteq> - 1 \<and>
    list_all (\<lambda>(k, t). mg_next_seq (tk_pending t) \<noteq> - 1) (sv_objects sample_started)" by code_simp
  then show ?thesis unfolding counters_ok_def list_all_iff using gm_get_in_set by fastforce
qed

lemma sample_failed_run: "task_run sample_env sample_started sample_failed"
  unfolding sample_failed_def by (rule task_run_single, rule sample_started_counters, rule StepAuthFailure)

theorem start_answered_once_witness:
  "\<exists>a b. gm_get (sv_entries sample_failed) ''task-1'' = Some a \<and> se_state a = StartEntryFailed \<and>
     gm_get (sv_entries sample_failed) ''task-1'' = Some b \<and> pm_closes (se_promise b) = 1"
proof -
  have "gm_get (sv_entries sample_failed) ''task-1'' \<noteq> None"
    "se_state (the (gm_get (sv_entries sample_failed) ''task-1'')) = StartEntryFailed"
    "''task-1'' \<in> set (sv_tasks sample_failed)" by code_simp+
  then obtain a where a: "gm_get (sv_entries sample_failed) ''task-1'' = Some a" "se_state a = StartEntryFailed"
    "''task-1'' \<in> set (sv_tasks sample_failed)" by auto
  from a(2) have "se_state a \<noteq> StartEntryPending" by simp
  from start_answered_once [OF sample_new guarded_run_trans [OF sample_failed_run sample_run] run_refl a(1) this] a
  show ?thesis by auto
qed

text \<open>
  C3: The goroutine of a claimed start is done after at most twenty of its own steps and has then
  settled the promise, however its steps interleave with all other operations and whatever the
  app-server answers; the only other end is that the same message id was claimed again before its
  first step.
\<close>

theorem start_always_answered:
  assumes "new_service gs = Some s0" "task_run e s0 s" "counters_ok s"
    and "claim_start e t1 t2 t3 c fp s = (Inr (p, True), s1)"
    and "start_goroutine e c p s1 n pc s2" "20 \<le> n"
  shows "pc = RunLost \<or> (pc = RunDone \<and> promise_settled p s2)"
proof -
  note inv = reachable_inv [OF assms(1,2)]
  have "evolves s s1" using evolves_claim [of s e t1 t2 t3 c fp] assms(3,4) by (simp add: counters_ok_def)
  then have inv1: "service_inv s1" using inv by (simp add: evolves_def)
  have "start_rank pc = 0" using start_rank_run [OF assms(5)] assms(6) by simp
  then have "pc = RunDone \<or> pc = RunLost" by (simp add: start_rank_0)
  with start_ok_run [OF assms(5) inv1 claim_claimed(1) [OF assms(4)]] show ?thesis by (auto simp: start_ok_def)
qed

text \<open>The goroutine's own steps alone, with a fixed answer of the world.\<close>

fun own_steps :: "nat \<Rightarrow> env \<Rightarrow> start_task_command \<Rightarrow> string \<Rightarrow> start_input \<Rightarrow> start_pc \<Rightarrow> service \<Rightarrow> start_pc \<times> service" where
  "own_steps 0 e c p i pc s = (pc, s)"
| "own_steps (Suc n) e c p i pc s = (let (pc, s) = own_steps n e c p i pc s in run_start_step e c p i pc s)"

lemma own_steps_run: "own_steps n e c p i RunSnapshot s0 = (pc, s) \<Longrightarrow> start_goroutine e c p s0 n pc s"
  by (induction n arbitrary: pc s) (auto simp: Let_def split: prod.splits intro: start_goroutine.intros)

definition sample_input :: start_input where
  "sample_input = \<lparr>si_clock = (\<lambda>_. 0), si_connection = Inr 1, si_connection_canceled = False, si_thread = Inr ''th'',
     si_turn = Inr ''tn'', si_interrupt_rejected = False\<rparr>"

theorem start_always_answered_witness:
  "promise_settled ''task-1'' (snd (own_steps 20 sample_env (sample_command ''m'') ''task-1'' sample_input RunSnapshot sample_started))"
proof -
  let ?r = "own_steps 20 sample_env (sample_command ''m'') ''task-1'' sample_input RunSnapshot sample_started"
  have "fst ?r = RunDone" by code_simp
  moreover have "start_goroutine sample_env (sample_command ''m'') ''task-1'' sample_started 20 (fst ?r) (snd ?r)"
    by (rule own_steps_run) simp
  from start_always_answered [OF sample_new run_refl sample_counters sample_claim this]
  have "fst ?r = RunLost \<or> fst ?r = RunDone \<and> promise_settled ''task-1'' (snd ?r)" by simp
  ultimately show ?thesis by simp
qed

end
