(* ===== verification/Task_Guarantees.thy ===== *)
theory Task_Guarantees
  imports Task_Properties
begin

text \<open>What clients rely on: the event logs, the ends of tasks, and the answers to pending requests.\<close>

subsection \<open>Sessions as locks\<close>

text \<open>
  C6: Seen from outside, a session is a lock that is free or held by one task, with the set of
  tasks that already released it: every run of the service is a run of this abstract lock, in
  which a task that released the session never holds it again.
\<close>

theorem session_lock_refinement:
  assumes "new_service gs = Some s0" "task_run e s0 s" "task_run e s s'"
  shows "lock_step\<^sup>*\<^sup>* (session_lock g s) (session_lock g s')"
  using run_le_inv [OF reachable_inv [OF assms(1,2)] assms(3)] service_leD(5) by blast

theorem session_lock_refinement_witness:
  "lock_step\<^sup>*\<^sup>* (session_lock ''g'' sample_service) (session_lock ''g'' sample_started) \<and>
   fst (session_lock ''g'' sample_service) = None \<and> fst (session_lock ''g'' sample_started) = Some ''task-1''"
proof -
  have "fst (session_lock ''g'' sample_service) = None" "fst (session_lock ''g'' sample_started) = Some ''task-1''"
    unfolding session_lock_def fst_conv by code_simp+
  with session_lock_refinement [OF sample_new run_refl sample_run] show ?thesis by blast
qed

subsection \<open>The event log\<close>

text \<open>
  C10: The log of a task is only appended to and evicted from its front: in a later state it is
  the former log with new events behind it, without a number of its oldest ones, and the new
  events are numbered on from the last id without a gap.
\<close>

theorem event_log_stable:
  assumes "new_service gs = Some s0" "task_run e s0 s" "task_run e s s'"
    and "task_by_id k s = Some t" "task_by_id k s' = Some t'"
  shows "\<exists>new n. tk_events t' = drop n (tk_events t @ new) \<and>
    tk_next_event_id t' = tk_next_event_id t + of_nat (length new) \<and>
    (\<forall>i < length new. te_event_id (new ! i) = tk_next_event_id t + of_nat (Suc i))"
proof -
  from run_le_inv [OF reachable_inv [OF assms(1,2)] assms(3)] have "service_le s s'" by blast
  then have "task_le t t'" using service_leD(1) task_by_id_obj [OF assms(4)] task_by_id_obj [OF assms(5)] by fastforce
  then obtain new where new: "log_extends t new t'" by (auto simp: task_le_def log_le_def)
  then obtain n where n: "tk_events t' = drop n (tk_events t @ new)" by (auto simp: log_extends_def)
  have next': "tk_next_event_id t' = tk_next_event_id t + of_nat (length new)" "ids_upto (tk_next_event_id t') new"
    using new unfolding log_extends_def by blast+
  have "te_event_id (new ! i) = tk_next_event_id t + of_nat (Suc i)" if "i < length new" for i
  proof -
    have "(of_nat (length new - Suc i) :: u64) = of_nat (length new) - of_nat (Suc i)"
      using that by (intro of_nat_diff) simp
    then have "te_event_id (new ! i) = tk_next_event_id t + of_nat (length new) - (of_nat (length new) - of_nat (Suc i))"
      using ids_upto_nth [OF next'(2) that] next'(1) by (simp only:)
    then show ?thesis by (simp del: of_nat_Suc)
  qed
  with n next'(1) show ?thesis by blast
qed

theorem event_log_stable_witness:
  "\<exists>t t' new n. task_by_id ''task-1'' sample_started = Some t \<and> task_by_id ''task-1'' sample_failed = Some t' \<and>
     tk_events t' = drop n (tk_events t @ new) \<and> tk_events t \<noteq> tk_events t'"
proof -
  have "task_by_id ''task-1'' sample_failed \<noteq> None" by code_simp
  then obtain t' where t': "task_by_id ''task-1'' sample_failed = Some t'" by blast
  have "tk_events (the (task_by_id ''task-1'' sample_started)) \<noteq> tk_events (the (task_by_id ''task-1'' sample_failed))"
    by code_simp
  then have "tk_events sample_task \<noteq> tk_events t'" by (simp add: t' sample_task)
  with event_log_stable [OF sample_new sample_run sample_failed_run sample_task t'] sample_task t' show ?thesis by blast
qed

lemma unat_of_nat_u64: "n < 2 ^ 64 \<Longrightarrow> unat (of_nat n :: u64) = n"
  by (subst unat_of_nat) (simp add: take_bit_nat_eq_self_iff)

lemma unat_u64_less: "unat (n :: u64) < 2 ^ 64"
  by (rule order_less_le_trans [OF unsigned_less]) simp

text \<open>The ids of the buffer as natural numbers, as long as the counter has not wrapped.\<close>

lemma buffered_ids:
  assumes "ids_upto n evs" "length evs \<le> unat n"
  shows "map (\<lambda>ev. unat (te_event_id ev)) evs = [Suc (unat n - length evs)..<Suc (unat n)]"
proof (rule nth_equalityI)
  show "length (map (\<lambda>ev. unat (te_event_id ev)) evs) = length [Suc (unat n - length evs)..<Suc (unat n)]"
    using assms(2) by (simp del: upt_Suc)
  fix i assume "i < length (map (\<lambda>ev. unat (te_event_id ev)) evs)"
  then have i: "i < length evs" by simp
  let ?k = "length evs - Suc i"
  have k: "unat (of_nat ?k :: u64) = ?k"
    by (rule unat_of_nat_u64) (use unat_u64_less [of n] assms(2) in linarith)
  have "?k \<le> unat n" using assms(2) by simp
  then have "unat (n - of_nat ?k) = unat n - ?k" by (subst unat_sub) (simp_all add: word_le_nat_alt k)
  moreover have "unat n - ?k = Suc (unat n - length evs) + i" using i assms(2) by simp
  ultimately show "map (\<lambda>ev. unat (te_event_id ev)) evs ! i = [Suc (unat n - length evs)..<Suc (unat n)] ! i"
    using i assms(2) ids_upto_nth [OF assms(1) i] by (simp del: upt_Suc)
qed

lemma filter_upt: "filter (\<lambda>x. m < x) [a..<b] = [max a (Suc m)..<b]"
proof (induction b)
  case (Suc b)
  then show ?case by (cases "a \<le> b"; cases "m < b") (auto simp: max_def)
qed simp

lemma evicted_unat:
  assumes "log_wf t" "length (tk_events t) \<le> unat (tk_next_event_id t)"
  shows "unat (tk_start_evicted_before t) = unat (tk_next_event_id t) - length (tk_events t)"
proof -
  have "unat (of_nat (length (tk_events t)) :: u64) = length (tk_events t)"
    by (rule unat_of_nat_u64) (use unat_u64_less [of "tk_next_event_id t"] assms(2) in linarith)
  with assms show ?thesis by (simp add: log_wf_def unat_sub word_le_nat_alt)
qed

text \<open>
  C11: A subscription after an event id the client has seen is answered with every later retained
  event in order of its id, without a gap up to the newest one, and with the notice that events
  were evicted exactly when the cursor is not above the last evicted id.
\<close>

theorem replay_gap_free:
  assumes "new_service gs = Some s0" "task_run e s0 s" "task_by_id k s = Some t"
    and "length (tk_events t) \<le> unat (tk_next_event_id t)" "n \<le> tk_next_event_id t"
  shows "\<exists>notice evs. replay_messages t (StreamCursorAfterEventID n) = Inr (notice @ event_messages evs) \<and>
    map (\<lambda>ev. unat (te_event_id ev)) evs =
      [Suc (max (unat n) (unat (tk_start_evicted_before t)))..<Suc (unat (tk_next_event_id t))] \<and>
    (notice = (if n \<le> tk_start_evicted_before t then [replay_notice_of t ReplayNoticeCursorEvicted] else []))"
proof -
  note inv = reachable_inv [OF assms(1,2)]
  have "task_ok s t" using service_invD(3) [OF inv] task_by_id_obj [OF assms(3)] by blast
  then have wf: "log_wf t" and ne: "tk_events t \<noteq> []" by (simp_all add: task_ok_def log_ok_def)
  let ?N = "unat (tk_next_event_id t)" and ?L = "length (tk_events t)"
  have ids: "map (\<lambda>ev. unat (te_event_id ev)) (tk_events t) = [Suc (?N - ?L)..<Suc ?N]"
    using buffered_ids wf assms(4) by (simp add: log_wf_def)
  have ev: "unat (tk_start_evicted_before t) = ?N - ?L" by (rule evicted_unat [OF wf assms(4)])
  have "unat (te_event_id (hd (tk_events t))) = Suc (?N - ?L)"
    using arg_cong [OF ids, of hd] ne assms(4) length_greater_0_conv [of "tk_events t"]
    by (simp add: list.map_sel hd_upt del: upt_Suc length_greater_0_conv)
  then have old: "n < te_event_id (hd (tk_events t)) \<longleftrightarrow> n \<le> tk_start_evicted_before t"
    by (simp add: word_less_nat_alt word_le_nat_alt ev less_Suc_eq_le)
  show ?thesis
  proof (cases "n \<le> tk_start_evicted_before t")
    case True
    then have "max (unat n) (unat (tk_start_evicted_before t)) = ?N - ?L" by (simp add: word_le_nat_alt ev max_def)
    with True ids ne old assms(5) show ?thesis
      by (intro exI [of _ "[replay_notice_of t ReplayNoticeCursorEvicted]"] exI [of _ "tk_events t"])
        (simp add: replay_messages_def del: upt_Suc)
  next
    case False
    let ?evs = "filter (\<lambda>ev. n < te_event_id ev) (tk_events t)"
    have "map (\<lambda>ev. unat (te_event_id ev)) ?evs = filter (\<lambda>x. unat n < x) (map (\<lambda>ev. unat (te_event_id ev)) (tk_events t))"
      by (simp add: filter_map o_def word_less_nat_alt)
    also have "\<dots> = [max (Suc (?N - ?L)) (Suc (unat n))..<Suc ?N]" by (simp only: ids filter_upt)
    also have "max (Suc (?N - ?L)) (Suc (unat n)) = Suc (max (unat n) (unat (tk_start_evicted_before t)))"
      by (simp add: ev max_def)
    finally show ?thesis
      using False ne old assms(5) by (intro exI [of _ "[]"] exI [of _ ?evs]) (simp add: replay_messages_def leD del: upt_Suc)
  qed
qed

theorem replay_gap_free_witness:
  "\<exists>notice evs. replay_messages sample_task (StreamCursorAfterEventID 1) = Inr (notice @ event_messages evs) \<and>
    map (\<lambda>ev. unat (te_event_id ev)) evs = [Suc (max (unat (1 :: u64)) (unat (tk_start_evicted_before sample_task)))..<Suc (unat (tk_next_event_id sample_task))]"
proof -
  have "length (tk_events sample_task) \<le> unat (tk_next_event_id sample_task)" "1 \<le> tk_next_event_id sample_task"
    by code_simp+
  from replay_gap_free [OF sample_new sample_run sample_task this] show ?thesis by blast
qed

subsection \<open>The end of a task\<close>










subsection \<open>Answers to pending requests\<close>

text \<open>
  C4: After a response to a pending request was claimed for sending, no claim of any response to
  that request, in any later state, is told to send one again.
\<close>

theorem response_sent_once:
  assumes "new_service gs = Some s0" "task_run e s0 s" "counters_ok s"
    and "claim_pending_response decode lower fp rc s = (Inr (ClaimSend conn raw meth payload resolution), s1)"
    and "rc_client_response_id rc \<noteq> []" "task_run e s1 s2"
    and "rc_task_id rc2 = rc_task_id rc" "rc_pending_request_id rc2 = rc_pending_request_id rc"
  shows "fst (claim_pending_response decode2 lower2 fp2 rc2 s2) \<noteq> Inr (ClaimSend conn2 raw2 meth2 payload2 resolution2)"
proof -
  let ?k = "rc_task_id rc" and ?pid = "rc_pending_request_id rc" and ?rid = "rc_client_response_id rc"
  note inv = reachable_inv [OF assms(1,2)]
  from assms(4) obtain t where t: "task_by_id ?k s = Some t" by (cases "task_by_id ?k s") (auto simp: claim_pending_response_def)
  from assms(4) t obtain r where r: "manager_get ?pid (tk_pending t) = Some r"
    by (cases "manager_get ?pid (tk_pending t)") (auto simp: claim_pending_response_def Let_def)
  from assms(4) t r obtain t1 r1 where t1: "obj s1 (tk_id t) = Some t1" "manager_get ?pid (tk_pending t1) = Some r1"
      "pe_in_flight_client_response_id r1 = ?rid"
    by (auto simp: claim_pending_response_def Let_def split: if_splits option.splits sum.splits prod.splits)
  have id: "tk_id t = ?k" using task_by_id_id [OF inv t] by blast
  have "evolves s s1" using evolves_claim_response [of s decode lower fp rc] assms(4) by simp
  then have inv1: "service_inv s1" using inv by (simp add: evolves_def)
  from run_le_inv [OF inv1 assms(6)] have le: "service_le s1 s2" by blast
  from service_leD(1) [OF le t1(1)] obtain t2 where t2: "obj s2 ?k = Some t2" "task_le t1 t2" by (auto simp: id)
  then have "mgr_le (tk_pending t1) (tk_pending t2)" by (simp add: task_le_def)
  then obtain r2 where r2: "manager_get ?pid (tk_pending t2) = Some r2" "entry_le r1 r2"
    using t1(2) unfolding mgr_le_def by blast
  then have "\<not> pe_active r2 \<or> pe_in_flight_client_response_id r2 \<noteq> []"
    using t1(3) assms(5) by (auto simp: entry_le_def)
  with t2(1) r2(1) show ?thesis
    by (cases "task_by_id ?k s2")
      (auto simp: claim_pending_response_def assms(7,8) Let_def task_by_id_def split: if_splits option.splits)
qed


lemma counters_check:
  "sv_next_task_seq s \<noteq> - 1 \<Longrightarrow> list_all (\<lambda>(k, t). mg_next_seq (tk_pending t) \<noteq> - 1) (sv_objects s) \<Longrightarrow> counters_ok s"
  unfolding counters_ok_def list_all_iff using gm_get_in_set by fastforce

definition sample_entry :: pending_entry where
  "sample_entry = \<lparr>pe_method = ''item/fileChange/requestApproval'', pe_app_server_request_id = [], pe_jsonrpc_id = ''7'',
     pe_active = False,
     pe_pending = \<lparr>pr_pending_request_id = [], pr_task_id = ''task-1'', pr_pending_type = PendingTypeFileChangeApproval,
       pr_created_at = 0, pr_thread_id = ''th'', pr_turn_id = ''tn'', pr_item_id = ''it'',
       pr_display = ToolUserInput []\<rparr>,
     pe_approval_options = [(''ok'', \<lparr>ao_decision_id = ''ok'', ao_wire_decision = Some WireDecisionAccept,
       ao_display_label = ''Accept'', ao_summary = [], ao_selectable = True, ao_unsupported_reason = []\<rparr>)],
     pe_permission_grants = [], pe_tool_questions = [], pe_mcp_sensitive_fields = [], pe_responses = [],
     pe_in_flight_client_response_id = []\<rparr>"

definition sample_connected :: service where
  "sample_connected = set_task_connection ''task-1'' 1 sample_started"

definition sample_waiting :: service where
  "sample_waiting = snd (try_create_pending_request sample_env (\<lambda>_. None) (\<lambda>_. 10) (\<lambda>_. Inr sample_entry) 1 ''task-1'' [] [] [] []
     sample_connected)"

definition sample_response :: "string \<Rightarrow> respond_pending_command" where
  "sample_response rid = \<lparr>rc_task_id = ''task-1'', rc_pending_request_id = ''pending-1'', rc_client_response_id = rid,
     rc_response = \<lparr>pz_approval = Some ''ok'', pz_permissions = None, pz_mcp_elicitation = None, pz_tool_user_input = None\<rparr>\<rparr>"

lemma sample_waiting_run: "task_run sample_env sample_service sample_waiting"
proof -
  have 1: "task_run sample_env sample_started sample_connected"
    unfolding sample_connected_def by (rule task_run_single, rule sample_started_counters, rule StepSetConnection)
  have "sv_next_task_seq sample_connected \<noteq> - 1"
    "list_all (\<lambda>(k, t). mg_next_seq (tk_pending t) \<noteq> - 1) (sv_objects sample_connected)" by code_simp+
  then have c: "counters_ok sample_connected" by (rule counters_check)
  have "task_run sample_env sample_connected sample_waiting"
    unfolding sample_waiting_def by (rule task_run_single, rule c, rule StepServerRequest)
  from guarded_run_trans [OF this guarded_run_trans [OF 1 sample_run]] show ?thesis .
qed

lemma sample_waiting_counters: "counters_ok sample_waiting"
  by (rule counters_check) code_simp+

theorem response_sent_once_witness:
  "fst (claim_pending_response (\<lambda>_. None) id (\<lambda>_ _. Some ''fp'') (sample_response ''b'')
     (snd (claim_pending_response (\<lambda>_. None) id (\<lambda>_ _. Some ''fp'') (sample_response ''a'') sample_waiting))) \<noteq>
   Inr (ClaimSend (Some 1) ''7'' ''item/fileChange/requestApproval'' (DirectApprovalPayload ''accept'') PendingResolutionAccepted)"
proof -
  let ?c = "claim_pending_response (\<lambda>_. None) id (\<lambda>_ _. Some ''fp'') (sample_response ''a'') sample_waiting"
  have "fst ?c = Inr (ClaimSend (Some 1) ''7'' ''item/fileChange/requestApproval'' (DirectApprovalPayload ''accept'') PendingResolutionAccepted)"
    by code_simp
  then have c: "?c = (Inr (ClaimSend (Some 1) ''7'' ''item/fileChange/requestApproval'' (DirectApprovalPayload ''accept'') PendingResolutionAccepted), snd ?c)"
    by (metis prod.collapse)
  show ?thesis
    by (rule response_sent_once [OF sample_new sample_waiting_run sample_waiting_counters c _ run_refl])
      (simp_all add: sample_response_def)
qed

subsection \<open>Bounded tables\<close>


lemma cleanup_tombstones_fields [simp]:
  "sv_sessions (cleanup_binding_tombstones now s) = sv_sessions s" "sv_bindings (cleanup_binding_tombstones now s) = sv_bindings s"
  by (simp_all add: cleanup_binding_tombstones_def Let_def)





lemma binding_cap_pos: "1 \<le> binding_cap g"
  by (simp add: binding_cap_def default_thread_binding_cap_def)



definition sample_bound :: service where
  "sample_bound = snd (upsert_thread_binding 5 (\<lambda>_. 6) ''g'' ''a'' ''task-1'' sample_started)"




text \<open>Tombstones: a removal from the table of one session leaves no other session with more.\<close>

lemma tombstone_count_del_le: "tombstone_count g (gm_del k m) \<le> tombstone_count g m"
  unfolding tombstone_count_def by (induction m) auto

lemma enforce_cap_count_le: "tombstone_count g (enforce_tombstone_cap h cap m) \<le> tombstone_count g m"
proof (induction h cap m rule: enforce_tombstone_cap.induct)
  case (1 h cap m)
  show ?case
  proof (cases "int (tombstone_count h m) > cap \<and> oldest_tombstone h m \<noteq> None")
    case True
    then obtain k where k: "int (tombstone_count h m) > cap" "oldest_tombstone h m = Some k" by blast
    from "1.IH" [OF k] tombstone_count_del_le [of g k m] show ?thesis
      by (subst enforce_tombstone_cap.simps) (simp add: k)
  qed (subst enforce_tombstone_cap.simps, auto split: option.splits)
qed

lemma enforce_cap_bound: "0 \<le> cap \<Longrightarrow> int (tombstone_count g (enforce_tombstone_cap g cap m)) \<le> cap"
proof (induction g cap m rule: enforce_tombstone_cap.induct)
  case (1 g cap m)
  show ?case
  proof (cases "int (tombstone_count g m) > cap")
    case True
    then have "oldest_tombstone g m \<noteq> None" using "1.prems" by (auto simp: oldest_tombstone_def tombstone_count_def)
    then obtain k where k: "oldest_tombstone g m = Some k" by blast
    from "1.IH" [OF True k "1.prems"] show ?thesis by (subst enforce_tombstone_cap.simps) (simp add: True k)
  qed (subst enforce_tombstone_cap.simps, simp)
qed

lemma set_gm_del: "set (gm_del k m) \<subseteq> set m"
  by (induction m) auto

lemma enforce_cap_subset: "set (enforce_tombstone_cap g cap m) \<subseteq> set m"
proof (induction g cap m rule: enforce_tombstone_cap.induct)
  case (1 g cap m)
  show ?case
  proof (cases "int (tombstone_count g m) > cap \<and> oldest_tombstone g m \<noteq> None")
    case True
    then obtain k where k: "int (tombstone_count g m) > cap" "oldest_tombstone g m = Some k" by blast
    from "1.IH" [OF k] set_gm_del [of k m] show ?thesis by (subst enforce_tombstone_cap.simps) (use k in auto)
  qed (subst enforce_tombstone_cap.simps, auto split: option.splits)
qed

lemma fold_caps_subset: "set (fold (\<lambda>g. enforce_tombstone_cap g (cap g)) gs m) \<subseteq> set m"
  by (induction gs arbitrary: m) (use enforce_cap_subset in fastforce)+

lemma fold_caps_le: "tombstone_count g (fold (\<lambda>g. enforce_tombstone_cap g (cap g)) gs m) \<le> tombstone_count g m"
  by (induction gs arbitrary: m) (auto intro: order_trans [OF _ enforce_cap_count_le])

lemma fold_caps_bound:
  "g \<in> set gs \<Longrightarrow> 0 \<le> cap g \<Longrightarrow> int (tombstone_count g (fold (\<lambda>g. enforce_tombstone_cap g (cap g)) gs m)) \<le> cap g"
proof (induction gs arbitrary: m)
  case (Cons a gs)
  show ?case
  proof (cases "a = g")
    case True
    with fold_caps_le [of g cap gs "enforce_tombstone_cap g (cap g) m"] enforce_cap_bound [OF Cons.prems(2), of g m]
    show ?thesis by simp
  qed (use Cons in auto)
qed simp

text \<open>
  After a cleanup no tombstone has expired, and each session has at most as many tombstones
  as its binding limit.
\<close>

theorem tombstones_bounded:
  assumes "session_of g s = Some r"
  shows "int (tombstone_count g (sv_tombstones (cleanup_retained t1 t2 s))) \<le> binding_cap (sr_group r) \<and>
    (\<forall>(k, b) \<in> set (sv_tombstones (cleanup_retained t1 t2 s)). t2 \<le> bt_expires_at b)"
proof -
  let ?s = "drop_expired_entries t1 (drop_expired_tasks t1 s)"
  have s: "session_of g ?s = Some r" "sv_sessions ?s = sv_sessions s"
    using assms by (simp_all add: session_of_def drop_expired_entries_def drop_expired_tasks_def Let_def)
  have mem: "g \<in> set (map fst (sv_sessions ?s))"
    using gm_get_in_set [OF assms [unfolded session_of_def]] by (force simp: s(2))
  have cap: "tombstone_cap g ?s = binding_cap (sr_group r)" by (simp add: tombstone_cap_def s(1))
  have "int (tombstone_count g (sv_tombstones (cleanup_retained t1 t2 s))) \<le> tombstone_cap g ?s"
    using fold_caps_bound [OF mem, where cap = "\<lambda>g. tombstone_cap g ?s"] binding_cap_pos [of "sr_group r"]
    by (simp add: cap cleanup_retained_def cleanup_binding_tombstones_def Let_def)
  moreover have "set (sv_tombstones (cleanup_retained t1 t2 s)) \<subseteq> {kv. \<not> t2 > bt_expires_at (snd kv)}"
    using fold_caps_subset by (fastforce simp: cleanup_retained_def cleanup_binding_tombstones_def Let_def)
  ultimately show ?thesis by (auto simp: cap)
qed

definition sample_rebound :: service where
  "sample_rebound = snd (upsert_thread_binding 7 (\<lambda>_. 8) ''g'' ''b'' ''task-1''
     (snd (upsert_thread_binding 6 (\<lambda>_. 7) ''g'' ''c'' ''task-1'' sample_bound)))"

theorem tombstones_bounded_witness:
  "int (tombstone_count ''g'' (sv_tombstones (cleanup_retained 9 9 sample_rebound))) \<le> 1"
proof -
  have "session_of ''g'' sample_rebound \<noteq> None" "binding_cap (sr_group (the (session_of ''g'' sample_rebound))) = 1"
    by code_simp+
  then obtain r where r: "session_of ''g'' sample_rebound = Some r" "binding_cap (sr_group r) = 1" by auto
  from tombstones_bounded [OF r(1), of 9 9] r(2) show ?thesis by simp
qed

subsection \<open>What the states do not promise\<close>










end
