(* ===== verification/Chat_Types.thy ===== *)
theory Chat_Types
  imports Domain_Types
begin

text \<open>
  What the chat API and the chat runtime exchange (\<open>gateway/internal/domain\<close>): the enumerations that only
  they use, the state of a chat, its history and its events.  Events, pending requests and ends of runs
  that the tasks share are in Domain_Types.
\<close>

subsection \<open>Enumerations (domain/enums.go, domain/events.go)\<close>

datatype chat_thread_lifecycle =
    ThreadNotLoaded | ThreadIdle | ThreadActiveRunning | ThreadWaitingOnApproval
  | ThreadWaitingOnUserInput | ThreadSystemError | ThreadUnknown

datatype chat_capability_state =
    CapabilitySupported | CapabilityUnsupported | CapabilityUnavailable | CapabilityUnknown | CapabilityNarrowed

datatype chat_history_depth = DepthTurnSummary | DepthItemLevel
datatype chat_history_sort_direction = SortAscending | SortDescending
datatype chat_turn_items_view = ItemsNotLoaded | ItemsSummary | ItemsFullUnsupported

datatype chat_replay_notice_code =
    ChatStartEvicted | ChatCursorEvicted | ChatUnavailableAfterRestart | ChatNarrowedToLive

subsection \<open>Chats (domain/events.go)\<close>

record chat_capability_set =
  cc_status :: chat_capability_state
  cc_history :: chat_capability_state
  cc_event_stream :: chat_capability_state
  cc_replay :: chat_capability_state
  cc_pending :: chat_capability_state
  cc_interrupt :: chat_capability_state

record chat_gateway_local_state =
  gl_live :: bool
  gl_replay_available :: bool
  gl_replay_unavailable :: bool
  gl_process_epoch :: string

record chat =
  ch_chat_id :: string
  ch_session_group_id :: string
  ch_workspace_id :: string
  ch_thread_lifecycle :: chat_thread_lifecycle
  ch_created_at :: int
  ch_updated_at :: int
  ch_preview :: string
  ch_ephemeral :: bool
  ch_capabilities :: chat_capability_set

text \<open>The lifecycle of the current run may be the empty string.\<close>

record chat_status =
  cst_chat_id :: string
  cst_session_group_id :: string
  cst_workspace_id :: string
  cst_lookup_valid :: bool
  cst_thread_lifecycle :: chat_thread_lifecycle
  cst_current_run_lifecycle :: "chat_turn_lifecycle option"
  cst_current_run_id :: string
  cst_last_run_id :: string
  cst_capabilities :: chat_capability_set
  cst_gateway_local :: chat_gateway_local_state
  cst_active_pending :: "chat_pending_request list"
  cst_terminal :: "chat_terminal option"
  cst_last_event_id :: u64

record chat_error_summary =
  ces_code :: string
  ces_display_message :: string
  ces_retryable :: bool

record chat_turn_summary =
  cts_run_id :: string
  cts_lifecycle :: chat_turn_lifecycle
  cts_items_view :: chat_turn_items_view
  cts_started_at :: int
  cts_completed_at :: int
  cts_duration :: int
  cts_summary :: string
  cts_truncated :: bool
  cts_error :: "chat_error_summary option"

record chat_narrowed_outcome =
  cno_reason :: gateway_error_reason
  cno_display_message :: string
  cno_retryable :: bool

record chat_event =
  cev_event_id :: u64
  cev_event_cursor :: string
  cev_chat_id :: string
  cev_session_group_id :: string
  cev_workspace_id :: string
  cev_run_id :: string
  cev_created_at :: int
  cev_status_updated :: "chat_status option"
  cev_assistant_delta :: "assistant_delta_event option"
  cev_assistant_message_completed :: "assistant_message_completed_event option"
  cev_pending_created :: "chat_pending_request option"
  cev_pending_resolved :: "chat_pending_resolved option"
  cev_terminal :: "chat_terminal option"
  cev_command_started :: "command_started_event option"
  cev_command_output_delta :: "command_output_delta_event option"
  cev_gateway_warning :: "gateway_warning_event option"

record chat_replay_notice =
  crn_code :: chat_replay_notice_code
  crn_message :: string
  crn_oldest_buffered_event_id :: u64
  crn_newest_buffered_event_id :: u64
  crn_from_start_available :: bool
  crn_start_evicted_before_event_id :: u64
  crn_process_epoch :: string

subsection \<open>Responses of the chat runtime (domain/commands.go)\<close>

record start_chat_run_response =
  scr_chat_id :: string
  scr_run_id :: string
  scr_session_group_id :: string
  scr_workspace_id :: string
  scr_last_event_id :: u64
  scr_event_cursor :: string
  scr_first_turn_accepted :: bool
  scr_process_epoch :: string

record run_chat_turn_response =
  rtr_chat_id :: string
  rtr_run_id :: string
  rtr_session_group_id :: string
  rtr_workspace_id :: string
  rtr_status :: chat_status
  rtr_last_event_id :: u64
  rtr_event_cursor :: string
  rtr_turn_accepted :: bool

record get_chat_history_response =
  hir_chat_id :: string
  hir_turns :: "chat_turn_summary list"
  hir_next_cursor :: string
  hir_backwards_cursor :: string
  hir_returned_depth :: chat_history_depth
  hir_capability :: chat_capability_state
  hir_narrowed :: "chat_narrowed_outcome option"

record respond_chat_pending_response =
  rpr_chat_id :: string
  rpr_run_id :: string
  rpr_session_group_id :: string
  rpr_workspace_id :: string
  rpr_pending_request_id :: string
  rpr_client_response_id :: string
  rpr_accepted :: bool
  rpr_already_applied :: bool
  rpr_last_event_id :: u64
  rpr_status :: chat_status

record interrupt_chat_run_response =
  icr_chat_id :: string
  icr_run_id :: string
  icr_session_group_id :: string
  icr_workspace_id :: string
  icr_status :: chat_status
  icr_interrupt_sent :: bool
  icr_already_interrupting :: bool
  icr_already_terminal :: bool
  icr_last_event_id :: u64

end
