(* ===== verification/Grpc_Base.thy ===== *)
theory Grpc_Base
  imports Task_Notifications Context_Pack Pending_Forms Chat_Types
begin

text \<open>
  The vocabulary of the gRPC layer (\<open>gateway/internal/grpcapi\<close>): chains of checks that stop at the
  first error, the numbers of the wire enumerations (\<open>enums.go\<close>), the errors of requests and the
  statuses that clients get for them (\<open>errors.go\<close>, \<open>service_errors.go\<close>), and the limits of a session
  on the size of a message (\<open>session_limits.go\<close>).  Messages of the generated protocol code are records
  of the fields that the code reads and writes; \<open>size\<close> is \<open>proto.Size\<close>, and \<open>attach\<close> is \<open>WithDetails\<close> of
  a status: the text of its error, if it has one.
\<close>

subsection \<open>Checks\<close>

named_theorems accepts \<open>when a chain of checks returns a value\<close>

definition and_then :: "'e + 'a \<Rightarrow> ('a \<Rightarrow> 'e + 'b) \<Rightarrow> 'e + 'b" where
  "and_then r f = (case r of Inl e \<Rightarrow> Inl e | Inr x \<Rightarrow> f x)"

definition or_fail :: "'e option \<Rightarrow> 'e + 'b \<Rightarrow> 'e + 'b" where
  "or_fail e r = (case e of Some x \<Rightarrow> Inl x | None \<Rightarrow> r)"

definition reject_if :: "bool \<Rightarrow> 'e \<Rightarrow> 'e + 'b \<Rightarrow> 'e + 'b" where
  "reject_if c e r = (if c then Inl e else r)"

text \<open>The same for a check that returns only an error.\<close>

definition first_of :: "'e option \<Rightarrow> 'e option \<Rightarrow> 'e option" where
  "first_of e f = (case e of Some x \<Rightarrow> Some x | None \<Rightarrow> f)"

definition fail_if :: "bool \<Rightarrow> 'e \<Rightarrow> 'e option \<Rightarrow> 'e option" where
  "fail_if c e f = (if c then Some e else f)"

definition accepted :: "'e + 'a \<Rightarrow> bool" where
  "accepted r = (case r of Inl _ \<Rightarrow> False | Inr _ \<Rightarrow> True)"

lemma and_then_simps [simp]: "and_then (Inl e) f = Inl e" "and_then (Inr x) f = f x"
  by (simp_all add: and_then_def)

lemma or_fail_simps [simp]: "or_fail (Some e) r = Inl e" "or_fail None r = r"
  by (simp_all add: or_fail_def)

lemma reject_if_simps [simp]: "reject_if True e r = Inl e" "reject_if False e r = r"
  by (simp_all add: reject_if_def)

lemma and_then_Inr [accepts]: "and_then r f = Inr y \<longleftrightarrow> (\<exists>x. r = Inr x \<and> f x = Inr y)"
  by (cases r) simp_all

lemma or_fail_Inr [accepts]: "or_fail e r = Inr y \<longleftrightarrow> e = None \<and> r = Inr y"
  by (cases e) simp_all

lemma reject_if_Inr [accepts]: "reject_if c e r = Inr y \<longleftrightarrow> \<not> c \<and> r = Inr y"
  by (simp add: reject_if_def)

lemma first_of_None [accepts]: "first_of e f = None \<longleftrightarrow> e = None \<and> f = None"
  by (cases e) (simp_all add: first_of_def)

lemma fail_if_None [accepts]: "fail_if c e f = None \<longleftrightarrow> \<not> c \<and> f = None"
  by (simp add: fail_if_def)

lemma accepted_Inr: "accepted r \<longleftrightarrow> (\<exists>x. r = Inr x)"
  by (cases r) (simp_all add: accepted_def)

subsection \<open>Wire numbers (enums.go)\<close>

text \<open>
  A wire enumeration is an integer, whose value 0 means that it is not specified.  A value of the domain
  has always a number (the default branch of the code is for strings that are no constant); a number
  may be unknown.
\<close>

type_synonym wire = int

definition context_block_kind_from_proto :: "wire \<Rightarrow> context_block_kind option" where
  "context_block_kind_from_proto n = (if n = 1 then Some ContextBlockKindApplication
     else if n = 2 then Some ContextBlockKindUntrusted else None)"

definition context_block_kind_to_proto :: "context_block_kind \<Rightarrow> wire option" where
  "context_block_kind_to_proto k = (case k of ContextBlockKindApplication \<Rightarrow> Some 1
     | ContextBlockKindUntrusted \<Rightarrow> Some 2 | ContextBlockKindOther _ \<Rightarrow> None)"

definition chat_thread_lifecycle_to_proto :: "chat_thread_lifecycle \<Rightarrow> wire option" where
  "chat_thread_lifecycle_to_proto l = Some (case l of ThreadNotLoaded \<Rightarrow> 1 | ThreadIdle \<Rightarrow> 2
     | ThreadActiveRunning \<Rightarrow> 3 | ThreadWaitingOnApproval \<Rightarrow> 4 | ThreadWaitingOnUserInput \<Rightarrow> 5
     | ThreadSystemError \<Rightarrow> 6 | ThreadUnknown \<Rightarrow> 7)"

definition chat_turn_lifecycle_to_proto :: "chat_turn_lifecycle \<Rightarrow> wire option" where
  "chat_turn_lifecycle_to_proto l = Some (case l of TurnInProgress \<Rightarrow> 1 | TurnCompleted \<Rightarrow> 2
     | TurnInterrupted \<Rightarrow> 3 | TurnFailed \<Rightarrow> 4 | TurnUnknown \<Rightarrow> 5 | TurnUnavailable \<Rightarrow> 6)"

definition chat_capability_state_to_proto :: "chat_capability_state \<Rightarrow> wire option" where
  "chat_capability_state_to_proto c = Some (case c of CapabilitySupported \<Rightarrow> 1 | CapabilityUnsupported \<Rightarrow> 2
     | CapabilityUnavailable \<Rightarrow> 3 | CapabilityUnknown \<Rightarrow> 4 | CapabilityNarrowed \<Rightarrow> 5)"

definition chat_history_depth_from_proto :: "wire \<Rightarrow> chat_history_depth option" where
  "chat_history_depth_from_proto n = (if n = 1 then Some DepthTurnSummary else if n = 2 then Some DepthItemLevel else None)"

definition chat_history_depth_to_proto :: "chat_history_depth \<Rightarrow> wire option" where
  "chat_history_depth_to_proto d = Some (case d of DepthTurnSummary \<Rightarrow> 1 | DepthItemLevel \<Rightarrow> 2)"

definition chat_history_sort_direction_from_proto :: "wire \<Rightarrow> chat_history_sort_direction option" where
  "chat_history_sort_direction_from_proto n = (if n = 1 then Some SortAscending else if n = 2 then Some SortDescending else None)"

definition chat_turn_items_view_to_proto :: "chat_turn_items_view \<Rightarrow> wire option" where
  "chat_turn_items_view_to_proto v = Some (case v of ItemsNotLoaded \<Rightarrow> 1 | ItemsSummary \<Rightarrow> 2 | ItemsFullUnsupported \<Rightarrow> 3)"

definition task_state_to_proto :: "task_state \<Rightarrow> wire option" where
  "task_state_to_proto s = Some (case s of TaskStateStarting \<Rightarrow> 1 | TaskStateRunning \<Rightarrow> 2
     | TaskStateWaitingForPendingRequest \<Rightarrow> 3 | TaskStateInterrupting \<Rightarrow> 4 | TaskStateCompleted \<Rightarrow> 5
     | TaskStateFailed \<Rightarrow> 6 | TaskStateInterrupted \<Rightarrow> 7)"

definition task_lifecycle_event_type_to_proto :: "task_lifecycle_event_type \<Rightarrow> wire option" where
  "task_lifecycle_event_type_to_proto e = Some (case e of LifecycleTaskStarted \<Rightarrow> 1 | LifecycleThreadStarted \<Rightarrow> 2
     | LifecycleTurnStarted \<Rightarrow> 3 | LifecycleStateChanged \<Rightarrow> 4)"

definition replay_notice_code_to_proto :: "replay_notice_code \<Rightarrow> wire option" where
  "replay_notice_code_to_proto c = Some (case c of ReplayNoticeStartEvicted \<Rightarrow> 1 | ReplayNoticeCursorEvicted \<Rightarrow> 2)"

definition chat_replay_notice_code_to_proto :: "chat_replay_notice_code \<Rightarrow> wire option" where
  "chat_replay_notice_code_to_proto c = Some (case c of ChatStartEvicted \<Rightarrow> 1 | ChatCursorEvicted \<Rightarrow> 2
     | ChatUnavailableAfterRestart \<Rightarrow> 3 | ChatNarrowedToLive \<Rightarrow> 4)"

definition tool_state_to_proto :: "tool_state \<Rightarrow> wire option" where
  "tool_state_to_proto s = Some (case s of ToolStateStarted \<Rightarrow> 1 | ToolStateRunning \<Rightarrow> 2
     | ToolStateCompleted \<Rightarrow> 3 | ToolStateFailed \<Rightarrow> 4)"

definition pending_type_to_proto :: "pending_type \<Rightarrow> wire option" where
  "pending_type_to_proto t = Some (case t of PendingTypeCommandApproval \<Rightarrow> 1 | PendingTypeFileChangeApproval \<Rightarrow> 2
     | PendingTypePermissionsApproval \<Rightarrow> 3 | PendingTypeMcpElicitation \<Rightarrow> 4 | PendingTypeToolUserInput \<Rightarrow> 5)"

definition pending_resolution_to_proto :: "pending_resolution \<Rightarrow> wire option" where
  "pending_resolution_to_proto r = Some (case r of PendingResolutionAccepted \<Rightarrow> 1 | PendingResolutionDeclined \<Rightarrow> 2
     | PendingResolutionCancelled \<Rightarrow> 3 | PendingResolutionGranted \<Rightarrow> 4 | PendingResolutionDenied \<Rightarrow> 5
     | PendingResolutionAnswered \<Rightarrow> 6 | PendingResolutionExpired \<Rightarrow> 7 | PendingResolutionCleared \<Rightarrow> 8
     | PendingResolutionFailed \<Rightarrow> 9)"

definition terminal_state_to_proto :: "terminal_state \<Rightarrow> wire option" where
  "terminal_state_to_proto s = Some (case s of TerminalStateCompleted \<Rightarrow> 1 | TerminalStateFailed \<Rightarrow> 2
     | TerminalStateInterrupted \<Rightarrow> 3)"

definition approval_wire_decision_to_proto :: "approval_wire_decision \<Rightarrow> wire option" where
  "approval_wire_decision_to_proto d = Some (case d of WireDecisionAccept \<Rightarrow> 1 | WireDecisionAcceptForSession \<Rightarrow> 2
     | WireDecisionDecline \<Rightarrow> 3 | WireDecisionCancel \<Rightarrow> 4)"

definition approval_wire_decision_from_proto :: "wire \<Rightarrow> approval_wire_decision option" where
  "approval_wire_decision_from_proto n = (if n = 1 then Some WireDecisionAccept
     else if n = 2 then Some WireDecisionAcceptForSession else if n = 3 then Some WireDecisionDecline
     else if n = 4 then Some WireDecisionCancel else None)"

text \<open>\<open>ApprovalDecisionAppServerWire\<close> without the text of its error.\<close>

definition approval_decision_app_server_wire :: "wire \<Rightarrow> string option" where
  "approval_decision_app_server_wire n = map_option app_server_wire_value (approval_wire_decision_from_proto n)"

definition permission_scope_to_proto :: "permission_scope \<Rightarrow> wire option" where
  "permission_scope_to_proto s = Some (case s of PermissionScopeTurn \<Rightarrow> 1 | PermissionScopeSession \<Rightarrow> 2)"

definition permission_scope_from_proto :: "wire \<Rightarrow> permission_scope option" where
  "permission_scope_from_proto n = (if n = 1 then Some PermissionScopeTurn
     else if n = 2 then Some PermissionScopeSession else None)"

definition elicitation_mode_to_proto :: "elicitation_mode \<Rightarrow> wire option" where
  "elicitation_mode_to_proto m = Some (case m of ElicitationModeForm \<Rightarrow> 1 | ElicitationModeURL \<Rightarrow> 2)"

definition mcp_elicitation_action_from_proto :: "wire \<Rightarrow> mcp_elicitation_action option" where
  "mcp_elicitation_action_from_proto n = (if n = 1 then Some McpElicitationActionAccept
     else if n = 2 then Some McpElicitationActionDecline else if n = 3 then Some McpElicitationActionCancel else None)"

lemmas to_proto_defs = task_state_to_proto_def task_lifecycle_event_type_to_proto_def replay_notice_code_to_proto_def
  tool_state_to_proto_def pending_type_to_proto_def pending_resolution_to_proto_def terminal_state_to_proto_def
  approval_wire_decision_to_proto_def permission_scope_to_proto_def elicitation_mode_to_proto_def
  chat_thread_lifecycle_to_proto_def chat_turn_lifecycle_to_proto_def chat_capability_state_to_proto_def
  chat_history_depth_to_proto_def chat_turn_items_view_to_proto_def chat_replay_notice_code_to_proto_def

text \<open>A number read back is the value it was written for.\<close>

lemma wire_numbers_read_back:
  "context_block_kind_to_proto k = Some n \<Longrightarrow> context_block_kind_from_proto n = Some k"
  "chat_history_depth_to_proto d = Some n \<Longrightarrow> chat_history_depth_from_proto n = Some d"
  "approval_wire_decision_to_proto w = Some n \<Longrightarrow> approval_wire_decision_from_proto n = Some w"
  "permission_scope_to_proto s = Some n \<Longrightarrow> permission_scope_from_proto n = Some s"
  by (auto simp: context_block_kind_to_proto_def context_block_kind_from_proto_def to_proto_defs
      chat_history_depth_from_proto_def approval_wire_decision_from_proto_def permission_scope_from_proto_def
      split: context_block_kind.splits chat_history_depth.splits approval_wire_decision.splits permission_scope.splits)

text \<open>The reason as the text of its constant (\<open>domain/errors.go\<close>).\<close>

definition reason_text :: "gateway_error_reason \<Rightarrow> string" where
  "reason_text r = (case r of ReasonNone \<Rightarrow> []
   | ReasonInvalidRequest \<Rightarrow> ''invalid_request'' | ReasonUnauthenticated \<Rightarrow> ''unauthenticated''
   | ReasonInvalidLocator \<Rightarrow> ''invalid_locator'' | ReasonWorkspaceMismatch \<Rightarrow> ''workspace_mismatch''
   | ReasonMutuallyExclusiveCursors \<Rightarrow> ''mutually_exclusive_cursors'' | ReasonInvalidCursor \<Rightarrow> ''invalid_cursor''
   | ReasonResponseTypeMismatch \<Rightarrow> ''response_type_mismatch''
   | ReasonPendingResponseFingerprintMismatch \<Rightarrow> ''pending_response_fingerprint_mismatch''
   | ReasonPendingRequestAlreadyResolved \<Rightarrow> ''pending_request_already_resolved''
   | ReasonPendingUnavailableAfterRestart \<Rightarrow> ''pending_unavailable_after_restart''
   | ReasonInvalidEnum \<Rightarrow> ''invalid_enum'' | ReasonRequestTooLarge \<Rightarrow> ''request_too_large''
   | ReasonUnknownSessionGroup \<Rightarrow> ''unknown_session_group'' | ReasonUnknownTask \<Rightarrow> ''unknown_task''
   | ReasonUnknownPendingRequest \<Rightarrow> ''unknown_pending_request''
   | ReasonUnknownThreadBinding \<Rightarrow> ''unknown_thread_binding'' | ReasonUnknownChat \<Rightarrow> ''unknown_chat''
   | ReasonThreadBindingExpired \<Rightarrow> ''thread_binding_expired'' | ReasonAmbiguousLocator \<Rightarrow> ''ambiguous_locator''
   | ReasonAlreadyRunning \<Rightarrow> ''already_running''
   | ReasonIdempotencyFingerprintMismatch \<Rightarrow> ''idempotency_fingerprint_mismatch''
   | ReasonIdempotencyScopeMismatch \<Rightarrow> ''idempotency_scope_mismatch''
   | ReasonIdempotencyResultUnavailable \<Rightarrow> ''idempotency_result_unavailable''
   | ReasonIdempotencyUnavailableAfterRestart \<Rightarrow> ''idempotency_unavailable_after_restart''
   | ReasonReplayUnavailable \<Rightarrow> ''replay_unavailable'' | ReasonReplayOutOfRange \<Rightarrow> ''replay_out_of_range''
   | ReasonHistoryUnavailable \<Rightarrow> ''history_unavailable'' | ReasonChatStateUnavailable \<Rightarrow> ''chat_state_unavailable''
   | ReasonCodexHomeMismatch \<Rightarrow> ''codex_home_mismatch'' | ReasonAuthRefreshUnavailable \<Rightarrow> ''auth_refresh_unavailable''
   | ReasonAppServerSchemaUnverified \<Rightarrow> ''app_server_schema_unverified''
   | ReasonUnsafeRuntimePolicy \<Rightarrow> ''unsafe_runtime_policy'' | ReasonUnsafeListenConfig \<Rightarrow> ''unsafe_listen_config''
   | ReasonStartInterruptedBeforeTurn \<Rightarrow> ''start_interrupted_before_turn''
   | ReasonCallerCanceled \<Rightarrow> ''caller_canceled'' | ReasonCallerDeadlineExceeded \<Rightarrow> ''caller_deadline_exceeded''
   | ReasonResourceExhausted \<Rightarrow> ''request_resource_exhausted'' | ReasonDispatcherUnavailable \<Rightarrow> ''dispatcher_unavailable''
   | ReasonAppServerExited \<Rightarrow> ''app_server_exited'' | ReasonAppServerRestartBackoff \<Rightarrow> ''app_server_restart_backoff''
   | ReasonChatRuntimeDisabled \<Rightarrow> ''chat_runtime_disabled''
   | ReasonChatRuntimeNotImplemented \<Rightarrow> ''chat_runtime_not_implemented''
   | ReasonInternalGatewayError \<Rightarrow> ''internal_gateway_error'')"

end
