(* ===== verification/Grpc_Limits.thy ===== *)
theory Grpc_Limits
  imports Grpc_Base
begin

text \<open>
  The checks that a value of the domain has to pass before it is sent to a client
  (\<open>mapping_string_limits.go\<close>, \<open>mapping_required_fields.go\<close>, \<open>mapping_failure.go\<close> of
  \<open>gateway/internal/grpcapi\<close>): its ids are there, short and trimmed, its texts are short, its lists are
  short, and what a user can choose is safe.  A payload is never a nil pointer here.
\<close>

subsection \<open>Limits (domain/limits.go)\<close>

definition max_active_pending_requests :: nat where "max_active_pending_requests = 64"
definition max_outbound_mcp_form_schema_bytes :: int where "max_outbound_mcp_form_schema_bytes = 32 * 1024"
definition max_pending_display_payload_bytes :: int where "max_pending_display_payload_bytes = 64 * 1024"
definition max_pending_display_string_bytes :: int where
  "max_pending_display_string_bytes = max_pending_display_payload_bytes"

subsection \<open>Failures and checks of single values\<close>

record mapping_failure =
  mf_reason :: gateway_error_reason
  mf_message :: string

definition invalid_mapping_failure :: "string \<Rightarrow> mapping_failure" where
  "invalid_mapping_failure message = \<lparr>mf_reason = ReasonInternalGatewayError, mf_message = message\<rparr>"

definition resource_exhausted_mapping_failure :: "string \<Rightarrow> mapping_failure" where
  "resource_exhausted_mapping_failure message = \<lparr>mf_reason = ReasonResourceExhausted, mf_message = message\<rparr>"

definition has_invalid_outbound_public_id_shape :: "string \<Rightarrow> bool" where
  "has_invalid_outbound_public_id_shape v \<longleftrightarrow> v \<noteq> [] \<and> trim_space v \<noteq> v"

definition unsafe_outbound_public_id :: "string \<Rightarrow> bool" where
  "unsafe_outbound_public_id v \<longleftrightarrow> length v > max_public_id_bytes \<or> has_invalid_outbound_public_id_shape v"

text \<open>A check is the name of a field and its value, or its name, value and limit.\<close>

fun outbound_public_id_mapping_failure :: "(string \<times> string) list \<Rightarrow> mapping_failure option" where
  "outbound_public_id_mapping_failure [] = None"
| "outbound_public_id_mapping_failure ((field, v) # checks) =
     fail_if (length v > max_public_id_bytes)
       (resource_exhausted_mapping_failure (field @ '' exceeds outbound public id cap''))
     (fail_if (has_invalid_outbound_public_id_shape v)
       (invalid_mapping_failure (field @ '' must not have leading or trailing whitespace''))
     (outbound_public_id_mapping_failure checks))"

declare outbound_public_id_mapping_failure.simps [simp del]

fun outbound_string_mapping_failure :: "(string \<times> string \<times> int) list \<Rightarrow> mapping_failure option" where
  "outbound_string_mapping_failure [] = None"
| "outbound_string_mapping_failure ((field, v, limit) # checks) =
     fail_if (int (length v) > limit) (resource_exhausted_mapping_failure (field @ '' exceeds outbound cap''))
     (outbound_string_mapping_failure checks)"

text \<open>The bytes of a display add up; the second argument is the sum so far.\<close>

fun budget_add :: "(string \<times> string \<times> int) list \<Rightarrow> int \<Rightarrow> mapping_failure + int" where
  "budget_add [] used = Inr used"
| "budget_add (c # checks) used =
     or_fail (outbound_string_mapping_failure [c])
     (let used = i64 (used + int (length (fst (snd c)))) in
      reject_if (used > max_pending_display_payload_bytes)
        (resource_exhausted_mapping_failure ''pending display payload exceeds outbound cap'')
      (budget_add checks used))"

definition failure_of :: "mapping_failure + 'a \<Rightarrow> mapping_failure option" where
  "failure_of r = (case r of Inl e \<Rightarrow> Some e | Inr _ \<Rightarrow> None)"

subsection \<open>Events\<close>

definition replay_notice_mapping_failure :: "replay_notice \<Rightarrow> mapping_failure option" where
  "replay_notice_mapping_failure n =
     fail_if (replay_notice_code_to_proto (rn_code n) = None) (invalid_mapping_failure ''replay notice has invalid code'')
     (outbound_string_mapping_failure
       [(''replay notice message'', rn_message n, max_outbound_error_display_message_bytes)])"

definition task_lifecycle_event_mapping_failure :: "task_lifecycle_event \<Rightarrow> mapping_failure option" where
  "task_lifecycle_event_mapping_failure e = outbound_string_mapping_failure
     [(''lifecycle reason_code'', tl_reason_code e, max_source_label_bytes),
      (''lifecycle display message'', tl_display_message e, max_outbound_error_display_message_bytes)]"

definition assistant_delta_event_mapping_failure :: "assistant_delta_event \<Rightarrow> mapping_failure option" where
  "assistant_delta_event_mapping_failure e = outbound_string_mapping_failure
     [(''assistant text delta'', ad_text_delta e, max_outbound_assistant_text_bytes)]"

definition assistant_message_completed_event_mapping_failure ::
  "assistant_message_completed_event \<Rightarrow> mapping_failure option" where
  "assistant_message_completed_event_mapping_failure e = outbound_string_mapping_failure
     [(''assistant completed message'', am_message e, max_outbound_assistant_text_bytes)]"

fun plan_steps_mapping_failure :: "(string \<times> string) list \<Rightarrow> mapping_failure option" where
  "plan_steps_mapping_failure [] = None"
| "plan_steps_mapping_failure ((step, st) # steps) =
     first_of (outbound_string_mapping_failure
       [(''plan step'', step, max_pending_display_string_bytes),
        (''plan step status'', st, max_pending_display_string_bytes)])
     (plan_steps_mapping_failure steps)"

definition plan_updated_mapping_failure :: "string \<Rightarrow> (string \<times> string) list \<Rightarrow> mapping_failure option" where
  "plan_updated_mapping_failure explanation steps =
     fail_if (length steps > max_plan_steps) (resource_exhausted_mapping_failure ''plan step count exceeds outbound cap'')
     (first_of (outbound_string_mapping_failure
       [(''plan explanation'', explanation, max_pending_display_string_bytes)])
     (plan_steps_mapping_failure steps))"

text \<open>The checks that an item's event begins with.\<close>

definition item_id_failure :: "string \<Rightarrow> string \<Rightarrow> string \<Rightarrow> mapping_failure option \<Rightarrow> mapping_failure option" where
  "item_id_failure missing field v rest =
     fail_if (v = []) (invalid_mapping_failure missing)
     (first_of (outbound_public_id_mapping_failure [(field, v)]) rest)"

definition tool_progress_event_mapping_failure :: "tool_progress_event \<Rightarrow> mapping_failure option" where
  "tool_progress_event_mapping_failure e =
     item_id_failure ''tool progress event is missing item_id'' ''tool progress item_id'' (tp_item_id e)
     (outbound_string_mapping_failure
       [(''tool name'', tp_tool_name e, max_pending_display_string_bytes),
        (''tool progress summary'', tp_summary e, max_pending_display_string_bytes)])"

definition command_started_event_mapping_failure :: "command_started_event \<Rightarrow> mapping_failure option" where
  "command_started_event_mapping_failure e =
     item_id_failure ''command started event is missing item_id'' ''command started item_id'' (cs_item_id e)
     (outbound_string_mapping_failure
       [(''command display'', cs_command_display e, max_command_display_bytes),
        (''workspace label'', cs_workspace_label e, max_source_label_bytes)])"

definition command_output_delta_event_mapping_failure :: "command_output_delta_event \<Rightarrow> mapping_failure option" where
  "command_output_delta_event_mapping_failure e =
     item_id_failure ''command output delta event is missing item_id'' ''command output delta item_id'' (co_item_id e)
     (outbound_string_mapping_failure
       [(''command output delta'', co_delta e, max_outbound_command_output_delta_bytes)])"

definition file_diff_updated_event_mapping_failure :: "file_diff_updated_event \<Rightarrow> mapping_failure option" where
  "file_diff_updated_event_mapping_failure e =
     item_id_failure ''file diff updated event is missing item_id'' ''file diff updated item_id'' (fu_item_id e)
     (outbound_string_mapping_failure
       [(''file label'', fu_file_label e, max_source_label_bytes),
        (''change kind'', fu_change_kind e, max_pending_display_string_bytes),
        (''file diff summary'', fu_diff_summary e, max_diff_display_bytes),
        (''file diff unified'', fu_diff_unified e, max_diff_display_bytes)])"

definition turn_diff_updated_event_mapping_failure :: "string \<Rightarrow> string \<Rightarrow> mapping_failure option" where
  "turn_diff_updated_event_mapping_failure summary unified = outbound_string_mapping_failure
     [(''turn diff summary'', summary, max_diff_display_bytes),
      (''turn diff unified'', unified, max_diff_display_bytes)]"

definition pending_request_resolved_event_mapping_failure ::
  "string \<Rightarrow> pending_type \<Rightarrow> pending_resolution \<Rightarrow> string \<Rightarrow> mapping_failure option" where
  "pending_request_resolved_event_mapping_failure pid ty resolution message =
     item_id_failure ''pending request resolved event is missing pending_request_id''
       ''pending request resolved pending_request_id'' pid
     (fail_if (pending_type_to_proto ty = None)
       (invalid_mapping_failure ''pending request resolved event has invalid pending_type'')
     (fail_if (pending_resolution_to_proto resolution = None)
       (invalid_mapping_failure ''pending request resolved event has invalid resolution'')
     (outbound_string_mapping_failure
       [(''pending resolved display message'', message, max_outbound_error_display_message_bytes)])))"

definition task_terminal_event_mapping_failure :: "task_terminal_event \<Rightarrow> mapping_failure option" where
  "task_terminal_event_mapping_failure e =
     fail_if (terminal_state_to_proto (tt_terminal_state e) = None)
       (invalid_mapping_failure ''terminal event has invalid state'')
     (outbound_string_mapping_failure
       [(''terminal result summary'', tt_result_summary e, max_outbound_error_display_message_bytes),
        (''terminal error message'', tt_error_message e, max_outbound_error_display_message_bytes)])"

definition gateway_warning_event_mapping_failure :: "gateway_warning_event \<Rightarrow> mapping_failure option" where
  "gateway_warning_event_mapping_failure e = outbound_string_mapping_failure
     [(''gateway warning code'', gw_code e, max_source_label_bytes),
      (''gateway warning message'', gw_message e, max_outbound_error_display_message_bytes),
      (''gateway warning request type'', gw_request_type e, max_source_label_bytes),
      (''gateway warning auto resolution'', gw_auto_resolution e, max_source_label_bytes),
      (''gateway warning limit reason'', gw_limit_reason e, max_source_label_bytes)]"

subsection \<open>Displays of pending requests\<close>

text \<open>The loop over the options of an approval: the ids seen, whether a safe one can be selected, the sum.\<close>

fun decision_options_loop ::
  "bool \<Rightarrow> approval_decision_option list \<Rightarrow> string list \<Rightarrow> bool \<Rightarrow> int \<Rightarrow> mapping_failure + bool \<times> int" where
  "decision_options_loop reject_approve [] seen safe used = Inr (safe, used)"
| "decision_options_loop reject_approve (o1 # os) seen safe used =
     reject_if (ao_decision_id o1 = []) (invalid_mapping_failure ''approval decision option is missing decision_id'')
     (or_fail (outbound_public_id_mapping_failure [(''approval decision option decision_id'', ao_decision_id o1)])
     (reject_if (ao_decision_id o1 \<in> set seen)
       (invalid_mapping_failure ''approval decision option has duplicate decision_id'')
     (or_fail (case ao_wire_decision o1 of
         None \<Rightarrow> fail_if (ao_selectable o1)
           (invalid_mapping_failure ''selectable approval decision option is missing wire_decision'') None
       | Some w \<Rightarrow> fail_if (approval_wire_decision_to_proto w = None)
           (invalid_mapping_failure ''approval decision option has invalid wire_decision'') None)
     (reject_if (reject_approve \<and> ao_selectable o1 \<and>
         (ao_wire_decision o1 = Some WireDecisionAccept \<or> ao_wire_decision o1 = Some WireDecisionAcceptForSession))
       (invalid_mapping_failure ''selectable approve decision option is unsafe'')
     (and_then (budget_add
         [(''approval decision display label'', ao_display_label o1, max_pending_display_string_bytes),
          (''approval decision summary'', ao_summary o1, max_outbound_error_display_message_bytes),
          (''approval decision unsupported reason'', ao_unsupported_reason o1, max_outbound_error_display_message_bytes)]
         used)
       (decision_options_loop reject_approve os (ao_decision_id o1 # seen)
         (safe \<or> ao_selectable o1 \<and>
           (ao_wire_decision o1 = Some WireDecisionDecline \<or> ao_wire_decision o1 = Some WireDecisionCancel))))))))"

text \<open>Both callers ask for a selectable safe decision; the first argument is \<open>rejectSelectableApprove\<close>.\<close>

definition approval_decision_options_mapping_failure ::
  "bool \<Rightarrow> approval_decision_option list \<Rightarrow> int \<Rightarrow> mapping_failure + int" where
  "approval_decision_options_mapping_failure reject_approve os used =
     reject_if (length os > max_decision_options)
       (resource_exhausted_mapping_failure ''approval decision option count exceeds outbound cap'')
     (reject_if (os = [])
       (invalid_mapping_failure ''approval display is missing a selectable safe direct decision option'')
     (and_then (decision_options_loop reject_approve os [] False used) (\<lambda>(safe, used).
       reject_if (\<not> safe)
         (invalid_mapping_failure ''approval display is missing a selectable safe direct decision option'')
       (Inr used))))"

fun filesystem_entries_loop :: "additional_filesystem_entry list \<Rightarrow> int \<Rightarrow> mapping_failure + int" where
  "filesystem_entries_loop [] used = Inr used"
| "filesystem_entries_loop (en # ens) used =
     reject_if (af_entry_id en = []) (invalid_mapping_failure ''approval security filesystem entry is missing entry_id'')
     (or_fail (outbound_public_id_mapping_failure [(''approval security filesystem entry_id'', af_entry_id en)])
     (and_then (budget_add
         [(''approval security filesystem access'', af_access en, max_pending_display_string_bytes),
          (''approval security filesystem path label'', af_path_label en, max_source_label_bytes),
          (''approval security filesystem unapprovable reason'', af_unapprovable_reason en,
            max_outbound_error_display_message_bytes)] used)
       (filesystem_entries_loop ens)))"

fun network_summaries_loop :: "network_policy_amendment_summary list \<Rightarrow> int \<Rightarrow> mapping_failure + int" where
  "network_summaries_loop [] used = Inr used"
| "network_summaries_loop (n # ns) used =
     reject_if (np_approvable n) (invalid_mapping_failure ''network policy amendment summary must not be approvable'')
     (and_then (budget_add
         [(''approval security network host label'', np_host_label n, max_pending_display_string_bytes),
          (''approval security network action'', np_action n, max_pending_display_string_bytes)] used)
       (network_summaries_loop ns))"

definition approval_security_metadata_mapping_failure ::
  "approval_security_metadata \<Rightarrow> int \<Rightarrow> mapping_failure + int" where
  "approval_security_metadata_mapping_failure m used =
     and_then (case as_network_context m of None \<Rightarrow> Inr used
       | Some (host, protocol) \<Rightarrow> budget_add
           [(''approval security host label'', host, max_pending_display_string_bytes),
            (''approval security protocol'', protocol, max_pending_display_string_bytes)] used)
     (\<lambda>used. and_then (filesystem_entries_loop (as_additional_filesystem_entries m) used)
     (\<lambda>used. and_then (case as_exec_policy_amendment_summary m of None \<Rightarrow> Inr used
       | Some (command, truncated) \<Rightarrow> budget_add
           [(''approval security exec policy command display'', command, max_command_display_bytes)] used)
     (\<lambda>used. and_then (network_summaries_loop (as_network_policy_amendment_summaries m) used)
     (budget_add [(''approval security blocking reason'', as_blocking_reason m,
       max_outbound_error_display_message_bytes)]))))"

definition file_grant_root_display_mapping_failure ::
  "file_grant_root_display option \<Rightarrow> int \<Rightarrow> mapping_failure + int" where
  "file_grant_root_display_mapping_failure d used =
     (case d of None \<Rightarrow> Inr used | Some r \<Rightarrow>
       reject_if (gr_present r \<and> gr_approvable r \<and> \<not> gr_under_configured_cwd r)
         (invalid_mapping_failure ''file grant root must not be approvable outside configured cwd'')
       (reject_if (gr_present r \<and> gr_approvable r \<and> trim_space (gr_root_label r) = [])
         (invalid_mapping_failure ''approvable file grant root is missing root label'')
       (budget_add
         [(''file grant root label'', gr_root_label r, max_source_label_bytes),
          (''file grant root unapprovable reason'', gr_unapprovable_reason r,
            max_outbound_error_display_message_bytes)] used)))"

definition security_blocks :: "approval_security_metadata option \<Rightarrow> bool" where
  "security_blocks m = (case m of None \<Rightarrow> False | Some m \<Rightarrow> as_blocking_reason m \<noteq> [])"

definition grant_root_blocks :: "file_grant_root_display option \<Rightarrow> bool" where
  "grant_root_blocks d = (case d of None \<Rightarrow> False | Some r \<Rightarrow> gr_present r \<and> \<not> gr_approvable r)"

definition command_approval_display_mapping_failure :: "command_approval_display \<Rightarrow> int \<Rightarrow> mapping_failure + int" where
  "command_approval_display_mapping_failure d used =
     and_then (approval_decision_options_mapping_failure (security_blocks (cd_approval_security d))
       (cd_decision_options d) used)
     (\<lambda>used. and_then (budget_add
       [(''command approval command display'', cd_command_display d, max_command_display_bytes),
        (''command approval workspace label'', cd_workspace_label d, max_source_label_bytes),
        (''command approval reason'', cd_reason d, max_outbound_error_display_message_bytes)] used)
     (\<lambda>used. case cd_approval_security d of None \<Rightarrow> Inr used | Some m \<Rightarrow>
       reject_if (length (as_additional_filesystem_entries m) + length (as_network_policy_amendment_summaries m)
           > max_security_entries)
         (resource_exhausted_mapping_failure ''approval security metadata entry count exceeds outbound cap'')
       (approval_security_metadata_mapping_failure m used)))"

definition file_change_approval_display_mapping_failure ::
  "file_change_approval_display \<Rightarrow> int \<Rightarrow> mapping_failure + int" where
  "file_change_approval_display_mapping_failure d used =
     and_then (approval_decision_options_mapping_failure (grant_root_blocks (fd_grant_root d))
       (fd_decision_options d) used)
     (\<lambda>used. and_then (budget_add
       [(''file approval file label'', fd_file_label d, max_source_label_bytes),
        (''file approval change kind'', fd_change_kind d, max_pending_display_string_bytes),
        (''file approval diff summary'', fd_diff_summary d, max_diff_display_bytes),
        (''file approval diff unified'', fd_diff_unified d, max_diff_display_bytes)] used)
     (file_grant_root_display_mapping_failure (fd_grant_root d)))"

fun permission_atoms_loop :: "permission_atom list \<Rightarrow> string list \<Rightarrow> int \<Rightarrow> mapping_failure + int" where
  "permission_atoms_loop [] seen used = Inr used"
| "permission_atoms_loop (p # ps) seen used =
     reject_if (pa_permission_id p = []) (invalid_mapping_failure ''permission atom is missing permission_id'')
     (or_fail (outbound_public_id_mapping_failure [(''permission atom permission_id'', pa_permission_id p)])
     (reject_if (pa_permission_id p \<in> set seen)
       (invalid_mapping_failure ''permission atom has duplicate permission_id'')
     (and_then (budget_add
         [(''permission kind'', pa_kind p, max_pending_display_string_bytes),
          (''permission display label'', pa_display_label p, max_pending_display_string_bytes),
          (''permission scope label'', pa_scope_label p, max_pending_display_string_bytes),
          (''permission ungrantable reason'', pa_ungrantable_reason p, max_outbound_error_display_message_bytes)] used)
       (permission_atoms_loop ps (pa_permission_id p # seen)))))"

definition permissions_approval_display_mapping_failure ::
  "permissions_approval_display \<Rightarrow> int \<Rightarrow> mapping_failure + int" where
  "permissions_approval_display_mapping_failure d used =
     reject_if (permission_scope_to_proto (pd_recommended_scope d) = None)
       (invalid_mapping_failure ''permissions approval display has invalid recommended scope'')
     (reject_if (length (pd_requested_permissions d) > max_permission_atoms)
       (resource_exhausted_mapping_failure ''permission atom count exceeds outbound cap'')
     (and_then (budget_add
         [(''permissions approval reason'', pd_reason d, max_outbound_error_display_message_bytes)] used)
       (permission_atoms_loop (pd_requested_permissions d) [])))"

definition mcp_elicitation_display_mapping_failure :: "mcp_elicitation_display \<Rightarrow> int \<Rightarrow> mapping_failure + int" where
  "mcp_elicitation_display_mapping_failure d used =
     reject_if (elicitation_mode_to_proto (md_mode d) = None)
       (invalid_mapping_failure ''mcp elicitation display has invalid mode'')
     (budget_add
       [(''mcp elicitation message'', md_message d, max_pending_display_string_bytes),
        (''mcp elicitation form schema JSON'', md_form_schema_json d, max_outbound_mcp_form_schema_bytes),
        (''mcp elicitation url'', md_url d, max_context_uri_bytes),
        (''mcp elicitation submit label'', md_submit_label d, max_pending_display_string_bytes)] used)"

fun question_options_loop :: "string list \<Rightarrow> int \<Rightarrow> mapping_failure + int" where
  "question_options_loop [] used = Inr used"
| "question_options_loop (x # xs) used =
     and_then (budget_add [(''tool user input option'', x, max_pending_display_string_bytes)] used)
       (question_options_loop xs)"

fun questions_loop :: "tool_user_input_question list \<Rightarrow> string list \<Rightarrow> int \<Rightarrow> mapping_failure + int" where
  "questions_loop [] seen used = Inr used"
| "questions_loop (q # qs) seen used =
     reject_if (tq_id q = []) (invalid_mapping_failure ''tool user input question is missing id'')
     (or_fail (outbound_public_id_mapping_failure [(''tool user input question id'', tq_id q)])
     (reject_if (tq_id q \<in> set seen) (invalid_mapping_failure ''tool user input question has duplicate id'')
     (reject_if (length (tq_options q) > max_question_options)
       (resource_exhausted_mapping_failure ''tool user input option count exceeds outbound cap'')
     (and_then (budget_add
         [(''tool user input header'', tq_header q, max_pending_display_string_bytes),
          (''tool user input question'', tq_question q, max_pending_display_string_bytes)] used)
     (\<lambda>used. and_then (question_options_loop (tq_options q) used)
       (questions_loop qs (tq_id q # seen)))))))"

definition tool_user_input_display_mapping_failure ::
  "tool_user_input_question list \<Rightarrow> int \<Rightarrow> mapping_failure + int" where
  "tool_user_input_display_mapping_failure qs used =
     reject_if (length qs > max_questions)
       (resource_exhausted_mapping_failure ''tool user input question count exceeds outbound cap'')
     (questions_loop qs [] used)"

definition pending_request_display_mapping_failure :: "pending_request_display \<Rightarrow> mapping_failure option" where
  "pending_request_display_mapping_failure d = failure_of (case d of
      CommandApproval c \<Rightarrow> command_approval_display_mapping_failure c 0
    | FileChangeApproval f \<Rightarrow> file_change_approval_display_mapping_failure f 0
    | PermissionsApproval p \<Rightarrow> permissions_approval_display_mapping_failure p 0
    | McpElicitation m \<Rightarrow> mcp_elicitation_display_mapping_failure m 0
    | ToolUserInput qs \<Rightarrow> tool_user_input_display_mapping_failure qs 0)"

definition pending_request_created_event_mapping_failure ::
  "string \<Rightarrow> pending_type \<Rightarrow> pending_request_display \<Rightarrow> mapping_failure option" where
  "pending_request_created_event_mapping_failure pid ty d =
     item_id_failure ''pending request created event is missing pending_request_id''
       ''pending request created pending_request_id'' pid
     (fail_if (pending_type_to_proto ty = None)
       (invalid_mapping_failure ''pending request created event has invalid pending_type'')
     (pending_request_display_mapping_failure d))"

subsection \<open>Whole messages (mapping_required_fields.go, mapping_failure.go)\<close>

definition task_event_payload_mapping_failure :: "task_event_payload \<Rightarrow> mapping_failure option" where
  "task_event_payload_mapping_failure p = (case p of
      TaskLifecycle e \<Rightarrow> task_lifecycle_event_mapping_failure e
    | AssistantDelta e \<Rightarrow> assistant_delta_event_mapping_failure e
    | AssistantMessageCompleted e \<Rightarrow> assistant_message_completed_event_mapping_failure e
    | PlanUpdated explanation steps \<Rightarrow> plan_updated_mapping_failure explanation steps
    | ToolProgress e \<Rightarrow> tool_progress_event_mapping_failure e
    | CommandStarted e \<Rightarrow> command_started_event_mapping_failure e
    | CommandOutputDelta e \<Rightarrow> command_output_delta_event_mapping_failure e
    | FileDiffUpdated e \<Rightarrow> file_diff_updated_event_mapping_failure e
    | TurnDiffUpdated summary unified truncated \<Rightarrow> turn_diff_updated_event_mapping_failure summary unified
    | PendingRequestCreated pid ty d \<Rightarrow> pending_request_created_event_mapping_failure pid ty d
    | PendingRequestResolved pid ty resolution message \<Rightarrow>
        pending_request_resolved_event_mapping_failure pid ty resolution message
    | TaskTerminal e \<Rightarrow> task_terminal_event_mapping_failure e
    | GatewayWarning e \<Rightarrow> gateway_warning_event_mapping_failure e)"

definition task_event_mapping_failure :: "task_event \<Rightarrow> mapping_failure option" where
  "task_event_mapping_failure e =
     fail_if (te_event_id e = 0 \<or> te_task_id e = [] \<or> te_session_group_id e = [])
       (invalid_mapping_failure ''task event is missing a required identity field'')
     (first_of (outbound_public_id_mapping_failure
       [(''task event task_id'', te_task_id e), (''task event session_group_id'', te_session_group_id e),
        (''task event workspace_id'', te_workspace_id e), (''task event thread_id'', te_thread_id e),
        (''task event turn_id'', te_turn_id e)])
     (task_event_payload_mapping_failure (te_payload e)))"

definition start_task_response_mapping_failure :: "start_task_response \<Rightarrow> mapping_failure option" where
  "start_task_response_mapping_failure r =
     fail_if (sp_task_id r = [] \<or> sp_thread_id r = [] \<or> sp_turn_id r = [] \<or> sp_session_group_id r = [])
       (invalid_mapping_failure ''start task response is missing a required id'')
     (outbound_public_id_mapping_failure
       [(''start task response task_id'', sp_task_id r), (''start task response thread_id'', sp_thread_id r),
        (''start task response turn_id'', sp_turn_id r),
        (''start task response session_group_id'', sp_session_group_id r)])"

definition pending_request_mapping_failure :: "pending_request \<Rightarrow> mapping_failure option" where
  "pending_request_mapping_failure r =
     fail_if (pr_pending_request_id r = [] \<or> pr_task_id r = [])
       (invalid_mapping_failure ''pending request is missing a required identity field'')
     (first_of (outbound_public_id_mapping_failure
       [(''pending request pending_request_id'', pr_pending_request_id r), (''pending request task_id'', pr_task_id r),
        (''pending request thread_id'', pr_thread_id r), (''pending request turn_id'', pr_turn_id r),
        (''pending request item_id'', pr_item_id r)])
     (fail_if (pending_type_to_proto (pr_pending_type r) = None)
       (invalid_mapping_failure ''pending request has invalid pending_type'')
     (pending_request_display_mapping_failure (pr_display r))))"

fun active_pending_mapping_failure :: "string \<Rightarrow> pending_request list \<Rightarrow> mapping_failure option" where
  "active_pending_mapping_failure task_id [] = None"
| "active_pending_mapping_failure task_id (r # rs) =
     fail_if (pr_task_id r \<noteq> task_id)
       (invalid_mapping_failure ''active pending request task_id does not match status response task_id'')
     (first_of (pending_request_mapping_failure r) (active_pending_mapping_failure task_id rs))"

definition get_task_status_response_mapping_failure :: "task_status \<Rightarrow> mapping_failure option" where
  "get_task_status_response_mapping_failure r =
     fail_if (gs_task_id r = [] \<or> gs_session_group_id r = [])
       (invalid_mapping_failure ''get task status response is missing a required identity field'')
     (first_of (outbound_public_id_mapping_failure
       [(''get task status response task_id'', gs_task_id r),
        (''get task status response session_group_id'', gs_session_group_id r),
        (''get task status response workspace_id'', gs_workspace_id r),
        (''get task status response thread_id'', gs_thread_id r),
        (''get task status response turn_id'', gs_turn_id r)])
     (fail_if (task_state_to_proto (gs_state r) = None)
       (invalid_mapping_failure ''get task status response has invalid state'')
     (fail_if (length (gs_active_pending_requests r) > max_active_pending_requests)
       (resource_exhausted_mapping_failure ''active pending request count exceeds outbound cap'')
     (first_of (active_pending_mapping_failure (gs_task_id r) (gs_active_pending_requests r))
     (case gs_terminal r of None \<Rightarrow> None | Some t \<Rightarrow> task_terminal_event_mapping_failure t)))))"

definition respond_pending_request_response_mapping_failure :: "respond_pending_response \<Rightarrow> mapping_failure option" where
  "respond_pending_request_response_mapping_failure r =
     fail_if (rq_task_id r = [] \<or> rq_session_group_id r = [] \<or> rq_pending_request_id r = [] \<or> rq_client_response_id r = [])
       (invalid_mapping_failure ''respond pending request response is missing a required identity field'')
     (outbound_public_id_mapping_failure
       [(''respond pending request response task_id'', rq_task_id r),
        (''respond pending request response session_group_id'', rq_session_group_id r),
        (''respond pending request response pending_request_id'', rq_pending_request_id r),
        (''respond pending request response client_response_id'', rq_client_response_id r)])"

definition interrupt_task_response_mapping_failure :: "interrupt_task_response \<Rightarrow> mapping_failure option" where
  "interrupt_task_response_mapping_failure r =
     fail_if (ir_task_id r = [] \<or> ir_session_group_id r = [])
       (invalid_mapping_failure ''interrupt task response is missing a required identity field'')
     (first_of (outbound_public_id_mapping_failure
       [(''interrupt task response task_id'', ir_task_id r),
        (''interrupt task response session_group_id'', ir_session_group_id r),
        (''interrupt task response thread_id'', ir_thread_id r), (''interrupt task response turn_id'', ir_turn_id r)])
     (fail_if (task_state_to_proto (ir_state r) = None)
       (invalid_mapping_failure ''interrupt task response has invalid state'') None))"

end
