(* ===== verification/Grpc_Errors.thy ===== *)
theory Grpc_Errors
  imports Grpc_Limits
begin

text \<open>
  The errors of the gRPC layer and the statuses that clients get for them (\<open>errors.go\<close>,
  \<open>service_errors.go\<close>, \<open>recovery.go\<close>), and the limits of a session on the size of a message
  (\<open>session_limits.go\<close>).
\<close>

subsection \<open>Errors of requests (errors.go)\<close>

datatype grpc_code =
    GrpcCanceled | GrpcUnknown | GrpcInvalidArgument | GrpcDeadlineExceeded | GrpcNotFound | GrpcAlreadyExists
  | GrpcPermissionDenied | GrpcResourceExhausted | GrpcFailedPrecondition | GrpcAborted | GrpcOutOfRange
  | GrpcUnimplemented | GrpcInternal | GrpcUnavailable | GrpcDataLoss | GrpcUnauthenticated

record request_error =
  re_code :: grpc_code
  re_details :: gateway_error_details

definition reason_details :: "gateway_error_reason \<Rightarrow> string \<Rightarrow> gateway_error_details" where
  "reason_details reason message = no_details\<lparr>ed_reason := reason, ed_display_message := message\<rparr>"

definition request_invalid_argument :: "gateway_error_reason \<Rightarrow> string \<Rightarrow> request_error" where
  "request_invalid_argument reason message = \<lparr>re_code = GrpcInvalidArgument, re_details = reason_details reason message\<rparr>"

definition request_resource_exhausted :: "string \<Rightarrow> request_error" where
  "request_resource_exhausted message =
     \<lparr>re_code = GrpcResourceExhausted, re_details = reason_details ReasonResourceExhausted message\<rparr>"

definition not_found :: "gateway_error_reason \<Rightarrow> string \<Rightarrow> request_error" where
  "not_found reason message = \<lparr>re_code = GrpcNotFound, re_details = reason_details reason message\<rparr>"

definition internal_gateway_request_error :: request_error where
  "internal_gateway_request_error =
     \<lparr>re_code = GrpcInternal, re_details = reason_details ReasonInternalGatewayError ''internal gateway error''\<rparr>"

subsection \<open>Safe details (mapping_string_limits.go)\<close>

definition gateway_error_details_mapping_failure :: "gateway_error_details \<Rightarrow> mapping_failure option" where
  "gateway_error_details_mapping_failure d =
     first_of (outbound_string_mapping_failure
       [(''gateway error display message'', ed_display_message d, max_outbound_error_display_message_bytes)])
     (outbound_public_id_mapping_failure
       [(''gateway error task_id'', ed_task_id d), (''gateway error session_group_id'', ed_session_group_id d),
        (''gateway error client_message_id'', ed_client_message_id d),
        (''gateway error client_response_id'', ed_client_response_id d),
        (''gateway error pending_request_id'', ed_pending_request_id d),
        (''gateway error thread_id'', ed_thread_id d)])"

definition safe_id :: "string \<Rightarrow> string" where
  "safe_id v = (if unsafe_outbound_public_id v then [] else v)"

definition clear_unsafe_gateway_error_public_ids :: "gateway_error_details \<Rightarrow> gateway_error_details" where
  "clear_unsafe_gateway_error_public_ids d = d\<lparr>ed_task_id := safe_id (ed_task_id d),
     ed_session_group_id := safe_id (ed_session_group_id d),
     ed_client_message_id := safe_id (ed_client_message_id d),
     ed_client_response_id := safe_id (ed_client_response_id d),
     ed_pending_request_id := safe_id (ed_pending_request_id d),
     ed_thread_id := safe_id (ed_thread_id d)\<rparr>"

definition safe_gateway_error_details :: "gateway_error_details \<Rightarrow> mapping_failure option \<Rightarrow> gateway_error_details" where
  "safe_gateway_error_details d failure =
     (let d = clear_unsafe_gateway_error_public_ids d in
      if (case failure of None \<Rightarrow> False | Some f \<Rightarrow> mf_reason f = ReasonResourceExhausted)
      then d\<lparr>ed_reason := ReasonResourceExhausted, ed_display_message := ''error display message exceeds outbound cap''\<rparr>
      else d\<lparr>ed_reason := ReasonInternalGatewayError, ed_display_message := ''internal_gateway_error''\<rparr>)"

text \<open>Every constant is a canonical reason; only the empty text is none.\<close>

definition canonical_gateway_error_reason :: "gateway_error_reason \<Rightarrow> gateway_error_reason" where
  "canonical_gateway_error_reason r = (if r = ReasonNone then ReasonInternalGatewayError else r)"

subsection \<open>Statuses\<close>

record pb_gateway_error_details =
  pge_reason :: string
  pge_display_message :: string
  pge_task_id :: string
  pge_session_group_id :: string
  pge_client_message_id :: string
  pge_client_response_id :: string
  pge_pending_request_id :: string
  pge_thread_id :: string
  pge_retryable :: bool

definition checked_details :: "gateway_error_details \<Rightarrow> gateway_error_details" where
  "checked_details d = (let d = (case gateway_error_details_mapping_failure d of None \<Rightarrow> d
       | Some failure \<Rightarrow> safe_gateway_error_details d (Some failure)) in
     d\<lparr>ed_reason := canonical_gateway_error_reason (ed_reason d)\<rparr>)"

definition gateway_error_details_to_proto :: "gateway_error_details \<Rightarrow> pb_gateway_error_details" where
  "gateway_error_details_to_proto d = (let d = checked_details d in
     \<lparr>pge_reason = reason_text (ed_reason d), pge_display_message = ed_display_message d, pge_task_id = ed_task_id d,
      pge_session_group_id = ed_session_group_id d, pge_client_message_id = ed_client_message_id d,
      pge_client_response_id = ed_client_response_id d, pge_pending_request_id = ed_pending_request_id d,
      pge_thread_id = ed_thread_id d, pge_retryable = ed_retryable d\<rparr>)"

record status_error =
  st_code :: grpc_code
  st_message :: string
  st_details :: "pb_gateway_error_details option"

definition new_status_error ::
  "(pb_gateway_error_details \<Rightarrow> string option) \<Rightarrow> grpc_code \<Rightarrow> gateway_error_details \<Rightarrow> status_error" where
  "new_status_error attach code d =
     (let code = (case gateway_error_details_mapping_failure d of None \<Rightarrow> code
        | Some failure \<Rightarrow> if mf_reason failure = ReasonResourceExhausted then GrpcResourceExhausted else GrpcInternal);
          d = checked_details d;
          message = (if ed_display_message d = [] then reason_text (ed_reason d) else ed_display_message d);
          details = gateway_error_details_to_proto d in
      case attach details of
        Some err \<Rightarrow> \<lparr>st_code = GrpcInternal, st_message = ''failed to attach gateway error details: '' @ err, st_details = None\<rparr>
      | None \<Rightarrow> \<lparr>st_code = code, st_message = message, st_details = Some details\<rparr>)"

definition status_error_from_request_error ::
  "(pb_gateway_error_details \<Rightarrow> string option) \<Rightarrow> request_error \<Rightarrow> status_error" where
  "status_error_from_request_error attach e = new_status_error attach (re_code e) (re_details e)"

definition redacted_internal_status_error :: "(pb_gateway_error_details \<Rightarrow> string option) \<Rightarrow> status_error" where
  "redacted_internal_status_error attach =
     new_status_error attach GrpcInternal (reason_details ReasonInternalGatewayError ''internal gateway error'')"

subsection \<open>Errors of the services (service_errors.go)\<close>

text \<open>What the chain of a Go error contains first, in the order in which the code asks.\<close>

datatype service_error =
    ServiceRequestError request_error
  | ServiceGatewayError gateway_error
  | ServiceCanceled
  | ServiceDeadlineExceeded
  | ServiceOtherError

definition code_from_domain_gateway_error :: "gateway_error_code \<Rightarrow> grpc_code" where
  "code_from_domain_gateway_error c = (case c of
      CodeInvalidArgument \<Rightarrow> GrpcInvalidArgument | CodeNotFound \<Rightarrow> GrpcNotFound
    | CodePermissionDenied \<Rightarrow> GrpcPermissionDenied | CodeFailedPrecondition \<Rightarrow> GrpcFailedPrecondition
    | CodeAborted \<Rightarrow> GrpcAborted | CodeCanceled \<Rightarrow> GrpcCanceled | CodeDeadlineExceeded \<Rightarrow> GrpcDeadlineExceeded
    | CodeResourceExhausted \<Rightarrow> GrpcResourceExhausted | CodeOutOfRange \<Rightarrow> GrpcOutOfRange
    | CodeUnavailable \<Rightarrow> GrpcUnavailable | CodeUnknown \<Rightarrow> GrpcUnknown | CodeInternal \<Rightarrow> GrpcInternal)"

definition status_error_from_service_error ::
  "(pb_gateway_error_details \<Rightarrow> string option) \<Rightarrow> service_error \<Rightarrow> status_error" where
  "status_error_from_service_error attach e = (case e of
      ServiceRequestError r \<Rightarrow> status_error_from_request_error attach r
    | ServiceGatewayError g \<Rightarrow> new_status_error attach (code_from_domain_gateway_error (ge_code g)) (ge_details g)
    | ServiceCanceled \<Rightarrow> new_status_error attach GrpcCanceled (reason_details ReasonCallerCanceled ''caller canceled'')
    | ServiceDeadlineExceeded \<Rightarrow> new_status_error attach GrpcDeadlineExceeded
        (reason_details ReasonCallerDeadlineExceeded ''caller deadline exceeded'')
    | ServiceOtherError \<Rightarrow> redacted_internal_status_error attach)"

definition status_error_from_mapping_failure ::
  "(pb_gateway_error_details \<Rightarrow> string option) \<Rightarrow> mapping_failure \<Rightarrow> status_error" where
  "status_error_from_mapping_failure attach failure =
     new_status_error attach
       (if mf_reason failure = ReasonResourceExhausted then GrpcResourceExhausted else GrpcInternal)
       (reason_details (mf_reason failure) (mf_message failure))"

subsection \<open>Message limits (session_limits.go)\<close>

record session_group_metadata =
  sm_session_group_id :: string
  sm_workspace_id :: string
  sm_inbound_message_bytes :: int
  sm_outbound_message_bytes :: int

type_synonym resolver = "(string \<Rightarrow> session_group_metadata option) option"   \<comment> \<open>None: the nil interface\<close>

definition resolve_session_group :: "resolver \<Rightarrow> string \<Rightarrow> session_group_metadata option" where
  "resolve_session_group resolver g = (case resolver of None \<Rightarrow> None | Some f \<Rightarrow> f g)"

definition validate_inbound_message_for_session ::
  "int \<Rightarrow> session_group_metadata \<Rightarrow> request_error option" where
  "validate_inbound_message_for_session msg_size m =
     fail_if (sm_session_group_id m = [] \<or> sm_inbound_message_bytes m \<le> 0 \<or> sm_outbound_message_bytes m \<le> 0)
       internal_gateway_request_error
     (fail_if (msg_size > sm_inbound_message_bytes m)
       (request_resource_exhausted ''request exceeds session gRPC inbound message limit'') None)"

text \<open>The size of the message, \<open>None\<close> for a nil message.\<close>

definition validate_inbound_message_for_process :: "int option \<Rightarrow> int \<Rightarrow> request_error option" where
  "validate_inbound_message_for_process msg_size max_bytes =
     fail_if (max_bytes \<le> 0) internal_gateway_request_error
     (fail_if (case msg_size of None \<Rightarrow> False | Some n \<Rightarrow> n > max_bytes)
       (request_resource_exhausted ''request exceeds gateway gRPC inbound message limit'') None)"

definition outbound_limit_error :: "(pb_gateway_error_details \<Rightarrow> string option) \<Rightarrow> string \<Rightarrow> status_error" where
  "outbound_limit_error attach message =
     new_status_error attach GrpcResourceExhausted (reason_details ReasonResourceExhausted message)"

definition validate_outbound_message_for_trusted_session ::
  "(pb_gateway_error_details \<Rightarrow> string option) \<Rightarrow> int \<Rightarrow> session_group_metadata \<Rightarrow> string \<Rightarrow> status_error option" where
  "validate_outbound_message_for_trusted_session attach msg_size m g =
     fail_if (sm_session_group_id m = [] \<or> sm_inbound_message_bytes m \<le> 0 \<or> sm_outbound_message_bytes m \<le> 0 \<or>
         g \<noteq> sm_session_group_id m)
       (redacted_internal_status_error attach)
     (fail_if (msg_size > sm_outbound_message_bytes m)
       (outbound_limit_error attach ''response exceeds session gRPC outbound message limit'') None)"

definition validate_outbound_message_for_session ::
  "(pb_gateway_error_details \<Rightarrow> string option) \<Rightarrow> int \<Rightarrow> resolver \<Rightarrow> string \<Rightarrow> status_error option" where
  "validate_outbound_message_for_session attach msg_size resolver g =
     (if g = [] then Some (redacted_internal_status_error attach)
      else case resolve_session_group resolver g of None \<Rightarrow> Some (redacted_internal_status_error attach)
      | Some m \<Rightarrow> validate_outbound_message_for_trusted_session attach msg_size m g)"

definition validate_outbound_message_for_process ::
  "(pb_gateway_error_details \<Rightarrow> string option) \<Rightarrow> int option \<Rightarrow> int \<Rightarrow> status_error option" where
  "validate_outbound_message_for_process attach msg_size max_bytes =
     fail_if (max_bytes \<le> 0) (redacted_internal_status_error attach)
     (fail_if (case msg_size of None \<Rightarrow> False | Some n \<Rightarrow> n > max_bytes)
       (outbound_limit_error attach ''response exceeds gateway gRPC outbound message limit'') None)"

definition trusted_session_metadata_for_session_group_id ::
  "string \<Rightarrow> resolver \<Rightarrow> request_error + session_group_metadata" where
  "trusted_session_metadata_for_session_group_id g resolver =
     (case resolve_session_group resolver g of
        None \<Rightarrow> Inl (not_found ReasonUnknownSessionGroup ''unknown session group'')
      | Some m \<Rightarrow> reject_if (sm_session_group_id m \<noteq> g \<or> sm_inbound_message_bytes m \<le> 0 \<or> sm_outbound_message_bytes m \<le> 0)
          internal_gateway_request_error (Inr m))"

definition locator_session_group_id :: "task_locator \<Rightarrow> string" where
  "locator_session_group_id l = (case l of LocatorByClientMessage g _ \<Rightarrow> g | LocatorByThread g _ \<Rightarrow> g
     | LocatorByTaskID _ \<Rightarrow> [] | LocatorUnknown \<Rightarrow> [])"

definition trusted_session_metadata_for_known_locator ::
  "task_locator \<Rightarrow> resolver \<Rightarrow> request_error + session_group_metadata option" where
  "trusted_session_metadata_for_known_locator l resolver =
     (if locator_session_group_id l = [] then Inr None
      else and_then (trusted_session_metadata_for_session_group_id (locator_session_group_id l) resolver)
        (\<lambda>m. Inr (Some m)))"

definition validate_inbound_message_for_known_locator ::
  "int \<Rightarrow> task_locator \<Rightarrow> resolver \<Rightarrow> request_error option" where
  "validate_inbound_message_for_known_locator msg_size l resolver =
     (case trusted_session_metadata_for_known_locator l resolver of Inl e \<Rightarrow> Some e
      | Inr None \<Rightarrow> None | Inr (Some m) \<Rightarrow> validate_inbound_message_for_session msg_size m)"

end
