(* ===== verification/Grpc_Mapping.thy ===== *)
theory Grpc_Mapping
  imports Grpc_Errors
begin

text \<open>
  The messages that clients of the task API get (\<open>mapping.go\<close> of \<open>gateway/internal/grpcapi\<close>) and the
  failures reported for values that cannot be sent (\<open>mapping_failure.go\<close>).  The records and datatypes
  whose names begin with \<open>pb\<close> are the messages of the protocol, with the fields that are written.
\<close>

subsection \<open>Displays of pending requests\<close>

record pb_decision_option =
  pdo_decision_id :: string
  pdo_wire_decision :: wire
  pdo_display_label :: string
  pdo_summary :: string
  pdo_selectable :: bool
  pdo_unsupported_reason :: string

record pb_security_metadata =
  psm_has_privilege_expansion :: bool
  psm_network_context :: "(string \<times> string) option"
  psm_additional_network :: "bool option"
  psm_filesystem_entries :: "additional_filesystem_entry list"
  psm_exec_policy :: "(string \<times> bool) option"
  psm_network_summaries :: "network_policy_amendment_summary list"
  psm_blocking_reason :: string

record pb_command_approval =
  pca_command_display :: string
  pca_workspace_label :: string
  pca_reason :: string
  pca_approval_security :: "pb_security_metadata option"
  pca_decision_options :: "pb_decision_option list"

record pb_file_change_approval =
  pfa_file_label :: string
  pfa_change_kind :: string
  pfa_diff_summary :: string
  pfa_diff_unified :: string
  pfa_diff_unavailable :: bool
  pfa_grant_root :: "file_grant_root_display option"
  pfa_decision_options :: "pb_decision_option list"

record pb_permissions_approval =
  ppa_requested_permissions :: "permission_atom list"
  ppa_recommended_scope :: wire
  ppa_reason :: string

record pb_mcp_elicitation =
  pme_mode :: wire
  pme_message :: string
  pme_form_schema_json :: string
  pme_url :: string
  pme_submit_label :: string

datatype pb_display =
    PbCommandApproval pb_command_approval
  | PbFileChangeApproval pb_file_change_approval
  | PbPermissionsApproval pb_permissions_approval
  | PbMcpElicitation pb_mcp_elicitation
  | PbToolUserInput "tool_user_input_question list"

text \<open>
  The messages of a filesystem entry, of an amendment, of a grant root, of a permission and of a question
  have the fields of the domain's records, which stand for them.
\<close>

fun decision_options_to_proto_loop :: "approval_decision_option list \<Rightarrow> pb_decision_option list option" where
  "decision_options_to_proto_loop [] = Some []"
| "decision_options_to_proto_loop (o1 # os) =
     (case (case ao_wire_decision o1 of None \<Rightarrow> if ao_selectable o1 then None else Some 0
         | Some w \<Rightarrow> approval_wire_decision_to_proto w) of
        None \<Rightarrow> None
      | Some n \<Rightarrow> (case decision_options_to_proto_loop os of None \<Rightarrow> None
         | Some ps \<Rightarrow> Some (\<lparr>pdo_decision_id = ao_decision_id o1, pdo_wire_decision = n,
             pdo_display_label = ao_display_label o1, pdo_summary = ao_summary o1,
             pdo_selectable = ao_selectable o1, pdo_unsupported_reason = ao_unsupported_reason o1\<rparr> # ps)))"

definition approval_decision_options_to_proto ::
  "approval_decision_option list \<Rightarrow> pb_decision_option list option" where
  "approval_decision_options_to_proto os =
     (if length os > max_decision_options then None else decision_options_to_proto_loop os)"

text \<open>The result is a failure, no message for no metadata, or the message.\<close>

definition approval_security_metadata_to_proto ::
  "approval_security_metadata option \<Rightarrow> pb_security_metadata option option" where
  "approval_security_metadata_to_proto x = (case x of None \<Rightarrow> Some None | Some m \<Rightarrow>
     (if length (as_additional_filesystem_entries m) + length (as_network_policy_amendment_summaries m)
         > max_security_entries then None
      else Some (Some \<lparr>psm_has_privilege_expansion = as_has_privilege_expansion m,
        psm_network_context = as_network_context m, psm_additional_network = as_additional_network m,
        psm_filesystem_entries = as_additional_filesystem_entries m,
        psm_exec_policy = as_exec_policy_amendment_summary m,
        psm_network_summaries = as_network_policy_amendment_summaries m,
        psm_blocking_reason = as_blocking_reason m\<rparr>)))"

definition command_approval_display_to_proto :: "command_approval_display \<Rightarrow> pb_command_approval option" where
  "command_approval_display_to_proto d =
     (case approval_decision_options_to_proto (cd_decision_options d) of None \<Rightarrow> None | Some os \<Rightarrow>
      case approval_security_metadata_to_proto (cd_approval_security d) of None \<Rightarrow> None | Some m \<Rightarrow>
      Some \<lparr>pca_command_display = cd_command_display d, pca_workspace_label = cd_workspace_label d,
        pca_reason = cd_reason d, pca_approval_security = m, pca_decision_options = os\<rparr>)"

definition file_change_approval_display_to_proto ::
  "file_change_approval_display \<Rightarrow> pb_file_change_approval option" where
  "file_change_approval_display_to_proto d =
     (case approval_decision_options_to_proto (fd_decision_options d) of None \<Rightarrow> None | Some os \<Rightarrow>
      Some \<lparr>pfa_file_label = fd_file_label d, pfa_change_kind = fd_change_kind d,
        pfa_diff_summary = fd_diff_summary d, pfa_diff_unified = fd_diff_unified d,
        pfa_diff_unavailable = fd_diff_unavailable d, pfa_grant_root = fd_grant_root d,
        pfa_decision_options = os\<rparr>)"

definition permissions_approval_display_to_proto ::
  "permissions_approval_display \<Rightarrow> pb_permissions_approval option" where
  "permissions_approval_display_to_proto d =
     (case permission_scope_to_proto (pd_recommended_scope d) of None \<Rightarrow> None | Some n \<Rightarrow>
      if length (pd_requested_permissions d) > max_permission_atoms then None
      else Some \<lparr>ppa_requested_permissions = pd_requested_permissions d, ppa_recommended_scope = n,
        ppa_reason = pd_reason d\<rparr>)"

definition mcp_elicitation_display_to_proto :: "mcp_elicitation_display \<Rightarrow> pb_mcp_elicitation option" where
  "mcp_elicitation_display_to_proto d =
     (case elicitation_mode_to_proto (md_mode d) of None \<Rightarrow> None | Some n \<Rightarrow>
      Some \<lparr>pme_mode = n, pme_message = md_message d, pme_form_schema_json = md_form_schema_json d,
        pme_url = md_url d, pme_submit_label = md_submit_label d\<rparr>)"

definition tool_user_input_display_to_proto ::
  "tool_user_input_question list \<Rightarrow> tool_user_input_question list option" where
  "tool_user_input_display_to_proto qs =
     (if length qs > max_questions then None
      else if list_ex (\<lambda>q. length (tq_options q) > max_question_options) qs then None
      else Some qs)"

definition pending_request_display_to_proto :: "pending_request_display \<Rightarrow> pb_display option" where
  "pending_request_display_to_proto d =
     (if pending_request_display_mapping_failure d \<noteq> None then None
      else case d of
        CommandApproval c \<Rightarrow> map_option PbCommandApproval (command_approval_display_to_proto c)
      | FileChangeApproval f \<Rightarrow> map_option PbFileChangeApproval (file_change_approval_display_to_proto f)
      | PermissionsApproval p \<Rightarrow> map_option PbPermissionsApproval (permissions_approval_display_to_proto p)
      | McpElicitation m \<Rightarrow> map_option PbMcpElicitation (mcp_elicitation_display_to_proto m)
      | ToolUserInput qs \<Rightarrow> map_option PbToolUserInput (tool_user_input_display_to_proto qs))"

subsection \<open>Events\<close>

record pb_lifecycle =
  ple_lifecycle_event :: wire
  ple_state :: wire
  ple_reason_code :: string
  ple_display_message :: string

record pb_tool_progress =
  ptp_item_id :: string
  ptp_tool_name :: string
  ptp_state :: wire
  ptp_summary :: string

record pb_command_output_delta =
  pco_item_id :: string
  pco_stream :: wire
  pco_delta :: string
  pco_truncated :: bool

record pb_terminal =
  pte_terminal_state :: wire
  pte_result_summary :: string
  pte_error_message :: string

datatype pb_payload =
    PbLifecycle pb_lifecycle
  | PbAssistantDelta string bool
  | PbAssistantMessageCompleted string bool
  | PbPlanUpdated string "(string \<times> string) list"
  | PbToolProgress pb_tool_progress
  | PbCommandStarted string string string
  | PbCommandOutputDelta pb_command_output_delta
  | PbFileDiffUpdated string string string string string bool
  | PbTurnDiffUpdated string string bool
  | PbPendingRequestCreated string wire pb_display
  | PbPendingRequestResolved string wire wire string
  | PbTerminal pb_terminal
  | PbGatewayWarning string string string string string

record pb_task_event =
  pev_event_id :: u64
  pev_task_id :: string
  pev_session_group_id :: string
  pev_workspace_id :: string
  pev_thread_id :: string
  pev_turn_id :: string
  pev_created_at :: int
  pev_payload :: pb_payload

definition task_lifecycle_event_to_proto :: "task_lifecycle_event \<Rightarrow> pb_lifecycle option" where
  "task_lifecycle_event_to_proto e =
     (case task_lifecycle_event_type_to_proto (tl_lifecycle_event e) of None \<Rightarrow> None | Some n \<Rightarrow>
      case task_state_to_proto (tl_state e) of None \<Rightarrow> None | Some s \<Rightarrow>
      Some \<lparr>ple_lifecycle_event = n, ple_state = s, ple_reason_code = tl_reason_code e,
        ple_display_message = tl_display_message e\<rparr>)"

definition tool_progress_event_to_proto :: "tool_progress_event \<Rightarrow> pb_tool_progress option" where
  "tool_progress_event_to_proto e =
     (case tool_state_to_proto (tp_state e) of None \<Rightarrow> None | Some s \<Rightarrow>
      Some \<lparr>ptp_item_id = tp_item_id e, ptp_tool_name = tp_tool_name e, ptp_state = s, ptp_summary = tp_summary e\<rparr>)"

text \<open>The stream is always the combined one, whose number is 1.\<close>

definition command_output_delta_event_to_proto :: "command_output_delta_event \<Rightarrow> pb_command_output_delta option" where
  "command_output_delta_event_to_proto e =
     Some \<lparr>pco_item_id = co_item_id e, pco_stream = 1, pco_delta = co_delta e, pco_truncated = co_truncated e\<rparr>"

definition plan_updated_event_to_proto :: "string \<Rightarrow> (string \<times> string) list \<Rightarrow> pb_payload option" where
  "plan_updated_event_to_proto explanation steps =
     (if length steps > max_plan_steps then None else Some (PbPlanUpdated explanation steps))"

definition task_terminal_event_to_proto :: "task_terminal_event \<Rightarrow> pb_terminal option" where
  "task_terminal_event_to_proto e =
     (case terminal_state_to_proto (tt_terminal_state e) of None \<Rightarrow> None | Some s \<Rightarrow>
      Some \<lparr>pte_terminal_state = s, pte_result_summary = tt_result_summary e, pte_error_message = tt_error_message e\<rparr>)"

definition pending_request_created_event_to_proto ::
  "string \<Rightarrow> pending_type \<Rightarrow> pending_request_display \<Rightarrow> pb_payload option" where
  "pending_request_created_event_to_proto pid ty d =
     (case pending_type_to_proto ty of None \<Rightarrow> None | Some n \<Rightarrow>
      map_option (PbPendingRequestCreated pid n) (pending_request_display_to_proto d))"

definition pending_request_resolved_event_to_proto ::
  "string \<Rightarrow> pending_type \<Rightarrow> pending_resolution \<Rightarrow> string \<Rightarrow> pb_payload option" where
  "pending_request_resolved_event_to_proto pid ty resolution message =
     (case pending_type_to_proto ty of None \<Rightarrow> None | Some n \<Rightarrow>
      case pending_resolution_to_proto resolution of None \<Rightarrow> None | Some r \<Rightarrow>
      Some (PbPendingRequestResolved pid n r message))"

definition populate_task_event_payload :: "task_event_payload \<Rightarrow> pb_payload option" where
  "populate_task_event_payload p = (case p of
      TaskLifecycle e \<Rightarrow> map_option PbLifecycle (task_lifecycle_event_to_proto e)
    | AssistantDelta e \<Rightarrow> Some (PbAssistantDelta (ad_text_delta e) (ad_truncated e))
    | AssistantMessageCompleted e \<Rightarrow> Some (PbAssistantMessageCompleted (am_message e) (am_truncated e))
    | PlanUpdated explanation steps \<Rightarrow> plan_updated_event_to_proto explanation steps
    | ToolProgress e \<Rightarrow> map_option PbToolProgress (tool_progress_event_to_proto e)
    | CommandStarted e \<Rightarrow> Some (PbCommandStarted (cs_item_id e) (cs_command_display e) (cs_workspace_label e))
    | CommandOutputDelta e \<Rightarrow> map_option PbCommandOutputDelta (command_output_delta_event_to_proto e)
    | FileDiffUpdated e \<Rightarrow> Some (PbFileDiffUpdated (fu_item_id e) (fu_file_label e) (fu_change_kind e)
        (fu_diff_summary e) (fu_diff_unified e) (fu_truncated e))
    | TurnDiffUpdated summary unified truncated \<Rightarrow> Some (PbTurnDiffUpdated summary unified truncated)
    | PendingRequestCreated pid ty d \<Rightarrow> pending_request_created_event_to_proto pid ty d
    | PendingRequestResolved pid ty resolution message \<Rightarrow>
        pending_request_resolved_event_to_proto pid ty resolution message
    | TaskTerminal e \<Rightarrow> map_option PbTerminal (task_terminal_event_to_proto e)
    | GatewayWarning e \<Rightarrow> Some (PbGatewayWarning (gw_code e) (gw_message e) (gw_request_type e)
        (gw_auto_resolution e) (gw_limit_reason e)))"

definition task_event_to_proto :: "task_event \<Rightarrow> pb_task_event option" where
  "task_event_to_proto e =
     (if task_event_mapping_failure e \<noteq> None then None
      else map_option (\<lambda>p. \<lparr>pev_event_id = te_event_id e, pev_task_id = te_task_id e,
          pev_session_group_id = te_session_group_id e, pev_workspace_id = te_workspace_id e,
          pev_thread_id = te_thread_id e, pev_turn_id = te_turn_id e, pev_created_at = te_created_at e,
          pev_payload = p\<rparr>)
        (populate_task_event_payload (te_payload e)))"

subsection \<open>Stream messages and responses\<close>

record pb_replay_notice =
  prn_code :: wire
  prn_message :: string
  prn_oldest_buffered_event_id :: u64
  prn_newest_buffered_event_id :: u64
  prn_from_start_available :: bool
  prn_start_evicted_before_event_id :: u64

datatype pb_stream_task_response = PbStreamEvent pb_task_event | PbStreamReplayNotice pb_replay_notice

definition replay_notice_to_proto :: "replay_notice \<Rightarrow> pb_replay_notice option" where
  "replay_notice_to_proto n =
     (if replay_notice_mapping_failure n \<noteq> None then None
      else case replay_notice_code_to_proto (rn_code n) of None \<Rightarrow> None | Some c \<Rightarrow>
        Some \<lparr>prn_code = c, prn_message = rn_message n,
          prn_oldest_buffered_event_id = rn_oldest_buffered_event_id n,
          prn_newest_buffered_event_id = rn_newest_buffered_event_id n,
          prn_from_start_available = rn_from_start_available n,
          prn_start_evicted_before_event_id = rn_start_evicted_before_event_id n\<rparr>)"

definition stream_task_response_event_to_proto :: "task_event \<Rightarrow> pb_stream_task_response option" where
  "stream_task_response_event_to_proto e = map_option PbStreamEvent (task_event_to_proto e)"

definition stream_task_response_replay_notice_to_proto :: "replay_notice \<Rightarrow> pb_stream_task_response option" where
  "stream_task_response_replay_notice_to_proto n = map_option PbStreamReplayNotice (replay_notice_to_proto n)"

record pb_pending_request =
  ppr_pending_request_id :: string
  ppr_task_id :: string
  ppr_pending_type :: wire
  ppr_created_at :: int
  ppr_thread_id :: string
  ppr_turn_id :: string
  ppr_item_id :: string
  ppr_display :: pb_display

definition pending_request_to_proto :: "pending_request \<Rightarrow> pb_pending_request option" where
  "pending_request_to_proto r =
     (if pending_request_mapping_failure r \<noteq> None then None
      else case pending_type_to_proto (pr_pending_type r) of None \<Rightarrow> None | Some n \<Rightarrow>
        case pending_request_display_to_proto (pr_display r) of None \<Rightarrow> None | Some d \<Rightarrow>
        Some \<lparr>ppr_pending_request_id = pr_pending_request_id r, ppr_task_id = pr_task_id r, ppr_pending_type = n,
          ppr_created_at = pr_created_at r, ppr_thread_id = pr_thread_id r, ppr_turn_id = pr_turn_id r,
          ppr_item_id = pr_item_id r, ppr_display = d\<rparr>)"

record pb_start_task_response =
  pst_task_id :: string
  pst_thread_id :: string
  pst_turn_id :: string
  pst_session_group_id :: string
  pst_state :: wire
  pst_last_event_id :: u64

definition start_task_response_to_proto :: "start_task_response \<Rightarrow> pb_start_task_response option" where
  "start_task_response_to_proto r =
     (if start_task_response_mapping_failure r \<noteq> None then None
      else case (case sp_state r of None \<Rightarrow> None | Some s \<Rightarrow> task_state_to_proto s) of None \<Rightarrow> None | Some s \<Rightarrow>
        Some \<lparr>pst_task_id = sp_task_id r, pst_thread_id = sp_thread_id r, pst_turn_id = sp_turn_id r,
          pst_session_group_id = sp_session_group_id r, pst_state = s, pst_last_event_id = sp_last_event_id r\<rparr>)"

record pb_task_status_response =
  pgs_task_id :: string
  pgs_state :: wire
  pgs_session_group_id :: string
  pgs_workspace_id :: string
  pgs_thread_id :: string
  pgs_turn_id :: string
  pgs_last_event_id :: u64
  pgs_oldest_buffered_event_id :: u64
  pgs_newest_buffered_event_id :: u64
  pgs_from_start_available :: bool
  pgs_start_evicted_before_event_id :: u64
  pgs_active_pending_requests :: "pb_pending_request list"
  pgs_terminal :: "pb_terminal option"

definition get_task_status_response_to_proto :: "task_status \<Rightarrow> pb_task_status_response option" where
  "get_task_status_response_to_proto r =
     (if get_task_status_response_mapping_failure r \<noteq> None then None
      else case task_state_to_proto (gs_state r) of None \<Rightarrow> None | Some s \<Rightarrow>
        case those (map pending_request_to_proto (gs_active_pending_requests r)) of None \<Rightarrow> None | Some ps \<Rightarrow>
        case (case gs_terminal r of None \<Rightarrow> Some None
            | Some t \<Rightarrow> map_option Some (task_terminal_event_to_proto t)) of None \<Rightarrow> None | Some t \<Rightarrow>
        Some \<lparr>pgs_task_id = gs_task_id r, pgs_state = s, pgs_session_group_id = gs_session_group_id r,
          pgs_workspace_id = gs_workspace_id r, pgs_thread_id = gs_thread_id r, pgs_turn_id = gs_turn_id r,
          pgs_last_event_id = gs_last_event_id r, pgs_oldest_buffered_event_id = gs_oldest_buffered_event_id r,
          pgs_newest_buffered_event_id = gs_newest_buffered_event_id r,
          pgs_from_start_available = gs_from_start_available r,
          pgs_start_evicted_before_event_id = gs_start_evicted_before_event_id r,
          pgs_active_pending_requests = ps, pgs_terminal = t\<rparr>)"

record pb_respond_pending_response =
  prp_task_id :: string
  prp_pending_request_id :: string
  prp_client_response_id :: string
  prp_accepted :: bool
  prp_already_applied :: bool
  prp_resolved_event_id :: u64

definition respond_pending_request_response_to_proto ::
  "respond_pending_response \<Rightarrow> pb_respond_pending_response option" where
  "respond_pending_request_response_to_proto r =
     (if respond_pending_request_response_mapping_failure r \<noteq> None then None
      else Some \<lparr>prp_task_id = rq_task_id r, prp_pending_request_id = rq_pending_request_id r,
        prp_client_response_id = rq_client_response_id r, prp_accepted = rq_accepted r,
        prp_already_applied = rq_already_applied r, prp_resolved_event_id = rq_resolved_event_id r\<rparr>)"

record pb_interrupt_task_response =
  pit_task_id :: string
  pit_session_group_id :: string
  pit_thread_id :: string
  pit_turn_id :: string
  pit_state :: wire
  pit_interrupt_sent :: bool
  pit_pre_turn_cancel_recorded :: bool
  pit_already_interrupting :: bool
  pit_already_terminal :: bool
  pit_last_event_id :: u64

definition interrupt_task_response_to_proto :: "interrupt_task_response \<Rightarrow> pb_interrupt_task_response option" where
  "interrupt_task_response_to_proto r =
     (if interrupt_task_response_mapping_failure r \<noteq> None then None
      else case task_state_to_proto (ir_state r) of None \<Rightarrow> None | Some s \<Rightarrow>
        Some \<lparr>pit_task_id = ir_task_id r, pit_session_group_id = ir_session_group_id r,
          pit_thread_id = ir_thread_id r, pit_turn_id = ir_turn_id r, pit_state = s,
          pit_interrupt_sent = ir_interrupt_sent r, pit_pre_turn_cancel_recorded = ir_pre_turn_cancel_recorded r,
          pit_already_interrupting = ir_already_interrupting r, pit_already_terminal = ir_already_terminal r,
          pit_last_event_id = ir_last_event_id r\<rparr>)"

subsection \<open>Mapping or failure (mapping_failure.go)\<close>

definition with_failure :: "mapping_failure option \<Rightarrow> string \<Rightarrow> 'a option \<Rightarrow> mapping_failure + 'a" where
  "with_failure failure what r = (case failure of Some f \<Rightarrow> Inl f | None \<Rightarrow>
     (case r of None \<Rightarrow> Inl (invalid_mapping_failure (what @ '' cannot be mapped to proto'')) | Some x \<Rightarrow> Inr x))"

definition start_task_response_to_proto_with_failure ::
  "start_task_response \<Rightarrow> mapping_failure + pb_start_task_response" where
  "start_task_response_to_proto_with_failure r =
     with_failure (start_task_response_mapping_failure r) ''start task response'' (start_task_response_to_proto r)"

definition replay_notice_to_proto_with_failure :: "replay_notice \<Rightarrow> mapping_failure + pb_replay_notice" where
  "replay_notice_to_proto_with_failure n =
     with_failure (replay_notice_mapping_failure n) ''replay notice'' (replay_notice_to_proto n)"

definition stream_event_to_proto_with_failure :: "task_event \<Rightarrow> mapping_failure + pb_stream_task_response" where
  "stream_event_to_proto_with_failure e =
     with_failure (task_event_mapping_failure e) ''stream task response event'' (stream_task_response_event_to_proto e)"

definition stream_replay_notice_to_proto_with_failure ::
  "replay_notice \<Rightarrow> mapping_failure + pb_stream_task_response" where
  "stream_replay_notice_to_proto_with_failure n =
     with_failure (replay_notice_mapping_failure n) ''stream task response replay notice''
       (stream_task_response_replay_notice_to_proto n)"

definition task_event_to_proto_with_failure :: "task_event \<Rightarrow> mapping_failure + pb_task_event" where
  "task_event_to_proto_with_failure e =
     with_failure (task_event_mapping_failure e) ''task event'' (task_event_to_proto e)"

definition pending_request_to_proto_with_failure :: "pending_request \<Rightarrow> mapping_failure + pb_pending_request" where
  "pending_request_to_proto_with_failure r =
     with_failure (pending_request_mapping_failure r) ''pending request'' (pending_request_to_proto r)"

definition pending_request_display_to_proto_with_failure ::
  "pending_request_display \<Rightarrow> mapping_failure + pb_display" where
  "pending_request_display_to_proto_with_failure d =
     with_failure (pending_request_display_mapping_failure d) ''pending request display''
       (pending_request_display_to_proto d)"

definition get_task_status_response_to_proto_with_failure ::
  "task_status \<Rightarrow> mapping_failure + pb_task_status_response" where
  "get_task_status_response_to_proto_with_failure r =
     with_failure (get_task_status_response_mapping_failure r) ''get task status response''
       (get_task_status_response_to_proto r)"

definition respond_pending_request_response_to_proto_with_failure ::
  "respond_pending_response \<Rightarrow> mapping_failure + pb_respond_pending_response" where
  "respond_pending_request_response_to_proto_with_failure r =
     with_failure (respond_pending_request_response_mapping_failure r) ''respond pending request response''
       (respond_pending_request_response_to_proto r)"

definition interrupt_task_response_to_proto_with_failure ::
  "interrupt_task_response \<Rightarrow> mapping_failure + pb_interrupt_task_response" where
  "interrupt_task_response_to_proto_with_failure r =
     with_failure (interrupt_task_response_mapping_failure r) ''interrupt task response''
       (interrupt_task_response_to_proto r)"

end
