(* ===== verification/Grpc_Validators.thy ===== *)
theory Grpc_Validators
  imports Grpc_Errors
begin

text \<open>
  The checks of a client's requests (\<open>validators.go\<close> of \<open>gateway/internal/grpcapi\<close>) and the commands
  that they make of them (\<open>domain/commands.go\<close>).  The records whose names begin with \<open>pb\<close> are the
  protocol's requests; the fields of a nil message are its zero values, as for the getters of the
  generated code.  \<open>msg_size\<close> is the size of the request on the wire, \<open>resolver\<close> finds the session's
  limits, and \<open>decode_first\<close> is the JSON decoder: the first value of a text, and whether nothing follows it.
\<close>

subsection \<open>Limits (domain/limits.go)\<close>

definition max_ui_correlation_metadata_entries :: nat where "max_ui_correlation_metadata_entries = 20"
definition max_ui_correlation_metadata_key :: int where "max_ui_correlation_metadata_key = 64"
definition max_ui_correlation_metadata_value :: int where "max_ui_correlation_metadata_value = 512"
definition max_chat_cursor_bytes :: int where "max_chat_cursor_bytes = 2048"
definition default_chat_history_limit :: "32 word" where "default_chat_history_limit = 50"
definition max_chat_history_limit :: "32 word" where "max_chat_history_limit = 200"
definition max_answers_per_question :: nat where "max_answers_per_question = 10"
definition max_answer_value_bytes :: int where "max_answer_value_bytes = 8 * 1024"
definition max_total_answer_bytes :: int where "max_total_answer_bytes = 64 * 1024"
definition max_elicitation_content_bytes :: int where "max_elicitation_content_bytes = 128 * 1024"
definition max_elicitation_content_depth :: nat where "max_elicitation_content_depth = 16"

subsection \<open>Ids\<close>

definition validate_public_id_cap :: "string \<Rightarrow> string \<Rightarrow> request_error option" where
  "validate_public_id_cap v field =
     fail_if (byte_len v > int max_public_id_bytes) (request_resource_exhausted (field @ '' exceeds the maximum size'')) None"

definition validate_required_public_id ::
  "string \<Rightarrow> string \<Rightarrow> gateway_error_reason \<Rightarrow> request_error + string" where
  "validate_required_public_id raw field reason =
     or_fail (validate_public_id_cap raw field)
     (let v = trim_space raw in
      reject_if (v = []) (request_invalid_argument reason (field @ '' is required''))
     (reject_if (v \<noteq> raw) (request_invalid_argument reason (field @ '' must not have leading or trailing whitespace''))
     (or_fail (validate_public_id_cap v field)
     (Inr raw))))"

definition validate_optional_public_id :: "string \<Rightarrow> string \<Rightarrow> request_error + string" where
  "validate_optional_public_id raw field =
     or_fail (validate_public_id_cap raw field)
     (if raw = [] then Inr []
      else let v = trim_space raw in
        reject_if (v = [] \<or> v \<noteq> raw)
          (request_invalid_argument ReasonInvalidRequest (field @ '' must not have leading or trailing whitespace''))
        (or_fail (validate_public_id_cap v field)
        (Inr raw)))"

definition is_hex_byte :: "char \<Rightarrow> bool" where
  "is_hex_byte c \<longleftrightarrow> (byte c \<ge> byte CHR ''0'' \<and> byte c \<le> byte CHR ''9'') \<or>
     (byte c \<ge> byte CHR ''a'' \<and> byte c \<le> byte CHR ''f'') \<or> (byte c \<ge> byte CHR ''A'' \<and> byte c \<le> byte CHR ''F'')"

text \<open>The loop over the positions; the second argument is what stands from the position on.\<close>

fun canonical_uuid_from :: "nat \<Rightarrow> string \<Rightarrow> bool" where
  "canonical_uuid_from i [] = True"
| "canonical_uuid_from i (c # cs) =
     (if i = 8 \<or> i = 13 \<or> i = 18 \<or> i = 23
      then (if c \<noteq> CHR ''-'' then False else canonical_uuid_from (Suc i) cs)
      else if \<not> is_hex_byte c then False else canonical_uuid_from (Suc i) cs)"

definition is_canonical_uuid :: "string \<Rightarrow> bool" where
  "is_canonical_uuid v = (if length v \<noteq> 36 then False else canonical_uuid_from 0 v)"

definition validate_required_codex_thread_id ::
  "string \<Rightarrow> string \<Rightarrow> gateway_error_reason \<Rightarrow> request_error + string" where
  "validate_required_codex_thread_id raw field reason =
     and_then (validate_required_public_id raw field reason) (\<lambda>v.
     reject_if (\<not> is_canonical_uuid v) (request_invalid_argument reason (field @ '' must be a Codex thread id''))
     (Inr v))"

definition validate_resolved_public_id :: "string \<Rightarrow> string \<Rightarrow> request_error option" where
  "validate_resolved_public_id v field =
     first_of (validate_public_id_cap v field)
     (fail_if (trim_space v = [] \<or> trim_space v \<noteq> v) (request_invalid_argument ReasonInvalidRequest (field @ '' is invalid''))
     (validate_public_id_cap (trim_space v) field))"

subsection \<open>Context blocks and metadata\<close>

record pb_context_block =
  pcb_kind :: wire
  pcb_content :: string
  pcb_source_label :: string
  pcb_source_uri :: string
  pcb_mime_type :: string

definition is_safe_request_source_uri :: "string \<Rightarrow> bool" where
  "is_safe_request_source_uri raw =
     (if contains_space raw then False
      else case url_parse raw of None \<Rightarrow> False
        | Some u \<Rightarrow> if ur_scheme u \<noteq> ''http'' \<and> ur_scheme u \<noteq> ''https'' then False
            else if ur_host u = [] \<or> ur_user u \<noteq> None \<or> ur_raw_query u \<noteq> [] \<or> ur_force_query u \<or> ur_fragment u \<noteq> []
            then False else True)"

definition validate_request_content_lines :: "string \<Rightarrow> request_error option" where
  "validate_request_content_lines content =
     (if source_lines_loop content 0 0 content then None
      else Some (request_resource_exhausted ''context block source content line exceeds the maximum size''))"

definition validate_context_block :: "pb_context_block option \<Rightarrow> request_error + context_block \<times> int" where
  "validate_context_block x = (case x of
     None \<Rightarrow> Inl (request_invalid_argument ReasonInvalidRequest ''context block is required'')
   | Some b \<Rightarrow> (case context_block_kind_from_proto (pcb_kind b) of
       None \<Rightarrow> Inl (request_invalid_argument ReasonInvalidEnum ''context block kind is invalid'')
     | Some kind \<Rightarrow>
       reject_if (byte_len (pcb_content b) > max_context_block_content_bytes)
         (request_resource_exhausted ''context block content exceeds the maximum size'')
       (or_fail (validate_request_content_lines (pcb_content b))
       (reject_if (byte_len (pcb_source_label b) > max_context_label_bytes)
         (request_resource_exhausted ''context block source_label exceeds the maximum size'')
       (let label = trim_space (pcb_source_label b) in
        reject_if (label = []) (request_invalid_argument ReasonInvalidRequest ''context block source_label is required'')
       (reject_if (byte_len label > max_context_label_bytes)
         (request_resource_exhausted ''context block source_label exceeds the maximum size'')
       (reject_if (byte_len (pcb_source_uri b) > max_context_uri_bytes)
         (request_resource_exhausted ''context block source_uri exceeds the maximum size'')
       (reject_if (pcb_source_uri b \<noteq> [] \<and> \<not> is_safe_request_source_uri (pcb_source_uri b))
         (request_invalid_argument ReasonInvalidRequest ''context block source_uri is invalid'')
       (reject_if (byte_len (pcb_mime_type b) > max_mime_type_bytes)
         (request_resource_exhausted ''context block mime_type exceeds the maximum size'')
       (Inr (\<lparr>cb_kind = kind, cb_source_label = label, cb_source_uri = pcb_source_uri b,
          cb_mime_type = pcb_mime_type b, cb_content = pcb_content b\<rparr>, byte_len (pcb_content b))))))))))))"

text \<open>The loop that the three requests with blocks have in common.\<close>

fun context_blocks_loop :: "int \<Rightarrow> pb_context_block option list \<Rightarrow> request_error + context_block list" where
  "context_blocks_loop sum_bytes [] = Inr []"
| "context_blocks_loop sum_bytes (b # bs) =
     and_then (validate_context_block b) (\<lambda>(block, n).
     let sum_bytes = i64 (sum_bytes + n) in
     reject_if (sum_bytes > max_total_context_bytes) (request_resource_exhausted ''total context exceeds the maximum size'')
     (and_then (context_blocks_loop sum_bytes bs) (\<lambda>blocks. Inr (block # blocks))))"

definition validate_context_blocks :: "pb_context_block option list \<Rightarrow> request_error + context_block list" where
  "validate_context_blocks bs =
     reject_if (length bs > max_context_blocks) (request_resource_exhausted ''too many context blocks'')
     (context_blocks_loop 0 bs)"

fun ui_metadata_loop :: "(string \<times> string) list \<Rightarrow> request_error + (string \<times> string) list" where
  "ui_metadata_loop [] = Inr []"
| "ui_metadata_loop ((k, v) # kvs) =
     reject_if (trim_space k = []) (request_invalid_argument ReasonInvalidRequest ''ui correlation metadata key is required'')
     (reject_if (byte_len k > max_ui_correlation_metadata_key)
       (request_resource_exhausted ''ui correlation metadata key exceeds the maximum size'')
     (reject_if (byte_len v > max_ui_correlation_metadata_value)
       (request_resource_exhausted ''ui correlation metadata value exceeds the maximum size'')
     (and_then (ui_metadata_loop kvs) (\<lambda>m. Inr ((k, v) # m)))))"

definition validate_ui_correlation_metadata ::
  "(string, string) gomap \<Rightarrow> request_error + (string, string) gomap" where
  "validate_ui_correlation_metadata m =
     reject_if (length m > max_ui_correlation_metadata_entries)
       (request_resource_exhausted ''ui correlation metadata has too many entries'')
     (ui_metadata_loop m)"

subsection \<open>Sessions\<close>

text \<open>\<open>WorkspaceMismatch\<close>; the client message id is set only for the two starts.\<close>

definition request_workspace_mismatch :: "string \<Rightarrow> string \<Rightarrow> request_error" where
  "request_workspace_mismatch g mid = \<lparr>re_code = GrpcInvalidArgument,
     re_details = (reason_details ReasonWorkspaceMismatch ''workspace_id does not match session group'')
       \<lparr>ed_session_group_id := g, ed_client_message_id := mid\<rparr>\<rparr>"

text \<open>What a start does once its ids are read: the metadata of the session, or the error.\<close>

definition start_session ::
  "int \<Rightarrow> resolver \<Rightarrow> string \<Rightarrow> string \<Rightarrow> string \<Rightarrow> request_error + session_group_metadata" where
  "start_session msg_size resolver g mid w =
     (case resolve_session_group resolver g of
        None \<Rightarrow> Inl (not_found ReasonUnknownSessionGroup ''unknown session group'')
      | Some m \<Rightarrow>
          or_fail (validate_resolved_public_id (sm_workspace_id m) ''resolved workspace_id'')
          (or_fail (validate_inbound_message_for_session msg_size m)
          (reject_if (w \<noteq> [] \<and> w \<noteq> sm_workspace_id m) (request_workspace_mismatch g mid)
          (Inr m))))"

subsection \<open>Starts of tasks\<close>

record pb_start_task_request =
  qst_session_group_id :: string
  qst_client_message_id :: string
  qst_thread_id :: string
  qst_workspace_id :: string
  qst_prompt :: string
  qst_context_blocks :: "pb_context_block option list"
  qst_ui_correlation_metadata :: "(string, string) gomap"

record start_task_request_command = start_task_command +
  stc_ui_correlation_metadata :: "(string, string) gomap"

definition validate_start_task ::
  "int \<Rightarrow> resolver \<Rightarrow> pb_start_task_request option \<Rightarrow> request_error + start_task_request_command" where
  "validate_start_task msg_size resolver x = (case x of
     None \<Rightarrow> Inl (request_invalid_argument ReasonInvalidRequest ''start task request is required'')
   | Some r \<Rightarrow>
     and_then (validate_required_public_id (qst_session_group_id r) ''session_group_id'' ReasonInvalidRequest) (\<lambda>g.
     and_then (validate_required_public_id (qst_client_message_id r) ''client_message_id'' ReasonInvalidRequest) (\<lambda>mid.
     and_then (validate_optional_public_id (qst_thread_id r) ''thread_id'') (\<lambda>th.
     and_then (validate_optional_public_id (qst_workspace_id r) ''workspace_id'') (\<lambda>w.
     and_then (start_session msg_size resolver g mid w) (\<lambda>m.
     reject_if (byte_len (qst_prompt r) > max_prompt_bytes) (request_resource_exhausted ''prompt exceeds the maximum size'')
     (and_then (validate_context_blocks (qst_context_blocks r)) (\<lambda>blocks.
     and_then (validate_ui_correlation_metadata (qst_ui_correlation_metadata r)) (\<lambda>ui.
     Inr \<lparr>stc_session_group_id = g, stc_workspace_id = sm_workspace_id m, stc_client_message_id = mid,
       stc_thread_id = th, stc_prompt = qst_prompt r, stc_context_blocks = blocks,
       stc_ui_correlation_metadata = ui\<rparr>)))))))))"

subsection \<open>Requests to chats\<close>

record pb_chat_context =
  pcx_session_group_id :: string
  pcx_workspace_id :: string

definition context_fields :: "pb_chat_context option \<Rightarrow> string \<times> string" where
  "context_fields x = (case x of None \<Rightarrow> ([], []) | Some c \<Rightarrow> (pcx_session_group_id c, pcx_workspace_id c))"

record pb_start_chat_run_request =
  qsc_context :: "pb_chat_context option"
  qsc_client_message_id :: string
  qsc_idempotency_key :: string
  qsc_prompt :: string
  qsc_context_blocks :: "pb_context_block option list"
  qsc_ui_correlation_metadata :: "(string, string) gomap"

record start_chat_run_command =
  scc_session_group_id :: string
  scc_workspace_id :: string
  scc_prompt :: string
  scc_context_blocks :: "context_block list"
  scc_client_message_id :: string
  scc_idempotency_key :: string
  scc_ui_correlation_metadata :: "(string, string) gomap"

definition validate_start_chat_run ::
  "int \<Rightarrow> resolver \<Rightarrow> pb_start_chat_run_request option \<Rightarrow> request_error + start_chat_run_command" where
  "validate_start_chat_run msg_size resolver x = (case x of
     None \<Rightarrow> Inl (request_invalid_argument ReasonInvalidRequest ''start chat run request is required'')
   | Some r \<Rightarrow>
     and_then (validate_required_public_id (fst (context_fields (qsc_context r))) ''context.session_group_id''
       ReasonInvalidRequest) (\<lambda>g.
     and_then (validate_optional_public_id (snd (context_fields (qsc_context r))) ''context.workspace_id'') (\<lambda>w.
     and_then (validate_required_public_id (qsc_client_message_id r) ''client_message_id'' ReasonInvalidRequest) (\<lambda>mid.
     and_then (validate_required_public_id (qsc_idempotency_key r) ''idempotency_key'' ReasonInvalidRequest) (\<lambda>key.
     and_then (start_session msg_size resolver g mid w) (\<lambda>m.
     reject_if (byte_len (qsc_prompt r) > max_prompt_bytes) (request_resource_exhausted ''prompt exceeds the maximum size'')
     (reject_if (trim_space (qsc_prompt r) = []) (request_invalid_argument ReasonInvalidRequest ''prompt is required'')
     (and_then (validate_context_blocks (qsc_context_blocks r)) (\<lambda>blocks.
     and_then (validate_ui_correlation_metadata (qsc_ui_correlation_metadata r)) (\<lambda>ui.
     Inr \<lparr>scc_session_group_id = g, scc_workspace_id = sm_workspace_id m, scc_prompt = qsc_prompt r,
       scc_context_blocks = blocks, scc_client_message_id = mid, scc_idempotency_key = key,
       scc_ui_correlation_metadata = ui\<rparr>))))))))))"

definition validate_chat_runtime_context ::
  "int \<Rightarrow> pb_chat_context option \<Rightarrow> resolver \<Rightarrow> request_error + string \<times> string" where
  "validate_chat_runtime_context msg_size context resolver =
     and_then (validate_required_public_id (fst (context_fields context)) ''context.session_group_id''
       ReasonInvalidRequest) (\<lambda>g.
     and_then (validate_optional_public_id (snd (context_fields context)) ''context.workspace_id'') (\<lambda>w.
     and_then (start_session msg_size resolver g [] w) (\<lambda>m. Inr (g, sm_workspace_id m))))"

record chat_command =
  chc_session_group_id :: string
  chc_workspace_id :: string
  chc_chat_id :: string

text \<open>What the requests to a chat begin with: the context and the id of the chat.\<close>

definition validate_chat ::
  "int \<Rightarrow> pb_chat_context option \<Rightarrow> string \<Rightarrow> resolver \<Rightarrow> request_error + chat_command" where
  "validate_chat msg_size context chat_id resolver =
     and_then (validate_chat_runtime_context msg_size context resolver) (\<lambda>(g, w).
     and_then (validate_required_codex_thread_id chat_id ''chat_id'' ReasonInvalidLocator) (\<lambda>c.
     Inr \<lparr>chc_session_group_id = g, chc_workspace_id = w, chc_chat_id = c\<rparr>))"

record pb_chat_request =
  qch_context :: "pb_chat_context option"
  qch_chat_id :: string

definition validate_get_chat ::
  "int \<Rightarrow> resolver \<Rightarrow> pb_chat_request option \<Rightarrow> request_error + chat_command" where
  "validate_get_chat msg_size resolver x = (case x of
     None \<Rightarrow> Inl (request_invalid_argument ReasonInvalidRequest ''get chat request is required'')
   | Some r \<Rightarrow> validate_chat msg_size (qch_context r) (qch_chat_id r) resolver)"

definition validate_get_chat_status ::
  "int \<Rightarrow> resolver \<Rightarrow> pb_chat_request option \<Rightarrow> request_error + chat_command" where
  "validate_get_chat_status msg_size resolver x = (case x of
     None \<Rightarrow> Inl (request_invalid_argument ReasonInvalidRequest ''get chat status request is required'')
   | Some r \<Rightarrow> validate_chat msg_size (qch_context r) (qch_chat_id r) resolver)"

record pb_run_chat_turn_request = pb_chat_request +
  qrt_client_message_id :: string
  qrt_idempotency_key :: string
  qrt_prompt :: string
  qrt_context_blocks :: "pb_context_block option list"

text \<open>The command's map of UI metadata stays nil.\<close>

record run_chat_turn_command = chat_command +
  rtc_prompt :: string
  rtc_context_blocks :: "context_block list"
  rtc_client_message_id :: string
  rtc_idempotency_key :: string

definition validate_run_chat_turn ::
  "int \<Rightarrow> resolver \<Rightarrow> pb_run_chat_turn_request option \<Rightarrow> request_error + run_chat_turn_command" where
  "validate_run_chat_turn msg_size resolver x = (case x of
     None \<Rightarrow> Inl (request_invalid_argument ReasonInvalidRequest ''run chat turn request is required'')
   | Some r \<Rightarrow>
     and_then (validate_chat msg_size (qch_context r) (qch_chat_id r) resolver) (\<lambda>c.
     and_then (validate_required_public_id (qrt_client_message_id r) ''client_message_id'' ReasonInvalidRequest) (\<lambda>mid.
     and_then (validate_required_public_id (qrt_idempotency_key r) ''idempotency_key'' ReasonInvalidRequest) (\<lambda>key.
     reject_if (byte_len (qrt_prompt r) > max_prompt_bytes) (request_resource_exhausted ''prompt exceeds the maximum size'')
     (reject_if (trim_space (qrt_prompt r) = []) (request_invalid_argument ReasonInvalidRequest ''prompt is required'')
     (and_then (validate_context_blocks (qrt_context_blocks r)) (\<lambda>blocks.
     Inr (\<lparr>chc_session_group_id = chc_session_group_id c, chc_workspace_id = chc_workspace_id c,
       chc_chat_id = chc_chat_id c, rtc_prompt = qrt_prompt r, rtc_context_blocks = blocks,
       rtc_client_message_id = mid, rtc_idempotency_key = key\<rparr>))))))))"

record pb_chat_history_request = pb_chat_request +
  qhi_requested_depth :: wire
  qhi_cursor :: string
  qhi_limit :: "32 word"
  qhi_sort_direction :: wire

record chat_history_command = chat_command +
  hic_requested_depth :: chat_history_depth
  hic_cursor :: string
  hic_limit :: "32 word"
  hic_sort_direction :: chat_history_sort_direction

text \<open>A number that is not specified becomes the first argument.\<close>

definition enum_or_default :: "'a \<Rightarrow> (wire \<Rightarrow> 'a option) \<Rightarrow> wire \<Rightarrow> string \<Rightarrow> request_error + 'a" where
  "enum_or_default unspecified from_proto n message =
     (if n = 0 then Inr unspecified
      else case from_proto n of None \<Rightarrow> Inl (request_invalid_argument ReasonInvalidEnum message) | Some v \<Rightarrow> Inr v)"

definition validate_get_chat_history ::
  "int \<Rightarrow> resolver \<Rightarrow> pb_chat_history_request option \<Rightarrow> request_error + chat_history_command" where
  "validate_get_chat_history msg_size resolver x = (case x of
     None \<Rightarrow> Inl (request_invalid_argument ReasonInvalidRequest ''get chat history request is required'')
   | Some r \<Rightarrow>
     and_then (validate_chat msg_size (qch_context r) (qch_chat_id r) resolver) (\<lambda>c.
     and_then (enum_or_default DepthTurnSummary chat_history_depth_from_proto (qhi_requested_depth r)
       ''requested_depth is invalid'') (\<lambda>d.
     and_then (enum_or_default SortDescending chat_history_sort_direction_from_proto (qhi_sort_direction r)
       ''sort_direction is invalid'') (\<lambda>s.
     reject_if (byte_len (qhi_cursor r) > max_chat_cursor_bytes) (request_resource_exhausted ''cursor exceeds the maximum size'')
     (let limit = (if qhi_limit r = 0 then default_chat_history_limit else qhi_limit r) in
     reject_if (limit > max_chat_history_limit) (request_resource_exhausted ''history limit exceeds the maximum size'')
     (Inr (\<lparr>chc_session_group_id = chc_session_group_id c, chc_workspace_id = chc_workspace_id c,
       chc_chat_id = chc_chat_id c, hic_requested_depth = d, hic_cursor = qhi_cursor r, hic_limit = limit,
       hic_sort_direction = s\<rparr>)))))))"

text \<open>The cursor of a stream; the flag tells whether the message of \<open>from_start\<close> is there.\<close>

datatype pb_cursor =
    PbFromStart bool
  | PbAfterEventId u64
  | PbAfterEventCursor string
  | PbCursorOther

record pb_stream_chat_events_request = pb_chat_request +
  qse_client_subscriber_id :: string
  qse_cursor :: "pb_cursor option"

record stream_chat_events_command = chat_command +
  sec_cursor_from_start :: bool     \<comment> \<open>\<open>CursorKind\<close> is \<open>from_start\<close>; otherwise \<open>after_event_id\<close>\<close>
  sec_after_event_id :: u64
  sec_after_event_cursor :: string
  sec_client_subscriber_id :: string

definition validate_stream_chat_events ::
  "int \<Rightarrow> resolver \<Rightarrow> pb_stream_chat_events_request option \<Rightarrow> request_error + stream_chat_events_command" where
  "validate_stream_chat_events msg_size resolver x = (case x of
     None \<Rightarrow> Inl (request_invalid_argument ReasonInvalidRequest ''stream chat events request is required'')
   | Some r \<Rightarrow>
     and_then (validate_chat msg_size (qch_context r) (qch_chat_id r) resolver) (\<lambda>c.
     and_then (validate_optional_public_id (qse_client_subscriber_id r) ''client_subscriber_id'') (\<lambda>sub.
     (let command = (\<lambda>from_start n cursor. \<lparr>chc_session_group_id = chc_session_group_id c, chc_workspace_id = chc_workspace_id c,
       chc_chat_id = chc_chat_id c, sec_cursor_from_start = from_start,
        sec_after_event_id = n, sec_after_event_cursor = cursor, sec_client_subscriber_id = sub\<rparr>) in
      case qse_cursor r of
        Some (PbFromStart present) \<Rightarrow>
          reject_if (\<not> present) (request_invalid_argument ReasonInvalidCursor ''from_start cursor is required'')
          (Inr (command True 0 []))
      | Some (PbAfterEventId n) \<Rightarrow> Inr (command False n [])
      | Some (PbAfterEventCursor v) \<Rightarrow>
          reject_if (byte_len v > max_chat_cursor_bytes) (request_resource_exhausted ''event cursor exceeds the maximum size'')
          (reject_if (trim_space v = []) (request_invalid_argument ReasonInvalidCursor ''after_event_cursor is required'')
          (Inr (command False 0 v)))
      | None \<Rightarrow> Inl (request_invalid_argument ReasonInvalidCursor ''stream cursor is required'')
      | Some PbCursorOther \<Rightarrow> Inl (request_invalid_argument ReasonInvalidCursor ''stream cursor is invalid'')))))"

record pb_interrupt_chat_run_request = pb_chat_request +
  qir_run_id :: string
  qir_client_request_id :: string
  qir_idempotency_key :: string

record interrupt_chat_run_command = chat_command +
  icc_run_id :: string
  icc_client_request_id :: string
  icc_idempotency_key :: string

definition validate_interrupt_chat_run ::
  "int \<Rightarrow> resolver \<Rightarrow> pb_interrupt_chat_run_request option \<Rightarrow> request_error + interrupt_chat_run_command" where
  "validate_interrupt_chat_run msg_size resolver x = (case x of
     None \<Rightarrow> Inl (request_invalid_argument ReasonInvalidRequest ''interrupt chat run request is required'')
   | Some r \<Rightarrow>
     and_then (validate_chat msg_size (qch_context r) (qch_chat_id r) resolver) (\<lambda>c.
     and_then (validate_required_public_id (qir_run_id r) ''run_id'' ReasonInvalidLocator) (\<lambda>run.
     and_then (validate_required_public_id (qir_client_request_id r) ''client_request_id'' ReasonInvalidRequest) (\<lambda>rid.
     and_then (validate_required_public_id (qir_idempotency_key r) ''idempotency_key'' ReasonInvalidRequest) (\<lambda>key.
     Inr (\<lparr>chc_session_group_id = chc_session_group_id c, chc_workspace_id = chc_workspace_id c,
       chc_chat_id = chc_chat_id c, icc_run_id = run, icc_client_request_id = rid, icc_idempotency_key = key\<rparr>))))))"

end
