(* ===== verification/Grpc_Responses.thy ===== *)
theory Grpc_Responses
  imports Grpc_Validators
begin

text \<open>
  The checks of the requests that name a task, and of the responses to pending requests
  (\<open>validators.go\<close> of \<open>gateway/internal/grpcapi\<close>, from \<open>ValidateStreamTask\<close> on).  A nil message inside a
  oneof is \<open>None\<close>, a oneof that is not set is \<open>None\<close> as well.
\<close>

subsection \<open>Locators of tasks\<close>

datatype pb_locator =
    PbTaskId string
  | PbClientMessageLocator "(string \<times> string) option"   \<comment> \<open>session_group_id, client_message_id\<close>
  | PbThreadLocator "(string \<times> string) option"          \<comment> \<open>session_group_id, thread_id\<close>
  | PbLocatorOther

definition client_message_locator_from_proto :: "(string \<times> string) option \<Rightarrow> request_error + task_locator" where
  "client_message_locator_from_proto x = (case x of
     None \<Rightarrow> Inl (request_invalid_argument ReasonInvalidLocator ''client message locator is required'')
   | Some (g, mid) \<Rightarrow>
     and_then (validate_required_public_id g ''session_group_id'' ReasonInvalidLocator) (\<lambda>g.
     and_then (validate_required_public_id mid ''client_message_id'' ReasonInvalidLocator) (\<lambda>mid.
     Inr (LocatorByClientMessage g mid))))"

definition thread_locator_from_proto :: "(string \<times> string) option \<Rightarrow> request_error + task_locator" where
  "thread_locator_from_proto x = (case x of
     None \<Rightarrow> Inl (request_invalid_argument ReasonInvalidLocator ''thread locator is required'')
   | Some (g, th) \<Rightarrow>
     and_then (validate_required_public_id g ''session_group_id'' ReasonInvalidLocator) (\<lambda>g.
     and_then (validate_required_public_id th ''thread_id'' ReasonInvalidLocator) (\<lambda>th.
     Inr (LocatorByThread g th))))"

definition task_locator_from_proto :: "pb_locator option \<Rightarrow> bool \<Rightarrow> request_error + task_locator" where
  "task_locator_from_proto l allow_thread = (case l of
     Some (PbTaskId v) \<Rightarrow>
       and_then (validate_required_public_id v ''task_id'' ReasonInvalidLocator) (\<lambda>v. Inr (LocatorByTaskID v))
   | Some (PbClientMessageLocator x) \<Rightarrow> client_message_locator_from_proto x
   | Some (PbThreadLocator x) \<Rightarrow>
       reject_if (\<not> allow_thread) (request_invalid_argument ReasonInvalidLocator ''thread locator is not allowed'')
       (thread_locator_from_proto x)
   | None \<Rightarrow> Inl (request_invalid_argument ReasonInvalidLocator ''task locator is required'')
   | Some PbLocatorOther \<Rightarrow> Inl (request_invalid_argument ReasonInvalidLocator ''task locator is invalid''))"

text \<open>The oneof of an interrupt has no thread locator.\<close>

definition interrupt_locator_from_proto :: "pb_locator option \<Rightarrow> request_error + task_locator" where
  "interrupt_locator_from_proto l = (case l of
     Some (PbTaskId v) \<Rightarrow>
       and_then (validate_required_public_id v ''task_id'' ReasonInvalidLocator) (\<lambda>v. Inr (LocatorByTaskID v))
   | Some (PbClientMessageLocator x) \<Rightarrow> client_message_locator_from_proto x
   | None \<Rightarrow> Inl (request_invalid_argument ReasonInvalidLocator ''interrupt locator is required'')
   | Some _ \<Rightarrow> Inl (request_invalid_argument ReasonInvalidLocator ''interrupt locator is invalid''))"

record pb_stream_task_request =
  qsk_task_id :: string
  qsk_client_subscriber_id :: string
  qsk_cursor :: "pb_cursor option"

record stream_task_command =
  skc_task_id :: string
  skc_cursor :: stream_cursor
  skc_client_subscriber_id :: string

definition validate_stream_task :: "pb_stream_task_request option \<Rightarrow> request_error + stream_task_command" where
  "validate_stream_task x = (case x of
     None \<Rightarrow> Inl (request_invalid_argument ReasonInvalidRequest ''stream task request is required'')
   | Some r \<Rightarrow>
     and_then (validate_required_public_id (qsk_task_id r) ''task_id'' ReasonInvalidLocator) (\<lambda>tid.
     and_then (validate_optional_public_id (qsk_client_subscriber_id r) ''client_subscriber_id'') (\<lambda>sub.
     case qsk_cursor r of
       Some (PbFromStart present) \<Rightarrow>
         reject_if (\<not> present) (request_invalid_argument ReasonInvalidCursor ''from_start cursor is required'')
         (Inr \<lparr>skc_task_id = tid, skc_cursor = StreamCursorFromStart, skc_client_subscriber_id = sub\<rparr>)
     | Some (PbAfterEventId n) \<Rightarrow>
         Inr \<lparr>skc_task_id = tid, skc_cursor = StreamCursorAfterEventID n, skc_client_subscriber_id = sub\<rparr>
     | None \<Rightarrow> Inl (request_invalid_argument ReasonInvalidCursor ''stream cursor is required'')
     | Some _ \<Rightarrow> Inl (request_invalid_argument ReasonInvalidCursor ''stream cursor is invalid''))))"

definition validate_get_task_status :: "pb_locator option option \<Rightarrow> request_error + task_locator" where
  "validate_get_task_status x = (case x of
     None \<Rightarrow> Inl (request_invalid_argument ReasonInvalidRequest ''get status request is required'')
   | Some l \<Rightarrow> task_locator_from_proto l True)"

record pb_interrupt_task_request =
  qit_locator :: "pb_locator option"
  qit_client_request_id :: string

record interrupt_task_command =
  itc_locator :: task_locator
  itc_client_request_id :: string

definition validate_interrupt_task :: "pb_interrupt_task_request option \<Rightarrow> request_error + interrupt_task_command" where
  "validate_interrupt_task x = (case x of
     None \<Rightarrow> Inl (request_invalid_argument ReasonInvalidRequest ''interrupt task request is required'')
   | Some r \<Rightarrow>
     and_then (interrupt_locator_from_proto (qit_locator r)) (\<lambda>l.
     and_then (validate_optional_public_id (qit_client_request_id r) ''client_request_id'') (\<lambda>rid.
     Inr \<lparr>itc_locator = l, itc_client_request_id = rid\<rparr>)))"

subsection \<open>Responses to pending requests\<close>

record pb_permissions_response =
  pbp_permission_ids :: "string list"
  pbp_scope :: wire
  pbp_strict_auto_review :: bool

record pb_elicitation_response =
  pbe_action :: wire
  pbe_content_json :: string

datatype pb_response =
    PbApproval "string option"                              \<comment> \<open>decision_id\<close>
  | PbPermissions "pb_permissions_response option"
  | PbElicitation "pb_elicitation_response option"
  | PbToolInput "(string \<times> string list) list option"        \<comment> \<open>question_id, answers\<close>
  | PbResponseOther

definition no_response :: pending_response where
  "no_response = \<lparr>pz_approval = None, pz_permissions = None, pz_mcp_elicitation = None, pz_tool_user_input = None\<rparr>"

fun permission_ids_loop :: "string list \<Rightarrow> string list \<Rightarrow> request_error + string list" where
  "permission_ids_loop seen [] = Inr []"
| "permission_ids_loop seen (raw # raws) =
     and_then (validate_required_public_id raw ''permission_id'' ReasonInvalidRequest) (\<lambda>v.
     reject_if (v \<in> set seen) (request_invalid_argument ReasonInvalidRequest ''permission_id is duplicated'')
     (and_then (permission_ids_loop (v # seen) raws) (\<lambda>vs. Inr (v # vs))))"

definition permissions_response_from_proto :: "pb_permissions_response option \<Rightarrow> request_error + pending_response" where
  "permissions_response_from_proto x = (case x of
     None \<Rightarrow> Inl (request_invalid_argument ReasonResponseTypeMismatch ''permissions response is required'')
   | Some r \<Rightarrow> (let scope = permission_scope_from_proto (pbp_scope r) in
     reject_if (pbp_scope r \<noteq> 0 \<and> scope = None) (request_invalid_argument ReasonInvalidEnum ''permission scope is invalid'')
     (reject_if (length (pbp_permission_ids r) > max_permission_atoms) (request_resource_exhausted ''too many permission ids'')
     (and_then (permission_ids_loop [] (pbp_permission_ids r)) (\<lambda>ids.
     reject_if (ids = [] \<and> (scope \<noteq> None \<or> pbp_strict_auto_review r))
       (request_invalid_argument ReasonInvalidRequest ''permissions denial must not include scope or strict_auto_review'')
     (Inr (no_response\<lparr>pz_permissions := Some \<lparr>pp_permission_ids = ids, pp_scope = scope,
       pp_strict_auto_review = pbp_strict_auto_review r\<rparr>\<rparr>)))))))"

text \<open>\<open>jsonDepth\<close>: scalars have depth one.\<close>

fun json_depth :: "json \<Rightarrow> nat" where
  "json_depth (JArray vs) = Suc (foldr max (map json_depth vs) 0)"
| "json_depth (JObject kvs) = Suc (foldr max (map (\<lambda>(k, v). json_depth v) kvs) 0)"
| "json_depth _ = 1"

definition validate_complete_json_depth ::
  "(string \<Rightarrow> (json \<times> bool) option) \<Rightarrow> string \<Rightarrow> nat \<Rightarrow> request_error option" where
  "validate_complete_json_depth decode_first raw max_depth =
     fail_if (trim_space raw = [])
       (request_invalid_argument ReasonInvalidRequest ''mcp elicitation accepted content_json is required'')
     (case decode_first raw of
        None \<Rightarrow> Some (request_invalid_argument ReasonInvalidRequest ''mcp elicitation content_json must be valid JSON'')
      | Some (value, at_end) \<Rightarrow>
          fail_if (\<not> at_end)
            (request_invalid_argument ReasonInvalidRequest ''mcp elicitation content_json must contain exactly one JSON value'')
          (fail_if (json_depth value > max_depth)
            (request_resource_exhausted ''mcp elicitation content_json exceeds the maximum depth'') None))"

definition mcp_elicitation_response_from_proto ::
  "(string \<Rightarrow> (json \<times> bool) option) \<Rightarrow> pb_elicitation_response option \<Rightarrow> request_error + pending_response" where
  "mcp_elicitation_response_from_proto decode_first x = (case x of
     None \<Rightarrow> Inl (request_invalid_argument ReasonResponseTypeMismatch ''mcp elicitation response is required'')
   | Some r \<Rightarrow> (case mcp_elicitation_action_from_proto (pbe_action r) of
       None \<Rightarrow> Inl (request_invalid_argument ReasonInvalidEnum ''mcp elicitation action is invalid'')
     | Some action \<Rightarrow>
       reject_if (byte_len (pbe_content_json r) > max_elicitation_content_bytes)
         (request_resource_exhausted ''mcp elicitation content exceeds the maximum size'')
       (or_fail (case action of
           McpElicitationActionAccept \<Rightarrow>
             validate_complete_json_depth decode_first (pbe_content_json r) max_elicitation_content_depth
         | _ \<Rightarrow> fail_if (pbe_content_json r \<noteq> []) (request_invalid_argument ReasonInvalidRequest
             ''mcp elicitation content_json must be empty unless action is accept'') None)
       (Inr (no_response\<lparr>pz_mcp_elicitation := Some \<lparr>mp_action = action, mp_content_json = pbe_content_json r\<rparr>\<rparr>)))))"

text \<open>The loop over the answers to one question; the result has the sum of the bytes so far.\<close>

fun answer_values_loop :: "int \<Rightarrow> string list \<Rightarrow> request_error + string list \<times> int" where
  "answer_values_loop sum_bytes [] = Inr ([], sum_bytes)"
| "answer_values_loop sum_bytes (v # vs) =
     reject_if (byte_len v > max_answer_value_bytes)
       (request_resource_exhausted ''tool user input answer exceeds the maximum size'')
     (let sum_bytes = i64 (sum_bytes + byte_len v) in
      reject_if (sum_bytes > max_total_answer_bytes)
        (request_resource_exhausted ''tool user input answers exceed the maximum total size'')
      (and_then (answer_values_loop sum_bytes vs) (\<lambda>(xs, n). Inr (v # xs, n))))"

fun answers_loop ::
  "string list \<Rightarrow> int \<Rightarrow> (string \<times> string list) list \<Rightarrow> request_error + tool_user_input_answer list" where
  "answers_loop seen sum_bytes [] = Inr []"
| "answers_loop seen sum_bytes ((raw, vs) # as) =
     and_then (validate_required_public_id raw ''tool user input question_id'' ReasonInvalidRequest) (\<lambda>qid.
     reject_if (qid \<in> set seen) (request_invalid_argument ReasonInvalidRequest ''tool user input question_id is duplicated'')
     (reject_if (length vs > max_answers_per_question)
       (request_resource_exhausted ''too many answers for tool user input question'')
     (and_then (answer_values_loop sum_bytes vs) (\<lambda>(xs, n).
     and_then (answers_loop (qid # seen) n as) (\<lambda>rest.
     Inr (\<lparr>ta_question_id = qid, ta_answers = xs\<rparr> # rest))))))"

definition tool_user_input_response_from_proto ::
  "(string \<times> string list) list option \<Rightarrow> request_error + pending_response" where
  "tool_user_input_response_from_proto x = (case x of
     None \<Rightarrow> Inl (request_invalid_argument ReasonResponseTypeMismatch ''tool user input response is required'')
   | Some as \<Rightarrow>
     reject_if (length as > max_questions) (request_resource_exhausted ''too many tool user input answers'')
     (and_then (answers_loop [] 0 as) (\<lambda>answers. Inr (no_response\<lparr>pz_tool_user_input := Some answers\<rparr>))))"

definition pending_response_from_proto ::
  "(string \<Rightarrow> (json \<times> bool) option) \<Rightarrow> pb_response option \<Rightarrow> request_error + pending_response" where
  "pending_response_from_proto decode_first x = (case x of
     Some (PbApproval None) \<Rightarrow> Inl (request_invalid_argument ReasonInvalidRequest ''approval decision_id is required'')
   | Some (PbApproval (Some v)) \<Rightarrow>
       and_then (validate_required_public_id v ''approval decision_id'' ReasonInvalidRequest)
         (\<lambda>v. Inr (no_response\<lparr>pz_approval := Some v\<rparr>))
   | Some (PbPermissions r) \<Rightarrow> permissions_response_from_proto r
   | Some (PbElicitation r) \<Rightarrow> mcp_elicitation_response_from_proto decode_first r
   | Some (PbToolInput r) \<Rightarrow> tool_user_input_response_from_proto r
   | None \<Rightarrow> Inl (request_invalid_argument ReasonResponseTypeMismatch ''pending response payload is required'')
   | Some PbResponseOther \<Rightarrow> Inl (request_invalid_argument ReasonResponseTypeMismatch ''pending response payload is invalid''))"

record pb_respond_pending_request =
  qrp_task_id :: string
  qrp_pending_request_id :: string
  qrp_client_response_id :: string
  qrp_response :: "pb_response option"

definition validate_respond_pending_request ::
  "(string \<Rightarrow> (json \<times> bool) option) \<Rightarrow> pb_respond_pending_request option \<Rightarrow> request_error + respond_pending_command" where
  "validate_respond_pending_request decode_first x = (case x of
     None \<Rightarrow> Inl (request_invalid_argument ReasonInvalidRequest ''pending response request is required'')
   | Some r \<Rightarrow>
     and_then (validate_required_public_id (qrp_task_id r) ''task_id'' ReasonInvalidLocator) (\<lambda>tid.
     and_then (validate_required_public_id (qrp_pending_request_id r) ''pending_request_id'' ReasonInvalidLocator) (\<lambda>pid.
     and_then (validate_required_public_id (qrp_client_response_id r) ''client_response_id'' ReasonInvalidRequest) (\<lambda>rid.
     and_then (pending_response_from_proto decode_first (qrp_response r)) (\<lambda>resp.
     Inr \<lparr>rc_task_id = tid, rc_pending_request_id = pid, rc_client_response_id = rid, rc_response = resp\<rparr>)))))"

record pb_respond_chat_pending_request = pb_chat_request +
  qcp_pending_request_id :: string
  qcp_client_response_id :: string
  qcp_idempotency_key :: string
  qcp_response :: "pb_response option"

record respond_chat_pending_command = chat_command +
  cpc_pending_request_id :: string
  cpc_client_response_id :: string
  cpc_idempotency_key :: string
  cpc_response :: pending_response

definition validate_respond_chat_pending ::
  "(string \<Rightarrow> (json \<times> bool) option) \<Rightarrow> int \<Rightarrow> resolver \<Rightarrow> pb_respond_chat_pending_request option \<Rightarrow>
    request_error + respond_chat_pending_command" where
  "validate_respond_chat_pending decode_first msg_size resolver x = (case x of
     None \<Rightarrow> Inl (request_invalid_argument ReasonInvalidRequest ''respond chat pending request is required'')
   | Some r \<Rightarrow>
     and_then (validate_chat msg_size (qch_context r) (qch_chat_id r) resolver) (\<lambda>c.
     and_then (validate_required_public_id (qcp_pending_request_id r) ''pending_request_id'' ReasonInvalidLocator) (\<lambda>pid.
     and_then (validate_required_public_id (qcp_client_response_id r) ''client_response_id'' ReasonInvalidRequest) (\<lambda>rid.
     and_then (validate_required_public_id (qcp_idempotency_key r) ''idempotency_key'' ReasonInvalidRequest) (\<lambda>key.
     and_then (pending_response_from_proto decode_first (qcp_response r)) (\<lambda>resp.
     Inr \<lparr>chc_session_group_id = chc_session_group_id c, chc_workspace_id = chc_workspace_id c,
       chc_chat_id = chc_chat_id c, cpc_pending_request_id = pid, cpc_client_response_id = rid,
       cpc_idempotency_key = key, cpc_response = resp\<rparr>))))))"

end
