(* ===== verification/Grpc_Handlers.thy ===== *)
theory Grpc_Handlers
  imports Grpc_Mapping Grpc_Responses
begin

text \<open>
  The handlers of the task API (\<open>handlers.go\<close> of \<open>gateway/internal/grpcapi\<close>): a request is checked, a
  service is asked, and its answer is checked before it is sent.  The services are functions on a state of
  any type; the sizes of the messages on the wire (\<open>proto.Size\<close>) are arguments.
\<close>

record api =
  api_max_recv :: int
  api_max_send :: int
  api_session_groups :: resolver
  api_attach :: "pb_gateway_error_details \<Rightarrow> string option"

text \<open>The checks that the handlers of one message share; the result is the status of the first that fails.\<close>

definition request_status :: "api \<Rightarrow> request_error + 'a \<Rightarrow> status_error + 'a" where
  "request_status a r = (case r of Inl e \<Rightarrow> Inl (status_error_from_request_error (api_attach a) e) | Inr x \<Rightarrow> Inr x)"

definition request_failure :: "api \<Rightarrow> request_error option \<Rightarrow> status_error option" where
  "request_failure a e = map_option (status_error_from_request_error (api_attach a)) e"

definition service_status :: "api \<Rightarrow> service_error + 'a \<Rightarrow> status_error + 'a" where
  "service_status a r = (case r of Inl e \<Rightarrow> Inl (status_error_from_service_error (api_attach a) e) | Inr x \<Rightarrow> Inr x)"

definition mapping_status :: "api \<Rightarrow> mapping_failure + 'a \<Rightarrow> status_error + 'a" where
  "mapping_status a r = (case r of Inl f \<Rightarrow> Inl (status_error_from_mapping_failure (api_attach a) f) | Inr x \<Rightarrow> Inr x)"

text \<open>The size checks of an answer, against the session's limit and against the server's.\<close>

definition checked_answer :: "api \<Rightarrow> ('b \<Rightarrow> int) \<Rightarrow> session_group_metadata \<Rightarrow> string \<Rightarrow> 'b \<Rightarrow> status_error + 'b" where
  "checked_answer a out_size m g p =
     or_fail (validate_outbound_message_for_trusted_session (api_attach a) (out_size p) m g)
     (or_fail (validate_outbound_message_for_process (api_attach a) (Some (out_size p)) (api_max_send a))
     (Inr p))"

definition checked_answer_of_session :: "api \<Rightarrow> ('b \<Rightarrow> int) \<Rightarrow> string \<Rightarrow> 'b \<Rightarrow> status_error + 'b" where
  "checked_answer_of_session a out_size g p =
     or_fail (validate_outbound_message_for_session (api_attach a) (out_size p) (api_session_groups a) g)
     (or_fail (validate_outbound_message_for_process (api_attach a) (Some (out_size p)) (api_max_send a))
     (Inr p))"

definition handle_start_task ::
  "api \<Rightarrow> (pb_start_task_response \<Rightarrow> int) \<Rightarrow>
    (start_task_request_command \<Rightarrow> 's \<Rightarrow> (service_error + start_task_response) \<times> 's) \<Rightarrow>
    int \<Rightarrow> pb_start_task_request option \<Rightarrow> 's \<Rightarrow> (status_error + pb_start_task_response) \<times> 's" where
  "handle_start_task a out_size start_task msg_size req s =
     (case or_fail (request_failure a (validate_inbound_message_for_process (map_option (\<lambda>_. msg_size) req) (api_max_recv a)))
        (and_then (request_status a (validate_start_task msg_size (api_session_groups a) req)) (\<lambda>c.
         and_then (request_status a
           (trusted_session_metadata_for_session_group_id (stc_session_group_id c) (api_session_groups a))) (\<lambda>m.
         Inr (c, m)))) of
        Inl e \<Rightarrow> (Inl e, s)
      | Inr (c, m) \<Rightarrow> (case start_task c s of (r, s') \<Rightarrow>
          (and_then (service_status a r) (\<lambda>r.
           and_then (mapping_status a (start_task_response_to_proto_with_failure r)) (\<lambda>p.
           checked_answer a out_size m (sp_session_group_id r) p)), s')))"

definition handle_respond_pending_request ::
  "api \<Rightarrow> (string \<Rightarrow> (json \<times> bool) option) \<Rightarrow> (pb_respond_pending_response \<Rightarrow> int) \<Rightarrow>
    (string \<Rightarrow> string \<Rightarrow> 's \<Rightarrow> (service_error + session_group_metadata) \<times> 's) \<Rightarrow>
    (respond_pending_command \<Rightarrow> 's \<Rightarrow> (service_error + respond_pending_response) \<times> 's) \<Rightarrow>
    int \<Rightarrow> pb_respond_pending_request option \<Rightarrow> 's \<Rightarrow> (status_error + pb_respond_pending_response) \<times> 's" where
  "handle_respond_pending_request a decode_first out_size resolve_session respond msg_size req s =
     (case or_fail (request_failure a (validate_inbound_message_for_process (map_option (\<lambda>_. msg_size) req) (api_max_recv a)))
        (request_status a (validate_respond_pending_request decode_first req)) of
        Inl e \<Rightarrow> (Inl e, s)
      | Inr c \<Rightarrow> (case resolve_session (rc_task_id c) (rc_pending_request_id c) s of (r, s') \<Rightarrow>
          case and_then (service_status a r) (\<lambda>m.
              or_fail (request_failure a (validate_inbound_message_for_session msg_size m)) (Inr m)) of
            Inl e \<Rightarrow> (Inl e, s')
          | Inr m \<Rightarrow> (case respond c s' of (r, s'') \<Rightarrow>
              (and_then (service_status a r) (\<lambda>r.
               and_then (mapping_status a (respond_pending_request_response_to_proto_with_failure r)) (\<lambda>p.
               checked_answer a out_size m (rq_session_group_id r) p)), s''))))"

text \<open>What the handlers of an interrupt and of a status request do about the session of the locator.\<close>

definition locator_session :: "api \<Rightarrow> int \<Rightarrow> task_locator \<Rightarrow> status_error + session_group_metadata option" where
  "locator_session a msg_size l =
     and_then (request_status a (trusted_session_metadata_for_known_locator l (api_session_groups a))) (\<lambda>m.
     or_fail (case m of None \<Rightarrow> None
       | Some m \<Rightarrow> request_failure a (validate_inbound_message_for_session msg_size m))
     (Inr m))"

definition answer_of_locator ::
  "api \<Rightarrow> ('b \<Rightarrow> int) \<Rightarrow> session_group_metadata option \<Rightarrow> string \<Rightarrow> 'b \<Rightarrow> status_error + 'b" where
  "answer_of_locator a out_size m g p = (case m of
     Some m \<Rightarrow> checked_answer a out_size m g p | None \<Rightarrow> checked_answer_of_session a out_size g p)"

definition handle_interrupt_task ::
  "api \<Rightarrow> (pb_interrupt_task_response \<Rightarrow> int) \<Rightarrow>
    (interrupt_task_command \<Rightarrow> 's \<Rightarrow> (service_error + interrupt_task_response) \<times> 's) \<Rightarrow>
    int \<Rightarrow> pb_interrupt_task_request option \<Rightarrow> 's \<Rightarrow> (status_error + pb_interrupt_task_response) \<times> 's" where
  "handle_interrupt_task a out_size interrupt msg_size req s =
     (case or_fail (request_failure a (validate_inbound_message_for_process (map_option (\<lambda>_. msg_size) req) (api_max_recv a)))
        (and_then (request_status a (validate_interrupt_task req)) (\<lambda>c.
         and_then (locator_session a msg_size (itc_locator c)) (\<lambda>m. Inr (c, m)))) of
        Inl e \<Rightarrow> (Inl e, s)
      | Inr (c, m) \<Rightarrow> (case interrupt c s of (r, s') \<Rightarrow>
          (and_then (service_status a r) (\<lambda>r.
           and_then (mapping_status a (interrupt_task_response_to_proto_with_failure r)) (\<lambda>p.
           answer_of_locator a out_size m (ir_session_group_id r) p)), s')))"

definition handle_get_task_status ::
  "api \<Rightarrow> (pb_task_status_response \<Rightarrow> int) \<Rightarrow>
    (task_locator \<Rightarrow> 's \<Rightarrow> (service_error + task_status) \<times> 's) \<Rightarrow>
    int \<Rightarrow> pb_locator option option \<Rightarrow> 's \<Rightarrow> (status_error + pb_task_status_response) \<times> 's" where
  "handle_get_task_status a out_size get_status msg_size req s =
     (case or_fail (request_failure a (validate_inbound_message_for_process (map_option (\<lambda>_. msg_size) req) (api_max_recv a)))
        (and_then (request_status a (validate_get_task_status req)) (\<lambda>l.
         and_then (locator_session a msg_size l) (\<lambda>m. Inr (l, m)))) of
        Inl e \<Rightarrow> (Inl e, s)
      | Inr (l, m) \<Rightarrow> (case get_status l s of (r, s') \<Rightarrow>
          (and_then (service_status a r) (\<lambda>r.
           and_then (mapping_status a (get_task_status_response_to_proto_with_failure r)) (\<lambda>p.
           answer_of_locator a out_size m (gs_session_group_id r) p)), s')))"

subsection \<open>Streams\<close>

record stream_task_message =
  sm_message_session_group_id :: string
  sm_event :: "task_event option"
  sm_replay_notice :: "replay_notice option"

definition stream_message_to_proto ::
  "api \<Rightarrow> (pb_stream_task_response \<Rightarrow> int) \<Rightarrow> stream_task_message \<Rightarrow> status_error + pb_stream_task_response" where
  "stream_message_to_proto a out_size x =
     (let internal = redacted_internal_status_error (api_attach a);
          send = (\<lambda>p g. or_fail (validate_outbound_message_for_session (api_attach a) (out_size p) (api_session_groups a) g)
            (Inr p)) in
      case (sm_event x, sm_replay_notice x) of
        (Some e, None) \<Rightarrow>
          reject_if (sm_message_session_group_id x \<noteq> [] \<and> sm_message_session_group_id x \<noteq> te_session_group_id e) internal
          (and_then (mapping_status a (stream_event_to_proto_with_failure e)) (\<lambda>p. send p (te_session_group_id e)))
      | (None, Some n) \<Rightarrow>
          and_then (mapping_status a (stream_replay_notice_to_proto_with_failure n))
            (\<lambda>p. send p (sm_message_session_group_id x))
      | _ \<Rightarrow> Inl internal)"

text \<open>
  What \<open>Next\<close> returned, together with the error of \<open>Send\<close> for the message, if it has one.  The loop returns
  what was sent and the status of the call (\<open>None\<close>: success); the input ends where the code still waits.
\<close>

datatype next_message =
    NextMessage stream_task_message "service_error option"
  | NextEnd
  | NextError service_error

fun stream_task_loop ::
  "api \<Rightarrow> (pb_stream_task_response \<Rightarrow> int) \<Rightarrow> next_message list \<Rightarrow> pb_stream_task_response list \<times> status_error option option" where
  "stream_task_loop a out_size [] = ([], None)"
| "stream_task_loop a out_size (NextEnd # ns) = ([], Some None)"
| "stream_task_loop a out_size (NextError e # ns) = ([], Some (Some (status_error_from_service_error (api_attach a) e)))"
| "stream_task_loop a out_size (NextMessage x send_error # ns) =
     (case and_then (stream_message_to_proto a out_size x) (\<lambda>p.
         or_fail (validate_outbound_message_for_process (api_attach a) (Some (out_size p)) (api_max_send a)) (Inr p)) of
        Inl e \<Rightarrow> ([], Some (Some e))
      | Inr p \<Rightarrow> (case send_error of
          Some e \<Rightarrow> ([], Some (Some (status_error_from_service_error (api_attach a) e)))
        | None \<Rightarrow> (case stream_task_loop a out_size ns of (ps, r) \<Rightarrow> (p # ps, r))))"

definition handle_stream_task ::
  "api \<Rightarrow> (pb_stream_task_response \<Rightarrow> int) \<Rightarrow>
    (stream_task_command \<Rightarrow> 's \<Rightarrow> (service_error + next_message list) \<times> 's) \<Rightarrow>
    int \<Rightarrow> pb_stream_task_request option \<Rightarrow> 's \<Rightarrow>
    (pb_stream_task_response list \<times> status_error option option) \<times> 's" where
  "handle_stream_task a out_size open_stream msg_size req s =
     (case or_fail (request_failure a (validate_inbound_message_for_process (map_option (\<lambda>_. msg_size) req) (api_max_recv a)))
        (request_status a (validate_stream_task req)) of
        Inl e \<Rightarrow> (([], Some (Some e)), s)
      | Inr c \<Rightarrow> (case open_stream c s of (r, s') \<Rightarrow>
          (case service_status a r of Inl e \<Rightarrow> ([], Some (Some e)) | Inr ns \<Rightarrow> stream_task_loop a out_size ns, s')))"

end
