(* ===== verification/Grpc_Chat.thy ===== *)
theory Grpc_Chat
  imports Grpc_Handlers
begin

text \<open>
  The chat API (\<open>chat_handlers.go\<close> of \<open>gateway/internal/grpcapi\<close>): the statuses of its errors, the
  messages of its answers and events, and its handlers.  \<open>attach_chat\<close> is \<open>WithDetails\<close> of a status with
  the chat API's own details.
\<close>

subsection \<open>Statuses\<close>

record pb_chat_error_details =
  pcd_outcome :: wire
  pcd_reason :: string
  pcd_display_message :: string
  pcd_chat_id :: string
  pcd_session_group_id :: string
  pcd_pending_request_id :: string
  pcd_retryable :: bool

datatype chat_status_error =
    ChatApiError grpc_code string "pb_chat_error_details option"   \<comment> \<open>code, message, details\<close>
  | GatewayStatusError status_error

definition chat_outcome_from_code :: "grpc_code \<Rightarrow> wire" where
  "chat_outcome_from_code c = (case c of
      GrpcInvalidArgument \<Rightarrow> 1 | GrpcUnauthenticated \<Rightarrow> 2 | GrpcPermissionDenied \<Rightarrow> 3 | GrpcNotFound \<Rightarrow> 4
    | GrpcFailedPrecondition \<Rightarrow> 5 | GrpcAborted \<Rightarrow> 6 | GrpcUnimplemented \<Rightarrow> 7 | GrpcUnavailable \<Rightarrow> 8
    | GrpcUnknown \<Rightarrow> 9 | GrpcOutOfRange \<Rightarrow> 10 | GrpcDeadlineExceeded \<Rightarrow> 12 | GrpcCanceled \<Rightarrow> 13 | _ \<Rightarrow> 14)"

definition new_chat_runtime_status_error_with_details ::
  "(pb_chat_error_details \<Rightarrow> bool) \<Rightarrow> grpc_code \<Rightarrow> wire \<Rightarrow> gateway_error_reason \<Rightarrow> string \<Rightarrow> gateway_error_details \<Rightarrow>
    chat_status_error" where
  "new_chat_runtime_status_error_with_details attach_chat code outcome reason message d =
     (let details = \<lparr>pcd_outcome = outcome, pcd_reason = reason_text reason, pcd_display_message = message,
        pcd_chat_id = ed_thread_id d, pcd_session_group_id = ed_session_group_id d,
        pcd_pending_request_id = ed_pending_request_id d, pcd_retryable = ed_retryable d\<rparr> in
      if attach_chat details then ChatApiError code message (Some details)
      else ChatApiError GrpcInternal ''failed to attach chat runtime error details'' None)"

definition new_chat_runtime_status_error ::
  "(pb_chat_error_details \<Rightarrow> bool) \<Rightarrow> grpc_code \<Rightarrow> wire \<Rightarrow> gateway_error_reason \<Rightarrow> string \<Rightarrow> bool \<Rightarrow> chat_status_error" where
  "new_chat_runtime_status_error attach_chat code outcome reason message again =
     (let message = (if message = [] then reason_text reason else message) in
      new_chat_runtime_status_error_with_details attach_chat code outcome reason message
        (no_details\<lparr>ed_retryable := again\<rparr>))"

definition new_chat_runtime_status_error_from_details ::
  "(pb_chat_error_details \<Rightarrow> bool) \<Rightarrow> grpc_code \<Rightarrow> gateway_error_details \<Rightarrow> chat_status_error" where
  "new_chat_runtime_status_error_from_details attach_chat code d =
     (let reason = (if ed_reason d = ReasonNone then ReasonInternalGatewayError else ed_reason d);
          message = (if ed_display_message d = [] then reason_text reason else ed_display_message d) in
      new_chat_runtime_status_error_with_details attach_chat code (chat_outcome_from_code code) reason message d)"

definition chat_runtime_status_error_from_request_error ::
  "(pb_chat_error_details \<Rightarrow> bool) \<Rightarrow> request_error \<Rightarrow> chat_status_error" where
  "chat_runtime_status_error_from_request_error attach_chat e =
     new_chat_runtime_status_error_from_details attach_chat (re_code e) (re_details e)"

definition chat_runtime_status_error_from_service_error ::
  "(pb_chat_error_details \<Rightarrow> bool) \<Rightarrow> service_error \<Rightarrow> chat_status_error" where
  "chat_runtime_status_error_from_service_error attach_chat e = (case e of
      ServiceRequestError r \<Rightarrow> chat_runtime_status_error_from_request_error attach_chat r
    | ServiceGatewayError g \<Rightarrow> new_chat_runtime_status_error_from_details attach_chat
        (code_from_domain_gateway_error (ge_code g)) (ge_details g)
    | ServiceCanceled \<Rightarrow> new_chat_runtime_status_error_from_details attach_chat GrpcCanceled
        (reason_details ReasonCallerCanceled ''caller canceled'')
    | ServiceDeadlineExceeded \<Rightarrow> new_chat_runtime_status_error_from_details attach_chat GrpcDeadlineExceeded
        (reason_details ReasonCallerDeadlineExceeded ''caller deadline exceeded'')
    | ServiceOtherError \<Rightarrow> new_chat_runtime_status_error_from_details attach_chat GrpcInternal
        (reason_details ReasonInternalGatewayError ''internal gateway error''))"

subsection \<open>Messages\<close>

record pb_chat_capabilities =
  pcc_status :: wire
  pcc_history :: wire
  pcc_event_stream :: wire
  pcc_replay :: wire
  pcc_pending :: wire
  pcc_interrupt :: wire

text \<open>A value without a number is sent as 0.\<close>

definition or_unspecified :: "wire option \<Rightarrow> wire" where
  "or_unspecified n = (case n of None \<Rightarrow> 0 | Some n \<Rightarrow> n)"

definition chat_capability_set_to_proto :: "chat_capability_set \<Rightarrow> pb_chat_capabilities" where
  "chat_capability_set_to_proto c = (let f = (\<lambda>x. or_unspecified (chat_capability_state_to_proto x)) in
     \<lparr>pcc_status = f (cc_status c), pcc_history = f (cc_history c), pcc_event_stream = f (cc_event_stream c),
      pcc_replay = f (cc_replay c), pcc_pending = f (cc_pending c), pcc_interrupt = f (cc_interrupt c)\<rparr>)"

definition default_chat_capability_set :: pb_chat_capabilities where
  "default_chat_capability_set = \<lparr>pcc_status = 1, pcc_history = 1, pcc_event_stream = 5, pcc_replay = 5,
     pcc_pending = 1, pcc_interrupt = 1\<rparr>"

record pb_chat_gateway_local =
  pgl_signals :: "wire list"
  pgl_process_epoch :: string

definition chat_gateway_local_to_proto :: "chat_gateway_local_state \<Rightarrow> pb_chat_gateway_local" where
  "chat_gateway_local_to_proto l =
     \<lparr>pgl_signals = (if gl_live l then [1] else []) @ (if gl_replay_available l then [2] else []) @
        (if gl_replay_unavailable l then [3] else []), pgl_process_epoch = gl_process_epoch l\<rparr>"

record pb_chat_pending_request =
  pcp_pending_request_id :: string
  pcp_chat_id :: string
  pcp_run_id :: string
  pcp_pending_type :: wire
  pcp_created_at :: int
  pcp_item_id :: string
  pcp_display :: pb_display

record pb_chat_terminal =
  pct_terminal_lifecycle :: wire
  pct_result_summary :: string
  pct_error_message :: string

record pb_chat_status =
  pcs_chat_id :: string
  pcs_session_group_id :: string
  pcs_workspace_id :: string
  pcs_lookup :: wire
  pcs_thread_lifecycle :: wire
  pcs_current_run_lifecycle :: wire
  pcs_current_run_id :: string
  pcs_last_run_id :: string
  pcs_capabilities :: pb_chat_capabilities
  pcs_gateway_local :: pb_chat_gateway_local
  pcs_active_pending_requests :: "pb_chat_pending_request list"
  pcs_terminal :: "pb_chat_terminal option"
  pcs_last_event_id :: u64

text \<open>\<open>None\<close> is the redacted internal error.\<close>

definition chat_pending_request_to_proto :: "chat_pending_request \<Rightarrow> pb_chat_pending_request option" where
  "chat_pending_request_to_proto r =
     (if cp_pending_request_id r = [] \<or> cp_chat_id r = [] \<or> cp_run_id r = [] then None
      else case pending_type_to_proto (cp_pending_type r) of None \<Rightarrow> None | Some n \<Rightarrow>
        case pending_request_display_to_proto (cp_display r) of None \<Rightarrow> None | Some d \<Rightarrow>
        Some \<lparr>pcp_pending_request_id = cp_pending_request_id r, pcp_chat_id = cp_chat_id r, pcp_run_id = cp_run_id r,
          pcp_pending_type = n, pcp_created_at = cp_created_at r, pcp_item_id = cp_item_id r, pcp_display = d\<rparr>)"

text \<open>The pending type, the resolution, the id and the message of the resolved event.\<close>

definition chat_pending_resolved_to_proto :: "chat_pending_resolved \<Rightarrow> (string \<times> wire \<times> wire \<times> string) option" where
  "chat_pending_resolved_to_proto r =
     (if cr_pending_request_id r = [] then None
      else case pending_type_to_proto (cr_pending_type r) of None \<Rightarrow> None | Some n \<Rightarrow>
        case pending_resolution_to_proto (cr_resolution r) of None \<Rightarrow> None | Some res \<Rightarrow>
        Some (cr_pending_request_id r, n, res, cr_display_message r))"

definition chat_terminal_to_proto :: "chat_terminal option \<Rightarrow> pb_chat_terminal option option" where
  "chat_terminal_to_proto x = (case x of None \<Rightarrow> Some None | Some t \<Rightarrow>
     (case chat_turn_lifecycle_to_proto (ct_state t) of None \<Rightarrow> None | Some n \<Rightarrow>
      Some (Some \<lparr>pct_terminal_lifecycle = n,
        pct_result_summary = (if ct_state t = TurnCompleted then ct_display_message t else []),
        pct_error_message = (if ct_state t = TurnCompleted then [] else ct_display_message t)\<rparr>)))"

definition chat_status_to_proto :: "chat_status \<Rightarrow> pb_chat_status option" where
  "chat_status_to_proto s =
     (case those (map chat_pending_request_to_proto (cst_active_pending s)) of None \<Rightarrow> None | Some ps \<Rightarrow>
      case chat_terminal_to_proto (cst_terminal s) of None \<Rightarrow> None | Some t \<Rightarrow>
      Some \<lparr>pcs_chat_id = cst_chat_id s, pcs_session_group_id = cst_session_group_id s,
        pcs_workspace_id = cst_workspace_id s, pcs_lookup = (if cst_lookup_valid s then 1 else 6),
        pcs_thread_lifecycle = or_unspecified (chat_thread_lifecycle_to_proto (cst_thread_lifecycle s)),
        pcs_current_run_lifecycle = (case cst_current_run_lifecycle s of None \<Rightarrow> 0
          | Some l \<Rightarrow> or_unspecified (chat_turn_lifecycle_to_proto l)),
        pcs_current_run_id = cst_current_run_id s, pcs_last_run_id = cst_last_run_id s,
        pcs_capabilities = chat_capability_set_to_proto (cst_capabilities s),
        pcs_gateway_local = chat_gateway_local_to_proto (cst_gateway_local s),
        pcs_active_pending_requests = ps, pcs_terminal = t, pcs_last_event_id = cst_last_event_id s\<rparr>)"

definition chat_status_matches :: "chat_status \<Rightarrow> string \<Rightarrow> string \<Rightarrow> string \<Rightarrow> bool" where
  "chat_status_matches s g w c \<longleftrightarrow>
     cst_session_group_id s = g \<and> cst_workspace_id s = w \<and> cst_chat_id s = c"

record pb_chat =
  pch_chat_id :: string
  pch_session_group_id :: string
  pch_workspace_id :: string
  pch_thread_lifecycle :: wire
  pch_created_at :: int
  pch_updated_at :: int
  pch_preview :: string
  pch_ephemeral :: bool
  pch_capabilities :: pb_chat_capabilities

definition chat_to_proto :: "chat \<Rightarrow> pb_chat" where
  "chat_to_proto c = \<lparr>pch_chat_id = ch_chat_id c, pch_session_group_id = ch_session_group_id c,
     pch_workspace_id = ch_workspace_id c,
     pch_thread_lifecycle = or_unspecified (chat_thread_lifecycle_to_proto (ch_thread_lifecycle c)),
     pch_created_at = ch_created_at c, pch_updated_at = ch_updated_at c, pch_preview = ch_preview c,
     pch_ephemeral = ch_ephemeral c, pch_capabilities = chat_capability_set_to_proto (ch_capabilities c)\<rparr>"

record pb_turn_summary =
  pts_run_id :: string
  pts_lifecycle :: wire
  pts_items_view :: wire
  pts_started_at :: int
  pts_completed_at :: int
  pts_duration :: int
  pts_summary :: string
  pts_truncated :: bool
  pts_error :: "chat_error_summary option"   \<comment> \<open>the message has the same fields\<close>

definition chat_turn_summary_to_proto :: "chat_turn_summary \<Rightarrow> pb_turn_summary" where
  "chat_turn_summary_to_proto t = \<lparr>pts_run_id = cts_run_id t,
     pts_lifecycle = or_unspecified (chat_turn_lifecycle_to_proto (cts_lifecycle t)),
     pts_items_view = or_unspecified (chat_turn_items_view_to_proto (cts_items_view t)),
     pts_started_at = cts_started_at t, pts_completed_at = cts_completed_at t, pts_duration = cts_duration t,
     pts_summary = cts_summary t, pts_truncated = cts_truncated t, pts_error = cts_error t\<rparr>"

record pb_narrowed =
  pnw_outcome :: wire
  pnw_reason :: string
  pnw_display_message :: string
  pnw_returned :: wire
  pnw_retryable :: bool

definition chat_narrowed_outcome_to_proto ::
  "chat_narrowed_outcome option \<Rightarrow> chat_capability_state \<Rightarrow> pb_narrowed option" where
  "chat_narrowed_outcome_to_proto x returned = map_option (\<lambda>o1. \<lparr>pnw_outcome = 11,
     pnw_reason = reason_text (cno_reason o1), pnw_display_message = cno_display_message o1,
     pnw_returned = or_unspecified (chat_capability_state_to_proto returned), pnw_retryable = cno_retryable o1\<rparr>) x"

record pb_chat_replay_notice =
  pcn_code :: wire
  pcn_message :: string
  pcn_oldest_buffered_event_id :: u64
  pcn_newest_buffered_event_id :: u64
  pcn_from_start_available :: bool
  pcn_start_evicted_before_event_id :: u64
  pcn_process_epoch :: string

definition chat_replay_notice_to_proto :: "chat_replay_notice \<Rightarrow> pb_chat_replay_notice" where
  "chat_replay_notice_to_proto n = \<lparr>pcn_code = or_unspecified (chat_replay_notice_code_to_proto (crn_code n)),
     pcn_message = crn_message n, pcn_oldest_buffered_event_id = crn_oldest_buffered_event_id n,
     pcn_newest_buffered_event_id = crn_newest_buffered_event_id n,
     pcn_from_start_available = crn_from_start_available n,
     pcn_start_evicted_before_event_id = crn_start_evicted_before_event_id n, pcn_process_epoch = crn_process_epoch n\<rparr>"

datatype pb_chat_payload =
    PbStatusUpdated pb_chat_status
  | PbChatDelta string bool
  | PbChatMessage string bool
  | PbChatPendingCreated pb_chat_pending_request
  | PbChatPendingResolved "string \<times> wire \<times> wire \<times> string"
  | PbChatTerminal "pb_chat_terminal option"
  | PbChatCommandStarted string string string
  | PbChatCommandOutput pb_command_output_delta
  | PbChatWarning string string string string string

record pb_chat_event =
  pce_event_id :: u64
  pce_event_cursor :: string
  pce_chat_id :: string
  pce_session_group_id :: string
  pce_workspace_id :: string
  pce_run_id :: string
  pce_created_at :: int
  pce_payload :: pb_chat_payload

text \<open>
  The payloads that are set, in the order in which the code looks at them; the first one that cannot be
  mapped ends the mapping.
\<close>

definition chat_event_payloads :: "chat_event \<Rightarrow> pb_chat_payload option list" where
  "chat_event_payloads e =
     (case cev_status_updated e of None \<Rightarrow> [] | Some s \<Rightarrow>
       [if \<not> chat_status_matches s (cev_session_group_id e) (cev_workspace_id e) (cev_chat_id e) then None
        else map_option PbStatusUpdated (chat_status_to_proto s)]) @
     (case cev_assistant_delta e of None \<Rightarrow> [] | Some d \<Rightarrow> [Some (PbChatDelta (ad_text_delta d) (ad_truncated d))]) @
     (case cev_assistant_message_completed e of None \<Rightarrow> [] | Some m \<Rightarrow>
       [Some (PbChatMessage (am_message m) (am_truncated m))]) @
     (case cev_pending_created e of None \<Rightarrow> [] | Some r \<Rightarrow>
       [map_option PbChatPendingCreated (chat_pending_request_to_proto r)]) @
     (case cev_pending_resolved e of None \<Rightarrow> [] | Some r \<Rightarrow>
       [map_option PbChatPendingResolved (chat_pending_resolved_to_proto r)]) @
     (case cev_terminal e of None \<Rightarrow> [] | Some t \<Rightarrow> [map_option PbChatTerminal (chat_terminal_to_proto (Some t))]) @
     (case cev_command_started e of None \<Rightarrow> [] | Some c \<Rightarrow>
       [Some (PbChatCommandStarted (cs_item_id c) (cs_command_display c) (cs_workspace_label c))]) @
     (case cev_command_output_delta e of None \<Rightarrow> [] | Some c \<Rightarrow>
       [map_option PbChatCommandOutput (command_output_delta_event_to_proto c)]) @
     (case cev_gateway_warning e of None \<Rightarrow> [] | Some w \<Rightarrow>
       [Some (PbChatWarning (gw_code w) (gw_message w) (gw_request_type w) (gw_auto_resolution w) (gw_limit_reason w))])"

definition chat_event_to_proto :: "chat_event \<Rightarrow> pb_chat_event option" where
  "chat_event_to_proto e =
     (if cev_event_id e = 0 \<or> cev_event_cursor e = [] \<or> cev_chat_id e = [] \<or> cev_session_group_id e = [] \<or>
         cev_workspace_id e = [] \<or> cev_run_id e = [] then None
      else case chat_event_payloads e of
        [Some p] \<Rightarrow> Some \<lparr>pce_event_id = cev_event_id e, pce_event_cursor = cev_event_cursor e,
          pce_chat_id = cev_chat_id e, pce_session_group_id = cev_session_group_id e,
          pce_workspace_id = cev_workspace_id e, pce_run_id = cev_run_id e, pce_created_at = cev_created_at e,
          pce_payload = p\<rparr>
      | _ \<Rightarrow> None)"

subsection \<open>Answers\<close>

record chat_api =
  cap_api :: api
  cap_enabled :: bool
  cap_runtime_present :: bool
  cap_attach_chat :: "pb_chat_error_details \<Rightarrow> bool"

definition chat_internal :: "chat_api \<Rightarrow> chat_status_error" where
  "chat_internal a = GatewayStatusError (redacted_internal_status_error (api_attach (cap_api a)))"

text \<open>The answer of the runtime lacks a field that it must have.\<close>

definition missing_fields :: "chat_api \<Rightarrow> string \<Rightarrow> string \<Rightarrow> string \<Rightarrow> chat_status_error" where
  "missing_fields a message g c = new_chat_runtime_status_error_from_details (cap_attach_chat a) GrpcInternal
     ((reason_details ReasonInternalGatewayError message)\<lparr>ed_session_group_id := g, ed_thread_id := c\<rparr>)"

definition or_internal :: "chat_api \<Rightarrow> 'a option \<Rightarrow> chat_status_error + 'a" where
  "or_internal a x = (case x of None \<Rightarrow> Inl (chat_internal a) | Some y \<Rightarrow> Inr y)"

record pb_start_chat_run_response =
  psr_chat_id :: string
  psr_run_id :: string
  psr_session_group_id :: string
  psr_workspace_id :: string
  psr_status :: pb_chat_status
  psr_last_event_id :: u64
  psr_event_cursor :: string
  psr_first_turn_accepted :: bool
  psr_capabilities :: pb_chat_capabilities

definition start_chat_run_response_to_proto ::
  "chat_api \<Rightarrow> start_chat_run_response \<Rightarrow> chat_status_error + pb_start_chat_run_response" where
  "start_chat_run_response_to_proto a r =
     reject_if (scr_chat_id r = [] \<or> scr_run_id r = [] \<or> scr_session_group_id r = [] \<or> scr_workspace_id r = [] \<or>
         \<not> scr_first_turn_accepted r)
       (missing_fields a ''start chat run response is missing required fields'' (scr_session_group_id r) (scr_chat_id r))
     (Inr \<lparr>psr_chat_id = scr_chat_id r, psr_run_id = scr_run_id r, psr_session_group_id = scr_session_group_id r,
       psr_workspace_id = scr_workspace_id r,
       psr_status = \<lparr>pcs_chat_id = scr_chat_id r, pcs_session_group_id = scr_session_group_id r,
         pcs_workspace_id = scr_workspace_id r, pcs_lookup = 1, pcs_thread_lifecycle = 3,
         pcs_current_run_lifecycle = 1, pcs_current_run_id = scr_run_id r, pcs_last_run_id = scr_run_id r,
         pcs_capabilities = default_chat_capability_set,
         pcs_gateway_local = \<lparr>pgl_signals = [1, 2], pgl_process_epoch = scr_process_epoch r\<rparr>,
         pcs_active_pending_requests = [], pcs_terminal = None, pcs_last_event_id = scr_last_event_id r\<rparr>,
       psr_last_event_id = scr_last_event_id r, psr_event_cursor = scr_event_cursor r,
       psr_first_turn_accepted = scr_first_turn_accepted r, psr_capabilities = default_chat_capability_set\<rparr>)"

definition get_chat_response_to_proto ::
  "chat_api \<Rightarrow> chat \<times> chat_status \<Rightarrow> chat_status_error + pb_chat \<times> pb_chat_status" where
  "get_chat_response_to_proto a r = (case r of (c, st) \<Rightarrow>
     reject_if (ch_chat_id c = [] \<or> \<not> chat_status_matches st (ch_session_group_id c) (ch_workspace_id c) (ch_chat_id c))
       (chat_internal a)
     (and_then (or_internal a (chat_status_to_proto st)) (\<lambda>p. Inr (chat_to_proto c, p))))"

definition get_chat_status_response_to_proto :: "chat_api \<Rightarrow> chat_status \<Rightarrow> chat_status_error + pb_chat_status" where
  "get_chat_status_response_to_proto a st =
     reject_if (cst_chat_id st = [] \<or> cst_session_group_id st = [] \<or> cst_workspace_id st = []) (chat_internal a)
     (or_internal a (chat_status_to_proto st))"

record pb_run_chat_turn_response =
  prt_chat_id :: string
  prt_run_id :: string
  prt_session_group_id :: string
  prt_workspace_id :: string
  prt_status :: pb_chat_status
  prt_last_event_id :: u64
  prt_event_cursor :: string
  prt_turn_accepted :: bool

definition run_chat_turn_response_to_proto ::
  "chat_api \<Rightarrow> run_chat_turn_response \<Rightarrow> chat_status_error + pb_run_chat_turn_response" where
  "run_chat_turn_response_to_proto a r =
     reject_if (rtr_chat_id r = [] \<or> rtr_run_id r = [] \<or> rtr_session_group_id r = [] \<or> rtr_workspace_id r = [] \<or>
         \<not> rtr_turn_accepted r)
       (missing_fields a ''run chat turn response is missing required fields'' (rtr_session_group_id r) (rtr_chat_id r))
     (reject_if (\<not> chat_status_matches (rtr_status r) (rtr_session_group_id r) (rtr_workspace_id r) (rtr_chat_id r))
       (chat_internal a)
     (and_then (or_internal a (chat_status_to_proto (rtr_status r))) (\<lambda>st.
     Inr \<lparr>prt_chat_id = rtr_chat_id r, prt_run_id = rtr_run_id r, prt_session_group_id = rtr_session_group_id r,
       prt_workspace_id = rtr_workspace_id r, prt_status = st, prt_last_event_id = rtr_last_event_id r,
       prt_event_cursor = rtr_event_cursor r, prt_turn_accepted = rtr_turn_accepted r\<rparr>)))"

record pb_respond_chat_pending_response =
  pcr_chat_id :: string
  pcr_run_id :: string
  pcr_pending_request_id :: string
  pcr_client_response_id :: string
  pcr_accepted :: bool
  pcr_already_applied :: bool
  pcr_last_event_id :: u64
  pcr_status :: pb_chat_status

definition respond_chat_pending_response_to_proto ::
  "chat_api \<Rightarrow> respond_chat_pending_response \<Rightarrow> chat_status_error + pb_respond_chat_pending_response" where
  "respond_chat_pending_response_to_proto a r =
     reject_if (rpr_chat_id r = [] \<or> rpr_run_id r = [] \<or> rpr_pending_request_id r = [] \<or>
         rpr_client_response_id r = [] \<or> \<not> rpr_accepted r)
       (missing_fields a ''respond chat pending response is missing required fields'' (rpr_session_group_id r) (rpr_chat_id r))
     (reject_if (\<not> chat_status_matches (rpr_status r) (rpr_session_group_id r) (rpr_workspace_id r) (rpr_chat_id r))
       (chat_internal a)
     (and_then (or_internal a (chat_status_to_proto (rpr_status r))) (\<lambda>st.
     Inr \<lparr>pcr_chat_id = rpr_chat_id r, pcr_run_id = rpr_run_id r, pcr_pending_request_id = rpr_pending_request_id r,
       pcr_client_response_id = rpr_client_response_id r, pcr_accepted = rpr_accepted r,
       pcr_already_applied = rpr_already_applied r, pcr_last_event_id = rpr_last_event_id r, pcr_status = st\<rparr>)))"

record pb_interrupt_chat_run_response =
  pci_chat_id :: string
  pci_run_id :: string
  pci_status :: pb_chat_status
  pci_interrupt_sent :: bool
  pci_already_interrupting :: bool
  pci_already_terminal :: bool
  pci_last_event_id :: u64

definition interrupt_chat_run_response_to_proto ::
  "chat_api \<Rightarrow> interrupt_chat_run_response \<Rightarrow> chat_status_error + pb_interrupt_chat_run_response" where
  "interrupt_chat_run_response_to_proto a r =
     reject_if (icr_chat_id r = [] \<or> icr_run_id r = [] \<or>
         (\<not> icr_interrupt_sent r \<and> \<not> icr_already_interrupting r \<and> \<not> icr_already_terminal r))
       (missing_fields a ''interrupt chat run response is missing required fields'' (icr_session_group_id r) (icr_chat_id r))
     (reject_if (\<not> chat_status_matches (icr_status r) (icr_session_group_id r) (icr_workspace_id r) (icr_chat_id r))
       (chat_internal a)
     (and_then (or_internal a (chat_status_to_proto (icr_status r))) (\<lambda>st.
     Inr \<lparr>pci_chat_id = icr_chat_id r, pci_run_id = icr_run_id r, pci_status = st,
       pci_interrupt_sent = icr_interrupt_sent r, pci_already_interrupting = icr_already_interrupting r,
       pci_already_terminal = icr_already_terminal r, pci_last_event_id = icr_last_event_id r\<rparr>)))"

record pb_chat_history_response =
  phr_chat_id :: string
  phr_turns :: "pb_turn_summary list"
  phr_next_cursor :: string
  phr_backwards_cursor :: string
  phr_returned_depth :: wire
  phr_capability :: wire
  phr_narrowed :: "pb_narrowed option"

definition get_chat_history_response_to_proto :: "get_chat_history_response \<Rightarrow> pb_chat_history_response" where
  "get_chat_history_response_to_proto r = \<lparr>phr_chat_id = hir_chat_id r,
     phr_turns = map chat_turn_summary_to_proto (hir_turns r), phr_next_cursor = hir_next_cursor r,
     phr_backwards_cursor = hir_backwards_cursor r,
     phr_returned_depth = or_unspecified (chat_history_depth_to_proto (hir_returned_depth r)),
     phr_capability = or_unspecified (chat_capability_state_to_proto (hir_capability r)),
     phr_narrowed = chat_narrowed_outcome_to_proto (hir_narrowed r) (hir_capability r)\<rparr>"

subsection \<open>Handlers\<close>

definition stage03_unavailable :: "chat_api \<Rightarrow> int option \<Rightarrow> chat_status_error option" where
  "stage03_unavailable a msg_size =
     first_of (map_option GatewayStatusError
       (request_failure (cap_api a) (validate_inbound_message_for_process msg_size (api_max_recv (cap_api a)))))
     (fail_if (\<not> cap_enabled a)
       (new_chat_runtime_status_error (cap_attach_chat a) GrpcUnimplemented 7 ReasonChatRuntimeDisabled
         ''chat runtime disabled'' False) None)"

definition chat_not_implemented :: "chat_api \<Rightarrow> chat_status_error" where
  "chat_not_implemented a = new_chat_runtime_status_error (cap_attach_chat a) GrpcUnimplemented 7
     ReasonChatRuntimeNotImplemented ''chat runtime method not implemented'' False"

definition chat_request_status :: "chat_api \<Rightarrow> request_error + 'a \<Rightarrow> chat_status_error + 'a" where
  "chat_request_status a r = (case r of
     Inl e \<Rightarrow> Inl (chat_runtime_status_error_from_request_error (cap_attach_chat a) e) | Inr x \<Rightarrow> Inr x)"

definition chat_service_status :: "chat_api \<Rightarrow> service_error + 'a \<Rightarrow> chat_status_error + 'a" where
  "chat_service_status a r = (case r of
     Inl e \<Rightarrow> Inl (chat_runtime_status_error_from_service_error (cap_attach_chat a) e) | Inr x \<Rightarrow> Inr x)"

definition chat_checked_answer ::
  "chat_api \<Rightarrow> ('b \<Rightarrow> int) \<Rightarrow> session_group_metadata \<Rightarrow> string \<Rightarrow> 'b \<Rightarrow> chat_status_error + 'b" where
  "chat_checked_answer a out_size m g p = map_sum GatewayStatusError id (checked_answer (cap_api a) out_size m g p)"

text \<open>
  The seven unary handlers differ in the check of the request, the session it names, the method of the
  runtime, the mapping of its answer and the session that the answer names.
\<close>

definition handle_chat ::
  "chat_api \<Rightarrow> ('b \<Rightarrow> int) \<Rightarrow> ('q option \<Rightarrow> request_error + 'c) \<Rightarrow> ('c \<Rightarrow> string) \<Rightarrow>
    ('c \<Rightarrow> 's \<Rightarrow> (service_error + 'r) \<times> 's) \<Rightarrow> ('r \<Rightarrow> chat_status_error + 'b) \<Rightarrow> ('c \<Rightarrow> 'r \<Rightarrow> string) \<Rightarrow>
    int \<Rightarrow> 'q option \<Rightarrow> 's \<Rightarrow> (chat_status_error + 'b) \<times> 's" where
  "handle_chat a out_size validate session_of_command runtime to_proto session_of_response msg_size req s =
     (case or_fail (stage03_unavailable a (map_option (\<lambda>_. msg_size) req))
        (reject_if (\<not> cap_runtime_present a) (chat_not_implemented a)
        (and_then (chat_request_status a (validate req)) (\<lambda>c.
         and_then (chat_request_status a
           (trusted_session_metadata_for_session_group_id (session_of_command c) (api_session_groups (cap_api a)))) (\<lambda>m.
         Inr (c, m))))) of
        Inl e \<Rightarrow> (Inl e, s)
      | Inr (c, m) \<Rightarrow> (case runtime c s of (r, s') \<Rightarrow>
          (and_then (chat_service_status a r) (\<lambda>r.
           and_then (to_proto r) (\<lambda>p.
           chat_checked_answer a out_size m (session_of_response c r) p)), s')))"

definition handle_start_chat_run where
  "handle_start_chat_run a out_size runtime msg_size req =
     handle_chat a out_size (validate_start_chat_run msg_size (api_session_groups (cap_api a))) scc_session_group_id runtime
       (start_chat_run_response_to_proto a) (\<lambda>c r. scr_session_group_id r) msg_size req"

definition handle_get_chat where
  "handle_get_chat a out_size runtime msg_size req =
     handle_chat a out_size (validate_get_chat msg_size (api_session_groups (cap_api a))) chc_session_group_id runtime
       (get_chat_response_to_proto a) (\<lambda>c r. ch_session_group_id (fst r)) msg_size req"

definition handle_run_chat_turn where
  "handle_run_chat_turn a out_size runtime msg_size req =
     handle_chat a out_size (validate_run_chat_turn msg_size (api_session_groups (cap_api a))) chc_session_group_id runtime
       (run_chat_turn_response_to_proto a) (\<lambda>c r. rtr_session_group_id r) msg_size req"

definition handle_get_chat_status where
  "handle_get_chat_status a out_size runtime msg_size req =
     handle_chat a out_size (validate_get_chat_status msg_size (api_session_groups (cap_api a))) chc_session_group_id runtime
       (get_chat_status_response_to_proto a) (\<lambda>c r. cst_session_group_id r) msg_size req"

definition handle_get_chat_history where
  "handle_get_chat_history a out_size runtime msg_size req =
     handle_chat a out_size (validate_get_chat_history msg_size (api_session_groups (cap_api a))) chc_session_group_id runtime
       (\<lambda>r. Inr (get_chat_history_response_to_proto r)) (\<lambda>c r. chc_session_group_id c) msg_size req"

definition handle_respond_chat_pending where
  "handle_respond_chat_pending a decode_first out_size runtime msg_size req =
     handle_chat a out_size (validate_respond_chat_pending decode_first msg_size (api_session_groups (cap_api a)))
       chc_session_group_id runtime
       (respond_chat_pending_response_to_proto a) (\<lambda>c r. rpr_session_group_id r) msg_size req"

definition handle_interrupt_chat_run where
  "handle_interrupt_chat_run a out_size runtime msg_size req =
     handle_chat a out_size (validate_interrupt_chat_run msg_size (api_session_groups (cap_api a))) chc_session_group_id runtime
       (interrupt_chat_run_response_to_proto a) (\<lambda>c r. icr_session_group_id r) msg_size req"

subsection \<open>Streams\<close>

record stream_chat_message =
  scm_session_group_id :: string
  scm_event :: "chat_event option"
  scm_replay_notice :: "chat_replay_notice option"
  scm_narrowed :: "chat_narrowed_outcome option"

datatype pb_stream_chat_response =
    PbChatStreamEvent pb_chat_event
  | PbChatStreamNotice pb_chat_replay_notice
  | PbChatStreamNarrowed "pb_narrowed option"

definition stream_chat_events_message_to_proto ::
  "chat_api \<Rightarrow> (pb_stream_chat_response \<Rightarrow> int) \<Rightarrow> session_group_metadata \<Rightarrow> stream_chat_message \<Rightarrow>
    chat_status_error + pb_stream_chat_response" where
  "stream_chat_events_message_to_proto a out_size m x =
     (let send = (\<lambda>p g. or_fail (map_option GatewayStatusError
        (validate_outbound_message_for_trusted_session (api_attach (cap_api a)) (out_size p) m g)) (Inr p)) in
      case (scm_event x, scm_replay_notice x, scm_narrowed x) of
        (Some e, None, None) \<Rightarrow>
          reject_if (scm_session_group_id x \<noteq> [] \<and> scm_session_group_id x \<noteq> cev_session_group_id e) (chat_internal a)
          (and_then (or_internal a (chat_event_to_proto e)) (\<lambda>p. send (PbChatStreamEvent p) (cev_session_group_id e)))
      | (None, Some n, None) \<Rightarrow> send (PbChatStreamNotice (chat_replay_notice_to_proto n)) (scm_session_group_id x)
      | (None, None, Some n) \<Rightarrow> send (PbChatStreamNarrowed
          (chat_narrowed_outcome_to_proto (Some n) CapabilityNarrowed)) (scm_session_group_id x)
      | _ \<Rightarrow> Inl (chat_internal a))"

datatype next_chat_message =
    NextChatMessage stream_chat_message "service_error option"
  | NextChatEnd
  | NextChatError service_error

fun stream_chat_loop ::
  "chat_api \<Rightarrow> (pb_stream_chat_response \<Rightarrow> int) \<Rightarrow> session_group_metadata \<Rightarrow> next_chat_message list \<Rightarrow>
    pb_stream_chat_response list \<times> chat_status_error option option" where
  "stream_chat_loop a out_size m [] = ([], None)"
| "stream_chat_loop a out_size m (NextChatEnd # ns) = ([], Some None)"
| "stream_chat_loop a out_size m (NextChatError e # ns) =
     ([], Some (Some (chat_runtime_status_error_from_service_error (cap_attach_chat a) e)))"
| "stream_chat_loop a out_size m (NextChatMessage x send_error # ns) =
     (case and_then (stream_chat_events_message_to_proto a out_size m x) (\<lambda>p.
         or_fail (map_option GatewayStatusError
           (validate_outbound_message_for_process (api_attach (cap_api a)) (Some (out_size p)) (api_max_send (cap_api a))))
         (Inr p)) of
        Inl e \<Rightarrow> ([], Some (Some e))
      | Inr p \<Rightarrow> (case send_error of
          Some e \<Rightarrow> ([], Some (Some (chat_runtime_status_error_from_service_error (cap_attach_chat a) e)))
        | None \<Rightarrow> (case stream_chat_loop a out_size m ns of (ps, r) \<Rightarrow> (p # ps, r))))"

definition handle_stream_chat_events ::
  "chat_api \<Rightarrow> (pb_stream_chat_response \<Rightarrow> int) \<Rightarrow>
    (stream_chat_events_command \<Rightarrow> 's \<Rightarrow> (service_error + next_chat_message list) \<times> 's) \<Rightarrow>
    int \<Rightarrow> pb_stream_chat_events_request option \<Rightarrow> 's \<Rightarrow>
    (pb_stream_chat_response list \<times> chat_status_error option option) \<times> 's" where
  "handle_stream_chat_events a out_size open_stream msg_size req s =
     (case or_fail (stage03_unavailable a (map_option (\<lambda>_. msg_size) req))
        (reject_if (\<not> cap_runtime_present a) (chat_not_implemented a)
        (and_then (chat_request_status a (validate_stream_chat_events msg_size (api_session_groups (cap_api a)) req)) (\<lambda>c.
         and_then (chat_request_status a
           (trusted_session_metadata_for_session_group_id (chc_session_group_id c) (api_session_groups (cap_api a)))) (\<lambda>m.
         Inr (c, m))))) of
        Inl e \<Rightarrow> (([], Some (Some e)), s)
      | Inr (c, m) \<Rightarrow> (case open_stream c s of (r, s') \<Rightarrow>
          (case chat_service_status a r of Inl e \<Rightarrow> ([], Some (Some e))
            | Inr ns \<Rightarrow> stream_chat_loop a out_size m ns, s')))"

end
