(* ===== verification/Grpc_Displays.thy ===== *)
theory Grpc_Displays
  imports Grpc_Limits
begin

text \<open>
  What the checks of a pending request's display amount to: a declarative specification (\<open>display_ok\<close>)
  that says which displays are shown to a user, and the lemmas by which the checks, which stop at the
  first failure and add up the bytes on the way, accept exactly those.
\<close>

subsection \<open>Texts within their limits\<close>

text \<open>A text with its limit.\<close>

type_synonym limited_text = "string \<times> int"

definition texts_fit :: "limited_text list \<Rightarrow> bool" where
  "texts_fit ts = list_all (\<lambda>(v, limit). int (length v) \<le> limit) ts"

definition text_bytes :: "limited_text list \<Rightarrow> int" where
  "text_bytes ts = sum_list (map (\<lambda>(v, limit). int (length v)) ts)"

definition outbound_id_ok :: "string \<Rightarrow> bool" where
  "outbound_id_ok v \<longleftrightarrow> length v \<le> max_public_id_bytes \<and> trim_space v = v"

lemma texts_fit_simps [simp]: "texts_fit []" "texts_fit ((v, l) # ts) \<longleftrightarrow> int (length v) \<le> l \<and> texts_fit ts"
  "texts_fit (ts @ us) \<longleftrightarrow> texts_fit ts \<and> texts_fit us"
  by (auto simp: texts_fit_def)

lemma text_bytes_simps [simp]: "text_bytes [] = 0" "text_bytes ((v, l) # ts) = int (length v) + text_bytes ts"
  "text_bytes (ts @ us) = text_bytes ts + text_bytes us"
  by (auto simp: text_bytes_def)

lemma text_bytes_ge_0: "0 \<le> text_bytes ts"
  unfolding text_bytes_def by (rule sum_list_nonneg) auto

lemma trim_space_Nil [simp]: "trim_space [] = []"
  by code_simp

lemma unsafe_outbound_public_id_iff [accepts]: "unsafe_outbound_public_id v \<longleftrightarrow> \<not> outbound_id_ok v"
  by (auto simp: unsafe_outbound_public_id_def has_invalid_outbound_public_id_shape_def outbound_id_ok_def)

lemma outbound_public_id_None [accepts]:
  "outbound_public_id_mapping_failure cs = None \<longleftrightarrow> list_all (outbound_id_ok \<circ> snd) cs"
  by (induction cs rule: outbound_public_id_mapping_failure.induct)
    (auto simp: accepts outbound_id_ok_def has_invalid_outbound_public_id_shape_def
      outbound_public_id_mapping_failure.simps)

lemma outbound_string_None [accepts]: "outbound_string_mapping_failure cs = None \<longleftrightarrow> texts_fit (map snd cs)"
  by (induction cs rule: outbound_string_mapping_failure.induct) (auto simp: accepts)

definition budget_ok :: "int \<Rightarrow> bool" where
  "budget_ok used \<longleftrightarrow> 0 \<le> used \<and> used \<le> max_pending_display_payload_bytes"

text \<open>The texts that are still to come fit, and the sum of the bytes stays below the limit.\<close>

definition room :: "limited_text list \<Rightarrow> int \<Rightarrow> bool" where
  "room ts used \<longleftrightarrow> texts_fit ts \<and> used + text_bytes ts \<le> max_pending_display_payload_bytes"

lemma room_Nil [simp]: "budget_ok used \<Longrightarrow> room [] used"
  by (simp add: room_def budget_ok_def)

lemma room_append: "room (ts @ us) used \<longleftrightarrow> room ts used \<and> room us (used + text_bytes ts)"
  using text_bytes_ge_0 [of us] by (auto simp: room_def)

lemma room_ok: "budget_ok used \<Longrightarrow> room ts used \<Longrightarrow> budget_ok (used + text_bytes ts)"
  using text_bytes_ge_0 [of ts] by (simp add: budget_ok_def room_def)

definition small_limits :: "limited_text list \<Rightarrow> bool" where
  "small_limits ts = list_all (\<lambda>(v, limit). limit \<le> max_pending_display_payload_bytes) ts"

lemma small_limits_simps [simp]: "small_limits []"
  "small_limits ((v, l) # ts) \<longleftrightarrow> l \<le> max_pending_display_payload_bytes \<and> small_limits ts"
  by (simp_all add: small_limits_def)

lemmas text_limit_defs = max_pending_display_string_bytes_def max_pending_display_payload_bytes_def
  max_outbound_error_display_message_bytes_def max_source_label_bytes_def max_command_display_bytes_def
  max_diff_display_bytes_def max_outbound_mcp_form_schema_bytes_def max_context_uri_bytes_def

lemma budget_add_Inr:
  assumes "budget_ok used" "small_limits (map snd cs)"
  shows "budget_add cs used = Inr n \<longleftrightarrow> room (map snd cs) used \<and> n = used + text_bytes (map snd cs)"
  using assms
proof (induction cs arbitrary: used)
  case (Cons c cs)
  obtain field v l where c: "c = (field, v, l)" by (cases c)
  show ?case
  proof (cases "int (length v) \<le> l")
    case True
    with Cons.prems have no_wrap: "i64 (used + int (length v)) = used + int (length v)"
      by (intro i64_id) (auto simp: c budget_ok_def max_pending_display_payload_bytes_def)
    show ?thesis
    proof (cases "used + int (length v) \<le> max_pending_display_payload_bytes")
      case le: True
      then have "budget_ok (used + int (length v))" using Cons.prems(1) by (simp add: budget_ok_def)
      with Cons.IH Cons.prems(2) True le show ?thesis
        by (simp add: c accepts no_wrap room_def algebra_simps)
    next
      case False
      then show ?thesis using text_bytes_ge_0 [of "map snd cs"] by (simp add: c accepts no_wrap room_def)
    qed
  qed (simp add: c accepts room_def)
qed (auto simp: accepts)

subsection \<open>The specification\<close>

definition safe_direct :: "approval_decision_option \<Rightarrow> bool" where
  "safe_direct x \<longleftrightarrow> ao_selectable x \<and> ao_wire_decision x \<in> {Some WireDecisionDecline, Some WireDecisionCancel}"

text \<open>What can be selected has a decision, and grants nothing while approvals are blocked.\<close>

definition option_ok :: "bool \<Rightarrow> approval_decision_option \<Rightarrow> bool" where
  "option_ok blocked x \<longleftrightarrow> ao_decision_id x \<noteq> [] \<and> outbound_id_ok (ao_decision_id x) \<and>
     (ao_selectable x \<longrightarrow> ao_wire_decision x \<noteq> None \<and>
       (blocked \<longrightarrow> ao_wire_decision x \<notin> {Some WireDecisionAccept, Some WireDecisionAcceptForSession}))"

definition option_texts :: "approval_decision_option \<Rightarrow> limited_text list" where
  "option_texts x = [(ao_display_label x, max_pending_display_string_bytes),
     (ao_summary x, max_outbound_error_display_message_bytes),
     (ao_unsupported_reason x, max_outbound_error_display_message_bytes)]"

definition options_ok :: "bool \<Rightarrow> approval_decision_option list \<Rightarrow> bool" where
  "options_ok blocked os \<longleftrightarrow> length os \<le> max_decision_options \<and> list_all (option_ok blocked) os \<and>
     distinct (map ao_decision_id os) \<and> list_ex safe_direct os"

definition entry_texts :: "additional_filesystem_entry \<Rightarrow> limited_text list" where
  "entry_texts x = [(af_access x, max_pending_display_string_bytes), (af_path_label x, max_source_label_bytes),
     (af_unapprovable_reason x, max_outbound_error_display_message_bytes)]"

definition summary_texts :: "network_policy_amendment_summary \<Rightarrow> limited_text list" where
  "summary_texts x = [(np_host_label x, max_pending_display_string_bytes), (np_action x, max_pending_display_string_bytes)]"

definition context_texts :: "(string \<times> string) option \<Rightarrow> limited_text list" where
  "context_texts x = (case x of None \<Rightarrow> [] | Some (host, protocol) \<Rightarrow>
     [(host, max_pending_display_string_bytes), (protocol, max_pending_display_string_bytes)])"

definition policy_texts :: "(string \<times> bool) option \<Rightarrow> limited_text list" where
  "policy_texts x = (case x of None \<Rightarrow> [] | Some (command, truncated) \<Rightarrow> [(command, max_command_display_bytes)])"

definition security_texts :: "approval_security_metadata \<Rightarrow> limited_text list" where
  "security_texts m = context_texts (as_network_context m) @
     concat (map entry_texts (as_additional_filesystem_entries m)) @
     policy_texts (as_exec_policy_amendment_summary m) @
     concat (map summary_texts (as_network_policy_amendment_summaries m)) @
     [(as_blocking_reason m, max_outbound_error_display_message_bytes)]"

definition security_ok :: "approval_security_metadata \<Rightarrow> bool" where
  "security_ok m \<longleftrightarrow>
     length (as_additional_filesystem_entries m) + length (as_network_policy_amendment_summaries m) \<le> max_security_entries \<and>
     list_all (\<lambda>x. af_entry_id x \<noteq> [] \<and> outbound_id_ok (af_entry_id x)) (as_additional_filesystem_entries m) \<and>
     list_all (\<lambda>x. \<not> np_approvable x) (as_network_policy_amendment_summaries m)"

definition grant_root_ok :: "file_grant_root_display \<Rightarrow> bool" where
  "grant_root_ok r \<longleftrightarrow> (gr_present r \<and> gr_approvable r \<longrightarrow>
     gr_under_configured_cwd r \<and> trim_space (gr_root_label r) \<noteq> [])"

definition grant_root_texts :: "file_grant_root_display \<Rightarrow> limited_text list" where
  "grant_root_texts r = [(gr_root_label r, max_source_label_bytes),
     (gr_unapprovable_reason r, max_outbound_error_display_message_bytes)]"

definition permission_texts :: "permission_atom \<Rightarrow> limited_text list" where
  "permission_texts p = [(pa_kind p, max_pending_display_string_bytes), (pa_display_label p, max_pending_display_string_bytes),
     (pa_scope_label p, max_pending_display_string_bytes),
     (pa_ungrantable_reason p, max_outbound_error_display_message_bytes)]"

definition question_texts :: "tool_user_input_question \<Rightarrow> limited_text list" where
  "question_texts q = [(tq_header q, max_pending_display_string_bytes), (tq_question q, max_pending_display_string_bytes)] @
     map (\<lambda>x. (x, max_pending_display_string_bytes)) (tq_options q)"

definition display_texts :: "pending_request_display \<Rightarrow> limited_text list" where
  "display_texts d = (case d of
      CommandApproval c \<Rightarrow> concat (map option_texts (cd_decision_options c)) @
        [(cd_command_display c, max_command_display_bytes), (cd_workspace_label c, max_source_label_bytes),
         (cd_reason c, max_outbound_error_display_message_bytes)] @
        (case cd_approval_security c of None \<Rightarrow> [] | Some m \<Rightarrow> security_texts m)
    | FileChangeApproval f \<Rightarrow> concat (map option_texts (fd_decision_options f)) @
        [(fd_file_label f, max_source_label_bytes), (fd_change_kind f, max_pending_display_string_bytes),
         (fd_diff_summary f, max_diff_display_bytes), (fd_diff_unified f, max_diff_display_bytes)] @
        (case fd_grant_root f of None \<Rightarrow> [] | Some r \<Rightarrow> grant_root_texts r)
    | PermissionsApproval p \<Rightarrow> (pd_reason p, max_outbound_error_display_message_bytes) #
        concat (map permission_texts (pd_requested_permissions p))
    | McpElicitation m \<Rightarrow> [(md_message m, max_pending_display_string_bytes),
         (md_form_schema_json m, max_outbound_mcp_form_schema_bytes), (md_url m, max_context_uri_bytes),
         (md_submit_label m, max_pending_display_string_bytes)]
    | ToolUserInput qs \<Rightarrow> concat (map question_texts qs))"

text \<open>Ids that tell the choices of a list apart.\<close>

definition ids_ok :: "string list \<Rightarrow> bool" where
  "ids_ok ids \<longleftrightarrow> list_all (\<lambda>v. v \<noteq> [] \<and> outbound_id_ok v) ids \<and> distinct ids"

definition choices_ok :: "pending_request_display \<Rightarrow> bool" where
  "choices_ok d = (case d of
      CommandApproval c \<Rightarrow> options_ok (security_blocks (cd_approval_security c)) (cd_decision_options c) \<and>
        (case cd_approval_security c of None \<Rightarrow> True | Some m \<Rightarrow> security_ok m)
    | FileChangeApproval f \<Rightarrow> options_ok (grant_root_blocks (fd_grant_root f)) (fd_decision_options f) \<and>
        (case fd_grant_root f of None \<Rightarrow> True | Some r \<Rightarrow> grant_root_ok r)
    | PermissionsApproval p \<Rightarrow> length (pd_requested_permissions p) \<le> max_permission_atoms \<and>
        ids_ok (map pa_permission_id (pd_requested_permissions p))
    | McpElicitation m \<Rightarrow> True
    | ToolUserInput qs \<Rightarrow> length qs \<le> max_questions \<and> ids_ok (map tq_id qs) \<and>
        list_all (\<lambda>q. length (tq_options q) \<le> max_question_options) qs)"

definition display_ok :: "pending_request_display \<Rightarrow> bool" where
  "display_ok d \<longleftrightarrow> texts_fit (display_texts d) \<and>
     text_bytes (display_texts d) \<le> max_pending_display_payload_bytes \<and> choices_ok d"

subsection \<open>The checks implement it\<close>

declare budget_add.simps [simp del]

lemma budget_addI: "budget_ok used \<Longrightarrow> small_limits ts \<Longrightarrow> map snd cs = ts \<Longrightarrow>
    budget_add cs used = Inr n \<longleftrightarrow> room ts used \<and> n = used + text_bytes ts"
  using budget_add_Inr by blast

text \<open>A chain of two steps that each take their texts takes the texts of both.\<close>

lemma and_then_room:
  assumes "budget_ok used"
    and r: "\<And>m. r = Inr m \<longleftrightarrow> P \<and> room ts used \<and> m = used + text_bytes ts"
    and f: "\<And>m k. budget_ok m \<Longrightarrow> f m = Inr k \<longleftrightarrow> Q \<and> room us m \<and> k = m + text_bytes us"
  shows "and_then r f = Inr n \<longleftrightarrow> (P \<and> Q) \<and> room (ts @ us) used \<and> n = used + text_bytes (ts @ us)"
proof (cases "room ts used")
  case True
  show ?thesis using f [OF room_ok [OF assms(1) True]] by (auto simp: accepts r room_append add.assoc)
qed (auto simp: accepts r room_append)

lemma ids_step:
  "v \<noteq> [] \<and> outbound_id_ok v \<and> v \<notin> set seen \<and> ids_ok vs \<and> set vs \<inter> set (v # seen) = {} \<longleftrightarrow>
    ids_ok (v # vs) \<and> set (v # vs) \<inter> set seen = {}"
  by (auto simp: ids_ok_def)

lemma decision_options_loop_Inr:
  assumes "budget_ok used"
  shows "decision_options_loop blocked os seen safe used = Inr (safe', n) \<longleftrightarrow>
    list_all (option_ok blocked) os \<and> distinct (map ao_decision_id os) \<and> set (map ao_decision_id os) \<inter> set seen = {} \<and>
    room (concat (map option_texts os)) used \<and> n = used + text_bytes (concat (map option_texts os)) \<and>
    safe' = (safe \<or> list_ex safe_direct os)"
  using assms
proof (induction os arbitrary: seen safe used)
  case (Cons x os)
  have add: "budget_add
      [(''approval decision display label'', ao_display_label x, max_pending_display_string_bytes),
       (''approval decision summary'', ao_summary x, max_outbound_error_display_message_bytes),
       (''approval decision unsupported reason'', ao_unsupported_reason x, max_outbound_error_display_message_bytes)]
      used = Inr m \<longleftrightarrow> room (option_texts x) used \<and> m = used + text_bytes (option_texts x)" for m
    by (rule budget_addI [OF Cons.prems]) (simp_all add: option_texts_def text_limit_defs)
  show ?case
  proof (cases "option_ok blocked x \<and> ao_decision_id x \<notin> set seen \<and> room (option_texts x) used")
    case True
    then have "budget_ok (used + text_bytes (option_texts x))" using room_ok Cons.prems by blast
    from Cons.IH [OF this] True show ?thesis
      by (auto simp: accepts add room_append option_ok_def safe_direct_def to_proto_defs add.assoc split: option.splits)
  next
    case False
    then show ?thesis
      by (auto simp: accepts add room_append option_ok_def to_proto_defs split: option.splits)
  qed
qed auto

lemma approval_decision_options_Inr:
  assumes "budget_ok used"
  shows "approval_decision_options_mapping_failure blocked os used = Inr n \<longleftrightarrow>
    options_ok blocked os \<and> room (concat (map option_texts os)) used \<and> n = used + text_bytes (concat (map option_texts os))"
  unfolding approval_decision_options_mapping_failure_def options_ok_def
  by (auto simp: accepts decision_options_loop_Inr [OF assms])

lemma filesystem_entries_loop_Inr:
  assumes "budget_ok used"
  shows "filesystem_entries_loop xs used = Inr n \<longleftrightarrow>
    list_all (\<lambda>x. af_entry_id x \<noteq> [] \<and> outbound_id_ok (af_entry_id x)) xs \<and>
    room (concat (map entry_texts xs)) used \<and> n = used + text_bytes (concat (map entry_texts xs))"
  using assms
proof (induction xs arbitrary: used)
  case (Cons x xs)
  have add: "budget_add
      [(''approval security filesystem access'', af_access x, max_pending_display_string_bytes),
       (''approval security filesystem path label'', af_path_label x, max_source_label_bytes),
       (''approval security filesystem unapprovable reason'', af_unapprovable_reason x,
         max_outbound_error_display_message_bytes)] used = Inr m \<longleftrightarrow>
      room (entry_texts x) used \<and> m = used + text_bytes (entry_texts x)" for m
    by (rule budget_addI [OF Cons.prems]) (simp_all add: entry_texts_def text_limit_defs)
  show ?case
    using Cons.IH [OF room_ok [OF Cons.prems]] by (auto simp: accepts add room_append add.assoc)
qed auto

lemma network_summaries_loop_Inr:
  assumes "budget_ok used"
  shows "network_summaries_loop xs used = Inr n \<longleftrightarrow> list_all (\<lambda>x. \<not> np_approvable x) xs \<and>
    room (concat (map summary_texts xs)) used \<and> n = used + text_bytes (concat (map summary_texts xs))"
  using assms
proof (induction xs arbitrary: used)
  case (Cons x xs)
  have add: "budget_add
      [(''approval security network host label'', np_host_label x, max_pending_display_string_bytes),
       (''approval security network action'', np_action x, max_pending_display_string_bytes)] used = Inr m \<longleftrightarrow>
      room (summary_texts x) used \<and> m = used + text_bytes (summary_texts x)" for m
    by (rule budget_addI [OF Cons.prems]) (simp_all add: summary_texts_def text_limit_defs)
  show ?case
    using Cons.IH [OF room_ok [OF Cons.prems]] by (auto simp: accepts add room_append add.assoc)
qed auto

lemma permission_atoms_loop_Inr:
  assumes "budget_ok used"
  shows "permission_atoms_loop xs seen used = Inr n \<longleftrightarrow>
    ids_ok (map pa_permission_id xs) \<and> set (map pa_permission_id xs) \<inter> set seen = {} \<and>
    room (concat (map permission_texts xs)) used \<and> n = used + text_bytes (concat (map permission_texts xs))"
  using assms
proof (induction xs arbitrary: seen used n)
  case (Cons x xs)
  have add: "budget_add
      [(''permission kind'', pa_kind x, max_pending_display_string_bytes),
       (''permission display label'', pa_display_label x, max_pending_display_string_bytes),
       (''permission scope label'', pa_scope_label x, max_pending_display_string_bytes),
       (''permission ungrantable reason'', pa_ungrantable_reason x, max_outbound_error_display_message_bytes)] used = Inr m \<longleftrightarrow>
      room (permission_texts x) used \<and> m = used + text_bytes (permission_texts x)" for m
    by (rule budget_addI [OF Cons.prems]) (simp_all add: permission_texts_def text_limit_defs)
  have "permission_atoms_loop (x # xs) seen used = Inr n \<longleftrightarrow>
      pa_permission_id x \<noteq> [] \<and> outbound_id_ok (pa_permission_id x) \<and> pa_permission_id x \<notin> set seen \<and>
      (True \<and> ids_ok (map pa_permission_id xs) \<and> set (map pa_permission_id xs) \<inter> set (pa_permission_id x # seen) = {}) \<and>
      room (permission_texts x @ concat (map permission_texts xs)) used \<and>
      n = used + text_bytes (permission_texts x @ concat (map permission_texts xs))"
    unfolding permission_atoms_loop.simps reject_if_Inr or_fail_Inr outbound_public_id_None
    by (subst and_then_room [OF Cons.prems, where P = True and ts = "permission_texts x"
          and Q = "ids_ok (map pa_permission_id xs) \<and> set (map pa_permission_id xs) \<inter> set (pa_permission_id x # seen) = {}"
          and us = "concat (map permission_texts xs)"])
      (simp_all only: add Cons.IH conj_assoc simp_thms list.pred_inject comp_apply snd_conv)
  then show ?case
    unfolding list.map concat.simps using ids_step [of "pa_permission_id x" seen "map pa_permission_id xs"] by argo
qed (auto simp: ids_ok_def)

lemma question_options_loop_Inr:
  assumes "budget_ok used"
  shows "question_options_loop xs used = Inr n \<longleftrightarrow>
    room (map (\<lambda>x. (x, max_pending_display_string_bytes)) xs) used \<and>
    n = used + text_bytes (map (\<lambda>x. (x, max_pending_display_string_bytes)) xs)"
  using assms
proof (induction xs arbitrary: used n)
  case (Cons x xs)
  let ?one = "[(x, max_pending_display_string_bytes)]" and ?rest = "map (\<lambda>x. (x, max_pending_display_string_bytes)) xs"
  have add: "budget_add [(''tool user input option'', x, max_pending_display_string_bytes)] used = Inr m \<longleftrightarrow>
      room ?one used \<and> m = used + text_bytes ?one" for m
    by (rule budget_addI [OF Cons.prems]) (simp_all add: text_limit_defs)
  have "question_options_loop (x # xs) used = Inr n \<longleftrightarrow>
      (True \<and> True) \<and> room (?one @ ?rest) used \<and> n = used + text_bytes (?one @ ?rest)"
    unfolding question_options_loop.simps
    by (rule and_then_room [OF Cons.prems]) (simp_all only: add Cons.IH simp_thms)
  then show ?case by simp
qed auto

lemma questions_loop_Inr:
  assumes "budget_ok used"
  shows "questions_loop xs seen used = Inr n \<longleftrightarrow>
    ids_ok (map tq_id xs) \<and> set (map tq_id xs) \<inter> set seen = {} \<and>
    list_all (\<lambda>q. length (tq_options q) \<le> max_question_options) xs \<and>
    room (concat (map question_texts xs)) used \<and> n = used + text_bytes (concat (map question_texts xs))"
  using assms
proof (induction xs arbitrary: seen used n)
  case (Cons x xs)
  let ?head = "[(tq_header x, max_pending_display_string_bytes), (tq_question x, max_pending_display_string_bytes)]"
  have add: "budget_add
      [(''tool user input header'', tq_header x, max_pending_display_string_bytes),
       (''tool user input question'', tq_question x, max_pending_display_string_bytes)] used = Inr m \<longleftrightarrow>
      room ?head used \<and> m = used + text_bytes ?head" for m
    by (rule budget_addI [OF Cons.prems]) (simp_all add: text_limit_defs)
  let ?options = "map (\<lambda>x. (x, max_pending_display_string_bytes)) (tq_options x)"
  let ?Q = "ids_ok (map tq_id xs) \<and> set (map tq_id xs) \<inter> set (tq_id x # seen) = {} \<and>
    list_all (\<lambda>q. length (tq_options q) \<le> max_question_options) xs"
  have rest: "and_then (question_options_loop (tq_options x) m) (questions_loop xs (tq_id x # seen)) = Inr k \<longleftrightarrow>
      (True \<and> ?Q) \<and> room (?options @ concat (map question_texts xs)) m \<and>
      k = m + text_bytes (?options @ concat (map question_texts xs))" if "budget_ok m" for m k
    by (rule and_then_room [OF that]) (simp_all only: question_options_loop_Inr [OF that] Cons.IH conj_assoc simp_thms)
  have "questions_loop (x # xs) seen used = Inr n \<longleftrightarrow>
      tq_id x \<noteq> [] \<and> outbound_id_ok (tq_id x) \<and> tq_id x \<notin> set seen \<and> length (tq_options x) \<le> max_question_options \<and>
      (True \<and> ?Q) \<and> room (?head @ ?options @ concat (map question_texts xs)) used \<and>
      n = used + text_bytes (?head @ ?options @ concat (map question_texts xs))"
    unfolding questions_loop.simps reject_if_Inr or_fail_Inr outbound_public_id_None
    by (subst and_then_room [OF Cons.prems, where P = True and ts = ?head and Q = ?Q
          and us = "?options @ concat (map question_texts xs)"])
      (simp_all only: add rest not_less conj_assoc simp_thms list.pred_inject comp_apply snd_conv)
  then show ?case
    unfolding list.map concat.simps question_texts_def append_assoc list.pred_inject
    using ids_step [of "tq_id x" seen "map tq_id xs"] by argo
qed (auto simp: ids_ok_def)

lemma context_texts_add:
  assumes "budget_ok used"
  shows "(case x of None \<Rightarrow> Inr used
       | Some (host, protocol) \<Rightarrow> budget_add
           [(''approval security host label'', host, max_pending_display_string_bytes),
            (''approval security protocol'', protocol, max_pending_display_string_bytes)] used) = Inr n \<longleftrightarrow>
    room (context_texts x) used \<and> n = used + text_bytes (context_texts x)"
  using assms by (auto simp: context_texts_def budget_add_Inr text_limit_defs split: option.split)

lemma policy_texts_add:
  assumes "budget_ok used"
  shows "(case x of None \<Rightarrow> Inr used
       | Some (command, truncated) \<Rightarrow> budget_add
           [(''approval security exec policy command display'', command, max_command_display_bytes)] used) = Inr n \<longleftrightarrow>
    room (policy_texts x) used \<and> n = used + text_bytes (policy_texts x)"
  using assms by (auto simp: policy_texts_def budget_add_Inr text_limit_defs split: option.split)

lemma blocking_reason_add:
  assumes "budget_ok used"
  shows "budget_add [(''approval security blocking reason'', v, max_outbound_error_display_message_bytes)] used = Inr n \<longleftrightarrow>
    room [(v, max_outbound_error_display_message_bytes)] used \<and>
    n = used + text_bytes [(v, max_outbound_error_display_message_bytes)]"
  using assms by (intro budget_addI) (simp_all add: text_limit_defs)

lemma approval_security_metadata_Inr:
  assumes "budget_ok used"
  shows "approval_security_metadata_mapping_failure m used = Inr n \<longleftrightarrow>
    (list_all (\<lambda>x. af_entry_id x \<noteq> [] \<and> outbound_id_ok (af_entry_id x)) (as_additional_filesystem_entries m) \<and>
     list_all (\<lambda>x. \<not> np_approvable x) (as_network_policy_amendment_summaries m)) \<and>
    room (security_texts m) used \<and> n = used + text_bytes (security_texts m)"
proof -
  let ?P = "list_all (\<lambda>x. af_entry_id x \<noteq> [] \<and> outbound_id_ok (af_entry_id x)) (as_additional_filesystem_entries m)"
  let ?Q = "list_all (\<lambda>x. \<not> np_approvable x) (as_network_policy_amendment_summaries m)"
  have "approval_security_metadata_mapping_failure m used = Inr n \<longleftrightarrow> (True \<and> ?P \<and> True \<and> ?Q \<and> True) \<and>
      room (security_texts m) used \<and> n = used + text_bytes (security_texts m)"
    unfolding approval_security_metadata_mapping_failure_def security_texts_def
    by (intro and_then_room assms; simp add: assms context_texts_add policy_texts_add blocking_reason_add
        filesystem_entries_loop_Inr network_summaries_loop_Inr conj_assoc)
  then show ?thesis by simp
qed

lemma command_display_Inr:
  assumes "budget_ok used"
  shows "(\<exists>n. command_approval_display_mapping_failure c used = Inr n) \<longleftrightarrow>
    choices_ok (CommandApproval c) \<and> room (display_texts (CommandApproval c)) used"
proof -
  let ?m = "cd_approval_security c"
  let ?base = "[(cd_command_display c, max_command_display_bytes), (cd_workspace_label c, max_source_label_bytes),
    (cd_reason c, max_outbound_error_display_message_bytes)]"
  let ?S = "case ?m of None \<Rightarrow> True | Some m \<Rightarrow> security_ok m" and ?sec = "case ?m of None \<Rightarrow> [] | Some m \<Rightarrow> security_texts m"
  have base: "budget_add
      [(''command approval command display'', cd_command_display c, max_command_display_bytes),
       (''command approval workspace label'', cd_workspace_label c, max_source_label_bytes),
       (''command approval reason'', cd_reason c, max_outbound_error_display_message_bytes)] m = Inr k \<longleftrightarrow>
      True \<and> room ?base m \<and> k = m + text_bytes ?base" if "budget_ok m" for m k
    unfolding simp_thms by (rule budget_addI [OF that]) (simp_all add: text_limit_defs)
  have sec: "(case ?m of None \<Rightarrow> Inr u | Some m \<Rightarrow>
       reject_if (length (as_additional_filesystem_entries m) + length (as_network_policy_amendment_summaries m)
           > max_security_entries)
         (resource_exhausted_mapping_failure ''approval security metadata entry count exceeds outbound cap'')
       (approval_security_metadata_mapping_failure m u)) = Inr k \<longleftrightarrow> ?S \<and> room ?sec u \<and> k = u + text_bytes ?sec"
    if "budget_ok u" for u k
    using that by (cases ?m) (auto simp: accepts approval_security_metadata_Inr security_ok_def)
  have "command_approval_display_mapping_failure c used = Inr n \<longleftrightarrow>
      (options_ok (security_blocks ?m) (cd_decision_options c) \<and> True \<and> ?S) \<and>
      room (concat (map option_texts (cd_decision_options c)) @ ?base @ ?sec) used \<and>
      n = used + text_bytes (concat (map option_texts (cd_decision_options c)) @ ?base @ ?sec)" for n
    unfolding command_approval_display_mapping_failure_def
    by (intro and_then_room approval_decision_options_Inr base sec assms)
  then show ?thesis by (auto simp: choices_ok_def display_texts_def)
qed

lemma file_display_Inr:
  assumes "budget_ok used"
  shows "(\<exists>n. file_change_approval_display_mapping_failure f used = Inr n) \<longleftrightarrow>
    choices_ok (FileChangeApproval f) \<and> room (display_texts (FileChangeApproval f)) used"
proof -
  let ?g = "fd_grant_root f"
  let ?base = "[(fd_file_label f, max_source_label_bytes), (fd_change_kind f, max_pending_display_string_bytes),
    (fd_diff_summary f, max_diff_display_bytes), (fd_diff_unified f, max_diff_display_bytes)]"
  let ?S = "case ?g of None \<Rightarrow> True | Some r \<Rightarrow> grant_root_ok r" and ?root = "case ?g of None \<Rightarrow> [] | Some r \<Rightarrow> grant_root_texts r"
  have base: "budget_add
      [(''file approval file label'', fd_file_label f, max_source_label_bytes),
       (''file approval change kind'', fd_change_kind f, max_pending_display_string_bytes),
       (''file approval diff summary'', fd_diff_summary f, max_diff_display_bytes),
       (''file approval diff unified'', fd_diff_unified f, max_diff_display_bytes)] m = Inr k \<longleftrightarrow>
      True \<and> room ?base m \<and> k = m + text_bytes ?base" if "budget_ok m" for m k
    unfolding simp_thms by (rule budget_addI [OF that]) (simp_all add: text_limit_defs)
  have root: "file_grant_root_display_mapping_failure ?g u = Inr k \<longleftrightarrow> ?S \<and> room ?root u \<and> k = u + text_bytes ?root"
    if "budget_ok u" for u k
  proof (cases ?g)
    case (Some r)
    have "budget_add
        [(''file grant root label'', gr_root_label r, max_source_label_bytes),
         (''file grant root unapprovable reason'', gr_unapprovable_reason r, max_outbound_error_display_message_bytes)]
        u = Inr k \<longleftrightarrow> room (grant_root_texts r) u \<and> k = u + text_bytes (grant_root_texts r)"
      by (rule budget_addI [OF that]) (simp_all add: grant_root_texts_def text_limit_defs)
    with Some show ?thesis
      by (auto simp: file_grant_root_display_mapping_failure_def accepts grant_root_ok_def)
  qed (use that in \<open>auto simp: file_grant_root_display_mapping_failure_def\<close>)
  have "file_change_approval_display_mapping_failure f used = Inr n \<longleftrightarrow>
      (options_ok (grant_root_blocks ?g) (fd_decision_options f) \<and> True \<and> ?S) \<and>
      room (concat (map option_texts (fd_decision_options f)) @ ?base @ ?root) used \<and>
      n = used + text_bytes (concat (map option_texts (fd_decision_options f)) @ ?base @ ?root)" for n
    unfolding file_change_approval_display_mapping_failure_def
    by (intro and_then_room approval_decision_options_Inr base root assms)
  then show ?thesis by (auto simp: choices_ok_def display_texts_def)
qed

lemma permissions_display_Inr:
  assumes "budget_ok used"
  shows "(\<exists>n. permissions_approval_display_mapping_failure p used = Inr n) \<longleftrightarrow>
    choices_ok (PermissionsApproval p) \<and> room (display_texts (PermissionsApproval p)) used"
proof -
  let ?reason = "[(pd_reason p, max_outbound_error_display_message_bytes)]"
  have reason: "budget_add [(''permissions approval reason'', pd_reason p, max_outbound_error_display_message_bytes)] used = Inr m \<longleftrightarrow>
      True \<and> room ?reason used \<and> m = used + text_bytes ?reason" for m
    unfolding simp_thms by (rule budget_addI [OF assms]) (simp_all add: text_limit_defs)
  have atoms: "permission_atoms_loop (pd_requested_permissions p) [] m = Inr k \<longleftrightarrow>
      ids_ok (map pa_permission_id (pd_requested_permissions p)) \<and>
      room (concat (map permission_texts (pd_requested_permissions p))) m \<and>
      k = m + text_bytes (concat (map permission_texts (pd_requested_permissions p)))" if "budget_ok m" for m k
    by (simp add: permission_atoms_loop_Inr [OF that])
  have "and_then (budget_add [(''permissions approval reason'', pd_reason p, max_outbound_error_display_message_bytes)] used)
      (permission_atoms_loop (pd_requested_permissions p) []) = Inr n \<longleftrightarrow>
      (True \<and> ids_ok (map pa_permission_id (pd_requested_permissions p))) \<and>
      room (?reason @ concat (map permission_texts (pd_requested_permissions p))) used \<and>
      n = used + text_bytes (?reason @ concat (map permission_texts (pd_requested_permissions p)))" for n
    by (intro and_then_room reason atoms assms)
  then show ?thesis
    unfolding permissions_approval_display_mapping_failure_def
    by (auto simp: accepts choices_ok_def display_texts_def to_proto_defs not_less)
qed

lemma elicitation_display_Inr:
  assumes "budget_ok used"
  shows "(\<exists>n. mcp_elicitation_display_mapping_failure m used = Inr n) \<longleftrightarrow>
    choices_ok (McpElicitation m) \<and> room (display_texts (McpElicitation m)) used"
proof -
  have "budget_add
       [(''mcp elicitation message'', md_message m, max_pending_display_string_bytes),
        (''mcp elicitation form schema JSON'', md_form_schema_json m, max_outbound_mcp_form_schema_bytes),
        (''mcp elicitation url'', md_url m, max_context_uri_bytes),
        (''mcp elicitation submit label'', md_submit_label m, max_pending_display_string_bytes)] used = Inr n \<longleftrightarrow>
      room (display_texts (McpElicitation m)) used \<and> n = used + text_bytes (display_texts (McpElicitation m))" for n
    by (rule budget_addI [OF assms]) (simp_all add: display_texts_def text_limit_defs)
  then show ?thesis
    unfolding mcp_elicitation_display_mapping_failure_def by (auto simp: accepts choices_ok_def to_proto_defs)
qed

lemma tool_display_Inr:
  assumes "budget_ok used"
  shows "(\<exists>n. tool_user_input_display_mapping_failure qs used = Inr n) \<longleftrightarrow>
    choices_ok (ToolUserInput qs) \<and> room (display_texts (ToolUserInput qs)) used"
  unfolding tool_user_input_display_mapping_failure_def
  by (auto simp: accepts questions_loop_Inr [OF assms] choices_ok_def display_texts_def)

lemma failure_of_None: "failure_of r = None \<longleftrightarrow> (\<exists>n. r = Inr n)"
  by (cases r) (auto simp: failure_of_def)

text \<open>A display is sent exactly when it satisfies the specification.\<close>

lemma display_check_exact: "pending_request_display_mapping_failure d = None \<longleftrightarrow> display_ok d"
proof -
  have start: "budget_ok 0" by (simp add: budget_ok_def max_pending_display_payload_bytes_def)
  show ?thesis
    unfolding pending_request_display_mapping_failure_def failure_of_None display_ok_def
    by (cases d) (simp_all add: command_display_Inr [OF start] file_display_Inr [OF start] permissions_display_Inr [OF start]
        elicitation_display_Inr [OF start] tool_display_Inr [OF start] room_def conj_ac)
qed

end
