(* ===== verification/Grpc_Checks.thy ===== *)
theory Grpc_Checks
  imports Grpc_Chat Grpc_Displays Utf8
begin

text \<open>
  Facts about the checks of the gRPC layer: what an accepted request satisfies, which details a status
  carries, and that an answer that reaches the client was checked.
\<close>

text \<open>A result with a property, in a form that evaluates.\<close>

definition result_is :: "('a \<Rightarrow> bool) \<Rightarrow> 'e + 'a \<Rightarrow> bool" where
  "result_is P r = (case r of Inl _ \<Rightarrow> False | Inr x \<Rightarrow> P x)"

definition some_is :: "('a \<Rightarrow> bool) \<Rightarrow> 'a option \<Rightarrow> bool" where
  "some_is P r = (case r of None \<Rightarrow> False | Some x \<Rightarrow> P x)"

lemma result_isD: "result_is P r \<Longrightarrow> \<exists>x. r = Inr x \<and> P x"
  by (auto simp: result_is_def split: sum.splits)

lemma some_isD: "some_is P r \<Longrightarrow> \<exists>x. r = Some x \<and> P x"
  by (auto simp: some_is_def split: option.splits)

lemma not_acceptedD: "\<not> accepted r \<Longrightarrow> \<exists>e. r = Inl e"
  by (cases r) (auto simp: accepted_def)

subsection \<open>Accepted requests\<close>

definition public_id_ok :: "string \<Rightarrow> bool" where
  "public_id_ok v \<longleftrightarrow> v \<noteq> [] \<and> trim_space v = v \<and> byte_len v \<le> int max_public_id_bytes"

lemma public_id_cap_None [accepts]: "validate_public_id_cap v f = None \<longleftrightarrow> byte_len v \<le> int max_public_id_bytes"
  by (simp add: validate_public_id_cap_def accepts not_less)

lemma required_public_id_Inr [accepts]:
  "validate_required_public_id raw f reason = Inr v \<longleftrightarrow> v = raw \<and> public_id_ok raw"
  by (auto simp: validate_required_public_id_def public_id_ok_def accepts Let_def)

lemma optional_public_id_Inr [accepts]:
  "validate_optional_public_id raw f = Inr v \<longleftrightarrow> v = raw \<and> (raw = [] \<or> public_id_ok raw) \<and> byte_len raw \<le> int max_public_id_bytes"
  by (auto simp: validate_optional_public_id_def public_id_ok_def accepts Let_def)

lemma resolved_public_id_None [accepts]: "validate_resolved_public_id v f = None \<longleftrightarrow> public_id_ok v"
  by (auto simp: validate_resolved_public_id_def public_id_ok_def accepts)

lemma inbound_session_None [accepts]:
  "validate_inbound_message_for_session n m = None \<longleftrightarrow> sm_session_group_id m \<noteq> [] \<and>
    0 < sm_inbound_message_bytes m \<and> 0 < sm_outbound_message_bytes m \<and> n \<le> sm_inbound_message_bytes m"
  by (auto simp: validate_inbound_message_for_session_def accepts)

lemma start_session_Inr [accepts]:
  "start_session n resolver g mid w = Inr m \<longleftrightarrow> resolve_session_group resolver g = Some m \<and>
    public_id_ok (sm_workspace_id m) \<and> validate_inbound_message_for_session n m = None \<and>
    (w = [] \<or> w = sm_workspace_id m)"
  by (auto simp: start_session_def accepts split: option.splits)

text \<open>What a context block that came through satisfies; the label is trimmed.\<close>

definition block_sizes_ok :: "context_block \<Rightarrow> bool" where
  "block_sizes_ok b \<longleftrightarrow> byte_len (cb_source_label b) \<le> max_context_label_bytes \<and>
     byte_len (cb_source_uri b) \<le> max_context_uri_bytes \<and> byte_len (cb_mime_type b) \<le> max_mime_type_bytes \<and>
     byte_len (cb_content b) \<le> max_context_block_content_bytes \<and> source_lines_loop (cb_content b) 0 0 (cb_content b)"

lemma context_block_Inr:
  "validate_context_block x = Inr (b, n) \<Longrightarrow> block_sizes_ok b \<and> n = byte_len (cb_content b)"
  by (auto simp: validate_context_block_def accepts validate_request_content_lines_def block_sizes_ok_def Let_def
      split: option.splits if_splits)

text \<open>The sum of the contents stays below the limit after every block.\<close>

fun contents_fit :: "int \<Rightarrow> context_block list \<Rightarrow> bool" where
  "contents_fit n [] = True"
| "contents_fit n (b # bs) = (block_sizes_ok b \<and> i64 (n + byte_len (cb_content b)) \<le> max_total_context_bytes \<and>
     contents_fit (i64 (n + byte_len (cb_content b))) bs)"

lemma context_blocks_loop_Inr:
  "context_blocks_loop n xs = Inr bs \<Longrightarrow> contents_fit n bs \<and> length bs = length xs"
  by (induction n xs arbitrary: bs rule: context_blocks_loop.induct)
    (auto simp: accepts Let_def split: prod.splits dest!: context_block_Inr)

text \<open>Such blocks are never too large for the envelope.\<close>

lemma block_not_too_large: "block_sizes_ok b \<Longrightarrow> validate_block secret b = Some err \<Longrightarrow> ve_reason err \<noteq> ReasonRequestTooLarge"
  by (auto simp: validate_block_def block_sizes_ok_def validation_failed_def validate_source_content_lines_def Let_def
      split: if_splits option.splits)

lemma blocks_not_too_large:
  "contents_fit n bs \<Longrightarrow> validate_blocks secret n bs = Some err \<Longrightarrow> ve_reason err \<noteq> ReasonRequestTooLarge"
  by (induction secret n bs rule: validate_blocks.induct)
    (auto simp: Let_def not_le dest: block_not_too_large split: option.splits if_splits)

lemma start_task_Inr:
  assumes "validate_start_task n resolver (Some r) = Inr c"
  shows "public_id_ok (qst_session_group_id r)" "stc_session_group_id c = qst_session_group_id r"
    "public_id_ok (qst_client_message_id r)" "stc_client_message_id c = qst_client_message_id r"
    "qst_thread_id r = [] \<or> public_id_ok (qst_thread_id r)" "stc_thread_id c = qst_thread_id r"
    "stc_prompt c = qst_prompt r" "byte_len (qst_prompt r) \<le> max_prompt_bytes"
    "length (stc_context_blocks c) \<le> max_context_blocks" "contents_fit 0 (stc_context_blocks c)"
    "length (stc_context_blocks c) = length (qst_context_blocks r)"
    "\<exists>m. resolve_session_group resolver (qst_session_group_id r) = Some m \<and> stc_workspace_id c = sm_workspace_id m \<and>
       (qst_workspace_id r = [] \<or> qst_workspace_id r = sm_workspace_id m) \<and> public_id_ok (sm_workspace_id m) \<and>
       n \<le> sm_inbound_message_bytes m"
  using assms by (auto simp: validate_start_task_def validate_context_blocks_def accepts dest!: context_blocks_loop_Inr)

subsection \<open>Accepted responses\<close>

lemma byte_len_ge_0: "0 \<le> byte_len v"
  by (simp add: byte_len_def)

lemma permission_ids_loop_Inr:
  "permission_ids_loop seen raws = Inr vs \<Longrightarrow>
    vs = raws \<and> list_all public_id_ok vs \<and> distinct vs \<and> set vs \<inter> set seen = {}"
proof (induction raws arbitrary: seen vs)
  case (Cons raw raws)
  then obtain ws where ws: "vs = raw # ws" "public_id_ok raw" "raw \<notin> set seen"
      "permission_ids_loop (raw # seen) raws = Inr ws"
    by (auto simp: accepts)
  from Cons.IH [OF ws(4)] ws(1-3) show ?case by auto
qed (auto simp: accepts)

definition answer_bytes :: "string list \<Rightarrow> int" where
  "answer_bytes vs = sum_list (map byte_len vs)"

lemma answer_bytes_simps [simp]: "answer_bytes [] = 0" "answer_bytes (v # vs) = byte_len v + answer_bytes vs"
  "answer_bytes (vs @ ws) = answer_bytes vs + answer_bytes ws"
  by (simp_all add: answer_bytes_def)

lemma answer_values_loop_Inr:
  "answer_values_loop n vs = Inr (xs, k) \<Longrightarrow> 0 \<le> n \<Longrightarrow> n \<le> max_total_answer_bytes \<Longrightarrow>
    xs = vs \<and> list_all (\<lambda>v. byte_len v \<le> max_answer_value_bytes) vs \<and> k = n + answer_bytes vs \<and>
    0 \<le> k \<and> k \<le> max_total_answer_bytes"
proof (induction vs arbitrary: n xs)
  case (Cons v vs)
  then have v: "byte_len v \<le> max_answer_value_bytes" by (auto simp: accepts)
  then have no_wrap: "i64 (n + byte_len v) = n + byte_len v"
    using Cons.prems(2,3) byte_len_ge_0 [of v]
    by (intro i64_id) (simp_all add: max_answer_value_bytes_def max_total_answer_bytes_def)
  with Cons.prems obtain ys where ys: "answer_values_loop (n + byte_len v) vs = Inr (ys, k)" "xs = v # ys"
    "n + byte_len v \<le> max_total_answer_bytes"
    by (auto simp: accepts Let_def)
  with Cons.IH [OF ys(1)] Cons.prems(2) byte_len_ge_0 [of v] v show ?case by auto
qed auto

lemma answers_loop_Inr:
  "answers_loop seen n as = Inr r \<Longrightarrow> 0 \<le> n \<Longrightarrow> n \<le> max_total_answer_bytes \<Longrightarrow>
    map (\<lambda>a. (ta_question_id a, ta_answers a)) r = as \<and> distinct (map ta_question_id r) \<and>
    list_all (\<lambda>a. public_id_ok (ta_question_id a) \<and> length (ta_answers a) \<le> max_answers_per_question \<and>
      list_all (\<lambda>v. byte_len v \<le> max_answer_value_bytes) (ta_answers a)) r \<and>
    set (map ta_question_id r) \<inter> set seen = {} \<and> n + answer_bytes (concat (map ta_answers r)) \<le> max_total_answer_bytes"
proof (induction seen n as arbitrary: r rule: answers_loop.induct)
  case (2 seen n raw vs as)
  then obtain xs k rest where *: "public_id_ok raw" "raw \<notin> set seen" "length vs \<le> max_answers_per_question"
      "answer_values_loop n vs = Inr (xs, k)" "answers_loop (raw # seen) k as = Inr rest"
      "r = \<lparr>ta_question_id = raw, ta_answers = xs\<rparr> # rest"
    by (auto simp: accepts)
  from answer_values_loop_Inr [OF *(4)] 2(3,4) have k: "xs = vs" "list_all (\<lambda>v. byte_len v \<le> max_answer_value_bytes) vs"
      "k = n + answer_bytes vs" "0 \<le> k" "k \<le> max_total_answer_bytes" by auto
  have "map (\<lambda>a. (ta_question_id a, ta_answers a)) rest = as \<and> distinct (map ta_question_id rest) \<and>
    list_all (\<lambda>a. public_id_ok (ta_question_id a) \<and> length (ta_answers a) \<le> max_answers_per_question \<and>
      list_all (\<lambda>v. byte_len v \<le> max_answer_value_bytes) (ta_answers a)) rest \<and>
    set (map ta_question_id rest) \<inter> set (raw # seen) = {} \<and> k + answer_bytes (concat (map ta_answers rest)) \<le> max_total_answer_bytes"
    by (rule 2(1)) (use * k in \<open>auto simp: accepts\<close>)
  with * k show ?case by auto
qed auto

lemma json_depth_checked:
  "validate_complete_json_depth decode_first v n = None \<longleftrightarrow>
    trim_space v \<noteq> [] \<and> (\<exists>doc. decode_first v = Some (doc, True) \<and> json_depth doc \<le> n)"
  by (auto simp: validate_complete_json_depth_def accepts not_less split: option.splits prod.splits)

text \<open>What a response says when it has come through: one choice, of the kind that was sent.\<close>

definition response_ok :: "(string \<Rightarrow> (json \<times> bool) option) \<Rightarrow> pending_response \<Rightarrow> bool" where
  "response_ok decode_first r = (case (pz_approval r, pz_permissions r, pz_mcp_elicitation r, pz_tool_user_input r) of
      (Some v, None, None, None) \<Rightarrow> public_id_ok v
    | (None, Some p, None, None) \<Rightarrow> distinct (pp_permission_ids p) \<and> list_all public_id_ok (pp_permission_ids p) \<and>
        length (pp_permission_ids p) \<le> max_permission_atoms \<and>
        (pp_permission_ids p = [] \<longrightarrow> pp_scope p = None \<and> \<not> pp_strict_auto_review p)
    | (None, None, Some m, None) \<Rightarrow> byte_len (mp_content_json m) \<le> max_elicitation_content_bytes \<and>
        (if mp_action m = McpElicitationActionAccept
         then (case decode_first (mp_content_json m) of
             Some (doc, at_end) \<Rightarrow> at_end \<and> json_depth doc \<le> max_elicitation_content_depth | None \<Rightarrow> False)
         else mp_content_json m = [])
    | (None, None, None, Some as) \<Rightarrow> length as \<le> max_questions \<and> distinct (map ta_question_id as) \<and>
        list_all (\<lambda>a. public_id_ok (ta_question_id a) \<and> length (ta_answers a) \<le> max_answers_per_question) as \<and>
        answer_bytes (concat (map ta_answers as)) \<le> max_total_answer_bytes
    | _ \<Rightarrow> False)"

lemma response_checked:
  assumes "pending_response_from_proto decode_first x = Inr r"
  shows "response_ok decode_first r"
proof -
  obtain y where x: "x = Some y" using assms by (cases x) (auto simp: pending_response_from_proto_def)
  show ?thesis
  proof (cases y)
    case (PbApproval v)
    with assms x show ?thesis
      by (cases v) (auto simp: pending_response_from_proto_def accepts response_ok_def no_response_def)
  next
    case (PbPermissions v)
    with assms x show ?thesis
      by (cases v) (auto simp: pending_response_from_proto_def permissions_response_from_proto_def Let_def accepts
          response_ok_def no_response_def dest!: permission_ids_loop_Inr)
  next
    case (PbElicitation v)
    then obtain m where m: "v = Some m" using assms x
      by (cases v) (auto simp: pending_response_from_proto_def mcp_elicitation_response_from_proto_def)
    with PbElicitation assms x show ?thesis
      by (auto simp: pending_response_from_proto_def mcp_elicitation_response_from_proto_def accepts json_depth_checked
          response_ok_def no_response_def split: option.splits mcp_elicitation_action.splits)
  next
    case (PbToolInput v)
    have start: "0 \<le> (0 :: int)" "0 \<le> max_total_answer_bytes" by (simp_all add: max_total_answer_bytes_def)
    from PbToolInput assms x obtain as answers where "v = Some as" "length as \<le> max_questions"
      "answers_loop [] 0 as = Inr answers" "r = no_response\<lparr>pz_tool_user_input := Some answers\<rparr>"
      by (cases v) (auto simp: pending_response_from_proto_def tool_user_input_response_from_proto_def accepts)
    with answers_loop_Inr [OF this(3) start] show ?thesis
      by (auto simp: response_ok_def no_response_def list_all_iff)
  next
    case PbResponseOther
    with assms x show ?thesis by (simp add: pending_response_from_proto_def)
  qed
qed

subsection \<open>Details of statuses\<close>

definition details_ok :: "gateway_error_details \<Rightarrow> bool" where
  "details_ok d \<longleftrightarrow> int (length (ed_display_message d)) \<le> max_outbound_error_display_message_bytes \<and>
     list_all outbound_id_ok [ed_task_id d, ed_session_group_id d, ed_client_message_id d, ed_client_response_id d,
       ed_pending_request_id d, ed_thread_id d]"

lemma details_failure_None: "gateway_error_details_mapping_failure d = None \<longleftrightarrow> details_ok d"
  by (auto simp: gateway_error_details_mapping_failure_def details_ok_def accepts)

lemma safe_id_ok [simp]: "outbound_id_ok (safe_id v)"
  by (auto simp: safe_id_def accepts) (simp add: outbound_id_ok_def max_public_id_bytes_def)

lemma safe_details_ok: "details_ok (safe_gateway_error_details d f)"
  unfolding safe_gateway_error_details_def clear_unsafe_gateway_error_public_ids_def Let_def details_ok_def
  by (simp add: max_outbound_error_display_message_bytes_def)

lemma checked_details_ok: "details_ok (checked_details d)" "ed_reason (checked_details d) \<noteq> ReasonNone"
proof -
  have "details_ok (x\<lparr>ed_reason := r\<rparr>) = details_ok x" for x r by (simp add: details_ok_def)
  then show "details_ok (checked_details d)"
    unfolding checked_details_def Let_def
    using safe_details_ok by (auto split: option.split simp: details_failure_None)
qed (simp add: checked_details_def Let_def canonical_gateway_error_reason_def)

lemma checked_details_keep: "details_ok d \<Longrightarrow> ed_reason d \<noteq> ReasonNone \<Longrightarrow> checked_details d = d"
  by (simp add: checked_details_def canonical_gateway_error_reason_def flip: details_failure_None)

text \<open>The message a client reads: details in their limits, with a reason.\<close>

definition pb_details_ok :: "pb_gateway_error_details \<Rightarrow> bool" where
  "pb_details_ok p \<longleftrightarrow> int (length (pge_display_message p)) \<le> max_outbound_error_display_message_bytes \<and>
     list_all outbound_id_ok [pge_task_id p, pge_session_group_id p, pge_client_message_id p, pge_client_response_id p,
       pge_pending_request_id p, pge_thread_id p] \<and>
     (\<exists>r. r \<noteq> ReasonNone \<and> pge_reason p = reason_text r)"

lemma details_to_proto_ok: "pb_details_ok (gateway_error_details_to_proto d)"
  using checked_details_ok [of d] unfolding pb_details_ok_def gateway_error_details_to_proto_def Let_def details_ok_def
  by auto

lemma new_status_details: "st_details (new_status_error attach code d) = Some p \<Longrightarrow> pb_details_ok p"
  using details_to_proto_ok by (auto simp: new_status_error_def Let_def split: option.splits)

text \<open>Every status that a service's error becomes is one of \<open>new_status_error\<close>.\<close>

lemma service_status_shape: "\<exists>code d. status_error_from_service_error attach e = new_status_error attach code d"
  by (cases e) (auto simp: status_error_from_service_error_def status_error_from_request_error_def
      redacted_internal_status_error_def)

lemma new_status_keeps:
  assumes "details_ok d" "ed_reason d \<noteq> ReasonNone" "attach (gateway_error_details_to_proto d) = None"
  shows "st_code (new_status_error attach code d) = code"
    "st_details (new_status_error attach code d) = Some (gateway_error_details_to_proto d)"
proof -
  have "gateway_error_details_mapping_failure d = None" using assms(1) by (simp add: details_failure_None)
  with assms checked_details_keep [OF assms(1,2)]
  show "st_code (new_status_error attach code d) = code"
    "st_details (new_status_error attach code d) = Some (gateway_error_details_to_proto d)"
    by (simp_all add: new_status_error_def Let_def)
qed

subsection \<open>Answers\<close>

lemma request_status_Inr [accepts]: "request_status a r = Inr x \<longleftrightarrow> r = Inr x"
  by (cases r) (auto simp: request_status_def)

lemma request_failure_None [accepts]: "request_failure a e = None \<longleftrightarrow> e = None"
  by (simp add: request_failure_def)

lemma service_status_Inr [accepts]: "service_status a r = Inr x \<longleftrightarrow> r = Inr x"
  by (cases r) (auto simp: service_status_def)

lemma mapping_status_Inr [accepts]: "mapping_status a r = Inr x \<longleftrightarrow> r = Inr x"
  by (cases r) (auto simp: mapping_status_def)

lemma with_failure_Inr [accepts]: "with_failure f w r = Inr x \<longleftrightarrow> f = None \<and> r = Some x"
  by (auto simp: with_failure_def split: option.splits)

lemma outbound_process_None [accepts]:
  "validate_outbound_message_for_process t (Some n) k = None \<longleftrightarrow> 0 < k \<and> n \<le> k"
  by (auto simp: validate_outbound_message_for_process_def accepts)

lemma outbound_session_None [accepts]:
  "validate_outbound_message_for_trusted_session t n m g = None \<longleftrightarrow> sm_session_group_id m \<noteq> [] \<and>
    0 < sm_inbound_message_bytes m \<and> g = sm_session_group_id m \<and> 0 < sm_outbound_message_bytes m \<and> n \<le> sm_outbound_message_bytes m"
  by (auto simp: validate_outbound_message_for_trusted_session_def accepts)

lemma trusted_session_Inr [accepts]:
  "trusted_session_metadata_for_session_group_id g resolver = Inr m \<longleftrightarrow> resolve_session_group resolver g = Some m \<and>
    sm_session_group_id m = g \<and> 0 < sm_inbound_message_bytes m \<and> 0 < sm_outbound_message_bytes m"
  by (auto simp: trusted_session_metadata_for_session_group_id_def accepts split: option.splits)

lemma checked_answer_Inr [accepts]:
  "checked_answer a out_size m g p = Inr q \<longleftrightarrow> q = p \<and>
    validate_outbound_message_for_trusted_session (api_attach a) (out_size p) m g = None \<and>
    validate_outbound_message_for_process (api_attach a) (Some (out_size p)) (api_max_send a) = None"
  by (auto simp: checked_answer_def or_fail_Inr)

lemma checked_answer_of_session_Inr [accepts]:
  "checked_answer_of_session a out_size g p = Inr q \<longleftrightarrow> q = p \<and>
    validate_outbound_message_for_session (api_attach a) (out_size p) (api_session_groups a) g = None \<and>
    validate_outbound_message_for_process (api_attach a) (Some (out_size p)) (api_max_send a) = None"
  by (auto simp: checked_answer_of_session_def or_fail_Inr)

lemma outbound_of_session_None [accepts]:
  "validate_outbound_message_for_session t n resolver g = None \<longleftrightarrow> g \<noteq> [] \<and>
    (\<exists>m. resolve_session_group resolver g = Some m \<and> validate_outbound_message_for_trusted_session t n m g = None)"
  by (auto simp: validate_outbound_message_for_session_def split: option.splits)

text \<open>A message of a stream belongs to the session of its event, whose limit it keeps.\<close>

definition message_checked ::
  "api \<Rightarrow> (pb_stream_task_response \<Rightarrow> int) \<Rightarrow> next_message \<Rightarrow> pb_stream_task_response \<Rightarrow> bool" where
  "message_checked a out_size x p \<longleftrightarrow>
     (\<exists>y m. x = NextMessage y None \<and> out_size p \<le> api_max_send a \<and> out_size p \<le> sm_outbound_message_bytes m \<and>
       resolve_session_group (api_session_groups a) (sm_session_group_id m) = Some m \<and>
       (case sm_event y of
          Some e \<Rightarrow> sm_session_group_id m = te_session_group_id e \<and> stream_task_response_event_to_proto e = Some p
        | None \<Rightarrow> sm_session_group_id m = sm_message_session_group_id y \<and>
            (\<exists>n. sm_replay_notice y = Some n \<and> stream_task_response_replay_notice_to_proto n = Some p)))"

lemma stream_message_checked:
  assumes "stream_message_to_proto a out_size y = Inr p" "out_size p \<le> api_max_send a"
  shows "message_checked a out_size (NextMessage y None) p"
  using assms unfolding message_checked_def stream_message_to_proto_def Let_def
  by (auto simp: accepts stream_event_to_proto_with_failure_def stream_replay_notice_to_proto_with_failure_def
      split: option.splits)

lemma stream_loop_checked:
  "stream_task_loop a out_size ns = (ps, r) \<Longrightarrow>
    list_all2 (message_checked a out_size) (take (length ps) ns) ps \<and> (r = Some None \<longrightarrow> drop (length ps) ns \<noteq> [] \<and> hd (drop (length ps) ns) = NextEnd)"
proof (induction ns arbitrary: ps r)
  case (Cons x ns)
  show ?case
  proof (cases x)
    case (NextMessage y send_error)
    show ?thesis
    proof (cases "and_then (stream_message_to_proto a out_size y) (\<lambda>p.
         or_fail (validate_outbound_message_for_process (api_attach a) (Some (out_size p)) (api_max_send a)) (Inr p))")
      case (Inl e)
      with Cons.prems NextMessage show ?thesis by auto
    next
      case (Inr p)
      then have p: "message_checked a out_size (NextMessage y None) p"
        by (intro stream_message_checked) (auto simp: accepts)
      show ?thesis
      proof (cases send_error)
        case None
        with Cons.prems NextMessage Inr obtain qs where "stream_task_loop a out_size ns = (qs, r)" "ps = p # qs"
          by (auto split: prod.splits)
        with Cons.IH [of qs r] p NextMessage None show ?thesis by simp
      next
        case (Some e)
        with Cons.prems NextMessage Inr show ?thesis by auto
      qed
    qed
  qed (use Cons.prems in auto)
qed auto

subsection \<open>The chat API\<close>

lemma chat_request_status_Inr [accepts]: "chat_request_status a r = Inr x \<longleftrightarrow> r = Inr x"
  by (cases r) (auto simp: chat_request_status_def)

lemma chat_service_status_Inr [accepts]: "chat_service_status a r = Inr x \<longleftrightarrow> r = Inr x"
  by (cases r) (auto simp: chat_service_status_def)

lemma map_sum_Inr: "map_sum f g r = Inr y \<longleftrightarrow> (\<exists>x. r = Inr x \<and> y = g x)"
  by (cases r) auto

lemma chat_checked_answer_Inr [accepts]:
  "chat_checked_answer a out_size m g p = Inr q \<longleftrightarrow> checked_answer (cap_api a) out_size m g p = Inr q"
  by (auto simp: chat_checked_answer_def map_sum_Inr)

lemma stage03_None [accepts]:
  "stage03_unavailable a (Some n) = None \<longleftrightarrow> 0 < api_max_recv (cap_api a) \<and> n \<le> api_max_recv (cap_api a) \<and> cap_enabled a"
  by (auto simp: stage03_unavailable_def accepts validate_inbound_message_for_process_def)

lemma handle_chat_cases:
  assumes "handle_chat a out_size validate sess runtime to_proto sess_answer n (Some q) s = (answer, s')"
  shows "(s' = s \<and> (\<exists>e. answer = Inl e)) \<or>
    (\<exists>c m. cap_enabled a \<and> cap_runtime_present a \<and> n \<le> api_max_recv (cap_api a) \<and> validate (Some q) = Inr c \<and>
      resolve_session_group (api_session_groups (cap_api a)) (sess c) = Some m \<and> s' = snd (runtime c s) \<and>
      (\<forall>p. answer = Inr p \<longrightarrow> out_size p \<le> sm_outbound_message_bytes m \<and> out_size p \<le> api_max_send (cap_api a) \<and>
        (\<exists>x. fst (runtime c s) = Inr x \<and> to_proto x = Inr p \<and> sess_answer c x = sess c)))"
proof (cases "or_fail (stage03_unavailable a (Some n))
        (reject_if (\<not> cap_runtime_present a) (chat_not_implemented a)
        (and_then (chat_request_status a (validate (Some q))) (\<lambda>c.
         and_then (chat_request_status a
           (trusted_session_metadata_for_session_group_id (sess c) (api_session_groups (cap_api a)))) (\<lambda>m.
         Inr (c, m)))))")
  case (Inl e)
  then have "answer = Inl e" "s' = s" using assms unfolding handle_chat_def by simp_all
  then show ?thesis by blast
next
  case (Inr x)
  obtain c m where x: "x = (c, m)" by (cases x)
  have "answer = and_then (chat_service_status a (fst (runtime c s))) (\<lambda>r. and_then (to_proto r) (\<lambda>p.
      chat_checked_answer a out_size m (sess_answer c r) p))" "s' = snd (runtime c s)"
    using assms Inr unfolding handle_chat_def x by (auto split: prod.splits)
  then show ?thesis using Inr unfolding x by (auto simp: accepts)
qed

end
