(* ===== verification/Grpc_Lossless.thy ===== *)
theory Grpc_Lossless
  imports Grpc_Handlers Grpc_Displays
begin

text \<open>
  What the messages of the task API say: a value that passes its checks is always sent, and two different
  values are never sent as the same message, so that nothing of it is lost on the way to the client.
\<close>

named_theorems sent_as \<open>what a value was that is sent as a given message\<close>

lemma wire_injective:
  "task_state_to_proto a = task_state_to_proto b \<longleftrightarrow> a = b"
  "task_lifecycle_event_type_to_proto c = task_lifecycle_event_type_to_proto d \<longleftrightarrow> c = d"
  "tool_state_to_proto e = tool_state_to_proto f \<longleftrightarrow> e = f"
  "pending_type_to_proto g = pending_type_to_proto h \<longleftrightarrow> g = h"
  "pending_resolution_to_proto i = pending_resolution_to_proto j \<longleftrightarrow> i = j"
  "terminal_state_to_proto k = terminal_state_to_proto l \<longleftrightarrow> k = l"
  "approval_wire_decision_to_proto m = approval_wire_decision_to_proto n \<longleftrightarrow> m = n"
  "permission_scope_to_proto p = permission_scope_to_proto q \<longleftrightarrow> p = q"
  "elicitation_mode_to_proto r = elicitation_mode_to_proto s \<longleftrightarrow> r = s"
  by (auto simp: to_proto_defs split: task_state.splits task_lifecycle_event_type.splits tool_state.splits
      pending_type.splits pending_resolution.splits terminal_state.splits approval_wire_decision.splits
      permission_scope.splits elicitation_mode.splits)

text \<open>Every value of an enumeration has a number, which is not 0.\<close>

lemma wire_defined [simp]:
  "task_state_to_proto a \<noteq> None" "task_lifecycle_event_type_to_proto c \<noteq> None" "tool_state_to_proto e \<noteq> None"
  "pending_type_to_proto g \<noteq> None" "pending_resolution_to_proto i \<noteq> None" "terminal_state_to_proto k \<noteq> None"
  "approval_wire_decision_to_proto m \<noteq> None" "permission_scope_to_proto p \<noteq> None" "elicitation_mode_to_proto r \<noteq> None"
  "replay_notice_code_to_proto t \<noteq> None"
  by (simp_all add: to_proto_defs)

lemma approval_wire_decision_nonzero [simp]:
  "approval_wire_decision_to_proto w \<noteq> Some 0" "Some 0 \<noteq> approval_wire_decision_to_proto w"
  by (auto simp: approval_wire_decision_to_proto_def split: approval_wire_decision.splits)

subsection \<open>Displays\<close>

definition wire_of :: "approval_decision_option \<Rightarrow> wire option" where
  "wire_of x = (case ao_wire_decision x of None \<Rightarrow> if ao_selectable x then None else Some 0
     | Some w \<Rightarrow> approval_wire_decision_to_proto w)"

definition sent_option :: "approval_decision_option \<Rightarrow> wire \<Rightarrow> pb_decision_option" where
  "sent_option x n = \<lparr>pdo_decision_id = ao_decision_id x, pdo_wire_decision = n, pdo_display_label = ao_display_label x,
     pdo_summary = ao_summary x, pdo_selectable = ao_selectable x, pdo_unsupported_reason = ao_unsupported_reason x\<rparr>"

lemma decision_options_Cons:
  "decision_options_to_proto_loop (x # os) = Some ps \<longleftrightarrow>
    (\<exists>n qs. wire_of x = Some n \<and> decision_options_to_proto_loop os = Some qs \<and> ps = sent_option x n # qs)"
  by (auto simp: wire_of_def sent_option_def split: option.splits)

lemma sent_option_injective:
  assumes "wire_of x = Some n" "wire_of y = Some n" "sent_option x n = sent_option y n"
  shows "x = y"
proof -
  have "ao_selectable x = ao_selectable y" using assms(3) by (simp add: sent_option_def)
  then have "ao_wire_decision x = ao_wire_decision y"
    using assms(1,2) unfolding wire_of_def
    by (cases "ao_wire_decision x"; cases "ao_wire_decision y") (auto simp flip: wire_injective(7) split: if_splits)
  then show ?thesis using assms(3) by (simp add: sent_option_def)
qed

lemma decision_options_sent:
  "decision_options_to_proto_loop os = Some ps \<Longrightarrow> decision_options_to_proto_loop os' = Some ps \<Longrightarrow> os = os'"
proof (induction os arbitrary: os' ps)
  case Nil
  then show ?case by (cases os') (auto simp: decision_options_Cons simp del: decision_options_to_proto_loop.simps(2))
next
  case (Cons x os)
  from Cons.prems(1) obtain n qs where x: "wire_of x = Some n" "decision_options_to_proto_loop os = Some qs"
      "ps = sent_option x n # qs" unfolding decision_options_Cons by blast
  obtain y ys where os': "os' = y # ys" using Cons.prems(2) x(3) by (cases os') auto
  from Cons.prems(2) obtain m where y: "wire_of y = Some m" "decision_options_to_proto_loop ys = Some qs"
      "sent_option x n = sent_option y m" unfolding os' decision_options_Cons x(3) by blast
  then have "n = m" by (simp add: sent_option_def)
  with x y Cons.IH os' show ?case using sent_option_injective by blast
qed

lemma approval_options_sent:
  "approval_decision_options_to_proto os = Some ps \<Longrightarrow> approval_decision_options_to_proto os' = Some ps \<Longrightarrow> os = os'"
  using decision_options_sent by (auto simp: approval_decision_options_to_proto_def split: if_splits)

lemma security_sent:
  "approval_security_metadata_to_proto m = Some x \<Longrightarrow> approval_security_metadata_to_proto m' = Some x \<Longrightarrow> m = m'"
  by (auto simp: approval_security_metadata_to_proto_def split: option.splits if_splits)

lemma command_sent: "command_approval_display_to_proto c = Some p \<Longrightarrow> command_approval_display_to_proto c' = Some p \<Longrightarrow> c = c'"
  using approval_options_sent security_sent
  by (auto simp: command_approval_display_to_proto_def split: option.splits intro!: command_approval_display.equality)

lemma file_sent: "file_change_approval_display_to_proto c = Some p \<Longrightarrow> file_change_approval_display_to_proto c' = Some p \<Longrightarrow> c = c'"
  using approval_options_sent
  by (auto simp: file_change_approval_display_to_proto_def split: option.splits intro!: file_change_approval_display.equality) 

lemma permissions_sent:
  "permissions_approval_display_to_proto c = Some p \<Longrightarrow> permissions_approval_display_to_proto c' = Some p \<Longrightarrow> c = c'"
  by (auto simp: permissions_approval_display_to_proto_def simp flip: wire_injective(8)
      split: option.splits if_splits intro!: permissions_approval_display.equality)

lemma elicitation_sent:
  "mcp_elicitation_display_to_proto c = Some p \<Longrightarrow> mcp_elicitation_display_to_proto c' = Some p \<Longrightarrow> c = c'"
  by (auto simp: mcp_elicitation_display_to_proto_def simp flip: wire_injective(9)
      split: option.splits intro!: mcp_elicitation_display.equality)

lemma display_sent: "pending_request_display_to_proto d = Some p \<Longrightarrow> pending_request_display_to_proto d' = Some p \<Longrightarrow> d = d'"
  unfolding pending_request_display_to_proto_def tool_user_input_display_to_proto_def
  by (cases d; cases d'; simp split: if_splits)
    (auto dest: command_sent file_sent permissions_sent elicitation_sent)

text \<open>A display that passes its checks is sent.\<close>

lemma decision_options_defined:
  "list_all (option_ok b) os \<Longrightarrow> decision_options_to_proto_loop os \<noteq> None"
  by (induction os) (auto simp: option_ok_def split: option.splits)

lemma display_sent_iff: "pending_request_display_to_proto d \<noteq> None \<longleftrightarrow> display_ok d"
proof -
  have options: "approval_decision_options_to_proto os \<noteq> None" if "options_ok b os" for b os
    using that decision_options_defined [of b os] by (auto simp: options_ok_def approval_decision_options_to_proto_def)
  have questions: "\<not> list_ex (\<lambda>q. max_question_options < length (tq_options q)) qs"
    if "list_all (\<lambda>q. length (tq_options q) \<le> max_question_options) qs" for qs
    using that by (auto simp: list_all_iff list_ex_iff)
  have "\<exists>p. pending_request_display_to_proto d = Some p" if "display_ok d"
    using that display_check_exact [of d] unfolding pending_request_display_to_proto_def
    by (cases d) (auto simp: display_ok_def choices_ok_def command_approval_display_to_proto_def
        file_change_approval_display_to_proto_def permissions_approval_display_to_proto_def
        mcp_elicitation_display_to_proto_def tool_user_input_display_to_proto_def approval_security_metadata_to_proto_def
        security_ok_def questions dest: options split: option.splits)
  then show ?thesis
    using display_check_exact [of d] by (auto simp: pending_request_display_to_proto_def)
qed

subsection \<open>Events\<close>

lemma lifecycle_sent: "task_lifecycle_event_to_proto e = Some p \<Longrightarrow> task_lifecycle_event_to_proto e' = Some p \<Longrightarrow> e = e'"
  by (auto simp: task_lifecycle_event_to_proto_def simp flip: wire_injective(1,2)
      split: option.splits intro!: task_lifecycle_event.equality)

lemma tool_sent: "tool_progress_event_to_proto e = Some p \<Longrightarrow> tool_progress_event_to_proto e' = Some p \<Longrightarrow> e = e'"
  by (auto simp: tool_progress_event_to_proto_def simp flip: wire_injective(3)
      split: option.splits intro!: tool_progress_event.equality)

lemma command_output_sent:
  "command_output_delta_event_to_proto e = Some p \<Longrightarrow> command_output_delta_event_to_proto e' = Some p \<Longrightarrow> e = e'"
  by (auto simp: command_output_delta_event_to_proto_def intro!: command_output_delta_event.equality)

lemma terminal_sent: "task_terminal_event_to_proto e = Some p \<Longrightarrow> task_terminal_event_to_proto e' = Some p \<Longrightarrow> e = e'"
  by (auto simp: task_terminal_event_to_proto_def simp flip: wire_injective(6)
      split: option.splits intro!: task_terminal_event.equality)

lemma created_sent:
  "pending_request_created_event_to_proto i t d = Some p \<Longrightarrow> pending_request_created_event_to_proto i' t' d' = Some p \<Longrightarrow>
    i = i' \<and> t = t' \<and> d = d'"
  using display_sent by (auto simp: pending_request_created_event_to_proto_def simp flip: wire_injective(4) split: option.splits)

lemma resolved_sent:
  "pending_request_resolved_event_to_proto i t r m = Some p \<Longrightarrow> pending_request_resolved_event_to_proto i' t' r' m' = Some p \<Longrightarrow>
    i = i' \<and> t = t' \<and> r = r' \<and> m = m'"
  by (auto simp: pending_request_resolved_event_to_proto_def simp flip: wire_injective(4,5) split: option.splits)

text \<open>Which payload a message was made of: its constructor, and the value behind it.\<close>

definition payload_origin :: "task_event_payload \<Rightarrow> pb_payload \<Rightarrow> bool" where
  "payload_origin q p = (case p of
      PbLifecycle x \<Rightarrow> (\<exists>e. q = TaskLifecycle e \<and> task_lifecycle_event_to_proto e = Some x)
    | PbAssistantDelta t b \<Rightarrow> q = AssistantDelta \<lparr>ad_text_delta = t, ad_truncated = b\<rparr>
    | PbAssistantMessageCompleted t b \<Rightarrow> q = AssistantMessageCompleted \<lparr>am_message = t, am_truncated = b\<rparr>
    | PbPlanUpdated t steps \<Rightarrow> q = PlanUpdated t steps
    | PbToolProgress x \<Rightarrow> (\<exists>e. q = ToolProgress e \<and> tool_progress_event_to_proto e = Some x)
    | PbCommandStarted i c w \<Rightarrow> q = CommandStarted \<lparr>cs_item_id = i, cs_command_display = c, cs_workspace_label = w\<rparr>
    | PbCommandOutputDelta x \<Rightarrow> (\<exists>e. q = CommandOutputDelta e \<and> command_output_delta_event_to_proto e = Some x)
    | PbFileDiffUpdated i l k s u b \<Rightarrow> q = FileDiffUpdated \<lparr>fu_item_id = i, fu_file_label = l, fu_change_kind = k,
        fu_diff_summary = s, fu_diff_unified = u, fu_truncated = b\<rparr>
    | PbTurnDiffUpdated s u b \<Rightarrow> q = TurnDiffUpdated s u b
    | PbPendingRequestCreated _ _ _ \<Rightarrow>
        (\<exists>i t d. q = PendingRequestCreated i t d \<and> pending_request_created_event_to_proto i t d = Some p)
    | PbPendingRequestResolved _ _ _ _ \<Rightarrow>
        (\<exists>i t r m. q = PendingRequestResolved i t r m \<and> pending_request_resolved_event_to_proto i t r m = Some p)
    | PbTerminal x \<Rightarrow> (\<exists>e. q = TaskTerminal e \<and> task_terminal_event_to_proto e = Some x)
    | PbGatewayWarning c m t a l \<Rightarrow> q = GatewayWarning \<lparr>gw_code = c, gw_message = m, gw_request_type = t,
        gw_auto_resolution = a, gw_limit_reason = l\<rparr>)"

lemma created_shape: "pending_request_created_event_to_proto i t d = Some p \<Longrightarrow> \<exists>a b c. p = PbPendingRequestCreated a b c"
  by (auto simp: pending_request_created_event_to_proto_def split: option.splits)

lemma resolved_shape: "pending_request_resolved_event_to_proto i t r m = Some p \<Longrightarrow> \<exists>a b c d. p = PbPendingRequestResolved a b c d"
  by (auto simp: pending_request_resolved_event_to_proto_def split: option.splits)

lemma payload_has_origin:
  assumes "populate_task_event_payload q = Some p"
  shows "payload_origin q p"
proof (cases q)
  case (PendingRequestCreated i t d)
  then have "pending_request_created_event_to_proto i t d = Some p"
    using assms by (simp add: populate_task_event_payload_def)
  with created_shape [OF this] PendingRequestCreated show ?thesis by (auto simp: payload_origin_def)
next
  case (PendingRequestResolved i t r m)
  then have "pending_request_resolved_event_to_proto i t r m = Some p"
    using assms by (simp add: populate_task_event_payload_def)
  with resolved_shape [OF this] PendingRequestResolved show ?thesis by (auto simp: payload_origin_def)
qed (use assms in \<open>auto simp: populate_task_event_payload_def payload_origin_def plan_updated_event_to_proto_def
    split: if_splits\<close>)

lemma origin_unique: "payload_origin q p \<Longrightarrow> payload_origin q' p \<Longrightarrow> q = q'"
  by (cases p) (auto simp: payload_origin_def dest: lifecycle_sent tool_sent command_output_sent terminal_sent created_sent resolved_sent)

lemma payload_defined: "task_event_payload_mapping_failure q = None \<Longrightarrow> \<exists>p. populate_task_event_payload q = Some p"
  using display_sent_iff display_check_exact
  by (cases q) (auto simp: populate_task_event_payload_def task_event_payload_mapping_failure_def accepts
      task_lifecycle_event_to_proto_def tool_progress_event_to_proto_def command_output_delta_event_to_proto_def
      plan_updated_event_to_proto_def plan_updated_mapping_failure_def task_terminal_event_to_proto_def
      pending_request_created_event_to_proto_def pending_request_created_event_mapping_failure_def item_id_failure_def
      pending_request_resolved_event_to_proto_def split: option.split)

lemma event_sent_iff: "task_event_to_proto e \<noteq> None \<longleftrightarrow> task_event_mapping_failure e = None"
  using payload_defined [of "te_payload e"]
  by (auto simp: task_event_to_proto_def task_event_mapping_failure_def accepts)

lemma event_sent:
  assumes "task_event_to_proto e = Some p" "task_event_to_proto e' = Some p"
  shows "e = e'"
proof -
  have "payload_origin (te_payload e) (pev_payload p)" "payload_origin (te_payload e') (pev_payload p)"
    using assms by (auto simp: task_event_to_proto_def split: if_splits intro: payload_has_origin)
  then have "te_payload e = te_payload e'" by (rule origin_unique)
  with assms show ?thesis by (auto simp: task_event_to_proto_def split: if_splits intro!: task_event.equality)
qed

end
