(* ===== verification/Grpc_Properties.thy ===== *)
theory Grpc_Properties
  imports Grpc_Checks Grpc_Lossless
begin

text \<open>
  What a client of the gRPC API can rely on, and what the services behind it can: only checked requests
  reach a service, and only checked answers, events, displays and errors reach a client.
\<close>

subsection \<open>Displays and events\<close>

text \<open>
  C33: The outbound checks of a display (several passes with a running byte budget, over every
  nested list) together with the mapping to the wire accept exactly the displays of one
  specification: its choices are well formed under distinct ids, every text is valid within its
  own cap, and all texts together keep the payload cap; an approval that is blocked offers no
  acceptance, and every approval can be refused.
\<close>

theorem display_sent_exactly:
  "(\<exists>p. pending_request_display_to_proto_with_failure d = Inr p) \<longleftrightarrow> display_ok d"
  using display_sent_iff [of d] display_check_exact [of d]
  by (auto simp: pending_request_display_to_proto_with_failure_def accepts)

definition example_event :: task_event where
  "example_event = \<lparr>te_event_id = 7, te_task_id = ''t1'', te_session_group_id = ''group'', te_workspace_id = ''ws'',
     te_thread_id = [], te_turn_id = [], te_created_at = 5,
     te_payload = ToolProgress \<lparr>tp_item_id = ''i1'', tp_tool_name = ''ls'', tp_state = ToolStateRunning, tp_summary = ''ok''\<rparr>\<rparr>"



subsection \<open>Errors\<close>



subsection \<open>Starts\<close>

text \<open>
  C36: A start that the request validation lets through never fails later because prompt or
  context blocks are too large: the envelope of its prompt and blocks can only be refused for
  another reason.
\<close>

theorem accepted_start_fits_envelope:
  assumes "validate_start_task n resolver (Some r) = Inr c"
    and "build_envelope secret (stc_prompt c) (stc_context_blocks c) = Inl err"
  shows "ve_reason err \<noteq> ReasonRequestTooLarge"
proof -
  note c = start_task_Inr [OF assms(1)]
  from c(8) have prompt: "\<not> byte_len (stc_prompt c) > max_prompt_bytes" by (simp add: c(7))
  from assms(2) have "validate_context secret (stc_prompt c) (stc_context_blocks c) = Some err"
    by (auto simp: build_envelope_def split: option.splits)
  then have "validate_blocks secret 0 (stc_context_blocks c) = Some err"
    using prompt c(9) by (simp add: validate_context_def)
  then show ?thesis by (rule blocks_not_too_large [OF c(10)])
qed

definition example_metadata :: session_group_metadata where
  "example_metadata = \<lparr>sm_session_group_id = ''group'', sm_workspace_id = ''ws'', sm_inbound_message_bytes = 1000,
     sm_outbound_message_bytes = 1000\<rparr>"

definition example_start :: pb_start_task_request where
  "example_start = \<lparr>qst_session_group_id = ''group'', qst_client_message_id = ''m1'', qst_thread_id = [],
     qst_workspace_id = [], qst_prompt = ''fix it'',
     qst_context_blocks = [Some \<lparr>pcb_kind = 2, pcb_content = ''text'', pcb_source_label = ''secret notes'',
       pcb_source_uri = [], pcb_mime_type = []\<rparr>], qst_ui_correlation_metadata = []\<rparr>"

theorem accepted_start_fits_envelope_witness:
  "\<exists>c err. validate_start_task 10 (Some (\<lambda>_. Some example_metadata)) (Some example_start) = Inr c \<and>
     build_envelope (\<lambda>v. prefix ''secret'' v) (stc_prompt c) (stc_context_blocks c) = Inl err \<and>
     ve_reason err \<noteq> ReasonRequestTooLarge"
proof -
  have "result_is (\<lambda>c. \<not> accepted (build_envelope (\<lambda>v. prefix ''secret'' v) (stc_prompt c) (stc_context_blocks c)))
      (validate_start_task 10 (Some (\<lambda>_. Some example_metadata)) (Some example_start))"
    by code_simp
  from result_isD [OF this] obtain c where c:
    "validate_start_task 10 (Some (\<lambda>_. Some example_metadata)) (Some example_start) = Inr c"
    "\<not> accepted (build_envelope (\<lambda>v. prefix ''secret'' v) (stc_prompt c) (stc_context_blocks c))" by blast
  from not_acceptedD [OF c(2)] obtain err where
    "build_envelope (\<lambda>v. prefix ''secret'' v) (stc_prompt c) (stc_context_blocks c) = Inl err" by blast
  with accepted_start_fits_envelope [OF c(1) this] c(1) show ?thesis by blast
qed

text \<open>
  C37: The start handler either answers with an error and does not call the task service, or it
  calls it once with a validated command, for a known session group whose workspace the command
  gets and whose inbound limit the request keeps; an answer without error belongs to the session
  that was asked for, names the task that the service started and is within the limits of the
  session and of the server.
\<close>

theorem start_request_checked:
  assumes "handle_start_task a out_size start n (Some r) s = (answer, s')"
  shows "(s' = s \<and> (\<exists>e. answer = Inl e)) \<or>
    (\<exists>c m. validate_start_task n (api_session_groups a) (Some r) = Inr c \<and> s' = snd (start c s) \<and>
      resolve_session_group (api_session_groups a) (qst_session_group_id r) = Some m \<and>
      n \<le> sm_inbound_message_bytes m \<and> n \<le> api_max_recv a \<and> stc_workspace_id c = sm_workspace_id m \<and>
      (\<forall>p. answer = Inr p \<longrightarrow> out_size p \<le> sm_outbound_message_bytes m \<and> out_size p \<le> api_max_send a \<and>
        pst_session_group_id p = qst_session_group_id r \<and> (\<exists>x. fst (start c s) = Inr x \<and> pst_task_id p = sp_task_id x)))"
proof (cases "or_fail (request_failure a (validate_inbound_message_for_process (map_option (\<lambda>_. n) (Some r)) (api_max_recv a)))
        (and_then (request_status a (validate_start_task n (api_session_groups a) (Some r))) (\<lambda>c.
         and_then (request_status a
           (trusted_session_metadata_for_session_group_id (stc_session_group_id c) (api_session_groups a))) (\<lambda>m.
         Inr (c, m))))")
  case (Inl e)
  then have "answer = Inl e" "s' = s" using assms unfolding handle_start_task_def by simp_all
  then show ?thesis by blast
next
  case (Inr x)
  obtain c m where x: "x = (c, m)" by (cases x)
  have checks: "validate_start_task n (api_session_groups a) (Some r) = Inr c" "n \<le> api_max_recv a"
      "resolve_session_group (api_session_groups a) (stc_session_group_id c) = Some m"
      "sm_session_group_id m = stc_session_group_id c"
    using Inr unfolding x by (auto simp: accepts validate_inbound_message_for_process_def)
  note c = start_task_Inr [OF checks(1)]
  have m: "n \<le> sm_inbound_message_bytes m" "stc_workspace_id c = sm_workspace_id m"
    using c(2,12) checks(3) by auto
  have answer: "answer = and_then (service_status a (fst (start c s))) (\<lambda>r.
      and_then (mapping_status a (start_task_response_to_proto_with_failure r)) (\<lambda>p.
      checked_answer a out_size m (sp_session_group_id r) p))" "s' = snd (start c s)"
    using assms Inr unfolding handle_start_task_def x by (auto split: prod.splits)
  have "out_size p \<le> sm_outbound_message_bytes m \<and> out_size p \<le> api_max_send a \<and>
      pst_session_group_id p = qst_session_group_id r \<and> (\<exists>x. fst (start c s) = Inr x \<and> pst_task_id p = sp_task_id x)"
    if "answer = Inr p" for p
  proof -
    from that obtain x q where q: "fst (start c s) = Inr x" "start_task_response_to_proto x = Some q" "p = q"
        "sp_session_group_id x = sm_session_group_id m" "out_size p \<le> sm_outbound_message_bytes m" "out_size p \<le> api_max_send a"
      unfolding answer by (auto simp: accepts start_task_response_to_proto_with_failure_def)
    then have "pst_session_group_id q = sp_session_group_id x" "pst_task_id q = sp_task_id x"
      by (auto simp: start_task_response_to_proto_def split: if_splits option.splits)
    with q checks(4) c(2) show ?thesis by auto
  qed
  then show ?thesis using checks m answer(2) c(2) by auto
qed

definition example_api :: api where
  "example_api = \<lparr>api_max_recv = 1000, api_max_send = 1000, api_session_groups = Some (\<lambda>_. Some example_metadata),
     api_attach = (\<lambda>_. None)\<rparr>"

definition example_service :: "start_task_request_command \<Rightarrow> nat \<Rightarrow> (service_error + start_task_response) \<times> nat" where
  "example_service c k = (Inr \<lparr>sp_task_id = ''task-1'', sp_thread_id = ''thread-1'', sp_turn_id = ''turn-1'',
     sp_session_group_id = stc_session_group_id c, sp_state = Some TaskStateRunning, sp_last_event_id = 3\<rparr>, Suc k)"

theorem start_request_checked_witness:
  "\<exists>p. handle_start_task example_api (\<lambda>_. 60) example_service 10 (Some example_start) 4 = (Inr p, 5) \<and>
     pst_session_group_id p = ''group''"
proof -
  have "case handle_start_task example_api (\<lambda>_. 60) example_service 10 (Some example_start) 4 of (r, k) \<Rightarrow>
      k = 5 \<and> accepted r"
    by code_simp
  then obtain p where p: "handle_start_task example_api (\<lambda>_. 60) example_service 10 (Some example_start) 4 = (Inr p, 5)"
    by (auto simp: accepted_Inr)
  from start_request_checked [OF p] have "pst_session_group_id p = qst_session_group_id example_start" by auto
  with p show ?thesis by (auto simp: example_start_def)
qed

subsection \<open>Responses to pending requests\<close>









subsection \<open>Streams\<close>

text \<open>
  C40: What a task stream sends is, in order and without a gap, a prefix of what the subscription
  returned, each message checked against the session of its event and both size limits; the call
  ends without error only when the subscription ended.
\<close>

theorem stream_messages_checked:
  assumes "handle_stream_task a out_size open_stream n q s = ((ps, r), s')"
  shows "(ps = [] \<and> (\<exists>e. r = Some (Some e))) \<or>
    (\<exists>c ns. validate_stream_task q = Inr c \<and> open_stream c s = (Inr ns, s') \<and>
      list_all2 (message_checked a out_size) (take (length ps) ns) ps \<and>
      (r = Some None \<longrightarrow> length ps < length ns \<and> ns ! length ps = NextEnd))"
proof -
  from assms show ?thesis
    unfolding handle_stream_task_def
    by (auto split: sum.splits prod.splits simp: accepts service_status_def hd_drop_conv_nth dest!: stream_loop_checked)
qed

definition example_stream_request :: pb_stream_task_request where
  "example_stream_request = \<lparr>qsk_task_id = ''task-1'', qsk_client_subscriber_id = [],
     qsk_cursor = Some (PbAfterEventId 6)\<rparr>"

definition example_stream :: "stream_task_command \<Rightarrow> nat \<Rightarrow> (service_error + next_message list) \<times> nat" where
  "example_stream c k = (Inr [NextMessage \<lparr>sm_message_session_group_id = ''group'', sm_event = Some example_event,
       sm_replay_notice = None\<rparr> None, NextEnd], Suc k)"

definition example_sent :: "(pb_stream_task_response list \<times> status_error option option) \<times> nat" where
  "example_sent = handle_stream_task example_api (\<lambda>_. 100) example_stream 10 (Some example_stream_request) 4"

theorem stream_messages_checked_witness:
  "\<exists>p ns. handle_stream_task example_api (\<lambda>_. 100) example_stream 10 (Some example_stream_request) 4 =
       (([p], Some None), 5) \<and> message_checked example_api (\<lambda>_. 100) (hd ns) p"
proof -
  have "case example_sent of ((ps, r), k) \<Rightarrow> length ps = 1 \<and> k = 5 \<and> (case r of Some None \<Rightarrow> True | _ \<Rightarrow> False)"
    by code_simp
  then obtain p where p: "example_sent = (([p], Some None), 5)"
    by (cases example_sent) (auto simp: length_Suc_conv split: option.splits)
  then have sent: "handle_stream_task example_api (\<lambda>_. 100) example_stream 10 (Some example_stream_request) 4 =
       (([p], Some None), 5)"
    by (simp add: example_sent_def)
  from stream_messages_checked [OF sent] obtain ns where
    "list_all2 (message_checked example_api (\<lambda>_. 100)) (take 1 ns) [p]" by auto
  then have "message_checked example_api (\<lambda>_. 100) (hd ns) p" by (cases ns) auto
  with sent show ?thesis by blast
qed

end
